(* ===== verification/Prelude.thy ===== *)
theory Prelude
  imports Complex_Main "HOL-Library.AList"
begin

section \<open>Prelude: the JavaScript values the dashboard computes with\<close>

text \<open>
  Shared vocabulary of the development: JavaScript strings and the string
  methods the sources call, \<open>process.env\<close>, the insertion-ordered \<open>Map\<close>, HTTP
  headers, JSON values and the truthiness and nullish operators, with the
  lemmas the component theories rely on.

  A JavaScript string is a \<^typ>\<open>string\<close>; each \<^typ>\<open>char\<close> is one UTF-16 code
  unit below U+0100, so \<open>length\<close>, \<open>trim\<close>, \<open>toLowerCase\<close> and slicing are exact on
  that range. Code units above U+00FF occur in the sources only inside texts
  shown to the operator, which no code inspects; there they are written
  \<open>(U+XXXX)\<close>.
\<close>

named_theorems js_defs \<open>definitions of the JavaScript primitives, for evaluation\<close>
named_theorems js_spec \<open>characterisations of the JavaScript primitives\<close>

subsection \<open>Characters and strings\<close>

text \<open>White space of \<open>String.prototype.trim\<close> and of the class \<open>\s\<close> below U+0100.\<close>

definition js_ws :: "char \<Rightarrow> bool" where
  "js_ws c = (c \<in> set [CHR 0x09, CHR 0x0A, CHR 0x0B, CHR 0x0C, CHR 0x0D, CHR '' '', CHR 0xA0])"

definition trim :: "string \<Rightarrow> string" where
  [js_defs]: "trim s = rev (dropWhile js_ws (rev (dropWhile js_ws s)))"

definition lower_char :: "char \<Rightarrow> char" where
  "lower_char c =
     (let n = (of_char c :: nat) in
      if 65 \<le> n \<and> n \<le> 90 \<or> 192 \<le> n \<and> n \<le> 222 \<and> n \<noteq> 215 then char_of (n + 32) else c)"

definition toLowerCase :: "string \<Rightarrow> string" where
  [js_defs]: "toLowerCase s = map lower_char s"

fun startsWith :: "string \<Rightarrow> string \<Rightarrow> bool" where
  "startsWith s [] = True"
| "startsWith [] (c # p) = False"
| "startsWith (a # s) (c # p) = (a = c \<and> startsWith s p)"

definition endsWith :: "string \<Rightarrow> string \<Rightarrow> bool" where
  [js_defs]: "endsWith s p = startsWith (rev s) (rev p)"

fun str_includes :: "string \<Rightarrow> string \<Rightarrow> bool" where
  "str_includes [] p = (p = [])"
| "str_includes (a # s) p = (startsWith (a # s) p \<or> str_includes s p)"

text \<open>\<open>s.split(c)\<close> for a one-character separator; \<open>"".split(c)\<close> is \<open>[""]\<close>.\<close>

fun splitOn :: "char \<Rightarrow> string \<Rightarrow> string list" where
  "splitOn c [] = [[]]"
| "splitOn c (x # xs) =
     (if x = c then [] # splitOn c xs
      else (case splitOn c xs of [] \<Rightarrow> [[x]] | w # ws \<Rightarrow> (x # w) # ws))"

fun join :: "string \<Rightarrow> string list \<Rightarrow> string" where
  "join sep [] = []"
| "join sep [w] = w"
| "join sep (w # v # ws) = w @ sep @ join sep (v # ws)"

text \<open>\<open>s.indexOf(c)\<close> with \<open>None\<close> for -1.\<close>

fun indexOf :: "char \<Rightarrow> string \<Rightarrow> nat option" where
  "indexOf c [] = None"
| "indexOf c (x # xs) = (if x = c then Some 0 else map_option Suc (indexOf c xs))"

definition is_digit :: "char \<Rightarrow> bool" where
  [js_defs]: "is_digit c = (c \<in> set ''0123456789'')"

fun digit_char :: "nat \<Rightarrow> char" where
  "digit_char n = ''0123456789'' ! (n mod 10)"

text \<open>Decimal representation of a natural number, as in a template literal.\<close>

fun show_nat :: "nat \<Rightarrow> string" where
  "show_nat n = (if n < 10 then [digit_char n] else show_nat (n div 10) @ [digit_char n])"

declare show_nat.simps [simp del]

definition show_int :: "int \<Rightarrow> string" where
  [js_defs]: "show_int i = (if i < 0 then ''-'' @ show_nat (nat (- i)) else show_nat (nat i))"

definition digit_val :: "char \<Rightarrow> nat" where
  "digit_val c = of_char c - 48"

text \<open>Value of a string of decimal digits, most significant first.\<close>

definition dec_val :: "string \<Rightarrow> nat" where
  [js_defs]: "dec_val s = foldl (\<lambda>n c. 10 * n + digit_val c) 0 s"

subsection \<open>Optional values: undefined, nullish and truthiness\<close>

text \<open>\<open>x || d\<close> on an optional string: the empty string is falsy.\<close>

definition or_default :: "string option \<Rightarrow> string \<Rightarrow> string" where
  [js_defs]: "or_default x d = (case x of None \<Rightarrow> d | Some s \<Rightarrow> if s = [] then d else s)"

definition truthy :: "string option \<Rightarrow> bool" where
  [js_defs]: "truthy x = (case x of None \<Rightarrow> False | Some s \<Rightarrow> s \<noteq> [])"

definition js_or :: "string option \<Rightarrow> string option \<Rightarrow> string option" where
  [js_defs]: "js_or x y = (if truthy x then x else y)"

text \<open>\<open>x ?? d\<close>.\<close>

definition nullish :: "'a option \<Rightarrow> 'a \<Rightarrow> 'a" where
  [js_defs]: "nullish x d = (case x of None \<Rightarrow> d | Some v \<Rightarrow> v)"

lemma nullish_simps [simp]: "nullish None d = d" "nullish (Some v) d = v"
  by (simp_all add: nullish_def)

type_synonym env = "string \<Rightarrow> string option"

subsection \<open>Headers and the insertion-ordered Map\<close>

text \<open>
  A JavaScript \<open>Map\<close> iterates in insertion order and \<open>set\<close> on a present key
  keeps its position: the association list of \<open>HOL-Library.AList\<close>.
\<close>

type_synonym ('k, 'v) jsmap = "('k \<times> 'v) list"

definition map_get :: "('k, 'v) jsmap \<Rightarrow> 'k \<Rightarrow> 'v option" where
  [js_defs]: "map_get m k = map_of m k"

definition map_set :: "('k, 'v) jsmap \<Rightarrow> 'k \<Rightarrow> 'v \<Rightarrow> ('k, 'v) jsmap" where
  [js_defs]: "map_set m k v = AList.update k v m"

definition map_delete :: "('k, 'v) jsmap \<Rightarrow> 'k \<Rightarrow> ('k, 'v) jsmap" where
  [js_defs]: "map_delete m k = filter (\<lambda>p. fst p \<noteq> k) m"

definition map_has :: "('k, 'v) jsmap \<Rightarrow> 'k \<Rightarrow> bool" where
  [js_defs]: "map_has m k = (map_of m k \<noteq> None)"

definition map_wf :: "('k, 'v) jsmap \<Rightarrow> bool" where
  "map_wf m = distinct (map fst m)"

text \<open>Header names are case-insensitive: they are stored in lower case.\<close>

type_synonym headers = "(string, string) jsmap"

definition headers_get :: "headers \<Rightarrow> string \<Rightarrow> string option" where
  [js_defs]: "headers_get h n = map_get h (toLowerCase n)"

definition headers_set :: "headers \<Rightarrow> string \<Rightarrow> string \<Rightarrow> headers" where
  [js_defs]: "headers_set h n v = map_set h (toLowerCase n) v"

text \<open>\<open>Set.prototype.add\<close> on a set listed in insertion order.\<close>

definition set_add :: "'a list \<Rightarrow> 'a \<Rightarrow> 'a list" where
  [js_defs]: "set_add xs x = (if x \<in> set xs then xs else xs @ [x])"

subsection \<open>JSON values\<close>

text \<open>
  Values produced by \<open>JSON.parse\<close> and \<open>request.json()\<close>. A missing property
  is \<open>undefined\<close>, here \<^term>\<open>None\<close> of the lookup; a repeated property is listed once,
  with its last value. Numbers are exact rationals:
  the rounding of IEEE doubles is not modelled.
\<close>

datatype json =
    JNull
  | JBool bool
  | JNum rat
  | JStr string
  | JArr "json list"
  | JObj "(string \<times> json) list"

abbreviation JInt :: "int \<Rightarrow> json" where
  "JInt i \<equiv> JNum (of_int i)"

abbreviation JNat :: "nat \<Rightarrow> json" where
  "JNat n \<equiv> JNum (of_nat n)"

text \<open>\<open>v?.k\<close>: only an object has the property.\<close>

definition json_get :: "json option \<Rightarrow> string \<Rightarrow> json option" where
  [js_defs]: "json_get v k = (case v of Some (JObj fs) \<Rightarrow> map_of fs k | _ \<Rightarrow> None)"

fun json_truthy :: "json option \<Rightarrow> bool" where
  "json_truthy None = False"
| "json_truthy (Some JNull) = False"
| "json_truthy (Some (JBool b)) = b"
| "json_truthy (Some (JNum q)) = (q \<noteq> 0)"
| "json_truthy (Some (JStr s)) = (s \<noteq> [])"
| "json_truthy (Some _) = True"

text \<open>\<open>typeof v === "string"\<close> and \<open>typeof v === "number"\<close> with the value.\<close>

fun json_str :: "json option \<Rightarrow> string option" where
  "json_str (Some (JStr s)) = Some s"
| "json_str _ = None"

fun json_num :: "json option \<Rightarrow> rat option" where
  "json_num (Some (JNum q)) = Some q"
| "json_num _ = None"

text \<open>
  \<open>String(v)\<close>. A number that is not an integer is printed with its decimals,
  at most seventeen; JavaScript's exponent form (below \<open>1e-6\<close>, from \<open>1e21\<close>) is
  not modelled.
\<close>

fun show_frac :: "nat \<Rightarrow> rat \<Rightarrow> string" where
  "show_frac 0 q = []"
| "show_frac (Suc n) q =
     (if q = 0 then []
      else let d = nat \<lfloor>10 * q\<rfloor> in digit_char d # show_frac n (10 * q - of_nat d))"

definition show_rat :: "rat \<Rightarrow> string" where
  "show_rat q =
     (if of_int \<lfloor>q\<rfloor> = q then show_int \<lfloor>q\<rfloor>
      else (if q < 0 then ''-'' else []) @ show_int \<lfloor>\<bar>q\<bar>\<rfloor> @ ''.'' @ show_frac 17 (frac \<bar>q\<bar>))"

fun js_String :: "json \<Rightarrow> string" where
  "js_String JNull = ''null''"
| "js_String (JBool b) = (if b then ''true'' else ''false'')"
| "js_String (JNum q) = show_rat q"
| "js_String (JStr s) = s"
| "js_String (JArr vs) =
     join '','' (map (\<lambda>v. case v of JNull \<Rightarrow> [] | _ \<Rightarrow> js_String v) vs)"
| "js_String (JObj fs) = ''[object Object]''"

text \<open>\<open>String(v || d)\<close> and \<open>String(v ?? d)\<close>.\<close>

definition String_or :: "json option \<Rightarrow> string \<Rightarrow> string" where
  [js_defs]: "String_or v d = (if json_truthy v then js_String (the v) else d)"

definition String_nullish :: "json option \<Rightarrow> string \<Rightarrow> string" where
  [js_defs]: "String_nullish v d =
     (case v of None \<Rightarrow> d | Some JNull \<Rightarrow> d | Some w \<Rightarrow> js_String w)"

subsection \<open>Numbers from text\<close>

text \<open>\<open>parseInt(s, 10)\<close>; \<^term>\<open>None\<close> is \<open>NaN\<close>.\<close>

definition parseInt :: "string \<Rightarrow> int option" where
  [js_defs]: "parseInt s =
     (let t = dropWhile js_ws s;
          neg = (case t of [] \<Rightarrow> False | c # _ \<Rightarrow> c = CHR ''-'');
          u = (case t of [] \<Rightarrow> [] | c # cs \<Rightarrow> if c = CHR ''-'' \<or> c = CHR ''+'' then cs else t);
          ds = takeWhile is_digit u
      in if ds = [] then None
         else Some (if neg then - int (dec_val ds) else int (dec_val ds)))"

text \<open>\<open>parseInt(s, 10) || d\<close>: neither \<open>NaN\<close> nor 0 is truthy.\<close>

definition parseInt_or :: "string \<Rightarrow> int \<Rightarrow> int" where
  [js_defs]: "parseInt_or s d = (case parseInt s of None \<Rightarrow> d | Some n \<Rightarrow> if n = 0 then d else n)"

text \<open>\<open>Math.ceil(a / b)\<close> on integers.\<close>

definition ceil_div :: "int \<Rightarrow> int \<Rightarrow> int" where
  "ceil_div a b = - ((- a) div b)"

text \<open>\<open>s.replace(/c/g, d)\<close>.\<close>

definition replace_char :: "char \<Rightarrow> char \<Rightarrow> string \<Rightarrow> string" where
  "replace_char c d s = map (\<lambda>x. if x = c then d else x) s"

text \<open>The bytes of \<open>Buffer.from(s)\<close>: UTF-8 of code units below \<open>U+0100\<close>.\<close>

definition utf8_char :: "char \<Rightarrow> nat list" where
  "utf8_char c =
     (let n = of_char c in if n < 128 then [n] else [192 + n div 64, 128 + n mod 64])"

definition utf8 :: "string \<Rightarrow> nat list" where
  "utf8 s = concat (map utf8_char s)"

subsection \<open>Lemmas on strings\<close>

lemma ex_Cons_append:
  "(\<exists>a b. c # s = a @ b \<and> P b) \<longleftrightarrow> P (c # s) \<or> (\<exists>a b. s = a @ b \<and> P b)"
proof
  assume "\<exists>a b. c # s = a @ b \<and> P b"
  then obtain a b where "c # s = a @ b" "P b" by blast
  then show "P (c # s) \<or> (\<exists>a b. s = a @ b \<and> P b)" by (cases a) auto
next
  assume "P (c # s) \<or> (\<exists>a b. s = a @ b \<and> P b)"
  then show "\<exists>a b. c # s = a @ b \<and> P b"
    by (metis append_Cons append_Nil)
qed

lemma startsWith_iff [js_spec]: "startsWith s p \<longleftrightarrow> (\<exists>t. s = p @ t)"
  by (induction s p rule: startsWith.induct) auto

lemma endsWith_iff [js_spec]: "endsWith s p \<longleftrightarrow> (\<exists>t. s = t @ p)"
  by (metis endsWith_def rev_append rev_rev_ident startsWith_iff)

lemma str_includes_iff [js_spec]: "str_includes s p \<longleftrightarrow> (\<exists>a b. s = a @ p @ b)"
proof (induction s p rule: str_includes.induct)
  case (1 p)
  show ?case by auto
next
  case (2 c s p)
  then show ?case
    using ex_Cons_append [of c s "\<lambda>t. \<exists>b. t = p @ b"] by (simp add: startsWith_iff) metis
qed

lemma startsWith_append [simp]: "startsWith (p @ t) p"
  by (auto simp: startsWith_iff)

lemma splitOn_not_Nil [simp]: "splitOn c s \<noteq> []"
  by (cases s) (auto split: list.split)

lemma join_splitOn: "join [c] (splitOn c s) = s"
proof (induction s)
  case Nil
  show ?case by simp
next
  case (Cons x xs)
  then show ?case
    by (cases "splitOn c xs" rule: remdups_adj.cases) auto
qed

lemma splitOn_notin: "w \<in> set (splitOn c s) \<Longrightarrow> c \<notin> set w"
proof (induction s arbitrary: w)
  case Nil
  then show ?case by simp
next
  case (Cons x xs)
  then show ?case
    by (cases "splitOn c xs") (auto split: if_splits)
qed

lemma splitOn_append:
  "c \<notin> set u \<Longrightarrow> splitOn c (u @ c # v) = u # splitOn c v"
  by (induction u) auto

lemma splitOn_at: "splitOn c (u @ c # v) = splitOn c u @ splitOn c v"
  by (induction u) (auto split: list.splits)

lemma splitOn_id: "c \<notin> set u \<Longrightarrow> splitOn c u = [u]"
  by (induction u) auto

lemma dropWhile_idem: "dropWhile P (dropWhile P xs) = dropWhile P xs"
  by (induction xs) auto

lemma trim_Nil [simp]: "trim [] = []"
  by (simp add: trim_def)

lemma trim_id:
  assumes "\<And>c. c \<in> set s \<Longrightarrow> \<not> js_ws c"
  shows "trim s = s"
proof -
  have "dropWhile js_ws s = s"
    using assms by (cases s) auto
  moreover have "dropWhile js_ws (rev s) = rev s"
    using assms by (cases "rev s") auto
  ultimately show ?thesis
    by (simp add: trim_def)
qed

lemma set_dropWhile_subset: "set (dropWhile P xs) \<subseteq> set xs"
  by (induction xs) auto

lemma set_trim: "set (trim s) \<subseteq> set s"
  by (metis set_dropWhile_subset set_rev subset_trans trim_def)

lemma hd_dropWhile_not: "dropWhile P xs \<noteq> [] \<Longrightarrow> \<not> P (hd (dropWhile P xs))"
  by (induction xs) auto

lemma dropWhile_hd_id: "xs = [] \<or> \<not> P (hd xs) \<Longrightarrow> dropWhile P xs = xs"
  by (cases xs) auto

lemma trim_edges:
  "trim s \<noteq> [] \<Longrightarrow> \<not> js_ws (hd (trim s)) \<and> \<not> js_ws (last (trim s))"
proof -
  let ?d = "dropWhile js_ws s"
  let ?r = "dropWhile js_ws (rev ?d)"
  assume ne: "trim s \<noteq> []"
  then have r: "?r \<noteq> []" by (simp add: trim_def)
  then have "\<not> js_ws (last (trim s))"
    using hd_dropWhile_not [OF r] by (simp add: trim_def last_rev)
  moreover obtain ys where ys: "rev ?d = ys @ ?r"
    by (metis takeWhile_dropWhile_id)
  then have "?d = trim s @ rev ys"
    by (metis rev_append rev_rev_ident trim_def)
  then have "hd (trim s) = hd ?d" and "?d \<noteq> []"
    using ne by auto
  then have "\<not> js_ws (hd (trim s))"
    using hd_dropWhile_not [of js_ws s] by simp
  ultimately show ?thesis by simp
qed

lemma trim_idem [simp]: "trim (trim s) = trim s"
proof (cases "trim s = []")
  case True
  then show ?thesis by simp
next
  case False
  then have "dropWhile js_ws (trim s) = trim s"
    and "dropWhile js_ws (rev (trim s)) = rev (trim s)"
    using trim_edges [OF False] by (simp_all add: dropWhile_hd_id hd_rev)
  then show ?thesis
    by (subst (1) trim_def) simp
qed

lemma toLowerCase_append: "toLowerCase (s @ t) = toLowerCase s @ toLowerCase t"
  by (simp add: toLowerCase_def)

lemma length_toLowerCase [simp]: "length (toLowerCase s) = length s"
  by (simp add: toLowerCase_def)

subsection \<open>Decimal numerals\<close>

lemma digit_char_digit: "is_digit (digit_char n)"
proof -
  have "n mod 10 < length ''0123456789''" by simp
  then have "''0123456789'' ! (n mod 10) \<in> set ''0123456789''" by (rule nth_mem)
  then show ?thesis by (simp add: is_digit_def)
qed

lemma digit_val_char: "digit_val (digit_char n) = n mod 10"
proof -
  have "\<forall>k < 10. digit_val (''0123456789'' ! k) = k"
    by (simp add: digit_val_def numeral_eq_Suc All_less_Suc)
  then show ?thesis by simp
qed

lemma show_nat_digits: "c \<in> set (show_nat n) \<Longrightarrow> is_digit c"
proof (induction n rule: show_nat.induct)
  case (1 n)
  then show ?case
    by (subst (asm) show_nat.simps) (auto split: if_splits simp: digit_char_digit simp del: digit_char.simps)
qed

lemma show_nat_not_Nil [simp]: "show_nat n \<noteq> []"
  by (subst show_nat.simps) simp

lemma dec_val_append: "dec_val (s @ [c]) = 10 * dec_val s + digit_val c"
  by (simp add: dec_val_def)

lemma dec_val_show_nat [simp]: "dec_val (show_nat n) = n"
proof (induction n rule: show_nat.induct)
  case (1 n)
  show ?case
  proof (cases "n < 10")
    case True
    then show ?thesis
      by (subst show_nat.simps) (simp add: dec_val_def digit_val_char del: digit_char.simps)
  next
    case False
    then show ?thesis
      using "1.IH" by (subst show_nat.simps)
        (simp add: dec_val_append digit_val_char del: digit_char.simps)
  qed
qed

lemma show_nat_inject [simp]: "show_nat m = show_nat n \<longleftrightarrow> m = n"
  by (metis dec_val_show_nat)

lemma replace_char_eq:
  assumes "d \<notin> set t" "c \<notin> set t"
  shows "replace_char c d s = t \<longleftrightarrow> s = t"
proof -
  have id: "c \<notin> set u \<Longrightarrow> replace_char c d u = u" for u
    by (induction u) (auto simp: replace_char_def)
  have "c \<in> set s \<Longrightarrow> d \<in> set (replace_char c d s)"
    by (auto simp: replace_char_def image_iff)
  then show ?thesis using assms id by metis
qed

text \<open>The character functions on printable ASCII, so that literals evaluate by
simplification.\<close>

lemma lower_char_ascii [simp]:
  "lower_char CHR ''!'' = CHR ''!''" "lower_char CHR ''#'' = CHR ''#''"
  "lower_char CHR ''$'' = CHR ''$''" "lower_char CHR ''%'' = CHR ''%''"
  "lower_char CHR ''&'' = CHR ''&''" "lower_char CHR ''('' = CHR ''(''"
  "lower_char CHR '')'' = CHR '')''" "lower_char CHR ''*'' = CHR ''*''"
  "lower_char CHR ''+'' = CHR ''+''" "lower_char CHR '','' = CHR '',''"
  "lower_char CHR ''-'' = CHR ''-''" "lower_char CHR ''.'' = CHR ''.''"
  "lower_char CHR ''/'' = CHR ''/''" "lower_char CHR ''0'' = CHR ''0''"
  "lower_char CHR ''1'' = CHR ''1''" "lower_char CHR ''2'' = CHR ''2''"
  "lower_char CHR ''3'' = CHR ''3''" "lower_char CHR ''4'' = CHR ''4''"
  "lower_char CHR ''5'' = CHR ''5''" "lower_char CHR ''6'' = CHR ''6''"
  "lower_char CHR ''7'' = CHR ''7''" "lower_char CHR ''8'' = CHR ''8''"
  "lower_char CHR ''9'' = CHR ''9''" "lower_char CHR '':'' = CHR '':''"
  "lower_char CHR '';'' = CHR '';''" "lower_char CHR ''<'' = CHR ''<''"
  "lower_char CHR ''='' = CHR ''=''" "lower_char CHR ''>'' = CHR ''>''"
  "lower_char CHR ''?'' = CHR ''?''" "lower_char CHR ''@'' = CHR ''@''"
  "lower_char CHR ''A'' = CHR ''a''" "lower_char CHR ''B'' = CHR ''b''"
  "lower_char CHR ''C'' = CHR ''c''" "lower_char CHR ''D'' = CHR ''d''"
  "lower_char CHR ''E'' = CHR ''e''" "lower_char CHR ''F'' = CHR ''f''"
  "lower_char CHR ''G'' = CHR ''g''" "lower_char CHR ''H'' = CHR ''h''"
  "lower_char CHR ''I'' = CHR ''i''" "lower_char CHR ''J'' = CHR ''j''"
  "lower_char CHR ''K'' = CHR ''k''" "lower_char CHR ''L'' = CHR ''l''"
  "lower_char CHR ''M'' = CHR ''m''" "lower_char CHR ''N'' = CHR ''n''"
  "lower_char CHR ''O'' = CHR ''o''" "lower_char CHR ''P'' = CHR ''p''"
  "lower_char CHR ''Q'' = CHR ''q''" "lower_char CHR ''R'' = CHR ''r''"
  "lower_char CHR ''S'' = CHR ''s''" "lower_char CHR ''T'' = CHR ''t''"
  "lower_char CHR ''U'' = CHR ''u''" "lower_char CHR ''V'' = CHR ''v''"
  "lower_char CHR ''W'' = CHR ''w''" "lower_char CHR ''X'' = CHR ''x''"
  "lower_char CHR ''Y'' = CHR ''y''" "lower_char CHR ''Z'' = CHR ''z''"
  "lower_char CHR ''['' = CHR ''[''" "lower_char CHR '']'' = CHR '']''"
  "lower_char CHR ''^'' = CHR ''^''" "lower_char CHR ''_'' = CHR ''_''"
  "lower_char CHR ''a'' = CHR ''a''" "lower_char CHR ''b'' = CHR ''b''"
  "lower_char CHR ''c'' = CHR ''c''" "lower_char CHR ''d'' = CHR ''d''"
  "lower_char CHR ''e'' = CHR ''e''" "lower_char CHR ''f'' = CHR ''f''"
  "lower_char CHR ''g'' = CHR ''g''" "lower_char CHR ''h'' = CHR ''h''"
  "lower_char CHR ''i'' = CHR ''i''" "lower_char CHR ''j'' = CHR ''j''"
  "lower_char CHR ''k'' = CHR ''k''" "lower_char CHR ''l'' = CHR ''l''"
  "lower_char CHR ''m'' = CHR ''m''" "lower_char CHR ''n'' = CHR ''n''"
  "lower_char CHR ''o'' = CHR ''o''" "lower_char CHR ''p'' = CHR ''p''"
  "lower_char CHR ''q'' = CHR ''q''" "lower_char CHR ''r'' = CHR ''r''"
  "lower_char CHR ''s'' = CHR ''s''" "lower_char CHR ''t'' = CHR ''t''"
  "lower_char CHR ''u'' = CHR ''u''" "lower_char CHR ''v'' = CHR ''v''"
  "lower_char CHR ''w'' = CHR ''w''" "lower_char CHR ''x'' = CHR ''x''"
  "lower_char CHR ''y'' = CHR ''y''" "lower_char CHR ''z'' = CHR ''z''"
  "lower_char CHR ''{'' = CHR ''{''" "lower_char CHR ''|'' = CHR ''|''"
  "lower_char CHR ''}'' = CHR ''}''" "lower_char CHR ''~'' = CHR ''~''"
  by code_simp+

lemma js_ws_ascii [simp]:
  "js_ws CHR ''!'' = False" "js_ws CHR ''#'' = False" "js_ws CHR ''$'' = False"
  "js_ws CHR ''%'' = False" "js_ws CHR ''&'' = False" "js_ws CHR ''('' = False"
  "js_ws CHR '')'' = False" "js_ws CHR ''*'' = False" "js_ws CHR ''+'' = False"
  "js_ws CHR '','' = False" "js_ws CHR ''-'' = False" "js_ws CHR ''.'' = False"
  "js_ws CHR ''/'' = False" "js_ws CHR ''0'' = False" "js_ws CHR ''1'' = False"
  "js_ws CHR ''2'' = False" "js_ws CHR ''3'' = False" "js_ws CHR ''4'' = False"
  "js_ws CHR ''5'' = False" "js_ws CHR ''6'' = False" "js_ws CHR ''7'' = False"
  "js_ws CHR ''8'' = False" "js_ws CHR ''9'' = False" "js_ws CHR '':'' = False"
  "js_ws CHR '';'' = False" "js_ws CHR ''<'' = False" "js_ws CHR ''='' = False"
  "js_ws CHR ''>'' = False" "js_ws CHR ''?'' = False" "js_ws CHR ''@'' = False"
  "js_ws CHR ''A'' = False" "js_ws CHR ''B'' = False" "js_ws CHR ''C'' = False"
  "js_ws CHR ''D'' = False" "js_ws CHR ''E'' = False" "js_ws CHR ''F'' = False"
  "js_ws CHR ''G'' = False" "js_ws CHR ''H'' = False" "js_ws CHR ''I'' = False"
  "js_ws CHR ''J'' = False" "js_ws CHR ''K'' = False" "js_ws CHR ''L'' = False"
  "js_ws CHR ''M'' = False" "js_ws CHR ''N'' = False" "js_ws CHR ''O'' = False"
  "js_ws CHR ''P'' = False" "js_ws CHR ''Q'' = False" "js_ws CHR ''R'' = False"
  "js_ws CHR ''S'' = False" "js_ws CHR ''T'' = False" "js_ws CHR ''U'' = False"
  "js_ws CHR ''V'' = False" "js_ws CHR ''W'' = False" "js_ws CHR ''X'' = False"
  "js_ws CHR ''Y'' = False" "js_ws CHR ''Z'' = False" "js_ws CHR ''['' = False"
  "js_ws CHR '']'' = False" "js_ws CHR ''^'' = False" "js_ws CHR ''_'' = False"
  "js_ws CHR ''a'' = False" "js_ws CHR ''b'' = False" "js_ws CHR ''c'' = False"
  "js_ws CHR ''d'' = False" "js_ws CHR ''e'' = False" "js_ws CHR ''f'' = False"
  "js_ws CHR ''g'' = False" "js_ws CHR ''h'' = False" "js_ws CHR ''i'' = False"
  "js_ws CHR ''j'' = False" "js_ws CHR ''k'' = False" "js_ws CHR ''l'' = False"
  "js_ws CHR ''m'' = False" "js_ws CHR ''n'' = False" "js_ws CHR ''o'' = False"
  "js_ws CHR ''p'' = False" "js_ws CHR ''q'' = False" "js_ws CHR ''r'' = False"
  "js_ws CHR ''s'' = False" "js_ws CHR ''t'' = False" "js_ws CHR ''u'' = False"
  "js_ws CHR ''v'' = False" "js_ws CHR ''w'' = False" "js_ws CHR ''x'' = False"
  "js_ws CHR ''y'' = False" "js_ws CHR ''z'' = False" "js_ws CHR ''{'' = False"
  "js_ws CHR ''|'' = False" "js_ws CHR ''}'' = False" "js_ws CHR ''~'' = False"
  by (simp_all add: js_ws_def)

subsection \<open>Lemmas on numbers and bytes\<close>

lemma digit_not_ws: "is_digit c \<Longrightarrow> \<not> js_ws c"
  by (auto simp: is_digit_def js_ws_def)

lemma digit_not_sign: "is_digit c \<Longrightarrow> c \<noteq> CHR ''-'' \<and> c \<noteq> CHR ''+''"
  by (auto simp: is_digit_def)

lemma parseInt_digits:
  assumes "ds \<noteq> []" "\<And>c. c \<in> set ds \<Longrightarrow> is_digit c"
  shows "parseInt ds = Some (int (dec_val ds))" "parseInt (CHR ''-'' # ds) = Some (- int (dec_val ds))"
proof -
  obtain c cs where "ds = c # cs" using assms(1) by (cases ds) auto
  moreover from this have "\<not> js_ws c" "c \<noteq> CHR ''-''" "c \<noteq> CHR ''+''"
    using assms(2) [of c] digit_not_ws digit_not_sign by auto
  moreover have "takeWhile is_digit ds = ds" using assms(2) by (simp add: takeWhile_eq_all_conv)
  moreover have "\<not> js_ws CHR ''-''" by (simp add: js_ws_def)
  ultimately show "parseInt ds = Some (int (dec_val ds))"
    "parseInt (CHR ''-'' # ds) = Some (- int (dec_val ds))"
    by (auto simp: parseInt_def Let_def)
qed

lemma parseInt_show_nat [simp]: "parseInt (show_nat n) = Some (int n)"
  by (simp add: parseInt_digits show_nat_digits)

lemma parseInt_show_int [simp]: "parseInt (show_int i) = Some i"
  by (simp add: show_int_def parseInt_digits show_nat_digits)

lemma show_int_inject [simp]: "show_int i = show_int j \<longleftrightarrow> i = j"
  by (metis parseInt_show_int option.inject)

lemma ceil_div_bounds:
  assumes "0 < b"
  shows "a \<le> b * ceil_div a b" "b * ceil_div a b < a + b"
proof -
  have "b * ((- a) div b) \<le> - a" "- a < b * ((- a) div b) + b"
    using assms by (simp_all add: mult.commute minus_mod_eq_mult_div [symmetric]
        pos_mod_bound pos_mod_sign add.commute)
  then show "a \<le> b * ceil_div a b" "b * ceil_div a b < a + b"
    by (simp_all add: ceil_div_def)
qed

lemma utf8_char_not_Nil [simp]: "utf8_char c \<noteq> []"
  by (simp add: utf8_char_def Let_def)

lemma utf8_char_prefix:
  "utf8_char c @ u = utf8_char d @ v \<longleftrightarrow> c = d \<and> u = v"
proof
  have lt: "of_char c < (256 :: nat)" "of_char d < (256 :: nat)"
    using range_nat_of_char by auto
  assume eq: "utf8_char c @ u = utf8_char d @ v"
  show "c = d \<and> u = v"
  proof (cases "of_char c < (128 :: nat)")
    case True
    with eq lt show ?thesis
      by (auto simp: utf8_char_def Let_def of_char_eq_iff split: if_splits)
  next
    case False
    with eq have d: "\<not> of_char d < (128 :: nat)"
      by (auto simp: utf8_char_def Let_def split: if_splits)
    with False eq have "of_char c div 64 = (of_char d div 64 :: nat)"
        "of_char c mod 64 = (of_char d mod 64 :: nat)" "u = v"
      by (auto simp: utf8_char_def Let_def)
    then have "(of_char c :: nat) = of_char d" by (metis mult_div_mod_eq)
    then show ?thesis using \<open>u = v\<close> by (simp add: of_char_eq_iff)
  qed
qed auto

lemma utf8_inject [simp]: "utf8 s = utf8 t \<longleftrightarrow> s = t"
proof (induction s arbitrary: t)
  case Nil
  then show ?case by (cases t) (auto simp: utf8_def)
next
  case (Cons c s)
  then show ?case
    by (cases t) (auto simp: utf8_def utf8_char_prefix)
qed

subsection \<open>The Map laws\<close>

text \<open>
  What the caches and tables below rely on: the map an insertion-ordered
  \<open>Map\<close> denotes, and that its keys stay distinct.
\<close>

locale js_map_laws =
  fixes get :: "'m \<Rightarrow> 'k \<Rightarrow> 'v option"
    and put :: "'m \<Rightarrow> 'k \<Rightarrow> 'v \<Rightarrow> 'm"
    and del :: "'m \<Rightarrow> 'k \<Rightarrow> 'm"
    and wf :: "'m \<Rightarrow> bool"
  assumes get_put: "get (put m k v) k' = (if k' = k then Some v else get m k')"
    and get_del: "get (del m k) k' = (if k' = k then None else get m k')"
    and wf_put: "wf m \<Longrightarrow> wf (put m k v)"
    and wf_del: "wf m \<Longrightarrow> wf (del m k)"
begin

lemma get_put_same [simp]: "get (put m k v) k = Some v"
  by (simp add: get_put)

lemma get_put_other: "k' \<noteq> k \<Longrightarrow> get (put m k v) k' = get m k'"
  by (simp add: get_put)

lemma get_del_same [simp]: "get (del m k) k = None"
  by (simp add: get_del)

lemma wf_foldl_put:
  "wf m \<Longrightarrow> wf (foldl (\<lambda>m p. put m (fst p) (snd p)) m ps)"
  by (induction ps arbitrary: m) (simp_all add: wf_put)

end

lemma map_of_filter_key: "map_of (filter (\<lambda>p. fst p \<noteq> k) m) k' = (if k' = k then None else map_of m k')"
  by (induction m) auto

lemma distinct_filter_keys: "distinct (map fst m) \<Longrightarrow> distinct (map fst (filter P m))"
  by (induction m) auto

interpretation jsm: js_map_laws map_get map_set map_delete map_wf
  by unfold_locales
    (simp_all add: map_get_def map_set_def map_delete_def map_wf_def update_conv
      map_of_filter_key distinct_filter_keys AList.distinct_update)

lemma map_set_keys:
  "map fst (map_set m k v) = (if k \<in> set (map fst m) then map fst m else map fst m @ [k])"
  by (simp add: map_set_def update_keys)

lemma length_map_set:
  "length (map_set m k v) = (if k \<in> set (map fst m) then length m else Suc (length m))"
proof -
  have "length (map_set m k v) = length (map fst (map_set m k v))" by simp
  then show ?thesis by (simp only: map_set_keys) simp
qed

lemma map_has_iff: "map_has m k \<longleftrightarrow> k \<in> set (map fst m)"
  by (auto simp: map_has_def map_of_eq_None_iff)

lemma map_get_None_iff: "map_get m k = None \<longleftrightarrow> k \<notin> set (map fst m)"
  by (simp add: map_get_def map_of_eq_None_iff)

lemma map_set_new: "k \<notin> fst ` set m \<Longrightarrow> map_set m k v = m @ [(k, v)]"
  by (induction m) (auto simp: map_set_def)

lemma set_map_setD: "p \<in> set (map_set m k v) \<Longrightarrow> p = (k, v) \<or> p \<in> set m"
  by (induction m) (auto simp: map_set_def split: if_splits)

lemma set_set_add [simp]: "set (set_add xs x) = insert x (set xs)"
  by (auto simp: set_add_def)

lemma distinct_set_add [simp]: "distinct (set_add xs x) = distinct xs"
  by (simp add: set_add_def)

lemma map_wf_Nil [simp]: "map_wf []"
  by (simp add: map_wf_def)

subsection \<open>Invariants of step relations\<close>

text \<open>A property every step keeps holds after any number of steps.\<close>

locale preserved =
  fixes step :: "'s \<Rightarrow> 's \<Rightarrow> bool"
    and inv :: "'s \<Rightarrow> bool"
  assumes step_inv: "inv s \<Longrightarrow> step s t \<Longrightarrow> inv t"
begin

lemma run_inv: "step\<^sup>*\<^sup>* s t \<Longrightarrow> inv s \<Longrightarrow> inv t"
  by (induction rule: rtranclp_induct) (auto intro: step_inv)

end

end
