(* ===== verification/Regex.thy ===== *)
theory Regex
  imports Prelude
begin

section \<open>Regular expressions as the sources write them\<close>

text \<open>
  The \<open>RegExp\<close> literals of the dashboard, as a datatype with the language each
  denotes, and the backtracking matcher of JavaScript: \<^term>\<open>rests r s\<close> lists,
  in the order a greedy backtracking engine tries them, what is left of \<open>s\<close>
  after each way of matching \<open>r\<close> at its start. \<open>re.test\<close> with \<open>^\<close> and \<open>$\<close> asks
  for an empty rest, an unanchored \<open>test\<close> searches all suffixes.
  The main lemma says the matcher decides the language.
\<close>

datatype rx =
    RCls "char \<Rightarrow> bool"
  | REps
  | RSeq rx rx
  | RAlt rx rx
  | RStar rx

subsection \<open>Language\<close>

inductive matches :: "rx \<Rightarrow> string \<Rightarrow> bool" where
  m_cls: "P c \<Longrightarrow> matches (RCls P) [c]"
| m_eps: "matches REps []"
| m_seq: "matches r s \<Longrightarrow> matches q t \<Longrightarrow> matches (RSeq r q) (s @ t)"
| m_alt1: "matches r s \<Longrightarrow> matches (RAlt r q) s"
| m_alt2: "matches q s \<Longrightarrow> matches (RAlt r q) s"
| m_star0: "matches (RStar r) []"
| m_star1: "matches r s \<Longrightarrow> s \<noteq> [] \<Longrightarrow> matches (RStar r) t \<Longrightarrow> matches (RStar r) (s @ t)"

inductive_simps matches_cls [simp]: "matches (RCls P) s"
inductive_simps matches_eps [simp]: "matches REps s"
inductive_simps matches_seq: "matches (RSeq r q) s"
inductive_simps matches_alt [simp]: "matches (RAlt r q) s"
inductive_cases matches_starE: "matches (RStar r) s"

lemma matches_seq_iff: "matches (RSeq r q) s \<longleftrightarrow> (\<exists>u v. s = u @ v \<and> matches r u \<and> matches q v)"
  by (auto simp: matches_seq)

subsection \<open>The backtracking matcher\<close>

function rests :: "rx \<Rightarrow> string \<Rightarrow> string list" where
  "rests (RCls P) s = (case s of [] \<Rightarrow> [] | c # t \<Rightarrow> if P c then [t] else [])"
| "rests REps s = [s]"
| "rests (RSeq r q) s = concat (map (rests q) (rests r s))"
| "rests (RAlt r q) s = rests r s @ rests q s"
| "rests (RStar r) s =
     concat (map (\<lambda>t. if length t < length s then rests (RStar r) t else []) (rests r s)) @ [s]"
  by pat_completeness auto
termination
  by (relation "measures [\<lambda>(r, s). size r, \<lambda>(r, s). length s]") auto

declare rests.simps(5) [simp del]

lemma rests_sound: "t \<in> set (rests r s) \<Longrightarrow> \<exists>u. s = u @ t \<and> matches r u"
proof (induction r s arbitrary: t rule: rests.induct)
  case (1 P s)
  then show ?case by (auto split: list.splits if_splits)
next
  case (2 s)
  then show ?case by simp
next
  case (3 r q s)
  then obtain m where m: "m \<in> set (rests r s)" "t \<in> set (rests q m)" by auto
  with 3 obtain u v where "s = u @ m" "matches r u" "m = v @ t" "matches q v" by blast
  then show ?case by (auto simp: matches_seq_iff intro: exI [of _ "u @ v"])
next
  case (4 r q s)
  then show ?case by fastforce
next
  case (5 r s)
  from "5.prems" consider "t = s"
    | m where "m \<in> set (rests r s)" "length m < length s" "t \<in> set (rests (RStar r) m)"
    by (auto simp: rests.simps(5) [of r s] split: if_splits)
  then show ?case
  proof cases
    case 1
    then show ?thesis by (auto intro: matches.m_star0)
  next
    case 2
    with "5.IH" obtain u v where "s = u @ m" "matches r u" "m = v @ t" "matches (RStar r) v"
      by blast
    moreover have "u \<noteq> []" using 2 \<open>s = u @ m\<close> by auto
    ultimately show ?thesis by (auto intro: exI [of _ "u @ v"] matches.m_star1)
  qed
qed

lemma rests_complete: "matches r u \<Longrightarrow> t \<in> set (rests r (u @ t))"
proof (induction r u arbitrary: t rule: matches.induct)
  case (m_seq r s q v)
  then have "v @ t \<in> set (rests r (s @ v @ t))" "t \<in> set (rests q (v @ t))" by auto
  then show ?case by auto
next
  case (m_star0 r)
  show ?case by (simp add: rests.simps(5) [of r t])
next
  case (m_star1 r s v)
  then have "v @ t \<in> set (rests r (s @ v @ t))" "t \<in> set (rests (RStar r) (v @ t))" by auto
  moreover have "length (v @ t) < length (s @ v @ t)" using m_star1.hyps by simp
  ultimately have "t \<in> set (rests (RStar r) (s @ v @ t))"
    by (auto simp: rests.simps(5) [of r "s @ v @ t"])
  then show ?case by simp
qed auto

lemma rests_iff: "t \<in> set (rests r s) \<longleftrightarrow> (\<exists>u. s = u @ t \<and> matches r u)"
  using rests_sound rests_complete by blast

text \<open>\<open>/^r$/.test(s)\<close>.\<close>

definition rx_full :: "rx \<Rightarrow> string \<Rightarrow> bool" where
  "rx_full r s = ([] \<in> set (rests r s))"

text \<open>\<open>/^r/.test(s)\<close>.\<close>

definition rx_prefix :: "rx \<Rightarrow> string \<Rightarrow> bool" where
  "rx_prefix r s = (rests r s \<noteq> [])"

text \<open>\<open>/r/.test(s)\<close>.\<close>

fun rx_search :: "rx \<Rightarrow> string \<Rightarrow> bool" where
  "rx_search r [] = (rests r [] \<noteq> [])"
| "rx_search r (c # s) = (rests r (c # s) \<noteq> [] \<or> rx_search r s)"

text \<open>\<open>/r$/.test(s)\<close>.\<close>

fun rx_suffix :: "rx \<Rightarrow> string \<Rightarrow> bool" where
  "rx_suffix r [] = ([] \<in> set (rests r []))"
| "rx_suffix r (c # s) = ([] \<in> set (rests r (c # s)) \<or> rx_suffix r s)"

lemma rx_full_iff: "rx_full r s \<longleftrightarrow> matches r s"
  by (simp add: rx_full_def rests_iff)

lemma rx_prefix_iff: "rx_prefix r s \<longleftrightarrow> (\<exists>u t. s = u @ t \<and> matches r u)"
proof -
  have "rests r s \<noteq> [] \<longleftrightarrow> (\<exists>t. t \<in> set (rests r s))" by (cases "rests r s") auto
  then show ?thesis by (auto simp: rx_prefix_def rests_iff)
qed

lemma rx_search_prefix: "rx_search r s \<longleftrightarrow> (\<exists>a b. s = a @ b \<and> rx_prefix r b)"
proof (induction s)
  case Nil
  show ?case by (simp add: rx_prefix_def)
next
  case (Cons c s)
  show ?case
    by (simp only: ex_Cons_append rx_search.simps Cons rx_prefix_def)
qed

lemma rx_search_iff: "rx_search r s \<longleftrightarrow> (\<exists>a u b. s = a @ u @ b \<and> matches r u)"
  unfolding rx_search_prefix rx_prefix_iff by blast

lemma rx_suffix_iff: "rx_suffix r s \<longleftrightarrow> (\<exists>a u. s = a @ u \<and> matches r u)"
proof (induction s)
  case Nil
  then show ?case by (auto simp: rests_iff)
next
  case (Cons c s)
  then have "rx_suffix r (c # s) \<longleftrightarrow> matches r (c # s) \<or> (\<exists>a u. s = a @ u \<and> matches r u)"
    by (simp add: rests_iff)
  then show ?case
    using ex_Cons_append [of c s "matches r"] by simp
qed

subsection \<open>Derived forms\<close>

definition ropt :: "rx \<Rightarrow> rx" where "ropt r = RAlt r REps"

definition rplus :: "rx \<Rightarrow> rx" where "rplus r = RSeq r (RStar r)"

fun rtimes :: "nat \<Rightarrow> rx \<Rightarrow> rx" where
  "rtimes 0 r = REps"
| "rtimes (Suc n) r = RSeq r (rtimes n r)"

text \<open>\<open>r{0,n}\<close>, greedy.\<close>

fun rupto :: "nat \<Rightarrow> rx \<Rightarrow> rx" where
  "rupto 0 r = REps"
| "rupto (Suc n) r = RAlt (RSeq r (rupto n r)) REps"

text \<open>\<open>r{m,n}\<close>.\<close>

definition rbetween :: "nat \<Rightarrow> nat \<Rightarrow> rx \<Rightarrow> rx" where
  "rbetween m n r = RSeq (rtimes m r) (rupto (n - m) r)"

fun rlit :: "string \<Rightarrow> rx" where
  "rlit [] = REps"
| "rlit (c # s) = RSeq (RCls (\<lambda>x. x = c)) (rlit s)"

text \<open>A literal under the flag \<open>i\<close>.\<close>

fun rlit_i :: "string \<Rightarrow> rx" where
  "rlit_i [] = REps"
| "rlit_i (c # s) = RSeq (RCls (\<lambda>x. lower_char x = lower_char c)) (rlit_i s)"

fun ralts :: "rx list \<Rightarrow> rx" where
  "ralts [] = RCls (\<lambda>_. False)"
| "ralts [r] = r"
| "ralts (r # q # rs) = RAlt r (ralts (q # rs))"

definition rset :: "string \<Rightarrow> rx" where "rset cs = RCls (\<lambda>x. x \<in> set cs)"

definition rdigit :: rx where "rdigit = RCls is_digit"

text \<open>The class \<open>\w\<close>.\<close>

definition is_word :: "char \<Rightarrow> bool" where
  "is_word c = (c \<in> set ''abcdefghijklmnopqrstuvwxyzABCDEFGHIJKLMNOPQRSTUVWXYZ0123456789_'')"

lemmas rx_defs = ropt_def rplus_def rbetween_def rset_def rdigit_def
  rx_full_def rx_prefix_def rests.simps(5)

lemma matches_opt [simp]: "matches (ropt r) s \<longleftrightarrow> matches r s \<or> s = []"
  by (simp add: ropt_def)

lemma matches_lit [simp]: "matches (rlit p) s \<longleftrightarrow> s = p"
  by (induction p arbitrary: s) (auto simp: matches_seq_iff)

lemma matches_set [simp]: "matches (rset cs) s \<longleftrightarrow> (\<exists>c \<in> set cs. s = [c])"
  by (auto simp: rset_def)

lemma matches_digit [simp]: "matches rdigit s \<longleftrightarrow> (\<exists>c. is_digit c \<and> s = [c])"
  by (auto simp: rdigit_def)

lemma matches_alts: "matches (ralts rs) s \<longleftrightarrow> (\<exists>r \<in> set rs. matches r s)"
  by (induction rs rule: ralts.induct) auto

lemma matches_star_cls: "matches (RStar (RCls P)) s \<longleftrightarrow> (\<forall>c \<in> set s. P c)"
proof
  assume "matches (RStar (RCls P)) s"
  then show "\<forall>c \<in> set s. P c"
    by (induction "RStar (RCls P)" s rule: matches.induct) auto
next
  assume "\<forall>c \<in> set s. P c"
  then show "matches (RStar (RCls P)) s"
  proof (induction s)
    case Nil
    show ?case by (rule matches.m_star0)
  next
    case (Cons c s)
    then have "matches (RStar (RCls P)) ([c] @ s)"
      by (intro matches.m_star1) auto
    then show ?case by simp
  qed
qed

lemma matches_plus_cls: "matches (rplus (RCls P)) s \<longleftrightarrow> s \<noteq> [] \<and> (\<forall>c \<in> set s. P c)"
proof -
  have "matches (rplus (RCls P)) s \<longleftrightarrow> (\<exists>c t. s = [c] @ t \<and> P c \<and> (\<forall>d \<in> set t. P d))"
    unfolding rplus_def matches_seq_iff matches_star_cls matches_cls by blast
  then show ?thesis by (cases s) auto
qed

lemma rx_search_lit [simp]: "rx_search (rlit p) s \<longleftrightarrow> str_includes s p"
  by (simp add: rx_search_iff str_includes_iff)

end
