(* ===== verification/Http.thy ===== *)
theory Http
  imports Regex
begin

section \<open>Requests and responses\<close>

text \<open>
  The parts of a request the handlers read and of a response they build. A
  header list holds lower-case names. A body that is no JSON text makes
  \<open>request.json()\<close> throw: \<^term>\<open>None\<close>. A redirect carries its absolute target,
  a cookie its attributes.
\<close>

record request =
  rq_protocol :: string
  rq_hostname :: string
  rq_origin :: string
  rq_path :: string
  rq_search :: string
  rq_query :: "(string \<times> string) list"
  rq_headers :: headers
  rq_cookies :: "(string \<times> string) list"
  rq_body :: "json option"
  rq_form :: "(string \<times> string) list option"

record cookie =
  ck_name :: string
  ck_value :: string
  ck_httpOnly :: bool
  ck_secure :: bool
  ck_sameSite :: string
  ck_path :: string
  ck_maxAge :: nat

datatype reply =
    Json nat json
  | Redirect string
  | Text nat string string

record response =
  rs_reply :: reply
  rs_cookies :: "cookie list"
  rs_delete :: "string list"

definition reply :: "reply \<Rightarrow> response" where
  [js_defs]: "reply r = \<lparr>rs_reply = r, rs_cookies = [], rs_delete = []\<rparr>"

abbreviation json_reply :: "nat \<Rightarrow> (string \<times> json) list \<Rightarrow> response" where
  "json_reply st fs \<equiv> reply (Json st (JObj fs))"

abbreviation error_reply :: "nat \<Rightarrow> string \<Rightarrow> response" where
  "error_reply st msg \<equiv> json_reply st [(''error'', JStr msg)]"

fun reply_status :: "reply \<Rightarrow> nat" where
  "reply_status (Json st _) = st"
| "reply_status (Redirect _) = 307"
| "reply_status (Text st _ _) = st"

abbreviation rs_status :: "response \<Rightarrow> nat" where
  "rs_status r \<equiv> reply_status (rs_reply r)"

fun reply_field :: "reply \<Rightarrow> string \<Rightarrow> json option" where
  "reply_field (Json _ v) k = json_get (Some v) k"
| "reply_field _ k = None"

abbreviation rs_field :: "response \<Rightarrow> string \<Rightarrow> json option" where
  "rs_field r k \<equiv> reply_field (rs_reply r) k"

definition header :: "request \<Rightarrow> string \<Rightarrow> string option" where
  [js_defs]: "header rq n = headers_get (rq_headers rq) n"

definition query :: "request \<Rightarrow> string \<Rightarrow> string option" where
  [js_defs]: "query rq n = map_of (rq_query rq) n"

definition cookie_value :: "request \<Rightarrow> string \<Rightarrow> string option" where
  [js_defs]: "cookie_value rq n = map_of (rq_cookies rq) n"

lemma reply_sel [simp]:
  "rs_reply (reply r) = r" "rs_cookies (reply r) = []" "rs_delete (reply r) = []"
  by (simp_all add: reply_def)

lemma reply_inject [simp]: "reply r = reply r' \<longleftrightarrow> r = r'"
  by (simp add: reply_def)

lemma headers_get_set [simp]:
  "headers_get (headers_set h n v) n' =
     (if toLowerCase n' = toLowerCase n then Some v else headers_get h n')"
  by (simp add: headers_get_def headers_set_def jsm.get_put)

end
