(* ===== verification/Auth.thy ===== *)
theory Auth
  imports Http
begin

section \<open>Secrets, tokens and passwords\<close>

text \<open>
  \<^verbatim>\<open>lib/authSecrets.ts\<close>, \<^verbatim>\<open>lib/timingSafeToken.ts\<close>, \<^verbatim>\<open>lib/guardianApiAuth.ts\<close>,
  \<^verbatim>\<open>lib/password.ts\<close> and \<^verbatim>\<open>lib/loginAuth.ts\<close>. The key derivation, the legacy
  digest, the token library and the user table are parameters. A call that
  may throw returns \<^term>\<open>Inl\<close> of the message.
\<close>

type_synonym bytes = "nat list"

subsection \<open>The signing secret\<close>

definition getJwtSecret :: "env \<Rightarrow> string + bytes" where
  "getJwtSecret env =
     (let raw = env ''JWT_SECRET'' in
      if env ''NODE_ENV'' = Some ''production''
      then (if \<not> truthy raw \<or> length (the raw) < 32
            then Inl ''JWT_SECRET required in production (minimum 32 characters)''
            else Inr (utf8 (the raw)))
      else if truthy raw \<and> 32 \<le> length (the raw) then Inr (utf8 (the raw))
      else Inr (utf8 ''dev-only-insecure-jwt-secret-32chars!!''))"

subsection \<open>Constant-time comparison\<close>

text \<open>\<open>crypto.timingSafeEqual\<close> on buffers of one length; it throws otherwise.\<close>

definition timingSafeEqual :: "bytes \<Rightarrow> bytes \<Rightarrow> bool option" where
  "timingSafeEqual a b =
     (if length a = length b then Some (list_all (\<lambda>(x, y). x = y) (zip a b)) else None)"

definition timingSafeTokenEquals :: "string \<Rightarrow> string \<Rightarrow> bool" where
  "timingSafeTokenEquals a b =
     (if a = [] \<or> b = [] then False
      else let ba = utf8 a; bb = utf8 b
           in if length ba \<noteq> length bb then False
              else (case timingSafeEqual ba bb of Some r \<Rightarrow> r | None \<Rightarrow> False))"

fun timingSafeTokenInList :: "string \<Rightarrow> string list \<Rightarrow> bool" where
  "timingSafeTokenInList token [] = False"
| "timingSafeTokenInList token (c # cs) =
     (if timingSafeTokenEquals token c then True else timingSafeTokenInList token cs)"

subsection \<open>The tokens of the host API\<close>

definition env_trim :: "env \<Rightarrow> string \<Rightarrow> string option" where
  [js_defs]: "env_trim env k = (case env k of None \<Rightarrow> None | Some s \<Rightarrow> if trim s = [] then None else Some (trim s))"

definition guardianApiReadToken :: "env \<Rightarrow> string option" where
  "guardianApiReadToken env = env_trim env ''GUARDIAN_API_TOKEN''"

definition guardianApiMutationToken :: "env \<Rightarrow> string option" where
  "guardianApiMutationToken env =
     js_or (env_trim env ''GUARDIAN_API_MUTATION_TOKEN'') (env_trim env ''GUARDIAN_API_TOKEN'')"

definition bearer :: "string option \<Rightarrow> headers" where
  "bearer tok = (case tok of None \<Rightarrow> [] | Some t \<Rightarrow> [(''authorization'', ''Bearer '' @ t)])"

definition guardianApiAuthHeaders :: "env \<Rightarrow> headers" where
  "guardianApiAuthHeaders env = bearer (guardianApiReadToken env)"

definition guardianApiMutationHeaders :: "env \<Rightarrow> headers" where
  "guardianApiMutationHeaders env = bearer (guardianApiMutationToken env)"

subsection \<open>Hexadecimal text\<close>

definition hex_digit :: "nat \<Rightarrow> char" where
  "hex_digit n = ''0123456789abcdef'' ! n"

definition hex_val :: "char \<Rightarrow> nat option" where
  "hex_val c =
     (if lower_char c \<in> set ''0123456789abcdef''
      then Some (length (takeWhile (\<lambda>d. d \<noteq> lower_char c) ''0123456789abcdef''))
      else None)"

text \<open>\<open>buf.toString('hex')\<close>, and \<open>Buffer.from(s, 'hex')\<close>, which stops at the
first pair that is not hexadecimal.\<close>

fun hex_encode :: "bytes \<Rightarrow> string" where
  "hex_encode [] = []"
| "hex_encode (b # bs) = hex_digit (b div 16) # hex_digit (b mod 16) # hex_encode bs"

fun hex_decode :: "string \<Rightarrow> bytes" where
  "hex_decode (c # d # s) =
     (case (hex_val c, hex_val d) of
        (Some h, Some l) \<Rightarrow> (16 * h + l) # hex_decode s
      | _ \<Rightarrow> [])"
| "hex_decode _ = []"

subsection \<open>Password hashes\<close>

type_synonym scrypt_fn = "string \<Rightarrow> bytes \<Rightarrow> nat \<Rightarrow> bytes option"

definition SCRYPT_PREFIX :: string where "SCRYPT_PREFIX = ''scrypt:''"

text \<open>The salt is what \<open>randomBytes(16)\<close> returned; a throwing derivation is
\<^term>\<open>None\<close>.\<close>

definition hashPassword :: "scrypt_fn \<Rightarrow> bytes \<Rightarrow> string \<Rightarrow> string option" where
  "hashPassword scrypt salt password =
     (case scrypt password salt 64 of
        None \<Rightarrow> None
      | Some hash \<Rightarrow> Some (SCRYPT_PREFIX @ hex_encode salt @ '':'' @ hex_encode hash))"

definition verifyPassword :: "scrypt_fn \<Rightarrow> (string \<Rightarrow> string) \<Rightarrow> string \<Rightarrow> string \<Rightarrow> bool" where
  "verifyPassword scrypt sha256hex password stored =
     (if startsWith stored SCRYPT_PREFIX
      then let rest = drop (length SCRYPT_PREFIX) stored;
               sep = indexOf CHR '':'' rest
           in case sep of
                None \<Rightarrow> False
              | Some i \<Rightarrow>
                  if i = 0 then False
                  else let saltHex = take i rest;
                           hashHex = drop (i + 1) rest;
                           salt = hex_decode saltHex;
                           expected = hex_decode hashHex
                       in (case scrypt password salt (length expected) of
                             None \<Rightarrow> False
                           | Some actual \<Rightarrow>
                               length expected = length actual
                               \<and> timingSafeEqual expected actual = Some True)
      else sha256hex password = stored)"

subsection \<open>Users and session tokens\<close>

record user =
  us_id :: string
  us_username :: string
  us_passwordHash :: string
  us_tenantId :: string
  us_isAdmin :: bool

record auth_user =
  au_id :: string
  au_username :: string
  au_tenantId :: string
  au_isAdmin :: bool

text \<open>The claims of a session token; \<open>iat\<close> is present when its issuer set it.\<close>

record claims =
  cl_userId :: "string option"
  cl_username :: "string option"
  cl_tenantId :: "string option"
  cl_isAdmin :: bool
  cl_iat :: "int option"

type_synonym user_lookup = "string \<Rightarrow> string + user option"

definition authenticateUser ::
  "(string \<Rightarrow> string \<Rightarrow> bool) \<Rightarrow> user_lookup \<Rightarrow> string \<Rightarrow> string \<Rightarrow> string + auth_user option" where
  "authenticateUser verify findUnique username password =
     (if username = [] \<or> password = [] then Inr None
      else case findUnique username of
        Inl e \<Rightarrow> Inl e
      | Inr None \<Rightarrow> Inr None
      | Inr (Some u) \<Rightarrow>
          if \<not> verify password (us_passwordHash u) then Inr None
          else Inr (Some \<lparr> au_id = us_id u, au_username = us_username u,
                           au_tenantId = us_tenantId u, au_isAdmin = us_isAdmin u \<rparr>))"

text \<open>The claims given to \<open>SignJWT\<close>, which adds the expiry and no \<open>iat\<close>.\<close>

definition user_claims :: "auth_user \<Rightarrow> claims" where
  "user_claims u =
     \<lparr> cl_userId = Some (au_id u), cl_username = Some (au_username u),
       cl_tenantId = Some (au_tenantId u), cl_isAdmin = au_isAdmin u, cl_iat = None \<rparr>"

type_synonym jwt_sign = "claims \<Rightarrow> string \<Rightarrow> bytes \<Rightarrow> string + string"

definition signAuthToken :: "jwt_sign \<Rightarrow> env \<Rightarrow> auth_user \<Rightarrow> string + string" where
  "signAuthToken sign env u =
     (let ttl = nullish (env_trim env ''DASHBOARD_JWT_EXPIRY'') ''24h'' in
      case getJwtSecret env of
        Inl e \<Rightarrow> Inl e
      | Inr secret \<Rightarrow> sign (user_claims u) ttl secret)"

definition authCookieSecure :: "env \<Rightarrow> bool" where
  "authCookieSecure env =
     (if env ''NODE_ENV'' \<noteq> Some ''production'' then False
      else env ''COOKIE_SECURE'' \<noteq> Some ''0'')"

subsection \<open>Comparison and hexadecimal lemmas\<close>

lemma timingSafeEqual_iff: "timingSafeEqual a b = Some True \<longleftrightarrow> a = b"
  by (auto simp: timingSafeEqual_def list_all_iff set_zip list_eq_iff_nth_eq)

lemma timingSafeTokenEquals_iff [js_spec]:
  "timingSafeTokenEquals a b \<longleftrightarrow> a = b \<and> a \<noteq> []"
proof -
  have "(case timingSafeEqual (utf8 a) (utf8 b) of Some r \<Rightarrow> r | None \<Rightarrow> False) \<longleftrightarrow> a = b"
    using timingSafeEqual_iff [of "utf8 a" "utf8 b"] by (auto split: option.splits)
  then show ?thesis
    by (auto simp: timingSafeTokenEquals_def Let_def)
qed

lemma timingSafeTokenInList_iff [js_spec]:
  "timingSafeTokenInList t cs \<longleftrightarrow> t \<in> set cs \<and> t \<noteq> []"
  by (induction cs) (auto simp: timingSafeTokenEquals_iff)

lemma hex_val_digit: "n < 16 \<Longrightarrow> hex_val (hex_digit n) = Some n"
proof -
  have "\<forall>n \<in> set [0..<16]. hex_val (hex_digit n) = Some n" by code_simp
  then show "n < 16 \<Longrightarrow> hex_val (hex_digit n) = Some n" by simp
qed

lemma hex_digit_not_colon: "n < 16 \<Longrightarrow> hex_digit n \<noteq> CHR '':''"
proof -
  have "\<forall>n \<in> set [0..<16]. hex_digit n \<noteq> CHR '':''" by code_simp
  then show "n < 16 \<Longrightarrow> hex_digit n \<noteq> CHR '':''" by simp
qed

lemma hex_decode_encode: "\<forall>b \<in> set bs. b < 256 \<Longrightarrow> hex_decode (hex_encode bs) = bs"
  by (induction bs) (auto simp: hex_val_digit)

lemma hex_encode_no_colon: "\<forall>b \<in> set bs. b < 256 \<Longrightarrow> CHR '':'' \<notin> set (hex_encode bs)"
proof (induction bs)
  case (Cons b bs)
  then have "b div 16 < 16" by (intro less_mult_imp_div_less) simp
  with Cons show ?case
    using hex_digit_not_colon [of "b div 16"] hex_digit_not_colon [of "b mod 16"] by auto
qed simp

lemma length_hex_encode [simp]: "length (hex_encode bs) = 2 * length bs"
  by (induction bs) auto

lemma indexOf_append: "c \<notin> set u \<Longrightarrow> indexOf c (u @ c # v) = Some (length u)"
  by (induction u) auto

lemma indexOf_Some: "indexOf c s = Some i \<Longrightarrow> \<exists>u v. s = u @ c # v \<and> length u = i \<and> c \<notin> set u"
proof (induction s arbitrary: i)
  case (Cons x s)
  show ?case
  proof (cases "x = c")
    case True
    with Cons.prems show ?thesis by (intro exI [of _ "[]"] exI [of _ s]) simp
  next
    case False
    with Cons.prems obtain j where "indexOf c s = Some j" "i = Suc j" by auto
    with Cons.IH obtain u v where "s = u @ c # v" "length u = j" "c \<notin> set u" by blast
    with False \<open>i = Suc j\<close> show ?thesis by (intro exI [of _ "x # u"] exI [of _ v]) simp
  qed
qed simp

text \<open>What a stored scrypt hash is checked for, its parts decoded.\<close>

lemma verifyPassword_scrypt:
  assumes "CHR '':'' \<notin> set saltHex" "saltHex \<noteq> []"
  shows "verifyPassword scrypt sha p (SCRYPT_PREFIX @ saltHex @ '':'' @ hashHex) \<longleftrightarrow>
           scrypt p (hex_decode saltHex) (length (hex_decode hashHex)) = Some (hex_decode hashHex)"
  using assms
  by (auto simp: verifyPassword_def startsWith_append indexOf_append timingSafeEqual_iff
      Let_def split: option.splits)

subsection \<open>Properties\<close>

text \<open>Two tokens compare equal exactly when they are the same non-empty
string, so an unset key accepts no token; a token is in a list exactly when
it is one of its non-empty entries.\<close>

theorem timing_safe_exact:
  "(timingSafeTokenEquals a b \<longleftrightarrow> a = b \<and> a \<noteq> [])
   \<and> (timingSafeTokenInList t cs \<longleftrightarrow> t \<in> set cs \<and> t \<noteq> [])"
  by (simp add: js_spec)

text \<open>A hash made by \<^const>\<open>hashPassword\<close> accepts a password exactly when the
key derivation gives it the stored key, so it accepts the password it was
made from.\<close>

theorem password_roundtrip:
  assumes salt: "length salt = 16" "\<forall>b \<in> set salt. b < 256"
    and bytes: "\<And>p s n k. scrypt p s n = Some k \<Longrightarrow> length k = n \<and> (\<forall>b \<in> set k. b < 256)"
    and stored: "hashPassword scrypt salt p = Some stored"
  shows "verifyPassword scrypt sha q stored \<longleftrightarrow> scrypt q salt 64 = scrypt p salt 64"
proof -
  from stored obtain k where k: "scrypt p salt 64 = Some k"
    and st: "stored = SCRYPT_PREFIX @ hex_encode salt @ '':'' @ hex_encode k"
    by (auto simp: hashPassword_def split: option.splits)
  have "hex_encode salt \<noteq> []" using salt(1) by (metis length_hex_encode list.size(3) mult_eq_0_iff zero_neq_numeral)
  moreover have "hex_decode (hex_encode k) = k" "length k = 64"
    using bytes [OF k] hex_decode_encode by auto
  ultimately show ?thesis
    unfolding st using salt(2) k
    by (simp add: verifyPassword_scrypt [OF hex_encode_no_colon, simplified] hex_decode_encode)
qed

definition demo_scrypt :: scrypt_fn where
  "demo_scrypt p s n = Some (replicate n (length p mod 256))"

theorem password_roundtrip_witness:
  "verifyPassword demo_scrypt (\<lambda>x. x) ''s3cret''
     (the (hashPassword demo_scrypt (replicate 16 7) ''s3cret''))"
  using password_roundtrip [of "replicate 16 7" demo_scrypt "''s3cret''"
      "the (hashPassword demo_scrypt (replicate 16 7) ''s3cret'')" "\<lambda>x. x" "''s3cret''"]
  by (auto simp: demo_scrypt_def hashPassword_def)

text \<open>A signing secret the module returns has at least 32 bytes, and in
production it is the configured one, never the built-in development key.\<close>

theorem jwt_secret_strength:
  "(case getJwtSecret env of
      Inr k \<Rightarrow> 32 \<le> length k
               \<and> k \<in> (if env ''NODE_ENV'' = Some ''production''
                      then {utf8 raw | raw. env ''JWT_SECRET'' = Some raw \<and> 32 \<le> length raw} else UNIV)
    | Inl e \<Rightarrow> env ''NODE_ENV'' = Some ''production'')"
proof -
  have len: "length s \<le> length (utf8 s)" for s
    by (induction s) (auto simp: utf8_def utf8_char_def Let_def)
  have raw: "32 \<le> length (utf8 s)" if "32 \<le> length s" for s
    using len [of s] that by simp
  have dev: "32 \<le> length (utf8 ''dev-only-insecure-jwt-secret-32chars!!'')"
    using len [of "''dev-only-insecure-jwt-secret-32chars!!''"] by simp
  show ?thesis
    using raw by (auto simp: getJwtSecret_def truthy_def Let_def dev split: option.splits)
qed

end
