(* ===== verification/RateLimit.thy ===== *)
theory RateLimit
  imports Http
begin

section \<open>The login rate limiter\<close>

text \<open>
  \<^verbatim>\<open>lib/loginRateLimit.ts\<close>: one bucket of failed attempts per client key,
  cleared when its window ends. The module's bucket table is the explicit
  state, the clock in milliseconds is an argument.
\<close>

record bucket =
  bk_count :: int
  bk_resetAt :: int

type_synonym buckets = "(string, bucket) jsmap"

definition WINDOW_MS :: int where "WINDOW_MS = 15 * 60 * 1000"

definition MAX_ATTEMPTS :: "env \<Rightarrow> int" where
  "MAX_ATTEMPTS env = parseInt_or (or_default (env ''DASHBOARD_LOGIN_RL_MAX'') ''10'') 10"

definition isLoopbackAddress :: "string \<Rightarrow> bool" where
  "isLoopbackAddress key =
     (let k = toLowerCase (trim key) in
      if k = [] then False
      else if k = ''::1'' \<or> k = ''localhost'' then True
      else if startsWith k ''127.'' then True
      else False)"

definition lab_172_rx :: rx where
  "lab_172_rx =
     RSeq (rlit ''172.'')
       (RSeq (RAlt (RSeq (rlit ''1'') (rset ''6789''))
               (RAlt (RSeq (rlit ''2'') (rset ''0123456789'')) (RSeq (rlit ''3'') (rset ''01''))))
          (rlit ''.''))"

definition isPrivateLabAddress :: "string \<Rightarrow> bool" where
  "isPrivateLabAddress key =
     (let k = trim key in
      if k = [] then False
      else if isLoopbackAddress k then True
      else if rx_prefix (rlit ''10.'') k then True
      else if rx_prefix (rlit ''192.168.'') k then True
      else if rx_prefix lab_172_rx k then True
      else False)"

definition bypassLoginRateLimit :: "env \<Rightarrow> string \<Rightarrow> bool" where
  "bypassLoginRateLimit env key =
     (let k = trim key in
      if env ''NODE_ENV'' \<noteq> Some ''production''
      then (if k = [] \<or> k = ''unknown'' then True
            else if isLoopbackAddress k then True
            else False)
      else if env ''DASHBOARD_LOGIN_RL_LAB'' = Some ''1'' \<and> isPrivateLabAddress k then True
      else if isLoopbackAddress k \<and> env ''DASHBOARD_LOGIN_RL_BYPASS_LOOPBACK'' = Some ''1'' then True
      else False)"

definition loginRateLimitKey :: "request \<Rightarrow> string" where
  "loginRateLimitKey rq =
     (let fwd = header rq ''x-forwarded-for''; rip = header rq ''x-real-ip'' in
      if truthy fwd then trim (hd (splitOn CHR '','' (the fwd)))
      else if truthy rip then trim (the rip)
      else ''unknown'')"

definition bucket_key :: "string \<Rightarrow> string" where
  "bucket_key key = (if trim key = [] then ''unknown'' else trim key)"

text \<open>\<open>let b = buckets.get(k)\<close>, replaced by a fresh bucket when absent or
past its window; the bucket and the table that holds it.\<close>

definition open_bucket :: "int \<Rightarrow> buckets \<Rightarrow> string \<Rightarrow> bucket \<times> buckets" where
  "open_bucket now bs k =
     (case map_get bs k of
        Some b \<Rightarrow>
          if bk_resetAt b \<le> now
          then let b' = \<lparr>bk_count = 0, bk_resetAt = now + WINDOW_MS\<rparr> in (b', map_set bs k b')
          else (b, bs)
      | None \<Rightarrow>
          let b' = \<lparr>bk_count = 0, bk_resetAt = now + WINDOW_MS\<rparr> in (b', map_set bs k b'))"

datatype rl_result = RL_ok | RL_blocked int

definition checkLoginRateLimit :: "env \<Rightarrow> int \<Rightarrow> buckets \<Rightarrow> string \<Rightarrow> rl_result \<times> buckets" where
  "checkLoginRateLimit env now bs key =
     (if bypassLoginRateLimit env key then (RL_ok, bs)
      else let bucketKey = bucket_key key;
               (b, bs') = open_bucket now bs bucketKey
           in if MAX_ATTEMPTS env \<le> bk_count b
              then (RL_blocked (ceil_div (bk_resetAt b - now) 1000), bs')
              else (RL_ok, bs'))"

definition recordLoginFailure :: "env \<Rightarrow> int \<Rightarrow> buckets \<Rightarrow> string \<Rightarrow> buckets" where
  "recordLoginFailure env now bs key =
     (if bypassLoginRateLimit env key then bs
      else let bucketKey = bucket_key key;
               (b, bs') = open_bucket now bs bucketKey
           in map_set bs' bucketKey (b\<lparr>bk_count := bk_count b + 1\<rparr>))"

definition resetLoginRateLimitForTests :: "buckets \<Rightarrow> string option \<Rightarrow> buckets" where
  "resetLoginRateLimitForTests bs key =
     (if truthy key then map_delete bs (bucket_key (the key)) else [])"

subsection \<open>Sequences of limiter calls\<close>

datatype rl_call = RL_check int string | RL_fail int string

fun rl_time :: "rl_call \<Rightarrow> int" where
  "rl_time (RL_check t _) = t"
| "rl_time (RL_fail t _) = t"

fun rl_step :: "env \<Rightarrow> buckets \<Rightarrow> rl_call \<Rightarrow> buckets" where
  "rl_step env bs (RL_check t k) = snd (checkLoginRateLimit env t bs k)"
| "rl_step env bs (RL_fail t k) = recordLoginFailure env t bs k"

definition rl_run :: "env \<Rightarrow> buckets \<Rightarrow> rl_call list \<Rightarrow> buckets" where
  "rl_run env bs cs = foldl (rl_step env) bs cs"

text \<open>Failed attempts of one bucket key in a sequence of calls.\<close>

fun failures_of :: "string \<Rightarrow> rl_call list \<Rightarrow> nat" where
  "failures_of k [] = 0"
| "failures_of k (RL_fail _ key # cs) = (if bucket_key key = k then 1 else 0) + failures_of k cs"
| "failures_of k (RL_check _ _ # cs) = failures_of k cs"

subsection \<open>One bucket through a sequence of calls\<close>

lemma WINDOW_MS_pos [simp]: "0 < WINDOW_MS"
  by (simp add: WINDOW_MS_def)

text \<open>Whether the limiter skips a client depends on its bucket key only.\<close>

lemma bypass_bucket_key: "bypassLoginRateLimit env (bucket_key key) = bypassLoginRateLimit env key"
proof (cases "trim key = []")
  case True
  have "trim ''unknown'' = ''unknown''" "isLoopbackAddress ''unknown'' = False"
    "isPrivateLabAddress ''unknown'' = False" "isLoopbackAddress [] = False"
    "isPrivateLabAddress [] = False"
    by code_simp+
  with True show ?thesis by (simp add: bucket_key_def bypassLoginRateLimit_def)
next
  case False
  then show ?thesis by (simp add: bucket_key_def bypassLoginRateLimit_def trim_idem)
qed

lemma open_bucket_other: "k' \<noteq> k \<Longrightarrow> map_get (snd (open_bucket t bs k)) k' = map_get bs k'"
  by (auto simp: open_bucket_def Let_def jsm.get_put split: option.splits)

lemma open_bucket_live:
  "map_get bs k = Some b \<Longrightarrow> t < bk_resetAt b \<Longrightarrow> open_bucket t bs k = (b, bs)"
  by (simp add: open_bucket_def)

lemma open_bucket_fresh:
  "(\<forall>b. map_get bs k = Some b \<longrightarrow> bk_resetAt b \<le> t) \<Longrightarrow>
     open_bucket t bs k =
       (\<lparr>bk_count = 0, bk_resetAt = t + WINDOW_MS\<rparr>,
        map_set bs k \<lparr>bk_count = 0, bk_resetAt = t + WINDOW_MS\<rparr>)"
  by (auto simp: open_bucket_def Let_def split: option.splits)

fun rl_key :: "rl_call \<Rightarrow> string" where
  "rl_key (RL_check _ k) = k"
| "rl_key (RL_fail _ k) = k"

lemma rl_step_other:
  "bucket_key (rl_key c) \<noteq> k \<Longrightarrow> map_get (rl_step env bs c) k = map_get bs k"
  by (cases c) (auto simp: checkLoginRateLimit_def recordLoginFailure_def Let_def jsm.get_put
      case_prod_beta open_bucket_other)

lemma rl_step_same:
  assumes "bucket_key (rl_key c) = k" "\<not> bypassLoginRateLimit env k"
    and "map_get bs k = Some b" "rl_time c < bk_resetAt b"
  shows "map_get (rl_step env bs c) k = Some (b\<lparr>bk_count := bk_count b + int (failures_of k [c])\<rparr>)"
proof -
  have "\<not> bypassLoginRateLimit env (rl_key c)" using assms(1,2) bypass_bucket_key by metis
  then show ?thesis
    using assms by (cases c)
      (auto simp: checkLoginRateLimit_def recordLoginFailure_def open_bucket_live jsm.get_put)
qed

lemma rl_step_bucket:
  assumes "\<not> bypassLoginRateLimit env k" "map_get bs k = Some b" "rl_time c < bk_resetAt b"
  shows "map_get (rl_step env bs c) k = Some (b\<lparr>bk_count := bk_count b + int (failures_of k [c])\<rparr>)"
proof (cases "bucket_key (rl_key c) = k")
  case True
  with assms show ?thesis by (intro rl_step_same)
next
  case False
  then have "failures_of k [c] = 0" by (cases c) auto
  with False assms show ?thesis by (simp add: rl_step_other)
qed

lemma failures_of_Cons: "failures_of k (c # cs) = failures_of k [c] + failures_of k cs"
  by (cases c) auto

lemma rl_run_bucket:
  assumes "\<not> bypassLoginRateLimit env k" "map_get bs k = Some b"
    and "\<forall>c \<in> set cs. rl_time c < bk_resetAt b"
  shows "map_get (rl_run env bs cs) k = Some (b\<lparr>bk_count := bk_count b + int (failures_of k cs)\<rparr>)"
  using assms
proof (induction cs arbitrary: bs b)
  case (Cons c cs)
  let ?b = "b\<lparr>bk_count := bk_count b + int (failures_of k [c])\<rparr>"
  have "map_get (rl_step env bs c) k = Some ?b"
    using Cons.prems by (intro rl_step_bucket) auto
  then have "map_get (rl_run env (rl_step env bs c) cs) k =
      Some (?b\<lparr>bk_count := bk_count ?b + int (failures_of k cs)\<rparr>)"
    using Cons.prems by (intro Cons.IH) auto
  then show ?case
    using failures_of_Cons [of k c cs] by (simp add: rl_run_def add.assoc)
qed (simp add: rl_run_def)

subsection \<open>Properties\<close>

text \<open>Within the window that a client's first request opens, whatever
calls of any clients are interleaved, the limiter blocks that client exactly
when its failures have reached the maximum, and reports the time to the end
of the window rounded up to seconds; once the window has ended the client is
let through again.\<close>

theorem login_rate_limit_exact:
  assumes key: "\<not> bypassLoginRateLimit env key"
    and fresh: "map_get bs (bucket_key key) = None"
    and win: "\<forall>c \<in> set cs. rl_time c < t0 + WINDOW_MS"
    and max: "0 < MAX_ATTEMPTS env"
  defines "bs' \<equiv> rl_run env bs (RL_check t0 key # cs)"
  shows "fst (checkLoginRateLimit env t bs' key) =
     (if t < t0 + WINDOW_MS \<and> MAX_ATTEMPTS env \<le> int (failures_of (bucket_key key) cs)
      then RL_blocked (ceil_div (t0 + WINDOW_MS - t) 1000) else RL_ok)"
proof -
  let ?k = "bucket_key key"
  have nb: "\<not> bypassLoginRateLimit env ?k" using key by (simp add: bypass_bucket_key)
  have "map_get (rl_step env bs (RL_check t0 key)) ?k = Some \<lparr>bk_count = 0, bk_resetAt = t0 + WINDOW_MS\<rparr>"
    using key fresh by (simp add: checkLoginRateLimit_def open_bucket_fresh jsm.get_put)
  then have b: "map_get bs' ?k =
      Some \<lparr>bk_count = int (failures_of ?k cs), bk_resetAt = t0 + WINDOW_MS\<rparr>"
    using rl_run_bucket [OF nb, of "rl_step env bs (RL_check t0 key)" _ cs] win
    by (simp add: bs'_def rl_run_def)
  show ?thesis
  proof (cases "t < t0 + WINDOW_MS")
    case True
    then show ?thesis
      using key b by (simp add: checkLoginRateLimit_def open_bucket_live)
  next
    case False
    then show ?thesis
      using key b max by (simp add: checkLoginRateLimit_def open_bucket_fresh)
  qed
qed

theorem login_rate_limit_exact_witness:
  "fst (checkLoginRateLimit (\<lambda>v. if v = ''NODE_ENV'' then Some ''production'' else None) 2000
     (rl_run (\<lambda>v. if v = ''NODE_ENV'' then Some ''production'' else None) []
        (RL_check 0 ''203.0.113.7'' # replicate 10 (RL_fail 1000 ''203.0.113.7''))) ''203.0.113.7'')
   = RL_blocked 898"
proof -
  let ?env = "\<lambda>v. if v = ''NODE_ENV'' then Some ''production'' else None"
  have "\<not> bypassLoginRateLimit ?env ''203.0.113.7''" "MAX_ATTEMPTS ?env = 10"
    "failures_of (bucket_key ''203.0.113.7'') (replicate 10 (RL_fail 1000 ''203.0.113.7'')) = 10"
    "ceil_div (0 + WINDOW_MS - 2000) 1000 = 898"
    by code_simp+
  then show ?thesis
    using login_rate_limit_exact [of ?env "''203.0.113.7''" "[]"
        "replicate 10 (RL_fail 1000 ''203.0.113.7'')" 0 2000]
    by (simp add: WINDOW_MS_def map_get_def)
qed

end
