(* ===== verification/Login.thy ===== *)
theory Login
  imports Auth RateLimit
begin

section \<open>The login handler\<close>

text \<open>
  \<^verbatim>\<open>lib/requestOrigin.ts\<close> and \<^verbatim>\<open>app/api/auth/login/route.ts\<close>. The rate
  limiter's buckets are the state of the handler. \<open>new URL(path, base)\<close> is a
  parameter that may throw.
\<close>

definition first_csv :: "string \<Rightarrow> string" where
  "first_csv s = trim (hd (splitOn CHR '','' s))"

definition requestOrigin :: "request \<Rightarrow> string" where
  "requestOrigin rq =
     (let host = js_or (map_option first_csv (header rq ''x-forwarded-host''))
                       (map_option trim (header rq ''host''));
          proto = or_default (map_option first_csv (header rq ''x-forwarded-proto''))
                             (remove1 CHR '':'' (rq_protocol rq))
      in if truthy host \<and> \<not> startsWith (the host) ''0.0.0.0''
         then proto @ ''://'' @ the host
         else if rq_hostname rq = ''0.0.0.0'' \<and> truthy host
         then proto @ ''://'' @ the host
         else rq_origin rq)"

type_synonym url_fn = "string \<Rightarrow> string \<Rightarrow> string + string"

definition requestUrl :: "url_fn \<Rightarrow> request \<Rightarrow> string \<Rightarrow> string + string" where
  "requestUrl newURL rq path = newURL path (requestOrigin rq)"

record credentials =
  cr_username :: string
  cr_password :: string
  cr_browserForm :: bool

definition readCredentials :: "request \<Rightarrow> string + credentials" where
  "readCredentials rq =
     (let contentType = or_default (header rq ''content-type'') [] in
      if str_includes contentType ''application/json''
      then (case rq_body rq of
              None \<Rightarrow> Inl ''json''
            | Some body \<Rightarrow>
                Inr \<lparr> cr_username = String_or (json_get (Some body) ''username'') [],
                      cr_password = String_or (json_get (Some body) ''password'') [],
                      cr_browserForm = False \<rparr>)
      else (case rq_form rq of
              None \<Rightarrow> Inl ''form''
            | Some form \<Rightarrow>
                Inr \<lparr> cr_username = or_default (map_of form ''username'') [],
                      cr_password = or_default (map_of form ''password'') [],
                      cr_browserForm = True \<rparr>))"

definition auth_cookie :: "env \<Rightarrow> string \<Rightarrow> cookie" where
  "auth_cookie env token =
     \<lparr> ck_name = ''auth_token'', ck_value = token, ck_httpOnly = True,
       ck_secure = authCookieSecure env, ck_sameSite = ''lax'', ck_path = ''/'',
       ck_maxAge = 60 * 60 * 24 \<rparr>"

definition setAuthCookie :: "env \<Rightarrow> response \<Rightarrow> string \<Rightarrow> response" where
  "setAuthCookie env rs token = rs\<lparr>rs_cookies := rs_cookies rs @ [auth_cookie env token]\<rparr>"

text \<open>What the handler calls outside the repository.\<close>

record login_deps =
  ld_verify :: "string \<Rightarrow> string \<Rightarrow> bool"
  ld_find :: user_lookup
  ld_sign :: jwt_sign
  ld_url :: url_fn

definition internal_error :: response where
  "internal_error = error_reply 500 ''Internal Server Error''"

definition login_redirect :: "url_fn \<Rightarrow> request \<Rightarrow> string \<Rightarrow> (response \<Rightarrow> response) \<Rightarrow> response" where
  "login_redirect newURL rq path f =
     (case requestUrl newURL rq path of
        Inl _ \<Rightarrow> internal_error
      | Inr url \<Rightarrow> f (reply (Redirect url)))"

definition login_POST ::
  "login_deps \<Rightarrow> env \<Rightarrow> int \<Rightarrow> request \<Rightarrow> buckets \<Rightarrow> response \<times> buckets" where
  "login_POST d env now rq bs =
     (let rlKey = loginRateLimitKey rq;
          (rl, bs1) = checkLoginRateLimit env now bs rlKey
      in case rl of
           RL_blocked retryAfterSec \<Rightarrow>
             (json_reply 429 [(''error'', JStr ''Too many login attempts''),
                              (''retryAfterSec'', JInt retryAfterSec)], bs1)
         | RL_ok \<Rightarrow>
             (case readCredentials rq of
                Inl _ \<Rightarrow> (internal_error, bs1)
              | Inr cr \<Rightarrow>
                  (case authenticateUser (ld_verify d) (ld_find d) (cr_username cr) (cr_password cr) of
                     Inl _ \<Rightarrow> (internal_error, bs1)
                   | Inr None \<Rightarrow>
                       (let bs2 = recordLoginFailure env now bs1 rlKey in
                        if cr_browserForm cr
                        then (login_redirect (ld_url d) rq ''/login?error=invalid'' (\<lambda>r. r), bs2)
                        else (error_reply 401 ''Invalid credentials'', bs2))
                   | Inr (Some user) \<Rightarrow>
                       (case signAuthToken (ld_sign d) env user of
                          Inl _ \<Rightarrow> (internal_error, bs1)
                        | Inr token \<Rightarrow>
                            if cr_browserForm cr
                            then (login_redirect (ld_url d) rq ''/'' (\<lambda>r. setAuthCookie env r token), bs1)
                            else (setAuthCookie env
                                    (json_reply 200 [(''success'', JBool True), (''redirect'', JStr ''/'')])
                                    token, bs1)))))"

subsection \<open>Properties\<close>

lemma cookies_internal_error [simp]: "rs_cookies internal_error = []"
  by (simp add: internal_error_def)

lemma cookies_login_redirect:
  "ck \<in> set (rs_cookies (login_redirect u rq p f)) \<Longrightarrow>
     \<exists>url. ck \<in> set (rs_cookies (f (reply (Redirect url))))"
  by (auto simp: login_redirect_def split: sum.splits)

lemma cookies_setAuthCookie [simp]:
  "rs_cookies (setAuthCookie env (reply r) tok) = [auth_cookie env tok]"
  by (simp add: setAuthCookie_def)

lemmas login_splits = sum.splits option.splits rl_result.splits prod.splits if_splits

lemma login_cookie_user:
  assumes "ck \<in> set (rs_cookies (fst (login_POST d env now rq bs)))"
  obtains cr u tok where "fst (checkLoginRateLimit env now bs (loginRateLimitKey rq)) = RL_ok"
    "readCredentials rq = Inr cr"
    "authenticateUser (ld_verify d) (ld_find d) (cr_username cr) (cr_password cr) = Inr (Some u)"
    "signAuthToken (ld_sign d) env u = Inr tok" "ck = auth_cookie env tok"
proof -
  obtain rl bs1 where rl: "checkLoginRateLimit env now bs (loginRateLimitKey rq) = (rl, bs1)"
    by fastforce
  obtain cr where cr: "rl = RL_ok" "readCredentials rq = Inr cr"
    using assms rl by (auto simp: login_POST_def Let_def split: rl_result.splits sum.splits)
  let ?auth = "authenticateUser (ld_verify d) (ld_find d) (cr_username cr) (cr_password cr)"
  obtain au where au: "?auth = Inr (Some au)"
    using assms rl cr
    by (auto simp: login_POST_def Let_def split: sum.splits option.splits if_splits
        dest!: cookies_login_redirect)
  obtain tok where tok: "signAuthToken (ld_sign d) env au = Inr tok" "ck = auth_cookie env tok"
    using assms rl cr au
    by (auto simp: login_POST_def Let_def split: sum.splits if_splits dest!: cookies_login_redirect)
  show thesis by (rule that [OF _ cr(2) au tok]) (simp add: rl cr)
qed

text \<open>The login handler sets a session cookie only for a request that the
limiter let through and that named an existing user with a password their
stored hash accepts. The cookie is the one session cookie, hidden from
scripts, and carries the token signed with that user's own id, tenant and
role.\<close>

theorem login_cookie_sound:
  assumes "ck \<in> set (rs_cookies (fst (login_POST d env now rq bs)))"
  shows "\<exists>cr u tok k.
     fst (checkLoginRateLimit env now bs (loginRateLimitKey rq)) = RL_ok
     \<and> readCredentials rq = Inr cr \<and> cr_username cr \<noteq> [] \<and> cr_password cr \<noteq> []
     \<and> ld_find d (cr_username cr) = Inr (Some u) \<and> ld_verify d (cr_password cr) (us_passwordHash u)
     \<and> getJwtSecret env = Inr k
     \<and> ld_sign d \<lparr> cl_userId = Some (us_id u), cl_username = Some (us_username u),
                   cl_tenantId = Some (us_tenantId u), cl_isAdmin = us_isAdmin u, cl_iat = None \<rparr>
         (nullish (env_trim env ''DASHBOARD_JWT_EXPIRY'') ''24h'') k = Inr tok
     \<and> ck = auth_cookie env tok \<and> ck_httpOnly ck"
proof -
  obtain cr u tok where u: "fst (checkLoginRateLimit env now bs (loginRateLimitKey rq)) = RL_ok"
    "readCredentials rq = Inr cr"
    "authenticateUser (ld_verify d) (ld_find d) (cr_username cr) (cr_password cr) = Inr (Some u)"
    "signAuthToken (ld_sign d) env u = Inr tok" "ck = auth_cookie env tok"
    using assms by (rule login_cookie_user)
  then show ?thesis
    by (auto simp: authenticateUser_def signAuthToken_def user_claims_def auth_cookie_def Let_def
        split: sum.splits option.splits if_splits)
qed

text \<open>A concrete deployment for the witnesses: one user, whose stored value is
the password itself.\<close>

definition demo_deps :: login_deps where
  "demo_deps =
     \<lparr> ld_verify = (\<lambda>p h. p = h),
       ld_find = (\<lambda>n. Inr (if n = ''ops'' then
          Some \<lparr> us_id = ''u1'', us_username = ''ops'', us_passwordHash = ''pw'',
                 us_tenantId = ''t1'', us_isAdmin = False \<rparr> else None)),
       ld_sign = (\<lambda>c ttl k. Inr (nullish (cl_userId c) [] @ ttl)),
       ld_url = (\<lambda>p b. Inr (b @ p)) \<rparr>"

definition demo_login :: "string \<Rightarrow> request" where
  "demo_login pw =
     \<lparr> rq_protocol = ''http:'', rq_hostname = ''dash'', rq_origin = ''http://dash'',
       rq_path = ''/api/auth/login'', rq_search = [], rq_query = [],
       rq_headers = [(''content-type'', ''application/json''), (''x-real-ip'', ''203.0.113.7'')],
       rq_cookies = [],
       rq_body = Some (JObj [(''username'', JStr ''ops''), (''password'', JStr pw)]),
       rq_form = None \<rparr>"

definition demo_env :: env where
  "demo_env v =
     (if v = ''NODE_ENV'' then Some ''production''
      else if v = ''JWT_SECRET'' then Some ''0123456789abcdef0123456789abcdef''
      else if v = ''DASHBOARD_LOGIN_RL_MAX'' then Some ''2''
      else if v = ''LOG_GUARDIAN_TIER'' then Some ''pro''
      else None)"

lemma demo_key: "loginRateLimitKey (demo_login pw) = ''203.0.113.7''"
proof -
  have "trim ''203.0.113.7'' = ''203.0.113.7''" by code_simp
  then show ?thesis
    by (simp add: loginRateLimitKey_def demo_login_def js_defs)
qed

lemma demo_rl: "checkLoginRateLimit demo_env 0 [] ''203.0.113.7'' =
    (RL_ok, [(''203.0.113.7'', \<lparr>bk_count = 0, bk_resetAt = 900000\<rparr>)])"
  by code_simp

lemma demo_cr: "readCredentials (demo_login pw) =
    Inr \<lparr>cr_username = ''ops'', cr_password = pw, cr_browserForm = False\<rparr>"
  by (simp add: readCredentials_def demo_login_def js_defs)

lemma demo_auth: "authenticateUser (ld_verify demo_deps) (ld_find demo_deps) ''ops'' ''pw'' =
    Inr (Some \<lparr>au_id = ''u1'', au_username = ''ops'', au_tenantId = ''t1'', au_isAdmin = False\<rparr>)"
  by (simp add: authenticateUser_def demo_deps_def)

lemma demo_sign: "signAuthToken (ld_sign demo_deps) demo_env
     \<lparr>au_id = ''u1'', au_username = ''ops'', au_tenantId = ''t1'', au_isAdmin = False\<rparr> = Inr ''u124h''"
  by (simp add: signAuthToken_def getJwtSecret_def demo_deps_def demo_env_def user_claims_def js_defs)

theorem login_cookie_sound_witness:
  "ld_find demo_deps ''ops'' = Inr (Some \<lparr> us_id = ''u1'', us_username = ''ops'',
     us_passwordHash = ''pw'', us_tenantId = ''t1'', us_isAdmin = False \<rparr>)
   \<and> (\<exists>tok. auth_cookie demo_env ''u124h'' = auth_cookie demo_env tok
        \<and> ck_httpOnly (auth_cookie demo_env tok))"
proof -
  have "auth_cookie demo_env ''u124h''
      \<in> set (rs_cookies (fst (login_POST demo_deps demo_env 0 (demo_login ''pw'') [])))"
    using demo_rl demo_cr demo_auth demo_key
    by (simp add: login_POST_def demo_sign)
  from login_cookie_sound [OF this] show ?thesis
    by (auto simp: demo_deps_def)
qed

subsection \<open>Guessing passwords\<close>

definition login_run :: "login_deps \<Rightarrow> env \<Rightarrow> buckets \<Rightarrow> (int \<times> request) list \<Rightarrow> buckets" where
  "login_run d env bs rqs = foldl (\<lambda>bs (t, rq). snd (login_POST d env t rq bs)) bs rqs"

text \<open>A request whose credentials are read and refused.\<close>

definition bad_login :: "login_deps \<Rightarrow> request \<Rightarrow> bool" where
  "bad_login d rq =
     (case readCredentials rq of
        Inl _ \<Rightarrow> False
      | Inr cr \<Rightarrow> authenticateUser (ld_verify d) (ld_find d) (cr_username cr) (cr_password cr) = Inr None)"

lemma status_429:
  "rs_status (fst (login_POST d env t rq bs)) = 429 \<longleftrightarrow>
     fst (checkLoginRateLimit env t bs (loginRateLimitKey rq)) \<noteq> RL_ok"
  by (auto simp: login_POST_def Let_def internal_error_def setAuthCookie_def login_redirect_def
      split: login_splits)

lemma bad_login_state:
  assumes "bad_login d rq" "loginRateLimitKey rq = key"
    and "checkLoginRateLimit env t bs key = (rl, bs1)"
  shows "snd (login_POST d env t rq bs) =
           (if rl = RL_ok then recordLoginFailure env t bs1 key else bs1)"
  using assms by (auto simp: login_POST_def Let_def bad_login_def split: login_splits)

lemma bad_login_bucket:
  assumes bad: "bad_login d rq" "loginRateLimitKey rq = key" "\<not> bypassLoginRateLimit env key"
    and b: "map_get bs (bucket_key key) = Some b" "t < bk_resetAt b"
  shows "map_get (snd (login_POST d env t rq bs)) (bucket_key key) =
           Some (if MAX_ATTEMPTS env \<le> bk_count b then b else b\<lparr>bk_count := bk_count b + 1\<rparr>)"
proof -
  have "checkLoginRateLimit env t bs key =
      (if MAX_ATTEMPTS env \<le> bk_count b
       then (RL_blocked (ceil_div (bk_resetAt b - t) 1000), bs) else (RL_ok, bs))"
    using bad b by (simp add: checkLoginRateLimit_def open_bucket_live)
  then show ?thesis
    using bad b by (auto simp: bad_login_state recordLoginFailure_def open_bucket_live jsm.get_put)
qed

lemma login_run_bucket:
  assumes "\<not> bypassLoginRateLimit env key" "map_get bs (bucket_key key) = Some b"
    and "bk_count b \<le> MAX_ATTEMPTS env"
    and "\<forall>(t, rq) \<in> set rqs. loginRateLimitKey rq = key \<and> bad_login d rq \<and> t < bk_resetAt b"
  shows "map_get (login_run d env bs rqs) (bucket_key key) =
           Some (b\<lparr>bk_count := min (MAX_ATTEMPTS env) (bk_count b + int (length rqs))\<rparr>)"
  using assms
proof (induction rqs arbitrary: bs b)
  case (Cons x rqs)
  obtain t rq where x: "x = (t, rq)" by (cases x)
  let ?b = "if MAX_ATTEMPTS env \<le> bk_count b then b else b\<lparr>bk_count := bk_count b + 1\<rparr>"
  have "map_get (snd (login_POST d env t rq bs)) (bucket_key key) = Some ?b"
    using Cons.prems x by (intro bad_login_bucket) auto
  then have "map_get (login_run d env (snd (login_POST d env t rq bs)) rqs) (bucket_key key) =
      Some (?b\<lparr>bk_count := min (MAX_ATTEMPTS env) (bk_count ?b + int (length rqs))\<rparr>)"
    using Cons.prems x by (intro Cons.IH) auto
  then show ?case
    using Cons.prems(3) by (auto simp: login_run_def x min_def)
qed (auto simp: login_run_def min_def)

lemma first_bad_login:
  assumes "bad_login d rq" "loginRateLimitKey rq = key" "\<not> bypassLoginRateLimit env key"
    and "map_get bs (bucket_key key) = None" "0 < MAX_ATTEMPTS env"
  shows "map_get (snd (login_POST d env t rq bs)) (bucket_key key) =
           Some \<lparr>bk_count = 1, bk_resetAt = t + WINDOW_MS\<rparr>"
proof -
  let ?b = "\<lparr>bk_count = 0, bk_resetAt = t + WINDOW_MS\<rparr>"
  have "checkLoginRateLimit env t bs key = (RL_ok, map_set bs (bucket_key key) ?b)"
    using assms by (simp add: checkLoginRateLimit_def open_bucket_fresh)
  moreover have "open_bucket t (map_set bs (bucket_key key) ?b) (bucket_key key) =
      (?b, map_set bs (bucket_key key) ?b)"
    by (rule open_bucket_live) (simp_all add: jsm.get_put)
  ultimately show ?thesis
    using assms by (simp add: bad_login_state recordLoginFailure_def Let_def jsm.get_put)
qed

text \<open>C4. Password guessing is bounded: after refused logins of one client
within one window, its next request in that window is answered with status
429, before any credentials are read, exactly when the refused logins have
reached the maximum.\<close>

theorem login_guessing_bounded:
  assumes key: "\<not> bypassLoginRateLimit env key" "map_get bs (bucket_key key) = None"
    and max: "0 < MAX_ATTEMPTS env"
    and bad: "\<forall>(t, rq) \<in> set ((t0, rq0) # rqs).
                loginRateLimitKey rq = key \<and> bad_login d rq \<and> t < t0 + WINDOW_MS"
    and next_req: "loginRateLimitKey rq = key" "t < t0 + WINDOW_MS"
  shows "rs_status (fst (login_POST d env t rq (login_run d env bs ((t0, rq0) # rqs)))) = 429
         \<longleftrightarrow> MAX_ATTEMPTS env \<le> int (length ((t0, rq0) # rqs))"
proof -
  let ?bs = "snd (login_POST d env t0 rq0 bs)"
  have "map_get ?bs (bucket_key key) = Some \<lparr>bk_count = 1, bk_resetAt = t0 + WINDOW_MS\<rparr>"
    using key max bad by (intro first_bad_login) auto
  then have "map_get (login_run d env ?bs rqs) (bucket_key key) =
      Some \<lparr>bk_count = min (MAX_ATTEMPTS env) (1 + int (length rqs)), bk_resetAt = t0 + WINDOW_MS\<rparr>"
    using login_run_bucket [OF key(1), of ?bs "\<lparr>bk_count = 1, bk_resetAt = t0 + WINDOW_MS\<rparr>" rqs d] max bad
    by auto
  moreover have "login_run d env bs ((t0, rq0) # rqs) = login_run d env ?bs rqs"
    by (simp add: login_run_def)
  ultimately show ?thesis
    using key(1) next_req by (simp add: status_429 checkLoginRateLimit_def open_bucket_live)
qed

theorem login_guessing_bounded_witness:
  "rs_status (fst (login_POST demo_deps demo_env 9 (demo_login ''pw'')
     (login_run demo_deps demo_env [] [(0, demo_login ''a''), (5, demo_login ''b'')]))) = 429"
proof -
  have "\<not> bypassLoginRateLimit demo_env ''203.0.113.7''" "MAX_ATTEMPTS demo_env = 2"
    by code_simp+
  moreover have "bad_login demo_deps (demo_login ''a'')" "bad_login demo_deps (demo_login ''b'')"
    by (simp_all add: bad_login_def demo_cr authenticateUser_def demo_deps_def)
  ultimately show ?thesis
    using login_guessing_bounded [of demo_env "''203.0.113.7''" "[]" 0 "demo_login ''a''"
        "[(5, demo_login ''b'')]" demo_deps "demo_login ''pw''" 9]
    by (simp add: WINDOW_MS_def map_get_def demo_key)
qed

end
