(* ===== verification/Tier.thy ===== *)
theory Tier
  imports Http
begin

section \<open>The product tier\<close>

text \<open>
  \<^verbatim>\<open>lib/tier.ts\<close>: the tier read from the environment, the order of the
  tiers, the features each enables and the routes it gates.
\<close>

datatype SaasTier = Community | Pro | Pro_plus | Enterprise

fun TIER_ORDER :: "SaasTier \<Rightarrow> nat" where
  "TIER_ORDER Community = 0"
| "TIER_ORDER Pro = 1"
| "TIER_ORDER Pro_plus = 2"
| "TIER_ORDER Enterprise = 3"

text \<open>The string each tier is in the sources.\<close>

fun tier_name :: "SaasTier \<Rightarrow> string" where
  "tier_name Community = ''community''"
| "tier_name Pro = ''pro''"
| "tier_name Pro_plus = ''pro_plus''"
| "tier_name Enterprise = ''enterprise''"

definition normalizeSaasTier :: "string \<Rightarrow> SaasTier" where
  "normalizeSaasTier raw =
     (let s = replace_char CHR ''-'' CHR ''_'' (toLowerCase (trim raw))
      in if s = ''proplus'' then Pro_plus
         else if s = ''community'' then Community
         else if s = ''pro'' then Pro
         else if s = ''pro_plus'' then Pro_plus
         else if s = ''enterprise'' then Enterprise
         else Community)"

definition resolveSaasTier :: "env \<Rightarrow> SaasTier" where
  "resolveSaasTier env = normalizeSaasTier (or_default (env ''LOG_GUARDIAN_TIER'') ''community'')"

definition tierAtLeast :: "env \<Rightarrow> SaasTier \<Rightarrow> bool" where
  "tierAtLeast env required = (TIER_ORDER required \<le> TIER_ORDER (resolveSaasTier env))"

record tier_features =
  ft_fleet :: bool
  ft_compliance :: bool
  ft_multiTenant :: bool
  ft_k8sKindCluster :: bool
  ft_helmChart :: bool
  ft_k8sOperator :: bool
  ft_wasmSignedMarketplace :: bool
  ft_ebpfMandatoryRunbook :: bool

record tier_resources =
  coreRamMb :: nat
  proStackRamMb :: nat
  proPlusStackRamMb :: nat
  coreDiskMb :: nat
  proStackDiskGb :: nat
  proPlusStackDiskGb :: nat

record tier_status =
  ts_tier :: SaasTier
  ts_displayName :: string
  ts_features :: tier_features
  ts_resources :: tier_resources
  ts_env :: string
  ts_hint :: string

definition tierStatus :: "env \<Rightarrow> tier_status" where
  "tierStatus env =
     (let tier = resolveSaasTier env in
      \<lparr> ts_tier = tier,
        ts_displayName =
          (if tier = Pro_plus then ''Pro Plus''
           else if tier = Enterprise then ''Enterprise''
           else if tier = Pro then ''Pro''
           else ''Community''),
        ts_features =
          \<lparr> ft_fleet = tierAtLeast env Pro,
            ft_compliance = tierAtLeast env Pro,
            ft_multiTenant = tierAtLeast env Pro,
            ft_k8sKindCluster = tierAtLeast env Pro_plus,
            ft_helmChart = tierAtLeast env Pro_plus,
            ft_k8sOperator = tierAtLeast env Pro_plus,
            ft_wasmSignedMarketplace = tierAtLeast env Enterprise,
            ft_ebpfMandatoryRunbook = tierAtLeast env Enterprise \<rparr>,
        ts_resources =
          \<lparr> coreRamMb = 120, proStackRamMb = 730, proPlusStackRamMb = 1900,
            coreDiskMb = 4, proStackDiskGb = 5, proPlusStackDiskGb = 8 \<rparr>,
        ts_env = ''LOG_GUARDIAN_TIER'',
        ts_hint =
          (if tier = Community
             then ''Pro: LOG_GUARDIAN_TIER=pro (U+2014) fleet + compliance''
           else if tier = Pro
             then ''Pro Plus: LOG_GUARDIAN_TIER=pro_plus (U+2014) K8s/Helm kaniti (bash scripts/pro_plus_stack.sh)''
           else if tier = Pro_plus
             then ''Enterprise: LOG_GUARDIAN_TIER=enterprise (U+2014) imzali Wasm marketplace''
           else ''Enterprise tier aktif'') \<rparr>)"

definition isProRoute :: "string \<Rightarrow> bool" where
  "isProRoute pathname =
     (if pathname = ''/fleet'' \<or> startsWith pathname ''/fleet/'' then True
      else if startsWith pathname ''/api/fleet'' then True
      else if startsWith pathname ''/api/tenants/isolation'' then True
      else if pathname = ''/api/reports/export'' \<or> startsWith pathname ''/api/reports/export/'' then True
      else False)"

definition isEnterpriseRoute :: "string \<Rightarrow> bool" where
  "isEnterpriseRoute pathname = startsWith pathname ''/api/marketplace/signed''"

subsection \<open>The tiers are a linear order\<close>

instantiation SaasTier :: linorder
begin

definition less_eq_SaasTier :: "SaasTier \<Rightarrow> SaasTier \<Rightarrow> bool" where
  "less_eq_SaasTier a b = (TIER_ORDER a \<le> TIER_ORDER b)"

definition less_SaasTier :: "SaasTier \<Rightarrow> SaasTier \<Rightarrow> bool" where
  "less_SaasTier a b = (TIER_ORDER a < TIER_ORDER b)"

instance
proof
  fix a b :: SaasTier
  assume "a \<le> b" "b \<le> a"
  then show "a = b"
    by (cases a; cases b) (simp_all add: less_eq_SaasTier_def)
qed (auto simp: less_eq_SaasTier_def less_SaasTier_def)

end

lemma tierAtLeast_le: "tierAtLeast env t \<longleftrightarrow> t \<le> resolveSaasTier env"
  by (simp add: tierAtLeast_def less_eq_SaasTier_def)

lemma normalize_names:
  "normalizeSaasTier ''community'' = Community" "normalizeSaasTier ''pro'' = Pro"
  "normalizeSaasTier ''pro_plus'' = Pro_plus" "normalizeSaasTier ''enterprise'' = Enterprise"
  by code_simp+

lemma normalize_tier_name: "normalizeSaasTier (tier_name t) = t"
  by (cases t) (simp_all add: normalize_names)

lemma resolve_unset: "env ''LOG_GUARDIAN_TIER'' = None \<Longrightarrow> resolveSaasTier env = Community"
  using normalize_tier_name [of Community] by (simp add: resolveSaasTier_def js_defs)

text \<open>The tier gate is an order: a tier's own name (and no variable at all,
read as community) resolves to it, a feature that a tier has every higher tier
has too, and only an environment that names the enterprise tier passes the
enterprise gate.\<close>

theorem tier_gate_order:
  "resolveSaasTier (env(''LOG_GUARDIAN_TIER'' := Some (tier_name t))) = t
   \<and> resolveSaasTier (env(''LOG_GUARDIAN_TIER'' := None)) = Community
   \<and> {r. tierAtLeast env r} = {.. resolveSaasTier env}
   \<and> (ts_features (tierStatus env) =
        (let l = (\<lambda>r. r \<le> resolveSaasTier env) in
         \<lparr> ft_fleet = l Pro, ft_compliance = l Pro, ft_multiTenant = l Pro,
           ft_k8sKindCluster = l Pro_plus, ft_helmChart = l Pro_plus, ft_k8sOperator = l Pro_plus,
           ft_wasmSignedMarketplace = l Enterprise, ft_ebpfMandatoryRunbook = l Enterprise \<rparr>))
   \<and> (tierAtLeast env Enterprise \<longleftrightarrow>
        (\<exists>raw. env ''LOG_GUARDIAN_TIER'' = Some raw \<and> toLowerCase (trim raw) = ''enterprise''))"
proof -
  have ent: "replace_char CHR ''-'' CHR ''_'' s = ''enterprise'' \<longleftrightarrow> s = ''enterprise''" for s
    by (rule replace_char_eq) simp_all
  have top: "tierAtLeast env Enterprise \<longleftrightarrow> resolveSaasTier env = Enterprise"
    by (cases "resolveSaasTier env") (simp_all add: tierAtLeast_def)
  have 1: "resolveSaasTier (env(''LOG_GUARDIAN_TIER'' := Some (tier_name t))) = t"
    by (cases t) (simp_all add: resolveSaasTier_def or_default_def normalize_names)
  have 2: "normalizeSaasTier raw = Enterprise \<longleftrightarrow> toLowerCase (trim raw) = ''enterprise''" for raw
    by (simp add: normalizeSaasTier_def Let_def ent) (simp add: replace_char_def)
  have c: "toLowerCase (trim ''community'') \<noteq> ''enterprise''" "toLowerCase (trim []) \<noteq> ''enterprise''"
    by code_simp+
  have 3: "tierAtLeast env Enterprise \<longleftrightarrow>
        (\<exists>raw. env ''LOG_GUARDIAN_TIER'' = Some raw \<and> toLowerCase (trim raw) = ''enterprise'')"
    unfolding top resolveSaasTier_def 2
    using c by (auto simp: or_default_def split: option.splits)
  show ?thesis
    using 1 3 resolve_unset [of "env(''LOG_GUARDIAN_TIER'' := None)"]
    by (auto simp: tierAtLeast_le tierStatus_def Let_def)
qed

end
