(* ===== verification/Middleware.thy ===== *)
theory Middleware
  imports Tier Auth
begin

section \<open>The request middleware and the tenant guard\<close>

text \<open>
  \<^verbatim>\<open>src/middleware.ts\<close> and \<^verbatim>\<open>lib/tenantGuard.ts\<close>. The middleware either
  answers a request itself or passes it to its route handler with the request
  headers the handler will read. \<open>jwtVerify\<close> is a parameter; it throws on an
  invalid token (\<^term>\<open>None\<close>).
\<close>

definition PUBLIC_FILE :: rx where
  "PUBLIC_FILE =
     RSeq (rlit ''.'')
       (ralts [rlit_i ''svg'', rlit_i ''png'',
               RSeq (rlit_i ''jp'') (RSeq (ropt (rlit_i ''e'')) (rlit_i ''g'')),
               rlit_i ''gif'', rlit_i ''webp'', rlit_i ''ico''])"

text \<open>\<open>s.split(sep)[0]\<close>.\<close>

fun split_head :: "string \<Rightarrow> string \<Rightarrow> string" where
  "split_head sep [] = []"
| "split_head sep (c # s) = (if startsWith (c # s) sep then [] else c # split_head sep s)"

datatype mw_result = Next headers | Respond response

definition grafanaBase :: "env \<Rightarrow> string" where
  "grafanaBase env =
     or_default (js_or (env ''GRAFANA_EXTERNAL_URL'')
                       (map_option (split_head ''/d/'') (env ''NEXT_PUBLIC_GRAFANA_EMBED_URL'')))
       ''http://127.0.0.1:3002''"

definition isAgentBearerApi :: "string \<Rightarrow> bool" where
  "isAgentBearerApi p = (p = ''/api/fleet/commands'' \<or> p = ''/api/fleet/commands/ack'')"

definition isPublicDataRoomFile :: "string \<Rightarrow> bool" where
  "isPublicDataRoomFile p =
     (p = ''/api/data-room/competitive-proof.pdf'' \<or> p = ''/api/data-room/competitive-proof.json'')"

definition isPublicApi :: "string \<Rightarrow> bool" where
  "isPublicApi p =
     (p = ''/api/auth/login'' \<or> p = ''/api/telemetry'' \<or> p = ''/api/tier''
      \<or> p = ''/api/metrics/fleet'' \<or> p = ''/api/internal/bans-invalidate''
      \<or> isPublicDataRoomFile p \<or> isAgentBearerApi p)"

definition tier_denied :: "env \<Rightarrow> string \<Rightarrow> string \<Rightarrow> response" where
  "tier_denied env err hint =
     json_reply 403 [(''error'', JStr err),
                     (''tier'', JStr (or_default (env ''LOG_GUARDIAN_TIER'') ''community'')),
                     (''hint'', JStr hint)]"

definition tierBlocked :: "env \<Rightarrow> SaasTier \<Rightarrow> response option" where
  "tierBlocked env required =
     (if required = Enterprise \<and> \<not> tierAtLeast env Enterprise
      then Some (tier_denied env ''Enterprise tier required'' ''Set LOG_GUARDIAN_TIER=enterprise'')
      else if required = Pro \<and> \<not> tierAtLeast env Pro
      then Some (tier_denied env ''Pro tier required'' ''Set LOG_GUARDIAN_TIER=pro for fleet + compliance'')
      else None)"

text \<open>A claim read as a header value: an absent one is the text \<open>undefined\<close>.\<close>

definition claim_text :: "string option \<Rightarrow> string" where
  "claim_text c = (case c of None \<Rightarrow> ''undefined'' | Some s \<Rightarrow> s)"

definition user_headers :: "claims \<Rightarrow> headers \<Rightarrow> headers" where
  "user_headers payload h =
     (let h1 = headers_set h ''X-User-Tenant'' (claim_text (cl_tenantId payload));
          h2 = headers_set h1 ''X-User-Role'' (if cl_isAdmin payload then ''admin'' else ''user'')
      in if \<not> cl_isAdmin payload
         then headers_set h2 ''X-Tenant-Id'' (claim_text (cl_tenantId payload))
         else h2)"

definition idle_expired :: "env \<Rightarrow> int \<Rightarrow> claims \<Rightarrow> bool" where
  "idle_expired env now payload =
     (case (parseInt (or_default (env ''DASHBOARD_JWT_IDLE_MIN'') ''0''), cl_iat payload) of
        (Some idleMin, Some iat) \<Rightarrow> 0 < idleMin \<and> idleMin * 60 < now div 1000 - iat
      | _ \<Rightarrow> False)"

type_synonym jwt_verify = "string \<Rightarrow> bytes \<Rightarrow> claims option"

definition verify_session :: "jwt_verify \<Rightarrow> env \<Rightarrow> string \<Rightarrow> claims option" where
  "verify_session jwtVerify env token =
     (case getJwtSecret env of Inl _ \<Rightarrow> None | Inr secret \<Rightarrow> jwtVerify token secret)"

definition open_path :: "string \<Rightarrow> bool" where
  "open_path p = (p = ''/login'' \<or> isPublicApi p \<or> p = ''/competitive-proof'')"

definition refuse :: "request \<Rightarrow> mw_result" where
  "refuse rq =
     (if open_path (rq_path rq) then Next (rq_headers rq)
      else if startsWith (rq_path rq) ''/api/'' then Respond (error_reply 401 ''Unauthorized'')
      else Respond (reply (Redirect (rq_origin rq @ ''/login''))))"

definition tier_gate :: "env \<Rightarrow> request \<Rightarrow> SaasTier \<Rightarrow> mw_result option" where
  "tier_gate env rq required =
     (case tierBlocked env required of
        None \<Rightarrow> None
      | Some blocked \<Rightarrow>
          Some (Respond (if startsWith (rq_path rq) ''/api/'' then blocked
                         else reply (Redirect (rq_origin rq @ ''/'')))))"

definition session_step :: "env \<Rightarrow> int \<Rightarrow> request \<Rightarrow> claims \<Rightarrow> mw_result" where
  "session_step env now rq payload =
     (if idle_expired env now payload
      then Respond \<lparr> rs_reply = Redirect (rq_origin rq @ ''/login?session=expired''),
                     rs_cookies = [], rs_delete = [''auth_token''] \<rparr>
      else if rq_path rq = ''/login'' then Respond (reply (Redirect (rq_origin rq @ ''/'')))
      else Next (user_headers payload (rq_headers rq)))"

definition middleware :: "jwt_verify \<Rightarrow> env \<Rightarrow> int \<Rightarrow> request \<Rightarrow> mw_result" where
  "middleware jwtVerify env now rq =
     (let pathname = rq_path rq; token = cookie_value rq ''auth_token'' in
      if rx_suffix PUBLIC_FILE pathname then Next (rq_headers rq)
      else if startsWith pathname ''/alerting''
      then Respond (reply (Redirect (grafanaBase env @ pathname @ rq_search rq)))
      else case (if isEnterpriseRoute pathname then tier_gate env rq Enterprise else None) of
        Some r \<Rightarrow> r
      | None \<Rightarrow>
          (case (if isProRoute pathname then tier_gate env rq Pro else None) of
             Some r \<Rightarrow> r
           | None \<Rightarrow>
               if \<not> truthy token then refuse rq
               else (case verify_session jwtVerify env (the token) of
                       None \<Rightarrow> refuse rq
                     | Some payload \<Rightarrow> session_step env now rq payload)))"

subsection \<open>The tenant guard\<close>

datatype tenant_filter = All_tenants | Only_tenant "string option"

definition tenantWhere :: "request \<Rightarrow> tenant_filter" where
  "tenantWhere rq =
     (if header rq ''x-user-role'' = Some ''admin'' then All_tenants
      else Only_tenant (header rq ''x-user-tenant''))"

definition requireTenantId :: "request \<Rightarrow> string option" where
  "requireTenantId rq =
     (if header rq ''x-user-role'' = Some ''admin'' then None else header rq ''x-user-tenant'')"

definition tenantAccessDenied :: "request \<Rightarrow> string \<Rightarrow> bool" where
  "tenantAccessDenied rq targetTenantId =
     (if header rq ''x-user-role'' = Some ''admin'' then False
      else let userTenant = header rq ''x-user-tenant''
           in truthy userTenant \<and> targetTenantId \<noteq> [] \<and> the userTenant \<noteq> targetTenantId)"

subsection \<open>Shared lemmas\<close>

lemma refuse_Next: "refuse rq = Next h \<longleftrightarrow> open_path (rq_path rq) \<and> h = rq_headers rq"
  by (auto simp: refuse_def)

lemma tier_gate_not_Next: "tier_gate env rq t \<noteq> Some (Next h)"
  by (auto simp: tier_gate_def split: option.splits)

lemma tier_gate_None:
  "tier_gate env rq Enterprise = None \<longleftrightarrow> tierAtLeast env Enterprise"
  "tier_gate env rq Pro = None \<longleftrightarrow> tierAtLeast env Pro"
  by (auto simp: tier_gate_def tierBlocked_def)

lemma session_step_Next:
  "session_step env now rq cl = Next h \<longleftrightarrow>
     \<not> idle_expired env now cl \<and> rq_path rq \<noteq> ''/login'' \<and> h = user_headers cl (rq_headers rq)"
  by (auto simp: session_step_def)

lemma header_names [simp]:
  "toLowerCase ''X-User-Tenant'' = ''x-user-tenant''" "toLowerCase ''x-user-tenant'' = ''x-user-tenant''"
  "toLowerCase ''X-User-Role'' = ''x-user-role''" "toLowerCase ''x-user-role'' = ''x-user-role''"
  "toLowerCase ''X-Tenant-Id'' = ''x-tenant-id''" "toLowerCase ''x-tenant-id'' = ''x-tenant-id''"
  by (simp_all add: toLowerCase_def)

lemma user_headers_get:
  "headers_get (user_headers cl h) n =
     (if toLowerCase n = ''x-user-role'' then Some (if cl_isAdmin cl then ''admin'' else ''user'')
      else if toLowerCase n = ''x-user-tenant'' then Some (claim_text (cl_tenantId cl))
      else if toLowerCase n = ''x-tenant-id'' \<and> \<not> cl_isAdmin cl then Some (claim_text (cl_tenantId cl))
      else headers_get h n)"
  by (simp add: user_headers_def Let_def)

lemma gate_None:
  "(if isEnterpriseRoute p then tier_gate env rq Enterprise else None) = None \<longleftrightarrow>
     (isEnterpriseRoute p \<longrightarrow> tierAtLeast env Enterprise)"
  "(if isProRoute p then tier_gate env rq Pro else None) = None \<longleftrightarrow>
     (isProRoute p \<longrightarrow> tierAtLeast env Pro)"
  by (simp_all add: tier_gate_None)

lemma gate_not_Next: "(if b then tier_gate env rq t else None) \<noteq> Some (Next h)"
  by (simp add: tier_gate_not_Next)

lemma middleware_open:
  assumes "\<not> rx_suffix PUBLIC_FILE (rq_path rq)"
  shows "middleware v env now rq = Next h \<longleftrightarrow>
     \<not> startsWith (rq_path rq) ''/alerting''
     \<and> (isEnterpriseRoute (rq_path rq) \<longrightarrow> tierAtLeast env Enterprise)
     \<and> (isProRoute (rq_path rq) \<longrightarrow> tierAtLeast env Pro)
     \<and> (if truthy (cookie_value rq ''auth_token'')
        then case verify_session v env (the (cookie_value rq ''auth_token'')) of
               None \<Rightarrow> refuse rq | Some cl \<Rightarrow> session_step env now rq cl
        else refuse rq) = Next h"
proof -
  define ent where "ent = (if isEnterpriseRoute (rq_path rq) then tier_gate env rq Enterprise else None)"
  define pro where "pro = (if isProRoute (rq_path rq) then tier_gate env rq Pro else None)"
  have m: "middleware v env now rq =
      (if startsWith (rq_path rq) ''/alerting''
       then Respond (reply (Redirect (grafanaBase env @ rq_path rq @ rq_search rq)))
       else case ent of Some r \<Rightarrow> r
          | None \<Rightarrow> (case pro of Some r \<Rightarrow> r
             | None \<Rightarrow> if \<not> truthy (cookie_value rq ''auth_token'') then refuse rq
                 else (case verify_session v env (the (cookie_value rq ''auth_token'')) of
                         None \<Rightarrow> refuse rq | Some cl \<Rightarrow> session_step env now rq cl)))"
    using assms by (simp only: middleware_def Let_def ent_def pro_def if_False)
  have "ent \<noteq> Some (Next h)" "pro \<noteq> Some (Next h)"
    unfolding ent_def pro_def by (rule gate_not_Next)+
  moreover have "(isEnterpriseRoute (rq_path rq) \<longrightarrow> tierAtLeast env Enterprise) = (ent = None)"
    "(isProRoute (rq_path rq) \<longrightarrow> tierAtLeast env Pro) = (pro = None)"
    unfolding ent_def pro_def by (simp_all only: gate_None)
  ultimately show ?thesis
    unfolding m by (cases ent; cases pro) auto
qed

lemma middleware_session:
  assumes "\<not> rx_suffix PUBLIC_FILE (rq_path rq)" "cookie_value rq ''auth_token'' = Some tok"
    and "tok \<noteq> []" "verify_session v env tok = Some cl"
  shows "middleware v env now rq = Next h \<longleftrightarrow>
     \<not> startsWith (rq_path rq) ''/alerting''
     \<and> (isEnterpriseRoute (rq_path rq) \<longrightarrow> tierAtLeast env Enterprise)
     \<and> (isProRoute (rq_path rq) \<longrightarrow> tierAtLeast env Pro)
     \<and> \<not> idle_expired env now cl \<and> rq_path rq \<noteq> ''/login'' \<and> h = user_headers cl (rq_headers rq)"
  using assms by (simp add: middleware_open truthy_def session_step_Next)

lemma middleware_closed:
  assumes "middleware v env now rq = Next h"
    and "\<not> rx_suffix PUBLIC_FILE (rq_path rq)" "\<not> open_path (rq_path rq)"
  obtains tok cl where "cookie_value rq ''auth_token'' = Some tok" "tok \<noteq> []"
    "verify_session v env tok = Some cl"
proof -
  have "truthy (cookie_value rq ''auth_token'')"
    using assms by (auto simp: middleware_open refuse_Next split: if_splits)
  then obtain tok where t: "cookie_value rq ''auth_token'' = Some tok" "tok \<noteq> []"
    by (auto simp: truthy_def split: option.splits)
  have "verify_session v env tok \<noteq> None"
    using assms t by (auto simp: middleware_open truthy_def refuse_Next split: option.splits)
  then show thesis using t that by blast
qed

subsection \<open>Properties\<close>

text \<open>C2. Complete mediation: outside the public files and the listed open
paths, a request reaches its handler only with a session token that verifies
and is not idle, only in a tier that has the route, and the role and tenant
the handler reads are the token's, whatever the client sent.\<close>

theorem middleware_mediates:
  assumes "middleware v env now rq = Next h"
    and "\<not> rx_suffix PUBLIC_FILE (rq_path rq)" "\<not> open_path (rq_path rq)"
  shows "\<exists>tok cl. cookie_value rq ''auth_token'' = Some tok \<and> verify_session v env tok = Some cl
     \<and> \<not> idle_expired env now cl
     \<and> headers_get h ''x-user-role'' = Some (if cl_isAdmin cl then ''admin'' else ''user'')
     \<and> headers_get h ''x-user-tenant'' = Some (claim_text (cl_tenantId cl))
     \<and> (cl_isAdmin cl \<or> headers_get h ''x-tenant-id'' = Some (claim_text (cl_tenantId cl)))
     \<and> (\<not> isProRoute (rq_path rq) \<or> tierAtLeast env Pro)
     \<and> (\<not> isEnterpriseRoute (rq_path rq) \<or> tierAtLeast env Enterprise)"
proof -
  obtain tok cl where t: "cookie_value rq ''auth_token'' = Some tok" "tok \<noteq> []"
    "verify_session v env tok = Some cl"
    using middleware_closed [OF assms] by blast
  show ?thesis
    using assms(1) t unfolding middleware_session [OF assms(2) t]
    by (auto simp: user_headers_get)
qed



text \<open>The idle timeout has no effect on the tokens the login handler
issues: they carry no issue time, so the middleware's answer to a request
with such a token does not depend on the clock, whatever idle limit is
configured.\<close>

theorem issued_tokens_never_idle:
  assumes law: "\<And>c ttl k tok. sign c ttl k = Inr tok \<Longrightarrow> v tok k = Some c"
    and tok: "signAuthToken sign env u = Inr tok"
    and ck: "cookie_value rq ''auth_token'' = Some tok"
  shows "middleware v env now rq = middleware v env later rq"
proof -
  have "idle_expired env t cl = False" if "verify_session v env tok = Some cl" for t cl
  proof -
    from tok obtain k where k: "getJwtSecret env = Inr k" "v tok k = Some (user_claims u)"
      by (auto simp: signAuthToken_def Let_def split: sum.splits dest: law)
    with that have "cl = user_claims u" by (simp add: verify_session_def)
    then show ?thesis by (auto simp: idle_expired_def user_claims_def split: option.splits)
  qed
  then show ?thesis
    using ck by (auto simp: middleware_def session_step_def Let_def split: option.splits)
qed

subsection \<open>Witnesses\<close>

definition mw_env :: env where
  "mw_env v = (if v = ''LOG_GUARDIAN_TIER'' then Some ''pro''
               else if v = ''DASHBOARD_JWT_IDLE_MIN'' then Some ''30'' else None)"

text \<open>Tokens of a stand-in library: the claims of one known token text.\<close>

definition mw_verify :: jwt_verify where
  "mw_verify tok k =
     (if tok = ''tok'' then
        Some \<lparr> cl_userId = Some ''u1'', cl_username = Some ''ops'', cl_tenantId = Some ''t1'',
               cl_isAdmin = False, cl_iat = None \<rparr>
      else None)"

definition mw_request :: "string \<Rightarrow> (string \<times> string) list \<Rightarrow> request" where
  "mw_request p cks =
     \<lparr> rq_protocol = ''http:'', rq_hostname = ''dash'', rq_origin = ''http://dash'',
       rq_path = p, rq_search = [], rq_query = [],
       rq_headers = [(''x-user-role'', ''admin'')], rq_cookies = cks, rq_body = None, rq_form = None \<rparr>"

definition mw_claims :: claims where
  "mw_claims = \<lparr> cl_userId = Some ''u1'', cl_username = Some ''ops'', cl_tenantId = Some ''t1'',
                 cl_isAdmin = False, cl_iat = None \<rparr>"

lemma mw_demo:
  "middleware mw_verify mw_env 0 (mw_request ''/api/fleet'' [(''auth_token'', ''tok'')]) =
     Next (user_headers mw_claims [(''x-user-role'', ''admin'')])"
proof -
  have "\<not> rx_suffix PUBLIC_FILE ''/api/fleet''" "tierAtLeast mw_env Pro"
    "parseInt ''30'' = Some 30"
    by code_simp+
  then show ?thesis
    by (simp add: middleware_open session_step_Next mw_request_def isEnterpriseRoute_def cookie_value_def truthy_def verify_session_def
        mw_verify_def mw_claims_def getJwtSecret_def mw_env_def idle_expired_def or_default_def)
qed

lemma mw_closed: "\<not> rx_suffix PUBLIC_FILE (rq_path (mw_request ''/api/fleet'' cks))"
  "\<not> open_path (rq_path (mw_request ''/api/fleet'' cks))"
proof -
  have "\<not> rx_suffix PUBLIC_FILE ''/api/fleet''" by code_simp
  then show "\<not> rx_suffix PUBLIC_FILE (rq_path (mw_request ''/api/fleet'' cks))"
    by (simp add: mw_request_def)
qed (simp add: mw_request_def open_path_def isPublicApi_def isPublicDataRoomFile_def isAgentBearerApi_def)

theorem middleware_mediates_witness:
  "\<exists>cl. mw_verify ''tok'' (utf8 ''dev-only-insecure-jwt-secret-32chars!!'') = Some cl
     \<and> headers_get (user_headers mw_claims [(''x-user-role'', ''admin'')]) ''x-user-role'' = Some ''user''"
  using middleware_mediates [OF mw_demo mw_closed]
  by (auto simp: mw_request_def cookie_value_def mw_verify_def verify_session_def split: sum.splits)



theorem issued_tokens_never_idle_witness:
  "middleware (\<lambda>tok k. Some mw_claims) mw_env 0 (mw_request ''/api/fleet'' [(''auth_token'', ''tok'')]) =
   middleware (\<lambda>tok k. Some mw_claims) mw_env 86400000 (mw_request ''/api/fleet'' [(''auth_token'', ''tok'')])"
proof -
  let ?sign = "\<lambda>c ttl k. if c = mw_claims then Inr ''tok'' else Inl []"
  have 1: "?sign c ttl k = Inr tok \<Longrightarrow> Some mw_claims = Some c" for c ttl k tok
    by (simp split: if_splits)
  have 2: "signAuthToken ?sign mw_env
      \<lparr>au_id = ''u1'', au_username = ''ops'', au_tenantId = ''t1'', au_isAdmin = False\<rparr> = Inr ''tok''"
    by (simp add: signAuthToken_def user_claims_def mw_claims_def getJwtSecret_def mw_env_def js_defs)
  have 3: "cookie_value (mw_request ''/api/fleet'' [(''auth_token'', ''tok'')]) ''auth_token'' = Some ''tok''"
    by (simp add: mw_request_def cookie_value_def)
  show ?thesis by (rule issued_tokens_never_idle [OF 1 2 3])
qed

end
