(* ===== verification/BanUtils.thy ===== *)
theory BanUtils
  imports Regex
begin

section \<open>IPv4 syntax and ban candidates (\<^verbatim>\<open>lib/banUtils.ts\<close>)\<close>

text \<open>
  \<open>IPV4_RE\<close> guards every ban the dashboard executes. It is translated alternative
  by alternative and shown to accept exactly the dotted quads whose four parts
  are one to three digits with value at most 255. \<open>collectBanIpsFromTree\<close> turns
  the \<open>NET_CONNECT\<close> events of an attack tree into ban candidates.
\<close>

text \<open>\<^verbatim>\<open>25[0-5]|2[0-4][0-9]|[01]?[0-9][0-9]?\<close>\<close>

definition octet_rx :: rx where
  "octet_rx =
     RAlt (RSeq (rlit ''25'') (rset ''012345''))
       (RAlt (RSeq (rlit ''2'') (RSeq (rset ''01234'') rdigit))
         (RSeq (ropt (rset ''01'')) (RSeq rdigit (ropt rdigit))))"

text \<open>\<^verbatim>\<open>^(?:(?:...)\.){3}(?:...)$\<close>\<close>

definition IPV4_RE :: rx where
  "IPV4_RE = RSeq (rtimes 3 (RSeq octet_rx (rlit ''.''))) octet_rx"

record tree_event =
  ev_type :: "string option"
  ev_detail :: "string option"

definition ipFromConnectDetail :: "string option \<Rightarrow> string option" where
  "ipFromConnectDetail detail =
     (case detail of
        None \<Rightarrow> None
      | Some d \<Rightarrow>
          if d = [] then None
          else let ip = trim (hd (splitOn CHR '':'' d))
               in if ip \<noteq> [] \<and> rx_full IPV4_RE ip then Some ip else None)"

definition collect_step :: "string list \<Rightarrow> tree_event \<Rightarrow> string list" where
  "collect_step ips ev =
     (if ev_type ev = Some ''NET_CONNECT''
      then (case ipFromConnectDetail (ev_detail ev) of None \<Rightarrow> ips | Some ip \<Rightarrow> set_add ips ip)
      else ips)"

definition collectBanIpsFromTree :: "tree_event list option \<Rightarrow> string list" where
  "collectBanIpsFromTree events = foldl collect_step [] (nullish events [])"

subsection \<open>The reference definition of an IPv4 address\<close>

definition is_octet :: "string \<Rightarrow> bool" where
  "is_octet s = (s \<noteq> [] \<and> length s \<le> 3 \<and> (\<forall>c \<in> set s. is_digit c) \<and> dec_val s \<le> 255)"

definition is_ipv4 :: "string \<Rightarrow> bool" where
  "is_ipv4 s =
     (let parts = splitOn CHR ''.'' s in length parts = 4 \<and> (\<forall>p \<in> set parts. is_octet p))"

lemma digit_val_le: "is_digit c \<Longrightarrow> digit_val c \<le> 9"
  by (auto simp: is_digit_def digit_val_def)

lemma digit_ranges:
  "c \<in> set ''012345'' \<longleftrightarrow> is_digit c \<and> digit_val c \<le> 5"
  "c \<in> set ''01234'' \<longleftrightarrow> is_digit c \<and> digit_val c \<le> 4"
  "c \<in> set ''01'' \<longleftrightarrow> is_digit c \<and> digit_val c \<le> 1"
  "c = CHR ''2'' \<longleftrightarrow> is_digit c \<and> digit_val c = 2"
  "c = CHR ''5'' \<longleftrightarrow> is_digit c \<and> digit_val c = 5"
  by (auto simp: is_digit_def digit_val_def)

text \<open>The pattern with its character classes read as digit ranges.\<close>

abbreviation dcls :: "(nat \<Rightarrow> bool) \<Rightarrow> rx" where
  "dcls P \<equiv> RCls (\<lambda>c. is_digit c \<and> P (digit_val c))"

lemma octet_rx_ranges:
  "octet_rx =
     RAlt (RSeq (RSeq (dcls (\<lambda>n. n = 2)) (RSeq (dcls (\<lambda>n. n = 5)) REps)) (dcls (\<lambda>n. n \<le> 5)))
       (RAlt (RSeq (RSeq (dcls (\<lambda>n. n = 2)) REps) (RSeq (dcls (\<lambda>n. n \<le> 4)) rdigit))
         (RSeq (ropt (dcls (\<lambda>n. n \<le> 1))) (RSeq rdigit (ropt rdigit))))"
  unfolding octet_rx_def rset_def rlit.simps digit_ranges ..

lemmas octet_unfold = octet_rx_ranges ropt_def rdigit_def rx_full_def

lemma octet_1: "is_digit a \<Longrightarrow> rx_full octet_rx [a] = is_octet [a]"
  using digit_val_le [of a] by (simp add: octet_unfold is_octet_def dec_val_def)

lemma octet_2:
  "is_digit a \<Longrightarrow> is_digit b \<Longrightarrow> rx_full octet_rx [a, b] = is_octet [a, b]"
  using digit_val_le [of a] digit_val_le [of b]
  by (simp add: octet_unfold is_octet_def dec_val_def)

lemma octet_3_rx:
  "is_digit a \<Longrightarrow> is_digit b \<Longrightarrow> is_digit c \<Longrightarrow>
     rx_full octet_rx [a, b, c] \<longleftrightarrow>
       (digit_val a = 2 \<and> digit_val b = 5 \<and> digit_val c \<le> 5)
       \<or> (digit_val a = 2 \<and> digit_val b \<le> 4) \<or> digit_val a \<le> 1"
  by (auto simp: octet_unfold)

lemma octet_3:
  "is_digit a \<Longrightarrow> is_digit b \<Longrightarrow> is_digit c \<Longrightarrow>
     rx_full octet_rx [a, b, c] = is_octet [a, b, c]"
  using digit_val_le [of a] digit_val_le [of b] digit_val_le [of c]
  by (simp add: octet_3_rx is_octet_def dec_val_def) arith

lemma octet_shape:
  assumes "matches octet_rx s"
  shows "s \<noteq> [] \<and> length s \<le> 3 \<and> (\<forall>c \<in> set s. is_digit c)"
  using assms unfolding octet_rx_ranges rdigit_def
  by (auto simp: matches_seq_iff)

lemma length_le_3:
  "s \<noteq> [] \<Longrightarrow> length s \<le> 3 \<Longrightarrow>
     (\<exists>a. s = [a]) \<or> (\<exists>a b. s = [a, b]) \<or> (\<exists>a b c. s = [a, b, c])"
  by (auto simp: le_Suc_eq numeral_3_eq_3 length_Suc_conv)

lemma octet_iff: "matches octet_rx s \<longleftrightarrow> is_octet s"
proof (cases "s \<noteq> [] \<and> length s \<le> 3 \<and> (\<forall>c \<in> set s. is_digit c)")
  case True
  then consider a where "s = [a]" "is_digit a"
    | a b where "s = [a, b]" "is_digit a" "is_digit b"
    | a b c where "s = [a, b, c]" "is_digit a" "is_digit b" "is_digit c"
    using length_le_3 [of s] by force
  then show ?thesis
    unfolding rx_full_iff [symmetric]
    by cases (simp_all only: octet_1 octet_2 octet_3)
next
  case False
  then show ?thesis using octet_shape is_octet_def by blast
qed

lemma not_digit_dot: "\<not> is_digit CHR ''.''"
  by (simp add: is_digit_def)

lemma octet_no_dot: "is_octet s \<Longrightarrow> CHR ''.'' \<notin> set s"
  unfolding is_octet_def using not_digit_dot by blast

lemma is_octet_not_ws: "is_octet s \<Longrightarrow> c \<in> set s \<Longrightarrow> \<not> js_ws c"
  unfolding is_octet_def using digit_not_ws by blast

text \<open>The quad written out.\<close>

lemma length_eq_4: "length xs = 4 \<longleftrightarrow> (\<exists>a b c d. xs = [a, b, c, d])"
  by (auto simp: eval_nat_numeral length_Suc_conv)

lemma is_ipv4_iff:
  "is_ipv4 s \<longleftrightarrow>
     (\<exists>a b c d. s = a @ ''.'' @ b @ ''.'' @ c @ ''.'' @ d
        \<and> is_octet a \<and> is_octet b \<and> is_octet c \<and> is_octet d)"
proof
  assume "is_ipv4 s"
  then obtain a b c d where sp: "splitOn CHR ''.'' s = [a, b, c, d]"
    and oc: "is_octet a" "is_octet b" "is_octet c" "is_octet d"
    unfolding is_ipv4_def Let_def length_eq_4 by auto
  from join_splitOn [of "CHR ''.''" s] sp have "s = a @ ''.'' @ b @ ''.'' @ c @ ''.'' @ d"
    by simp
  with oc show "\<exists>a b c d. s = a @ ''.'' @ b @ ''.'' @ c @ ''.'' @ d
        \<and> is_octet a \<and> is_octet b \<and> is_octet c \<and> is_octet d"
    by blast
next
  assume "\<exists>a b c d. s = a @ ''.'' @ b @ ''.'' @ c @ ''.'' @ d
        \<and> is_octet a \<and> is_octet b \<and> is_octet c \<and> is_octet d"
  then show "is_ipv4 s"
    by (auto simp: is_ipv4_def splitOn_append splitOn_id octet_no_dot)
qed

lemma matches_seq_lit: "matches (RSeq r (rlit p)) s \<longleftrightarrow> (\<exists>u. s = u @ p \<and> matches r u)"
  by (auto simp: matches_seq_iff)

lemma IPV4_RE_matches: "matches IPV4_RE s \<longleftrightarrow> is_ipv4 s"
proof
  let ?q = "RSeq octet_rx (rlit ''.'')"
  assume "matches IPV4_RE s"
  then have "matches (RSeq (RSeq ?q (RSeq ?q (RSeq ?q REps))) octet_rx) s"
    by (simp only: IPV4_RE_def numeral_3_eq_3 rtimes.simps)
  then obtain x d where "s = x @ d" "matches (RSeq ?q (RSeq ?q (RSeq ?q REps))) x" "is_octet d"
    unfolding octet_iff [symmetric] by (metis matches_seq_iff)
  moreover from this obtain x1 y where "x = x1 @ y" "matches ?q x1" "matches (RSeq ?q (RSeq ?q REps)) y"
    by (metis matches_seq_iff)
  moreover from this obtain x2 z where "y = x2 @ z" "matches ?q x2" "matches (RSeq ?q REps) z"
    by (metis matches_seq_iff)
  moreover from this have "matches ?q z"
    by (metis append_Nil2 matches_eps matches_seq_iff)
  ultimately show "is_ipv4 s"
    unfolding is_ipv4_iff matches_seq_lit octet_iff by fastforce
next
  let ?q = "RSeq octet_rx (rlit ''.'')"
  assume "is_ipv4 s"
  then obtain a b c d where s: "s = a @ ''.'' @ b @ ''.'' @ c @ ''.'' @ d"
    and "is_octet a" "is_octet b" "is_octet c" "is_octet d"
    by (auto simp: is_ipv4_iff)
  then have q: "matches ?q (a @ ''.'')" "matches ?q (b @ ''.'')" "matches ?q (c @ ''.'')"
      "matches octet_rx d"
    unfolding matches_seq_lit octet_iff by blast+
  have "matches IPV4_RE (((a @ ''.'') @ (b @ ''.'') @ (c @ ''.'') @ []) @ d)"
    unfolding IPV4_RE_def numeral_3_eq_3 rtimes.simps
    by (rule matches.m_seq [OF matches.m_seq [OF q(1) matches.m_seq [OF q(2)
          matches.m_seq [OF q(3) matches.m_eps]]] q(4)])
  then show "matches IPV4_RE s" by (simp add: s)
qed

lemma IPV4_RE_iff: "rx_full IPV4_RE s \<longleftrightarrow> is_ipv4 s"
  by (simp only: rx_full_iff IPV4_RE_matches)

subsection \<open>Addresses taken from process-tree events\<close>

lemma hd_splitOn: "hd (splitOn c s) = takeWhile (\<lambda>x. x \<noteq> c) s"
  by (induction s) (auto simp: splitOn_not_Nil split: list.splits)

lemma is_ipv4_Nil [simp]: "\<not> is_ipv4 []"
  by (auto simp: is_ipv4_iff)

lemma ipFromConnectDetail_Some:
  "ipFromConnectDetail d = Some ip \<longleftrightarrow>
     (\<exists>s. d = Some s \<and> ip = trim (takeWhile (\<lambda>x. x \<noteq> CHR '':'') s) \<and> is_ipv4 ip)"
  by (auto simp: ipFromConnectDetail_def IPV4_RE_iff hd_splitOn Let_def
      split: option.splits)

lemma collect_fold:
  "distinct ips \<Longrightarrow>
     distinct (foldl collect_step ips evs)
     \<and> set (foldl collect_step ips evs) =
         set ips \<union> {ip. \<exists>ev \<in> set evs. ev_type ev = Some ''NET_CONNECT''
                              \<and> ipFromConnectDetail (ev_detail ev) = Some ip}"
  by (induction evs arbitrary: ips) (auto simp: collect_step_def split: option.splits)

text \<open>C39. The pattern the ban paths test an address with accepts exactly the
dotted quads: four dot-separated parts of one to three decimal digits, each of
value at most 255.\<close>

theorem IPV4_RE_exact: "rx_full IPV4_RE s \<longleftrightarrow> is_ipv4 s"
  by (rule IPV4_RE_iff)

text \<open>The addresses collected from a process tree are listed once each,
they are exactly the addresses of its connect events, and each is a
well-formed dotted quad.\<close>

theorem collectBanIpsFromTree_exact:
  "distinct (collectBanIpsFromTree evs)
   \<and> set (collectBanIpsFromTree evs) =
       {ip. \<exists>ev. ev \<in> set (nullish evs []) \<and> ev_type ev = Some ''NET_CONNECT''
               \<and> ipFromConnectDetail (ev_detail ev) = Some ip}
   \<and> set (collectBanIpsFromTree evs) \<subseteq> Collect is_ipv4"
  using collect_fold [of "[]" "nullish evs []"]
  by (auto simp: collectBanIpsFromTree_def ipFromConnectDetail_Some)

end
