(* ===== verification/AttackGeo.thy ===== *)
theory AttackGeo
  imports Http
begin

section \<open>Attack addresses from the proof reports\<close>

text \<open>
  \<^verbatim>\<open>lib/attackGeoFallback.ts\<close>: the addresses shown when no live ban exists,
  collected from the report files of the data directory. Reading and parsing
  a file is a parameter, \<^term>\<open>None\<close> when it is absent or no JSON; a field read
  under a type cast is taken at that type.
\<close>

datatype ip_kind = Ban | Incident

record fallback_ip =
  fi_ip :: string
  fi_reason :: string
  fi_kind :: ip_kind

text \<open>The class \<open>[\d.]\<close>.\<close>

definition dotdigit :: rx where
  "dotdigit = RCls (\<lambda>c. is_digit c \<or> c = CHR ''.'')"

text \<open>
  The match of \<open>^([\d.]+)-([\d.]+)$\<close>: its two groups. The remainders of the
  first group come in the order the engine tries them.
\<close>

definition match_block :: "string \<Rightarrow> (string \<times> string) option" where
  "match_block s =
     (case find (\<lambda>r. r \<noteq> [] \<and> hd r = CHR ''-'' \<and> rx_full (rplus dotdigit) (tl r))
             (rests (rplus dotdigit) s) of
        None \<Rightarrow> None
      | Some r \<Rightarrow> Some (take (length s - length r) s, tl r))"

definition expandIpBlock :: "string \<Rightarrow> string list" where
  "expandIpBlock block =
     (case match_block (trim block) of
        None \<Rightarrow> [trim block]
      | Some (m1, m2) \<Rightarrow>
          let start = map dec_val (splitOn CHR ''.'' m1);
              ends = splitOn CHR ''.'' m2
          in if length start \<noteq> 4 \<or> length ends \<le> 3 then [m1]
             else let endLast = dec_val (ends ! 3); startLast = start ! 3
                  in if endLast < startLast \<or> 32 < endLast - startLast then [m1]
                     else map (\<lambda>d. show_nat (start ! 0) @ ''.'' @ show_nat (start ! 1) @ ''.''
                                  @ show_nat (start ! 2) @ ''.'' @ show_nat d)
                            [startLast ..< Suc endLast])"

text \<open>The class \<open>[\da-f.:]\<close> under the flag \<open>i\<close>, and the first group of
\<open>^([\da-f.:]+)(?::\d+)?$\<close>.\<close>

definition addr_char :: "char \<Rightarrow> bool" where
  "addr_char c = (is_digit c \<or> lower_char c \<in> set ''abcdef'' \<or> c = CHR ''.'' \<or> c = CHR '':'')"

definition port_rx :: rx where
  "port_rx = ropt (RSeq (rlit '':'') (rplus rdigit))"

definition ipFromConnectDetail_geo :: "string \<Rightarrow> string option" where
  "ipFromConnectDetail_geo detail =
     (let s = trim detail in
      case find (rx_full port_rx) (rests (rplus (RCls addr_char)) s) of
        None \<Rightarrow> None
      | Some r \<Rightarrow> Some (take (length s - length r) s))"

definition private_172_rx :: rx where
  "private_172_rx =
     RSeq (rlit ''172.'')
       (RSeq (RAlt (RSeq (rlit ''1'') (rset ''6789''))
               (RAlt (RSeq (rlit ''2'') rdigit) (RSeq (rlit ''3'') (rset ''01''))))
          (rlit ''.''))"

definition skipIp :: "string \<Rightarrow> bool" where
  "skipIp ip =
     (if ip = [] \<or> ip = ''127.0.0.1'' \<or> startsWith ip ''127.'' then True
      else if startsWith ip ''10.'' \<or> startsWith ip ''192.168.'' then True
      else if rx_prefix private_172_rx ip then True
      else False)"

type_synonym ip_table = "(string, fallback_ip) jsmap"

definition addIp :: "string \<Rightarrow> ip_kind \<Rightarrow> ip_table \<Rightarrow> string \<Rightarrow> ip_table" where
  "addIp reason kind out ip =
     (let key = trim ip in
      if key = [] \<or> skipIp key then out
      else if \<not> map_has out key
      then map_set out key \<lparr>fi_ip = key, fi_reason = reason, fi_kind = kind\<rparr>
      else out)"

text \<open>\<open>if (v) addIp(...)\<close> and the loops over \<open>expandIpBlock\<close> and \<open>sample_ips\<close>.\<close>

definition add_opt :: "string \<Rightarrow> ip_kind \<Rightarrow> string option \<Rightarrow> ip_table \<Rightarrow> ip_table" where
  "add_opt reason kind v out = (if truthy v then addIp reason kind out (the v) else out)"

definition add_block :: "string \<Rightarrow> ip_kind \<Rightarrow> string option \<Rightarrow> ip_table \<Rightarrow> ip_table" where
  "add_block reason kind v out =
     (if truthy v then foldl (addIp reason kind) out (expandIpBlock (the v)) else out)"

definition add_all :: "string \<Rightarrow> ip_kind \<Rightarrow> string list \<Rightarrow> ip_table \<Rightarrow> ip_table" where
  "add_all reason kind ips out = foldl (addIp reason kind) out ips"

fun json_strs :: "json option \<Rightarrow> string list" where
  "json_strs (Some (JArr vs)) = [s. JStr s \<leftarrow> vs]"
| "json_strs _ = []"

fun json_list :: "json option \<Rightarrow> json list" where
  "json_list (Some (JArr vs)) = vs"
| "json_list _ = []"

definition tree_list :: "json option \<Rightarrow> json list" where
  "tree_list treeRaw =
     (case treeRaw of Some (JArr ts) \<Rightarrow> ts | _ \<Rightarrow> json_list (json_get treeRaw ''trees''))"

definition add_event :: "ip_table \<Rightarrow> json \<Rightarrow> ip_table" where
  "add_event out ev =
     (let detail = json_str (json_get (Some ev) ''detail'') in
      if json_get (Some ev) ''type'' \<noteq> Some (JStr ''NET_CONNECT'') \<or> \<not> truthy detail then out
      else (case ipFromConnectDetail_geo (the detail) of
              None \<Rightarrow> out
            | Some ip \<Rightarrow> if ip = [] then out else addIp ''lineage NET_CONNECT'' Incident out ip))"

definition add_trees :: "json list \<Rightarrow> ip_table \<Rightarrow> ip_table" where
  "add_trees trees out =
     foldl (\<lambda>out tree. foldl add_event out (json_list (json_get (Some tree) ''events''))) out trees"

abbreviation field_str :: "json option \<Rightarrow> string \<Rightarrow> string option" where
  "field_str v k \<equiv> json_str (json_get v k)"

definition fallback_table :: "(string \<Rightarrow> json option) \<Rightarrow> ip_table" where
  "fallback_table readJson =
     (let live = readJson ''live-attack-report.json'';
          out1 = add_opt ''live-attack ban_proof'' Ban (field_str (json_get live ''ban_proof'') ''ip'') [];
          ja3 = readJson ''ja3-cluster-ban-live.json'';
          out2 = add_block ''JA3 cluster block'' Ban (field_str ja3 ''ip_block'') out1;
          out3 = add_opt ''bench-ban-latency'' Ban
                   (field_str (readJson ''bench-ban-latency.json'') ''test_ip'') out2;
          out4 = add_opt ''dashboard-ban-api-report'' Ban
                   (field_str (readJson ''dashboard-ban-api-report.json'') ''test_ip'') out3;
          out5 = add_trees (tree_list (readJson ''attack_tree.json'')) out4;
          cp = readJson ''competitive-proof.json'';
          out6 = add_opt ''competitive-proof ban'' Ban
                   (field_str (json_get (json_get cp ''liveAttack'') ''ban_proof'') ''ip'') out5;
          out7 = add_block ''competitive-proof JA3'' Ban
                   (field_str (json_get cp ''ja3ClusterBanLive'') ''ip_block'') out6;
          out8 = add_opt ''competitive-proof bench'' Ban
                   (field_str (json_get cp ''banLatency'') ''test_ip'') out7;
          ja3Report = readJson ''ja3-cluster-report.json'';
          out9 = add_all (''JA3 '' @ nullish (field_str ja3Report ''category'') ''distributed'') Incident
                   (json_strs (json_get ja3Report ''sample_ips'')) out8;
          out10 = add_block ''proof-replay WAF ban'' Ban
                    (field_str (readJson ''proof-replay-webhook-ban.json'') ''ip_block'') out9
      in add_all ''auth.log brute SSH'' Incident
           (json_strs (json_get (readJson ''auth-log-report.json'') ''sample_ips'')) out10)"

definition fetchFallbackAttackIps :: "(string \<Rightarrow> json option) \<Rightarrow> fallback_ip list" where
  "fetchFallbackAttackIps readJson = take 48 (map snd (fallback_table readJson))"

subsection \<open>The table invariant\<close>

text \<open>Every key is the entry's own address, trimmed, public and non-empty.\<close>

definition table_ok :: "ip_table \<Rightarrow> bool" where
  "table_ok t = (map_wf t \<and> (\<forall>(k, m) \<in> set t. fi_ip m = k \<and> trim k = k \<and> \<not> skipIp k))"

lemma table_ok_Nil [simp]: "table_ok []"
  by (simp add: table_ok_def)

lemma table_ok_addIp [simp]: "table_ok out \<Longrightarrow> table_ok (addIp reason kind out ip)"
  unfolding table_ok_def addIp_def Let_def
  by (auto simp: jsm.wf_put trim_idem dest!: set_map_setD)

lemma table_ok_fold [simp]: "table_ok out \<Longrightarrow> table_ok (foldl (addIp reason kind) out ips)"
  by (induction ips arbitrary: out) auto

lemma table_ok_add [simp]:
  assumes "table_ok out"
  shows "table_ok (add_opt reason kind v out)" "table_ok (add_block reason kind v out)"
    "table_ok (add_all reason kind ips out)"
  using assms by (simp_all add: add_opt_def add_block_def add_all_def)

lemma table_ok_event [simp]: "table_ok out \<Longrightarrow> table_ok (add_event out ev)"
  by (auto simp: add_event_def Let_def split: option.splits)

lemma table_ok_events: "table_ok out \<Longrightarrow> table_ok (foldl add_event out evs)"
  by (induction evs arbitrary: out) auto

lemma table_ok_trees [simp]: "table_ok out \<Longrightarrow> table_ok (add_trees ts out)"
  unfolding add_trees_def by (induction ts arbitrary: out) (auto simp: table_ok_events)

lemma table_ok_fallback: "table_ok (fallback_table readJson)"
  unfolding fallback_table_def Let_def by simp

subsection \<open>The greedy group\<close>

lemma star_cls_first: "\<forall>c \<in> set s. P c \<Longrightarrow> \<exists>rs. rests (RStar (RCls P)) s = [] # rs"
proof (induction s)
  case Nil
  then show ?case by (simp add: rests.simps(5) [of "RCls P" "[]"])
next
  case (Cons c s)
  then obtain rs where "rests (RStar (RCls P)) s = [] # rs" by auto
  with Cons.prems show ?case by (simp add: rests.simps(5) [of "RCls P" "c # s"])
qed

lemma plus_cls_first:
  "s \<noteq> [] \<Longrightarrow> \<forall>c \<in> set s. P c \<Longrightarrow> \<exists>rs. rests (rplus (RCls P)) s = [] # rs"
  using star_cls_first [of "tl s" P] by (cases s) (auto simp: rplus_def)

lemma port_chars: "rx_full port_rx r \<Longrightarrow> \<forall>c \<in> set r. addr_char c"
  unfolding rx_full_iff port_rx_def rdigit_def
  by (auto simp: matches_seq_iff matches_plus_cls addr_char_def)

lemma geo_detail:
  "ipFromConnectDetail_geo d =
     (if trim d \<noteq> [] \<and> (\<forall>c \<in> set (trim d). addr_char c) then Some (trim d) else None)"
proof (cases "trim d \<noteq> [] \<and> (\<forall>c \<in> set (trim d). addr_char c)")
  case True
  then obtain rs where "rests (rplus (RCls addr_char)) (trim d) = [] # rs"
    using plus_cls_first by blast
  moreover have "rx_full port_rx []" by (simp add: rx_full_iff port_rx_def)
  ultimately show ?thesis using True by (simp add: ipFromConnectDetail_geo_def)
next
  case False
  have "\<not> rx_full port_rx r" if "r \<in> set (rests (rplus (RCls addr_char)) (trim d))" for r
  proof
    assume "rx_full port_rx r"
    then have "\<forall>c \<in> set r. addr_char c" by (rule port_chars)
    moreover obtain u where "trim d = u @ r" "u \<noteq> []" "\<forall>c \<in> set u. addr_char c"
      using \<open>r \<in> _\<close> by (auto simp: rests_iff matches_plus_cls)
    ultimately show False using False by auto
  qed
  then have "find (rx_full port_rx) (rests (rplus (RCls addr_char)) (trim d)) = None"
    by (auto simp: find_None_iff)
  then show ?thesis
    using False by (auto simp: ipFromConnectDetail_geo_def Let_def)
qed

subsection \<open>Properties\<close>

text \<open>The list of attack addresses has at most 48 entries with distinct
addresses, every address trimmed and non-empty, and none of them a loopback
or private address.\<close>

theorem fallback_ips_public:
  "length (fetchFallbackAttackIps readJson) \<le> 48
   \<and> distinct (map fi_ip (fetchFallbackAttackIps readJson))
   \<and> set (map fi_ip (fetchFallbackAttackIps readJson)) \<subseteq>
       {ip. ip \<noteq> [] \<and> trim ip = ip \<and> \<not> startsWith ip ''127.'' \<and> \<not> startsWith ip ''10.''
            \<and> \<not> startsWith ip ''192.168.'' \<and> \<not> rx_prefix private_172_rx ip}"
proof -
  let ?t = "fallback_table readJson"
  have ok: "table_ok ?t" by (rule table_ok_fallback)
  then have "map (fi_ip \<circ> snd) ?t = map fst ?t" by (auto simp: table_ok_def)
  then have ips: "map fi_ip (fetchFallbackAttackIps readJson) = take 48 (map fst ?t)"
    by (metis fetchFallbackAttackIps_def map_map take_map)
  have "distinct (map fst ?t)" using ok by (simp add: table_ok_def map_wf_def)
  moreover have "set (take 48 (map fst ?t)) \<subseteq> {k. trim k = k \<and> \<not> skipIp k}"
    using ok by (fastforce simp: table_ok_def dest!: in_set_takeD)
  ultimately show ?thesis
    unfolding ips by (auto simp: skipIp_def fetchFallbackAttackIps_def split: if_splits)
qed

text \<open>An address block expands to between one and 33 addresses: a
well-formed range of at most 33 last octets to exactly its addresses in
order, anything else to a single entry.\<close>

theorem expandIpBlock_range:
  "1 \<le> length (expandIpBlock b) \<and> length (expandIpBlock b) \<le> 33
   \<and> (length (expandIpBlock b) = 1
      \<or> (\<exists>m1 m2 x y. match_block (trim b) = Some (m1, m2)
           \<and> x = dec_val (splitOn CHR ''.'' m1 ! 3) \<and> y = dec_val (splitOn CHR ''.'' m2 ! 3)
           \<and> x \<le> y \<and> y \<le> x + 32
           \<and> expandIpBlock b =
               map (\<lambda>d. join ''.'' (map (\<lambda>w. show_nat (dec_val w)) (take 3 (splitOn CHR ''.'' m1)) @ [show_nat d]))
                 [x ..< Suc y]))"
proof -
  have four: "\<exists>a b c d. xs = [a, b, c, d]" if "length xs = 4" for xs :: "string list"
    using that by (auto simp: eval_nat_numeral length_Suc_conv)
  show ?thesis
  proof (cases "match_block (trim b)")
    case None
    then show ?thesis by (simp add: expandIpBlock_def)
  next
    case (Some m)
    obtain m1 m2 where m: "m = (m1, m2)" by (cases m)
    show ?thesis
    proof (cases "length (splitOn CHR ''.'' m1) = 4")
      case True
      then obtain w x y z where "splitOn CHR ''.'' m1 = [w, x, y, z]" using four by blast
      then show ?thesis
        using Some m by (auto simp: expandIpBlock_def Let_def)
    next
      case False
      then show ?thesis using Some m by (simp add: expandIpBlock_def)
    qed
  qed
qed

text \<open>The connect detail of an event is taken whole: the optional port
group of the pattern never matches, since the greedy address group already
accepts colons and digits, so an address with a port is recorded together
with its port.\<close>

theorem connect_detail_keeps_port:
  "ipFromConnectDetail_geo d =
     (if trim d \<noteq> [] \<and> list_all addr_char (trim d) then Some (trim d) else None)
   \<and> ipFromConnectDetail_geo ''203.0.113.7:443'' = Some ''203.0.113.7:443''"
proof -
  have "trim ''203.0.113.7:443'' = ''203.0.113.7:443''" "list_all addr_char ''203.0.113.7:443''"
    by (simp_all add: trim_def addr_char_def is_digit_def)
  then show ?thesis by (simp add: geo_detail list_all_iff)
qed

end
