(* ===== verification/Bans.thy ===== *)
theory Bans
  imports AttackGeo Auth
begin

section \<open>The list of banned addresses\<close>

text \<open>
  \<^verbatim>\<open>lib/fetchBannedIps.ts\<close>, \<^verbatim>\<open>lib/proofBanFallback.ts\<close>, \<^verbatim>\<open>lib/bansDisplayMode.ts\<close>,
  \<^verbatim>\<open>lib/bansCache.ts\<close>, \<^verbatim>\<open>lib/guardianApiBase.ts\<close> and the handlers of
  \<^verbatim>\<open>app/api/bans\<close> and \<^verbatim>\<open>app/api/internal/bans-invalidate\<close>. The host API, the files
  and the clock are arguments; the module-level cache is the handlers' state.
  A number parsed from a query may be \<open>NaN\<close>.
\<close>

datatype jsnum = NaN | Num int

record ban_entry =
  be_ip :: string
  be_reason :: "string option"
  be_ts :: "int option"

record fetch_opts =
  fo_countOnly :: bool
  fo_limit :: "jsnum option"
  fo_offset :: "jsnum option"
  fo_search :: "string option"

datatype data_mode = Live_data | Preview_data

record bans_result =
  br_count :: int
  br_source :: string
  br_bans :: "ban_entry list"
  br_truncated :: "bool option"
  br_limit :: "int option"
  br_offset :: "jsnum option"
  br_data_mode :: "data_mode option"
  br_preview :: "bool option"

record banned_file =
  bf_ips :: "string list option"
  bf_total_count :: "int option"
  bf_count :: "int option"
  bf_source :: "string option"
  bf_bans :: "ban_entry list option"

definition empty_result :: "int \<Rightarrow> string \<Rightarrow> ban_entry list \<Rightarrow> bool option \<Rightarrow> bans_result" where
  "empty_result n src bans tr =
     \<lparr> br_count = n, br_source = src, br_bans = bans, br_truncated = tr, br_limit = None,
       br_offset = None, br_data_mode = None, br_preview = None \<rparr>"

subsection \<open>Metadata read from the raw text\<close>

text \<open>\<open>raw.match(re)\<close> for a pattern that starts with a quoted field name, a
colon and white space: the first position at which the whole pattern matches,
with its group.\<close>

definition dquote :: char where "dquote = CHR 0x22"

definition field_value :: "string \<Rightarrow> string \<Rightarrow> string option" where
  "field_value name s =
     (let p = dquote # name @ [dquote] in
      if \<not> startsWith s p then None
      else case dropWhile js_ws (drop (length p) s) of
             [] \<Rightarrow> None
           | c # t \<Rightarrow> if c = CHR '':'' then Some (dropWhile js_ws t) else None)"

definition group_string :: "string \<Rightarrow> string option" where
  "group_string s =
     (case s of [] \<Rightarrow> None
      | c # t \<Rightarrow>
          let g = takeWhile (\<lambda>x. x \<noteq> dquote) t
          in if c = dquote \<and> g \<noteq> [] \<and> length g < length t then Some g else None)"

definition group_digits :: "string \<Rightarrow> string option" where
  "group_digits s = (let g = takeWhile is_digit s in if g = [] then None else Some g)"

definition group_bool :: "string \<Rightarrow> string option" where
  "group_bool s =
     (if startsWith s ''true'' then Some ''true''
      else if startsWith s ''false'' then Some ''false'' else None)"

fun match_field :: "(string \<Rightarrow> string option) \<Rightarrow> string \<Rightarrow> string \<Rightarrow> string option" where
  "match_field g name [] = None"
| "match_field g name (c # s) =
     (case Option.bind (field_value name (c # s)) g of
        Some v \<Rightarrow> Some v
      | None \<Rightarrow> match_field g name s)"

record ban_meta =
  bm_total :: "int option"
  bm_truncated :: "bool option"
  bm_source :: string

definition parseMeta :: "string \<Rightarrow> ban_meta" where
  "parseMeta raw =
     \<lparr> bm_total = map_option (\<lambda>d. int (dec_val d)) (match_field group_digits ''total_count'' raw),
       bm_truncated = map_option (\<lambda>b. b = ''true'') (match_field group_bool ''truncated'' raw),
       bm_source = nullish (match_field group_string ''source'' raw) ''ipset'' \<rparr>"

subsection \<open>Pages\<close>

fun clampLimit :: "jsnum \<Rightarrow> int" where
  "clampLimit NaN = 50"
| "clampLimit (Num n) = (if n < 1 then 50 else min n 200)"

text \<open>\<open>Math.max(0, n)\<close>, \<open>xs.slice(o, o + l)\<close> and \<open>t > o + n\<close> where \<open>o\<close> may be \<open>NaN\<close>.\<close>

fun max0 :: "jsnum \<Rightarrow> jsnum" where
  "max0 NaN = NaN"
| "max0 (Num n) = Num (max 0 n)"

fun slice_page :: "'a list \<Rightarrow> jsnum \<Rightarrow> int \<Rightarrow> 'a list" where
  "slice_page xs NaN l = []"
| "slice_page xs (Num n) l = take (nat l) (drop (nat n) xs)"

fun beyond :: "int \<Rightarrow> jsnum \<Rightarrow> nat \<Rightarrow> bool" where
  "beyond t NaN n = False"
| "beyond t (Num i) n = (i + int n < t)"

definition search_q :: "string option \<Rightarrow> string option" where
  "search_q search =
     (case search of None \<Rightarrow> None
      | Some s \<Rightarrow> let q = toLowerCase (trim s) in if q = [] then None else Some q)"

definition filterIpsBySearch :: "string list \<Rightarrow> string option \<Rightarrow> string list" where
  "filterIpsBySearch ips search =
     (case search_q search of
        None \<Rightarrow> ips
      | Some q \<Rightarrow> filter (\<lambda>ip. str_includes (toLowerCase ip) q) ips)"

definition bare_ban :: "string \<Rightarrow> ban_entry" where
  "bare_ban ip = \<lparr> be_ip = ip, be_reason = None, be_ts = None \<rparr>"

definition packResult :: "string list \<Rightarrow> int \<Rightarrow> string \<Rightarrow> fetch_opts \<Rightarrow> bans_result" where
  "packResult ips tot source opts =
     (let filtered = filterIpsBySearch ips (fo_search opts);
          listTotal = (if truthy (map_option trim (fo_search opts)) then int (length filtered) else tot)
      in if fo_countOnly opts then empty_result listTotal source [] (Some (0 < listTotal))
         else let offset = max0 (nullish (fo_offset opts) (Num 0));
                  limit = clampLimit (nullish (fo_limit opts) (Num 50));
                  pageIps = slice_page filtered offset limit
              in \<lparr> br_count = listTotal, br_source = source, br_bans = map bare_ban pageIps,
                   br_truncated = Some (beyond listTotal offset (length pageIps)),
                   br_limit = Some limit, br_offset = Some offset,
                   br_data_mode = None, br_preview = None \<rparr>)"

definition filterBans :: "ban_entry list \<Rightarrow> string option \<Rightarrow> ban_entry list" where
  "filterBans bans search =
     (case search_q search of
        None \<Rightarrow> bans
      | Some q \<Rightarrow> filter (\<lambda>b. str_includes (toLowerCase (be_ip b)) q) bans)"

subsection \<open>Ban files and the host API\<close>

definition LARGE_BAN_FILE_BYTES :: nat where "LARGE_BAN_FILE_BYTES = 65536"

text \<open>The file's size and text, and \<open>JSON.parse\<close> at the type of a ban file.\<close>

type_synonym ban_files = "string \<Rightarrow> (nat \<times> string) option"
type_synonym ban_parser = "string \<Rightarrow> banned_file option"

text \<open>The parse of a small file, or of one without a total in its text.\<close>

definition parsedBanFile :: "ban_parser \<Rightarrow> string \<Rightarrow> fetch_opts \<Rightarrow> bans_result option" where
  "parsedBanFile parse raw opts =
     (case parse raw of
        None \<Rightarrow> None
      | Some data \<Rightarrow>
          if nullish (bf_ips data) [] = [] \<and> bf_total_count data = None then None
          else let ips = nullish (bf_ips data) []
               in Some (packResult ips (nullish (bf_total_count data) (int (length ips)))
                          (or_default (bf_source data) ''ipset'') opts))"

definition readBanFile :: "ban_files \<Rightarrow> ban_parser \<Rightarrow> string \<Rightarrow> fetch_opts \<Rightarrow> bans_result option" where
  "readBanFile files parse path opts =
     (case files path of
        None \<Rightarrow> None
      | Some (st_size, raw) \<Rightarrow>
          let meta = parseMeta raw in
          (case bm_total meta of
             None \<Rightarrow> parsedBanFile parse raw opts
           | Some tot \<Rightarrow>
               if fo_countOnly opts
               then Some (empty_result tot (bm_source meta) []
                      (Some (case bm_truncated meta of
                               Some t \<Rightarrow> t
                             | None \<Rightarrow> (case nullish (fo_limit opts) (Num 50) of
                                          NaN \<Rightarrow> False | Num l \<Rightarrow> l < tot))))
               else if LARGE_BAN_FILE_BYTES < st_size
               then (case parse raw of
                       None \<Rightarrow> None
                     | Some data \<Rightarrow> Some (packResult (nullish (bf_ips data) []) tot (bm_source meta) opts))
               else parsedBanFile parse raw opts))"

definition strip_slash :: "string \<Rightarrow> string" where
  "strip_slash s = (if endsWith s ''/'' then butlast s else s)"

definition guardianApiBase :: "env \<Rightarrow> string" where
  "guardianApiBase env =
     strip_slash (or_default (js_or (env_trim env ''GUARDIAN_BAN_URL'') (env_trim env ''GUARDIAN_API_URL''))
                    ''http://127.0.0.1:8090'')"

datatype 'a fetched = Failed | NotOk nat | Fetched 'a

fun show_num :: "jsnum \<Rightarrow> string" where
  "show_num NaN = ''NaN''"
| "show_num (Num i) = show_int i"

definition bans_query :: "fetch_opts \<Rightarrow> string" where
  "bans_query opts =
     join ''&'' ((if fo_countOnly opts then [''count_only=1''] else [])
        @ (case fo_limit opts of None \<Rightarrow> [] | Some l \<Rightarrow> [''limit='' @ show_num l])
        @ (case fo_offset opts of None \<Rightarrow> [] | Some l \<Rightarrow> [''offset='' @ show_num l]))"

definition api_result :: "banned_file \<Rightarrow> fetch_opts \<Rightarrow> bans_result" where
  "api_result data opts =
     (case bf_bans data of
        Some all \<Rightarrow>
          let bans = filterBans all (fo_search opts);
              source = or_default (bf_source data) ''ipset''
          in if fo_countOnly opts
             then empty_result (int (length bans)) source [] (Some (0 < length bans))
             else let offset = max0 (nullish (fo_offset opts) (Num 0));
                      limit = clampLimit (nullish (fo_limit opts) (Num 50));
                      page = slice_page bans offset limit
                  in \<lparr> br_count = int (length bans), br_source = source, br_bans = page,
                       br_truncated = Some (beyond (int (length bans)) offset (length page)),
                       br_limit = Some limit, br_offset = Some offset,
                       br_data_mode = None, br_preview = None \<rparr>
      | None \<Rightarrow>
          let ips = nullish (bf_ips data) [];
              tot = (case bf_total_count data of Some n \<Rightarrow> n
                       | None \<Rightarrow> nullish (bf_count data) (int (length ips)))
          in packResult ips tot (or_default (bf_source data) ''ipset'') opts)"

text \<open>What the handlers read from outside at one moment.\<close>

record bans_world =
  bw_env :: env
  bw_fetch :: "string \<Rightarrow> headers \<Rightarrow> banned_file fetched"
  bw_files :: ban_files
  bw_parse :: ban_parser
  bw_json :: "string \<Rightarrow> json option"

fun first_file :: "(string \<Rightarrow> bans_result option) \<Rightarrow> string list \<Rightarrow> bans_result option" where
  "first_file rd [] = None"
| "first_file rd (p # ps) = (case rd p of Some r \<Rightarrow> Some r | None \<Rightarrow> first_file rd ps)"

definition ban_file_paths :: "env \<Rightarrow> string list" where
  "ban_file_paths env =
     [or_default (env ''BENCH_DATA_DIR'') ''/data/lg'' @ ''/active_bans.json'',
      ''/run/log-guardian/active_bans.json'', ''/data/lg/active_bans.json'']"

definition files_result :: "bans_world \<Rightarrow> fetch_opts \<Rightarrow> bans_result" where
  "files_result w opts =
     nullish (first_file (\<lambda>p. readBanFile (bw_files w) (bw_parse w) p opts) (ban_file_paths (bw_env w)))
       (empty_result 0 ''empty'' [] None)"

definition fetchBannedIps :: "bans_world \<Rightarrow> fetch_opts \<Rightarrow> bans_result" where
  "fetchBannedIps w opts =
     (let apiBase = guardianApiBase (bw_env w); qs = bans_query opts in
      if apiBase \<noteq> []
      then (case bw_fetch w (apiBase @ ''/api/v1/bans'' @ (if qs \<noteq> [] then ''?'' @ qs else []))
                   (bearer (env_trim (bw_env w) ''GUARDIAN_API_TOKEN'')) of
              Fetched data \<Rightarrow> api_result data opts
            | _ \<Rightarrow> files_result w opts)
      else files_result w opts)"

subsection \<open>Fallbacks and the display mode\<close>

definition packBanEntries ::
  "ban_entry list \<Rightarrow> string \<Rightarrow> fetch_opts \<Rightarrow> data_mode option \<Rightarrow> bool option \<Rightarrow> bans_result" where
  "packBanEntries entries source opts mode preview =
     (let filtered = filterBans entries (fo_search opts);
          tot = int (length filtered)
      in if fo_countOnly opts
         then (empty_result tot source [] None)\<lparr>br_data_mode := mode, br_preview := preview\<rparr>
         else let offset = max0 (nullish (fo_offset opts) (Num 0));
                  limit = clampLimit (nullish (fo_limit opts) (Num 50));
                  page = slice_page filtered offset limit
              in \<lparr> br_count = tot, br_source = source, br_bans = page,
                   br_truncated = Some (beyond tot offset (length page)),
                   br_limit = Some limit, br_offset = Some offset,
                   br_data_mode = mode, br_preview = preview \<rparr>)"

definition proof_entry :: "fallback_ip \<Rightarrow> ban_entry" where
  "proof_entry m =
     \<lparr> be_ip = fi_ip m,
       be_reason = Some (if fi_reason m \<noteq> [] then ''proof '' @ [CHR 0xB7] @ '' '' @ fi_reason m
                         else ''proof report''),
       be_ts = None \<rparr>"

definition fetchProofBansResult :: "(string \<Rightarrow> json option) \<Rightarrow> fetch_opts \<Rightarrow> bans_result option" where
  "fetchProofBansResult readJson opts =
     (let entries = map proof_entry (filter (\<lambda>m. fi_kind m = Ban) (fetchFallbackAttackIps readJson))
      in if entries = [] then None
         else Some (packBanEntries entries ''proof-reports'' opts (Some Preview_data) (Some True)))"

definition fetchLiveDemoBansResult :: "string list \<Rightarrow> fetch_opts \<Rightarrow> bans_result" where
  "fetchLiveDemoBansResult ips opts =
     packBanEntries (map (\<lambda>ip. \<lparr> be_ip = ip, be_reason = Some ''dashboard-live-demo'', be_ts = None \<rparr>) ips)
       ''live-demo'' opts (Some Live_data) None"

datatype display_mode = Proof_mode | Live_demo "string list" "string option" | Live_mode

definition ipsetLiveOverridesDemo :: "string list \<Rightarrow> json \<Rightarrow> bool" where
  "ipsetLiveOverridesDemo demoIps active =
     (let source = or_default (field_str (Some active) ''source'') ''ipset'';
          liveIps = json_strs (json_get (Some active) ''ips'');
          tot = nullish (json_num (json_get (Some active) ''total_count'')) (of_nat (length liveIps))
      in if source \<noteq> ''ipset'' then False
         else if tot \<le> 0 then False
         else if of_nat (length demoIps) < tot then True
         else list_ex (\<lambda>ip. ip \<notin> set demoIps) liveIps)"

definition preview_mode :: "(string \<Rightarrow> json option) \<Rightarrow> display_mode" where
  "preview_mode readJson =
     (if json_get (readJson ''bans-preview-mode.json'') ''mode'' = Some (JStr ''proof'')
      then Proof_mode else Live_mode)"

definition resolveBansDisplayMode :: "(string \<Rightarrow> json option) \<Rightarrow> display_mode" where
  "resolveBansDisplayMode readJson =
     (let demo = readJson ''dashboard-live-demo.json'' in
      if json_truthy demo
      then let note = String_nullish (json_get demo ''note'') [];
               passed = (json_get demo ''pass'' = Some (JBool True));
               applied = nullish (json_num (json_get demo ''bans_applied'')) 0
           in if str_includes note ''CLEANUP'' \<or> (\<not> passed \<and> applied = 0) then Proof_mode
              else let ips = filter (\<lambda>ip. str_includes ip ''.'') (json_strs (json_get demo ''ips''))
                   in if passed \<and> ips \<noteq> []
                      then let active = readJson ''active_bans.json''
                           in if json_truthy active \<and> ipsetLiveOverridesDemo ips (the active)
                              then Live_mode
                              else Live_demo ips (field_str demo ''api'')
                      else preview_mode readJson
      else preview_mode readJson)"

subsection \<open>The cache\<close>

text \<open>\<open>JSON.stringify\<close> of a string and of the key object.\<close>

definition json_esc :: "char \<Rightarrow> string" where
  "json_esc c =
     (let n = (of_char c :: nat); bs = CHR 0x5C in
      if c = dquote \<or> c = bs then [bs, c]
      else if n = 8 then [bs, CHR ''b''] else if n = 9 then [bs, CHR ''t'']
      else if n = 10 then [bs, CHR ''n''] else if n = 12 then [bs, CHR ''f'']
      else if n = 13 then [bs, CHR ''r'']
      else if n < 32 then [bs, CHR ''u'', CHR ''0'', CHR ''0'', hex_digit (n div 16), hex_digit (n mod 16)]
      else [c])"

definition json_quote :: "string \<Rightarrow> string" where
  "json_quote s = dquote # concat (map json_esc s) @ [dquote]"

fun stringify_num :: "jsnum \<Rightarrow> string" where
  "stringify_num NaN = ''null''"
| "stringify_num (Num i) = show_int i"

definition bansCacheKey :: "fetch_opts \<Rightarrow> string" where
  "bansCacheKey opts =
     ''{'' @ json_quote ''c'' @ '':'' @ (if fo_countOnly opts then ''1'' else ''0'')
     @ '','' @ json_quote ''l'' @ '':'' @ stringify_num (nullish (fo_limit opts) (Num 0))
     @ '','' @ json_quote ''o'' @ '':'' @ stringify_num (nullish (fo_offset opts) (Num 0))
     @ '','' @ json_quote ''s'' @ '':''
     @ json_quote (nullish (map_option (\<lambda>s. toLowerCase (trim s)) (fo_search opts)) []) @ ''}''"

definition TTL_MS :: int where "TTL_MS = 5000"

record cache_entry =
  ce_ts :: int
  ce_data :: bans_result

type_synonym bans_cache = "(string, cache_entry) jsmap"

definition getCachedBans :: "int \<Rightarrow> bans_cache \<Rightarrow> string \<Rightarrow> bans_result option" where
  "getCachedBans now store key =
     (case map_get store key of
        None \<Rightarrow> None
      | Some hit \<Rightarrow> if TTL_MS < now - ce_ts hit then None else Some (ce_data hit))"

definition setCachedBans :: "int \<Rightarrow> bans_cache \<Rightarrow> string \<Rightarrow> bans_result \<Rightarrow> bans_cache" where
  "setCachedBans now store key data =
     (let store' = map_set store key \<lparr>ce_ts = now, ce_data = data\<rparr> in
      if 32 < length store'
      then (case sort_key (\<lambda>e. ce_ts (snd e)) store' of
              [] \<Rightarrow> store'
            | oldest # _ \<Rightarrow> map_delete store' (fst oldest))
      else store')"

definition invalidateAllBansCache :: "bans_cache \<Rightarrow> bans_cache" where
  "invalidateAllBansCache store = []"

subsection \<open>The handlers\<close>

definition query_num :: "request \<Rightarrow> string \<Rightarrow> int \<Rightarrow> jsnum" where
  "query_num rq k d =
     (if truthy (query rq k)
      then (case parseInt (the (query rq k)) of None \<Rightarrow> NaN | Some n \<Rightarrow> Num n)
      else Num d)"

definition bans_opts :: "request \<Rightarrow> fetch_opts" where
  "bans_opts rq =
     (let countOnly = (query rq ''count_only'' = Some ''1'');
          limit = query_num rq ''limit'' 50;
          offset = query_num rq ''offset'' 0;
          search = js_or (map_option trim (query rq ''search'')) (map_option trim (query rq ''q''))
      in \<lparr> fo_countOnly = countOnly,
           fo_limit = (if countOnly then None else Some limit),
           fo_offset = (if countOnly then None else Some offset),
           fo_search = (if truthy search then search else None) \<rparr>)"

definition compute_bans :: "bans_world \<Rightarrow> fetch_opts \<Rightarrow> bans_result" where
  "compute_bans w opts =
     (case resolveBansDisplayMode (bw_json w) of
        Proof_mode \<Rightarrow>
          nullish (fetchProofBansResult (bw_json w) opts) (empty_result 0 ''empty'' [] None)
      | Live_demo ips _ \<Rightarrow> fetchLiveDemoBansResult ips opts
      | Live_mode \<Rightarrow>
          let data = fetchBannedIps w opts in
          if br_count data = 0 \<and> (br_source data = ''empty'' \<or> br_bans data = [])
          then nullish (fetchProofBansResult (bw_json w) opts) data
          else data\<lparr>br_data_mode := Some Live_data\<rparr>)"

definition bans_GET ::
  "bans_world \<Rightarrow> int \<Rightarrow> request \<Rightarrow> bans_cache \<Rightarrow> (bans_result \<times> string) \<times> bans_cache" where
  "bans_GET w now rq store =
     (let opts = bans_opts rq;
          bust = (query rq ''bust'' \<noteq> None \<or> query rq ''_t'' \<noteq> None);
          key = bansCacheKey opts
      in case (if bust then None else getCachedBans now store key) of
           Some cached \<Rightarrow> ((cached, ''private, max-age=3''), store)
         | None \<Rightarrow>
             let out = compute_bans w opts
             in ((out, if fo_countOnly opts then ''private, max-age=3'' else ''private, max-age=2''),
                 setCachedBans now store key out))"

definition bans_POST :: "bans_cache \<Rightarrow> response \<times> bans_cache" where
  "bans_POST store = (json_reply 200 [(''ok'', JBool True)], invalidateAllBansCache store)"

definition cacheBustAuthorized :: "env \<Rightarrow> request \<Rightarrow> bool" where
  "cacheBustAuthorized env rq =
     (case header rq ''authorization'' of
        None \<Rightarrow> False
      | Some auth \<Rightarrow>
          if \<not> startsWith auth ''Bearer '' then False
          else let token = trim (drop 7 auth) in
               if token = [] then False
               else timingSafeTokenInList token
                      [k. Some k \<leftarrow> map env [''DASHBOARD_CACHE_BUST_KEY'', ''GUARDIAN_API_TOKEN'',
                                            ''DASHBOARD_FLEET_API_KEY'', ''FLEET_API_KEY''], k \<noteq> []])"

definition bans_invalidate_POST :: "env \<Rightarrow> request \<Rightarrow> bans_cache \<Rightarrow> response \<times> bans_cache" where
  "bans_invalidate_POST env rq store =
     (if \<not> cacheBustAuthorized env rq then (error_reply 401 ''Unauthorized'', store)
      else (json_reply 200 [(''ok'', JBool True), (''invalidated'', JStr ''bans'')],
            invalidateAllBansCache store))"

subsection \<open>Paging lemmas\<close>

lemma concat_pages: "concat (map (\<lambda>i. take l (drop (i * l) xs)) [0..<k]) = take (k * l) xs"
proof (induction k)
  case (Suc k)
  have "take (k * l + l) xs = take (k * l) xs @ take l (drop (k * l) xs)"
    by (rule take_add)
  then show ?case using Suc by (simp add: add.commute)
qed simp

lemma clampLimit_bounds: "1 \<le> clampLimit n" "clampLimit n \<le> 200"
  by (cases n; simp)+

lemma last_page: "i * l + min (n - i * l) l < n \<longleftrightarrow> Suc i * l < (n :: nat)"
  by (cases "i * l \<le> n") auto

lemma filter_all_or_total:
  "(if truthy (map_option trim s) then int (length (filterIpsBySearch ips s)) else int (length ips)) =
     int (length (filterIpsBySearch ips s))"
  by (cases s) (auto simp: filterIpsBySearch_def search_q_def truthy_def Let_def toLowerCase_def)

subsection \<open>The key determines the request\<close>

lemma json_esc_prefix: "json_esc c @ u = json_esc d @ v \<longleftrightarrow> c = d \<and> u = v"
proof
  have hex: "hex_digit m = hex_digit n \<Longrightarrow> m < 16 \<Longrightarrow> n < 16 \<Longrightarrow> m = n" for m n
    using hex_val_digit by (metis option.inject)
  assume eq: "json_esc c @ u = json_esc d @ v"
  have split: "(of_char c :: nat) = of_char d" if "(of_char c :: nat) < 32" "(of_char d :: nat) < 32"
    "hex_digit (of_char c div 16) = hex_digit (of_char d div 16)"
    "hex_digit (of_char c mod 16) = hex_digit (of_char d mod 16)"
  proof -
    have "of_char c div 16 = (of_char d div 16 :: nat)" "of_char c mod 16 = (of_char d mod 16 :: nat)"
      using that by (auto intro!: hex)
    then show ?thesis by (metis mult_div_mod_eq)
  qed
  show "c = d \<and> u = v"
    using eq split
    by (auto simp: json_esc_def Let_def dquote_def split: if_splits)
qed auto

lemma json_quote_prefix:
  "concat (map json_esc s) @ dquote # u = concat (map json_esc t) @ dquote # v \<longleftrightarrow> s = t \<and> u = v"
proof (induction s arbitrary: t)
  case Nil
  have "hd (json_esc c) \<noteq> dquote" "json_esc c \<noteq> []" for c
    by (auto simp: json_esc_def Let_def dquote_def)
  then have "json_esc c @ w \<noteq> dquote # u" for c w
    by (metis hd_append2 list.sel(1))
  then show ?case by (cases t) (auto simp: append_assoc eq_commute [of "dquote # _"])
next
  case (Cons c s)
  have "hd (json_esc c) \<noteq> dquote" "json_esc c \<noteq> []"
    by (auto simp: json_esc_def Let_def dquote_def)
  then have "json_esc c @ w \<noteq> dquote # v" for w
    by (metis hd_append2 list.sel(1))
  then show ?case
    using Cons by (cases t) (auto simp: json_esc_prefix)
qed

lemma comma_split:
  "x \<notin> set a \<Longrightarrow> x \<notin> set b \<Longrightarrow> a @ x # u = b @ x # v \<longleftrightarrow> a = b \<and> u = v"
proof (induction a arbitrary: b)
  case Nil
  then show ?case by (cases b) auto
next
  case (Cons y a)
  then show ?case by (cases b) auto
qed

lemma stringify_num_comma: "CHR '','' \<notin> set (stringify_num n)"
proof (cases n)
  case (Num i)
  have "\<not> is_digit CHR '',''" by (simp add: is_digit_def)
  then have "CHR '','' \<notin> set (show_nat m)" for m using show_nat_digits by blast
  then show ?thesis using Num by (simp add: show_int_def)
qed simp

lemma stringify_num_inject [simp]: "stringify_num m = stringify_num n \<longleftrightarrow> m = n"
proof -
  have "parseInt ''null'' = None" by (simp add: parseInt_def is_digit_def)
  then have "show_int i \<noteq> ''null''" for i by (metis option.distinct(1) parseInt_show_int)
  then show ?thesis
    by (cases m; cases n) (auto simp: eq_commute [of "''null''"])
qed

lemma bansCacheKey_eq:
  "bansCacheKey a = bansCacheKey b \<longleftrightarrow>
     fo_countOnly a = fo_countOnly b
     \<and> nullish (fo_limit a) (Num 0) = nullish (fo_limit b) (Num 0)
     \<and> nullish (fo_offset a) (Num 0) = nullish (fo_offset b) (Num 0)
     \<and> nullish (map_option (\<lambda>s. toLowerCase (trim s)) (fo_search a)) [] =
         nullish (map_option (\<lambda>s. toLowerCase (trim s)) (fo_search b)) []"
proof -
  define key where "key c l o' s = (if c then ''1'' else ''0'') @ '','' @ json_quote ''l'' @ '':''
      @ stringify_num l @ '','' @ json_quote ''o'' @ '':'' @ stringify_num o' @ '','' @ json_quote ''s''
      @ '':'' @ json_quote s @ ''}''" for c :: bool and l o' s
  have k: "bansCacheKey x = (''{'' @ json_quote ''c'' @ '':'') @ key (fo_countOnly x)
      (nullish (fo_limit x) (Num 0)) (nullish (fo_offset x) (Num 0))
      (nullish (map_option (\<lambda>s. toLowerCase (trim s)) (fo_search x)) [])" for x
    by (simp add: bansCacheKey_def key_def)
  have q: "json_quote s @ ''}'' = json_quote t @ ''}'' \<longleftrightarrow> s = t" for s t
    using json_quote_prefix [of s "''}''" t "''}''"] by (simp add: json_quote_def)
  have "key c l o1 s = key c' l' o2 s' \<longleftrightarrow> c = c' \<and> l = l' \<and> o1 = o2 \<and> s = s'" for c c' l l' o1 o2 s s'
    unfolding key_def using q [of s s']
    by (cases c; cases c') (simp_all add: comma_split stringify_num_comma)
  then show ?thesis unfolding k by (simp only: same_append_eq)
qed

subsection \<open>The result depends on the key only\<close>

lemma search_q_norm:
  "search_q s = (let q = nullish (map_option (\<lambda>s. toLowerCase (trim s)) s) [] in if q = [] then None else Some q)"
  by (cases s) (auto simp: search_q_def nullish_def)

lemma search_given: "truthy (map_option trim s) \<longleftrightarrow> search_q s \<noteq> None"
  by (cases s) (auto simp: search_q_def truthy_def Let_def toLowerCase_def)

definition same_request :: "fetch_opts \<Rightarrow> fetch_opts \<Rightarrow> bool" where
  "same_request a b =
     (fo_countOnly a = fo_countOnly b \<and> fo_limit a = fo_limit b \<and> fo_offset a = fo_offset b
      \<and> search_q (fo_search a) = search_q (fo_search b))"

lemma same_packResult: "same_request a b \<Longrightarrow> packResult ips n src a = packResult ips n src b"
  by (simp add: same_request_def packResult_def filterIpsBySearch_def search_given Let_def)

lemma same_filterBans: "same_request a b \<Longrightarrow> filterBans bans (fo_search a) = filterBans bans (fo_search b)"
  by (simp add: same_request_def filterBans_def)

lemma same_readBanFile: "same_request a b \<Longrightarrow> readBanFile files parse p a = readBanFile files parse p b"
  using same_packResult [of a b]
  by (simp add: readBanFile_def parsedBanFile_def same_request_def Let_def split: option.splits)

lemma same_fetchBannedIps: "same_request a b \<Longrightarrow> fetchBannedIps w a = fetchBannedIps w b"
proof -
  assume ab: "same_request a b"
  then have "files_result w a = files_result w b"
    by (simp add: files_result_def same_readBanFile)
  moreover have "bans_query a = bans_query b"
    using ab by (simp add: bans_query_def same_request_def)
  moreover have "api_result d a = api_result d b" for d
    using ab same_packResult [OF ab] same_filterBans [OF ab]
    by (simp add: api_result_def same_request_def Let_def split: option.splits)
  ultimately show ?thesis by (simp add: fetchBannedIps_def Let_def split: fetched.splits)
qed

lemma same_packBanEntries: "same_request a b \<Longrightarrow> packBanEntries es src a m p = packBanEntries es src b m p"
  using same_filterBans [of a b] by (simp add: packBanEntries_def same_request_def Let_def)

lemma same_proof: "same_request a b \<Longrightarrow> fetchProofBansResult js a = fetchProofBansResult js b"
  using same_packBanEntries [of a b] by (simp add: fetchProofBansResult_def Let_def)

lemma same_compute_bans:
  assumes "same_request a b"
  shows "compute_bans w a = compute_bans w b"
  unfolding compute_bans_def fetchLiveDemoBansResult_def same_packBanEntries [OF assms]
    same_fetchBannedIps [OF assms] same_proof [OF assms] ..

lemma same_key: "bansCacheKey (bans_opts q) = bansCacheKey (bans_opts r) \<Longrightarrow> same_request (bans_opts q) (bans_opts r)"
  unfolding bansCacheKey_eq same_request_def search_q_norm
  by (auto simp: bans_opts_def Let_def nullish_def)

subsection \<open>The cache over a run of the handlers\<close>

text \<open>\<open>world t\<close> is what the handlers would read at time \<open>t\<close>; the cache after any
sequence of requests.\<close>

inductive bans_reach :: "(int \<Rightarrow> bans_world) \<Rightarrow> int \<Rightarrow> bans_cache \<Rightarrow> bool" for world where
  br_init: "bans_reach world t []"
| br_get: "bans_reach world t st \<Longrightarrow> t \<le> t' \<Longrightarrow>
     bans_reach world t' (snd (bans_GET (world t') t' rq st))"
| br_post: "bans_reach world t st \<Longrightarrow> t \<le> t' \<Longrightarrow> bans_reach world t' (snd (bans_POST st))"
| br_invalidate: "bans_reach world t st \<Longrightarrow> t \<le> t' \<Longrightarrow>
     bans_reach world t' (snd (bans_invalidate_POST env rq st))"

definition cache_ok :: "(int \<Rightarrow> bans_world) \<Rightarrow> int \<Rightarrow> bans_cache \<Rightarrow> bool" where
  "cache_ok world now st =
     (map_wf st \<and> length st \<le> 32
      \<and> (\<forall>(k, e) \<in> set st. ce_ts e \<le> now
           \<and> (\<exists>rq. k = bansCacheKey (bans_opts rq)
                 \<and> ce_data e = compute_bans (world (ce_ts e)) (bans_opts rq))))"

lemma cache_okD:
  "cache_ok world now st \<Longrightarrow> (k, e) \<in> set st \<Longrightarrow>
     ce_ts e \<le> now \<and> (\<exists>rq. k = bansCacheKey (bans_opts rq)
                 \<and> ce_data e = compute_bans (world (ce_ts e)) (bans_opts rq))"
  unfolding cache_ok_def by blast

lemma length_map_delete: "k \<in> fst ` set m \<Longrightarrow> length (map_delete m k) < length m"
  by (auto simp: map_delete_def intro!: length_filter_less)

lemma setCachedBans_subset:
  "set (setCachedBans now st key d) \<subseteq> insert (key, \<lparr>ce_ts = now, ce_data = d\<rparr>) (set st)"
  by (auto simp: setCachedBans_def Let_def map_delete_def dest!: set_map_setD split: if_splits list.splits)

lemma setCachedBans_wf: "map_wf st \<Longrightarrow> map_wf (setCachedBans now st key d)"
  by (auto simp: setCachedBans_def Let_def jsm.wf_put jsm.wf_del split: list.splits)

lemma setCachedBans_size:
  assumes "length st \<le> 32"
  shows "length (setCachedBans now st key d) \<le> 32"
proof (cases "32 < length (map_set st key \<lparr>ce_ts = now, ce_data = d\<rparr>)")
  case True
  let ?s = "map_set st key \<lparr>ce_ts = now, ce_data = d\<rparr>"
  let ?l = "sort_key (\<lambda>e. ce_ts (snd e)) ?s"
  have "length ?s \<le> 33" using assms length_map_set [of st key] by (auto split: if_splits)
  moreover have "?l \<noteq> []" using True by (metis length_greater_0_conv length_sort less_trans zero_less_numeral)
  then obtain e es where l: "?l = e # es" by (cases ?l) auto
  then have "e \<in> set ?s" by (metis list.set_intros(1) set_sort)
  then have "length (map_delete ?s (fst e)) < length ?s" by (intro length_map_delete) auto
  ultimately show ?thesis using True l by (simp add: setCachedBans_def)
qed (simp add: setCachedBans_def)

lemma cache_ok_mono: "cache_ok world t st \<Longrightarrow> t \<le> t' \<Longrightarrow> cache_ok world t' st"
  unfolding cache_ok_def by fastforce

lemma cache_ok_GET:
  assumes "cache_ok world t st" "t \<le> t'"
  shows "cache_ok world t' (snd (bans_GET (world t') t' rq st))"
proof -
  have ok: "cache_ok world t' st" using cache_ok_mono assms by blast
  let ?o = "bans_opts rq"
  have "cache_ok world t' (setCachedBans t' st (bansCacheKey ?o) (compute_bans (world t') ?o))"
    using ok setCachedBans_wf setCachedBans_size setCachedBans_subset [of t' st "bansCacheKey ?o"]
    unfolding cache_ok_def by fastforce
  then show ?thesis
    using ok by (auto simp: bans_GET_def Let_def split: option.splits)
qed

lemma cache_ok_Nil [simp]: "cache_ok world t []"
  by (simp add: cache_ok_def)

lemma reach_cache_ok: "bans_reach world t st \<Longrightarrow> cache_ok world t st"
proof (induction rule: bans_reach.induct)
  case (br_get t st t' rq)
  then show ?case by (intro cache_ok_GET) auto
next
  case (br_invalidate t st t' env rq)
  then show ?case
    by (auto simp: bans_invalidate_POST_def invalidateAllBansCache_def intro: cache_ok_mono)
qed (auto simp: bans_POST_def invalidateAllBansCache_def)

subsection \<open>Properties\<close>

text \<open>Paging through the ban list with the page size the server uses visits
the whole filtered list once, in order: the first \<open>k\<close> pages together are its
first entries, no page has more than 200 entries, the count is the length of
the filtered list and the truncation flag says whether a further page
exists.\<close>

theorem bans_pagination:
  "let L = clampLimit (nullish (fo_limit opts) (Num 50));
       page = (\<lambda>i. packResult ips (int (length ips)) src
                (opts\<lparr>fo_countOnly := False, fo_offset := Some (Num (int i * L))\<rparr>));
       matching = filterIpsBySearch ips (fo_search opts)
   in 1 \<le> L \<and> L \<le> 200
      \<and> concat (map (\<lambda>i. br_bans (page i)) [0..<k]) = take (k * nat L) (map bare_ban matching)
      \<and> br_count (page i) = int (length matching)
      \<and> br_truncated (page i) = Some (Suc i * nat L < length matching)"
proof -
  define L where "L = clampLimit (nullish (fo_limit opts) (Num 50))"
  define l where "l = nat L"
  have l: "L = int l"
    using clampLimit_bounds(1) [of "nullish (fo_limit opts) (Num 50)"] by (simp add: L_def l_def)
  define page where "page i = packResult ips (int (length ips)) src
      (opts\<lparr>fo_countOnly := False, fo_offset := Some (Num (int i * L))\<rparr>)" for i
  let ?m = "filterIpsBySearch ips (fo_search opts)"
  have page: "br_bans (page i) = take l (drop (i * l) (map bare_ban ?m))"
    "br_count (page i) = int (length ?m)"
    "br_truncated (page i) = Some (Suc i * l < length ?m)" for i
    using last_page [of i l "length ?m"] filter_all_or_total [of "fo_search opts" ips]
    by (simp_all add: page_def packResult_def Let_def L_def [symmetric] l take_map drop_map
        nat_mult_distrib flip: of_nat_mult of_nat_add)
  have "concat (map (\<lambda>i. br_bans (page i)) [0..<k]) = take (k * l) (map bare_ban ?m)"
    unfolding page by (rule concat_pages)
  then show ?thesis
    using page clampLimit_bounds [of "nullish (fo_limit opts) (Num 50)"] l
    unfolding Let_def L_def [symmetric] page_def by simp
qed

text \<open>C34. The cache never serves a stale or a foreign answer: whatever requests
came before, the answer to a request is the one the handler would have
computed for that same request at some moment of the last five seconds, and
the cache never holds more than 32 entries.\<close>

theorem bans_cache_fresh:
  assumes "bans_reach world t st" "t \<le> now"
  shows "length st \<le> 32
         \<and> (\<exists>ts. now - 5000 \<le> ts \<and> ts \<le> now
              \<and> fst (fst (bans_GET (world now) now rq st)) = compute_bans (world ts) (bans_opts rq))"
proof -
  have ok: "cache_ok world t st" using reach_cache_ok assms(1) .
  have "\<exists>ts. now - 5000 \<le> ts \<and> ts \<le> now \<and> d = compute_bans (world ts) (bans_opts rq)"
    if hit: "getCachedBans now st (bansCacheKey (bans_opts rq)) = Some d" for d
  proof -
    obtain e where e: "(bansCacheKey (bans_opts rq), e) \<in> set st" "ce_data e = d" "now - ce_ts e \<le> 5000"
      using hit by (auto simp: getCachedBans_def TTL_MS_def map_get_def split: option.splits if_splits
          dest: map_of_SomeD)
    obtain rq' where ts: "ce_ts e \<le> t" and k: "bansCacheKey (bans_opts rq) = bansCacheKey (bans_opts rq')"
      and "ce_data e = compute_bans (world (ce_ts e)) (bans_opts rq')"
      using cache_okD [OF ok e(1)] by blast
    then have "d = compute_bans (world (ce_ts e)) (bans_opts rq)"
      using same_compute_bans [OF same_key [OF k]] e(2) by simp
    then show ?thesis using e(3) ts assms(2) by (intro exI [of _ "ce_ts e"]) simp
  qed
  note served = this
  have "\<exists>ts. now - 5000 \<le> ts \<and> ts \<le> now
          \<and> fst (fst (bans_GET (world now) now rq st)) = compute_bans (world ts) (bans_opts rq)"
  proof (cases "fst (fst (bans_GET (world now) now rq st)) = compute_bans (world now) (bans_opts rq)")
    case True
    then show ?thesis by (intro exI [of _ now]) simp
  next
    case False
    then have "getCachedBans now st (bansCacheKey (bans_opts rq)) =
        Some (fst (fst (bans_GET (world now) now rq st)))"
      by (auto simp: bans_GET_def Let_def split: option.splits if_splits)
    then show ?thesis by (rule served)
  qed
  then show ?thesis using ok by (simp add: cache_ok_def)
qed

definition demo_world :: "int \<Rightarrow> bans_world" where
  "demo_world t =
     \<lparr> bw_env = (\<lambda>_. None), bw_fetch = (\<lambda>_ _. Failed), bw_files = (\<lambda>_. None),
       bw_parse = (\<lambda>_. None), bw_json = (\<lambda>_. None) \<rparr>"

definition bans_request :: request where
  "bans_request =
     \<lparr> rq_protocol = ''http:'', rq_hostname = ''dash'', rq_origin = ''http://dash'',
       rq_path = ''/api/bans'', rq_search = [], rq_query = [(''limit'', ''20'')],
       rq_headers = [], rq_cookies = [], rq_body = None, rq_form = None \<rparr>"

theorem bans_cache_fresh_witness:
  "length (snd (bans_GET (demo_world 0) 0 bans_request [])) \<le> 32
   \<and> (\<exists>ts. -1000 \<le> ts \<and> ts \<le> 4000 \<and>
        fst (fst (bans_GET (demo_world 4000) 4000 bans_request
          (snd (bans_GET (demo_world 0) 0 bans_request [])))) = compute_bans (demo_world ts) (bans_opts bans_request))"
proof -
  have "bans_reach demo_world 0 (snd (bans_GET (demo_world 0) 0 bans_request []))"
    by (rule br_get [OF br_init order_refl])
  from bans_cache_fresh [OF this, of 4000 bans_request] show ?thesis by simp
qed

text \<open>The bans cache is cleared from outside only with a bearer token that
equals one of the configured keys, and after a clearing, by this handler or by
the dashboard's own, the next request is answered from the present state.\<close>

theorem bans_invalidation:
  "(snd (bans_invalidate_POST env rq st) = (if cacheBustAuthorized env rq then [] else st))
   \<and> (cacheBustAuthorized env rq \<longleftrightarrow>
        (\<exists>rest. header rq ''authorization'' = Some (''Bearer '' @ rest) \<and> trim rest \<noteq> []
           \<and> Some (trim rest) \<in> env ` {''DASHBOARD_CACHE_BUST_KEY'', ''GUARDIAN_API_TOKEN'',
                                        ''DASHBOARD_FLEET_API_KEY'', ''FLEET_API_KEY''}))
   \<and> fst (fst (bans_GET w now q (snd (bans_POST st)))) = compute_bans w (bans_opts q)"
proof -
  let ?names = "[''DASHBOARD_CACHE_BUST_KEY'', ''GUARDIAN_API_TOKEN'',
      ''DASHBOARD_FLEET_API_KEY'', ''FLEET_API_KEY'']"
  have keys: "k \<in> set [k. Some k \<leftarrow> map env ns, k \<noteq> []] \<longleftrightarrow> k \<noteq> [] \<and> Some k \<in> env ` set ns" for k ns
    by (induction ns) (auto split: option.splits)
  have "cacheBustAuthorized env rq \<longleftrightarrow>
        (\<exists>rest. header rq ''authorization'' = Some (''Bearer '' @ rest) \<and> trim rest \<noteq> []
           \<and> Some (trim rest) \<in> env ` set ?names)"
    unfolding cacheBustAuthorized_def timingSafeTokenInList_iff Let_def keys
    by (auto simp: startsWith_iff split: option.splits)
  then have 1: "cacheBustAuthorized env rq \<longleftrightarrow>
        (\<exists>rest. header rq ''authorization'' = Some (''Bearer '' @ rest) \<and> trim rest \<noteq> []
           \<and> Some (trim rest) \<in> env ` {''DASHBOARD_CACHE_BUST_KEY'', ''GUARDIAN_API_TOKEN'',
                                        ''DASHBOARD_FLEET_API_KEY'', ''FLEET_API_KEY''})"
    by (simp only: list.set)
  have 2: "snd (bans_invalidate_POST env rq st) = (if cacheBustAuthorized env rq then [] else st)"
    by (simp add: bans_invalidate_POST_def invalidateAllBansCache_def)
  have 3: "fst (fst (bans_GET w now q (snd (bans_POST st)))) = compute_bans w (bans_opts q)"
    by (simp add: bans_POST_def invalidateAllBansCache_def bans_GET_def getCachedBans_def map_get_def Let_def)
  show ?thesis by (intro conjI 1 2 3)
qed

end
