(* ===== verification/FleetCommand.thy ===== *)
theory FleetCommand
  imports BanUtils Bans
begin

section \<open>Validating and signing fleet commands\<close>

text \<open>
  \<^verbatim>\<open>lib/fleetCommandValidate.ts\<close>, \<^verbatim>\<open>lib/fleetCommandSign.ts\<close> and the agent test of
  \<^verbatim>\<open>lib/vpsFleetShadow.ts\<close>. The keyed digest (HMAC-SHA256 in hexadecimal) is a
  parameter.
\<close>

subsection \<open>JSON text\<close>

text \<open>\<open>JSON.stringify(v)\<close>.\<close>

fun json_stringify :: "json \<Rightarrow> string" where
  "json_stringify JNull = ''null''"
| "json_stringify (JBool b) = (if b then ''true'' else ''false'')"
| "json_stringify (JNum q) = show_rat q"
| "json_stringify (JStr s) = json_quote s"
| "json_stringify (JArr vs) = ''['' @ join '','' (map json_stringify vs) @ '']''"
| "json_stringify (JObj fs) =
     ''{'' @ join '','' (map (\<lambda>(k, v). json_quote k @ '':'' @ json_stringify v) fs) @ ''}''"

subsection \<open>Validation\<close>

definition VPS_FLEET_AGENT_ID :: string where "VPS_FLEET_AGENT_ID = ''node-vps-01''"

definition isVpsFleetShadowAgent :: "string option \<Rightarrow> bool" where
  "isVpsFleetShadowAgent agentId = (agentId = Some VPS_FLEET_AGENT_ID)"

definition ALLOWED_TYPES :: "string list" where
  "ALLOWED_TYPES = [''BAN_IP'', ''UNBAN_IP'', ''PUSH_WAF_RULE'', ''PUSH_THREAT_FEED'',
     ''PUSH_CONFIG'', ''PUSH_SCHEMA'', ''PUSH_WASM_PLUGIN'']"

definition MAX_PAYLOAD_LEN :: nat where "MAX_PAYLOAD_LEN = 4096"

definition MAX_AGENT_ID_LEN :: nat where "MAX_AGENT_ID_LEN = 128"

definition is_hex :: "char \<Rightarrow> bool" where
  "is_hex c = (c \<in> set ''0123456789abcdefABCDEF'')"

text \<open>\<^verbatim>\<open>^(?:[0-9a-fA-F]{0,4}:){2,7}[0-9a-fA-F]{0,4}$\<close>\<close>

definition hextet_rx :: rx where "hextet_rx = rupto 4 (RCls is_hex)"

definition IP6_RE :: rx where
  "IP6_RE = RSeq (rbetween 2 7 (RSeq hextet_rx (rlit '':''))) hextet_rx"

definition IP_RE_test :: "string \<Rightarrow> bool" where
  "IP_RE_test s = (rx_full IPV4_RE s \<or> rx_full IP6_RE s)"

definition agent_id_rx :: rx where
  "agent_id_rx = rplus (RCls (\<lambda>c. is_word c \<or> c = CHR ''.'' \<or> c = CHR ''-''))"

definition payload_text :: "json option \<Rightarrow> string" where
  "payload_text p =
     (case p of
        Some (JStr s) \<Rightarrow> s
      | Some JNull \<Rightarrow> json_stringify (JStr [])
      | None \<Rightarrow> json_stringify (JStr [])
      | Some v \<Rightarrow> json_stringify v)"

definition validateFleetCommand :: "json \<Rightarrow> string option" where
  "validateFleetCommand body =
     (let commandType = trim (String_nullish (json_get (Some body) ''commandType'') []);
          payloadRaw = payload_text (json_get (Some body) ''payload'');
          target = json_get (Some body) ''targetAgentId''
      in if commandType = [] \<or> commandType \<notin> set ALLOWED_TYPES
         then Some (''invalid commandType: '' @ (if commandType = [] then ''(empty)'' else commandType))
         else if payloadRaw = [] \<or> MAX_PAYLOAD_LEN < length payloadRaw
         then Some ''payload missing or too large''
         else if (commandType = ''BAN_IP'' \<or> commandType = ''UNBAN_IP'') \<and> \<not> IP_RE_test (trim payloadRaw)
         then Some (''invalid IP for '' @ commandType)
         else if target \<noteq> None \<and> target \<noteq> Some JNull \<and> target \<noteq> Some (JStr [])
         then (let aid = js_String (the target) in
               if isVpsFleetShadowAgent (Some aid)
               then Some ''targetAgentId is SSH watch-only (no fleet dispatch)''
               else if MAX_AGENT_ID_LEN < length aid \<or> \<not> rx_full agent_id_rx aid
               then Some ''invalid targetAgentId''
               else None)
         else None)"

subsection \<open>Signatures\<close>

record sign_input =
  si_id :: string
  si_tenantId :: string
  si_commandType :: string
  si_payload :: string
  si_targetAgentId :: "string option"

definition DEV_FLEET_HMAC_KEY :: string where
  "DEV_FLEET_HMAC_KEY = ''log-guardian-fleet-command-dev-key''"

definition fleetSignKey :: "env \<Rightarrow> string option" where
  "fleetSignKey env =
     (let key = trim (or_default (env ''FLEET_COMMAND_HMAC_KEY'') DEV_FLEET_HMAC_KEY) in
      if key = [] \<or> length key < 16 then None else Some key)"

definition fleetRequireSig :: "env \<Rightarrow> bool" where
  "fleetRequireSig env = (nullish (env ''FLEET_COMMAND_REQUIRE_SIG'') ''1'' \<noteq> ''0'')"

definition buildFleetCommandDigest :: "sign_input \<Rightarrow> string" where
  "buildFleetCommandDigest i =
     (let target = nullish (si_targetAgentId i) [] in
      si_id i @ ''|'' @ si_tenantId i @ ''|'' @ si_commandType i @ ''|'' @ si_payload i @ ''|'' @ target)"

type_synonym hmac_fn = "string \<Rightarrow> string \<Rightarrow> string"

definition signFleetCommand :: "hmac_fn \<Rightarrow> env \<Rightarrow> sign_input \<Rightarrow> string option" where
  "signFleetCommand hmac env i =
     (case fleetSignKey env of
        None \<Rightarrow> None
      | Some key \<Rightarrow> Some (hmac key (buildFleetCommandDigest i)))"

definition verifyFleetCommandSignature :: "hmac_fn \<Rightarrow> env \<Rightarrow> sign_input \<Rightarrow> string option \<Rightarrow> bool" where
  "verifyFleetCommandSignature hmac env i signature =
     (let expected = map_option trim signature in
      if \<not> truthy expected then \<not> fleetRequireSig env
      else case signFleetCommand hmac env i of
             None \<Rightarrow> False
           | Some calc \<Rightarrow>
               if calc = [] \<or> length calc \<noteq> length (the expected) then False
               else (case timingSafeEqual (utf8 calc) (utf8 (the expected)) of
                       Some r \<Rightarrow> r
                     | None \<Rightarrow> False))"

subsection \<open>The language of the IPv6 pattern\<close>

definition is_ip6_like :: "string \<Rightarrow> bool" where
  "is_ip6_like s =
     (let parts = splitOn CHR '':'' s in
      3 \<le> length parts \<and> length parts \<le> 8
      \<and> (\<forall>p \<in> set parts. length p \<le> 4 \<and> (\<forall>c \<in> set p. is_hex c)))"

lemma ex_cls:
  "(\<exists>u v. s = u @ v \<and> (\<exists>c. u = [c] \<and> P c) \<and> Q v) \<longleftrightarrow> (\<exists>c t. s = c # t \<and> P c \<and> Q t)"
  by (metis append_Cons append_Nil)

lemma matches_rupto_cls: "matches (rupto n (RCls P)) s \<longleftrightarrow> length s \<le> n \<and> (\<forall>c \<in> set s. P c)"
proof (induction n arbitrary: s)
  case (Suc n)
  have "matches (rupto (Suc n) (RCls P)) s \<longleftrightarrow>
      (\<exists>c t. s = c # t \<and> P c \<and> matches (rupto n (RCls P)) t) \<or> s = []"
    unfolding rupto.simps matches_alt matches_eps matches_seq_iff matches_cls ex_cls ..
  then show ?case using Suc by (cases s) auto
qed auto

definition segs :: "string list \<Rightarrow> string" where
  "segs ps = concat (map (\<lambda>p. p @ '':'') ps)"

lemma segs_Cons: "segs (p # ps) = (p @ '':'') @ segs ps"
  by (simp add: segs_def)

lemma segs_append: "segs (ps @ qs) = segs ps @ segs qs"
  by (simp add: segs_def)

lemma matches_seg: "matches (RSeq r (rlit '':'')) u \<longleftrightarrow> (\<exists>p. u = p @ '':'' \<and> matches r p)"
  by (rule matches_seq_lit)

lemma matches_rtimes_seg:
  "matches (rtimes n (RSeq r (rlit '':''))) s \<longleftrightarrow>
     (\<exists>ps. length ps = n \<and> (\<forall>p \<in> set ps. matches r p) \<and> s = segs ps)"
proof (induction n arbitrary: s)
  case 0
  then show ?case by (simp add: segs_def)
next
  case (Suc n)
  have "matches (rtimes (Suc n) (RSeq r (rlit '':''))) s \<longleftrightarrow>
      (\<exists>p v. s = (p @ '':'') @ v \<and> matches r p \<and> matches (rtimes n (RSeq r (rlit '':''))) v)"
    unfolding rtimes.simps matches_seq_iff [of "RSeq r (rlit '':'')"] matches_seg by blast
  also have "\<dots> \<longleftrightarrow> (\<exists>p ps. s = segs (p # ps) \<and> matches r p \<and> length ps = n \<and> (\<forall>p \<in> set ps. matches r p))"
    unfolding Suc segs_Cons by blast
  also have "\<dots> \<longleftrightarrow> (\<exists>ps. length ps = Suc n \<and> (\<forall>p \<in> set ps. matches r p) \<and> s = segs ps)"
  proof
    assume "\<exists>ps. length ps = Suc n \<and> (\<forall>p \<in> set ps. matches r p) \<and> s = segs ps"
    then obtain ps where ps: "length ps = Suc n" "\<forall>p \<in> set ps. matches r p" "s = segs ps" by blast
    then show "\<exists>p ps. s = segs (p # ps) \<and> matches r p \<and> length ps = n \<and> (\<forall>p \<in> set ps. matches r p)"
      by (cases ps) auto
  qed (force intro: exI [of _ "_ # _"])
  finally show ?case .
qed

lemma matches_rupto_seg:
  "matches (rupto n (RSeq r (rlit '':''))) s \<longleftrightarrow>
     (\<exists>ps. length ps \<le> n \<and> (\<forall>p \<in> set ps. matches r p) \<and> s = segs ps)"
proof (induction n arbitrary: s)
  case 0
  then show ?case by (simp add: segs_def)
next
  case (Suc n)
  have "matches (rupto (Suc n) (RSeq r (rlit '':''))) s \<longleftrightarrow>
      (\<exists>p v. s = (p @ '':'') @ v \<and> matches r p \<and> matches (rupto n (RSeq r (rlit '':''))) v) \<or> s = []"
    unfolding rupto.simps matches_alt matches_eps matches_seq_iff [of "RSeq r (rlit '':'')"] matches_seg by blast
  also have "\<dots> \<longleftrightarrow> (\<exists>p ps. s = segs (p # ps) \<and> matches r p \<and> length ps \<le> n \<and> (\<forall>p \<in> set ps. matches r p)) \<or> s = segs []"
    unfolding Suc segs_Cons by (auto simp: segs_def)
  also have "\<dots> \<longleftrightarrow> (\<exists>ps. length ps \<le> Suc n \<and> (\<forall>p \<in> set ps. matches r p) \<and> s = segs ps)"
  proof
    assume "\<exists>ps. length ps \<le> Suc n \<and> (\<forall>p \<in> set ps. matches r p) \<and> s = segs ps"
    then obtain ps where ps: "length ps \<le> Suc n" "\<forall>p \<in> set ps. matches r p" "s = segs ps" by blast
    then show "(\<exists>p ps. s = segs (p # ps) \<and> matches r p \<and> length ps \<le> n \<and> (\<forall>p \<in> set ps. matches r p)) \<or> s = segs []"
      by (cases ps) auto
  qed (force intro: exI [of _ "_ # _"])
  finally show ?case .
qed

lemma splitOn_segs:
  "\<forall>p \<in> set ps. c \<notin> set p \<Longrightarrow> c = CHR '':'' \<Longrightarrow> c \<notin> set q \<Longrightarrow> splitOn c (segs ps @ q) = ps @ [q]"
  by (induction ps) (auto simp: segs_def splitOn_append splitOn_id)

lemma join_segs: "ps \<noteq> [] \<Longrightarrow> join '':'' ps = segs (butlast ps) @ last ps"
proof (induction ps rule: list_nonempty_induct)
  case (cons p ps)
  then show ?case by (cases ps) (simp_all add: segs_def)
qed (simp add: segs_def)

abbreviation hextet :: "string \<Rightarrow> bool" where
  "hextet p \<equiv> length p \<le> 4 \<and> (\<forall>c \<in> set p. is_hex c)"

lemma matches_hextet: "matches hextet_rx p \<longleftrightarrow> hextet p"
  unfolding hextet_rx_def by (rule matches_rupto_cls)

lemma matches_between_seg:
  "matches (rbetween 2 7 (RSeq hextet_rx (rlit '':''))) s \<longleftrightarrow>
     (\<exists>ps. 2 \<le> length ps \<and> length ps \<le> 7 \<and> (\<forall>p \<in> set ps. hextet p) \<and> s = segs ps)"
proof
  assume "matches (rbetween 2 7 (RSeq hextet_rx (rlit '':''))) s"
  then obtain a b where "s = a @ b" "matches (rtimes 2 (RSeq hextet_rx (rlit '':''))) a"
    "matches (rupto (7 - 2) (RSeq hextet_rx (rlit '':''))) b"
    unfolding rbetween_def matches_seq_iff [of "rtimes _ _"] by blast
  then obtain as bs where "s = segs as @ segs bs" "length as = 2" "length bs \<le> 7 - 2"
    "\<forall>p \<in> set as. hextet p" "\<forall>p \<in> set bs. hextet p"
    unfolding matches_rtimes_seg matches_rupto_seg matches_hextet by blast
  then show "\<exists>ps. 2 \<le> length ps \<and> length ps \<le> 7 \<and> (\<forall>p \<in> set ps. hextet p) \<and> s = segs ps"
    by (intro exI [of _ "as @ bs"]) (auto simp: segs_append)
next
  assume "\<exists>ps. 2 \<le> length ps \<and> length ps \<le> 7 \<and> (\<forall>p \<in> set ps. hextet p) \<and> s = segs ps"
  then obtain ps where ps: "2 \<le> length ps" "length ps \<le> 7" "\<forall>p \<in> set ps. hextet p" "s = segs ps" by blast
  have "matches (rtimes 2 (RSeq hextet_rx (rlit '':''))) (segs (take 2 ps))"
    unfolding matches_rtimes_seg matches_hextet using ps
    by (intro exI [of _ "take 2 ps"]) (auto dest: in_set_takeD)
  moreover have "matches (rupto (7 - 2) (RSeq hextet_rx (rlit '':''))) (segs (drop 2 ps))"
    unfolding matches_rupto_seg matches_hextet using ps
    by (intro exI [of _ "drop 2 ps"]) (auto dest: in_set_dropD)
  ultimately show "matches (rbetween 2 7 (RSeq hextet_rx (rlit '':''))) s"
    unfolding rbetween_def ps(4) using matches.m_seq by (metis append_take_drop_id segs_append)
qed

lemma IP6_RE_segs:
  "matches IP6_RE s \<longleftrightarrow>
     (\<exists>ps q. 2 \<le> length ps \<and> length ps \<le> 7 \<and> (\<forall>p \<in> set (q # ps). hextet p) \<and> s = segs ps @ q)"
  unfolding IP6_RE_def matches_seq_iff [of "rbetween _ _ _"] matches_between_seg matches_hextet
  by (simp, blast)

lemma hex_no_colon: "\<forall>c \<in> set p. is_hex c \<Longrightarrow> CHR '':'' \<notin> set p"
proof -
  have "\<not> is_hex CHR '':''" by (simp add: is_hex_def)
  then show "\<forall>c \<in> set p. is_hex c \<Longrightarrow> CHR '':'' \<notin> set p" by blast
qed

lemma IP6_RE_iff: "rx_full IP6_RE s \<longleftrightarrow> is_ip6_like s"
proof
  assume "rx_full IP6_RE s"
  then obtain ps q where ps: "2 \<le> length ps" "length ps \<le> 7"
    "\<forall>p \<in> set (q # ps). length p \<le> 4 \<and> (\<forall>c \<in> set p. is_hex c)" "s = segs ps @ q"
    unfolding rx_full_iff IP6_RE_segs by blast
  then have "splitOn CHR '':'' s = ps @ [q]"
    using hex_no_colon by (auto intro!: splitOn_segs)
  then show "is_ip6_like s" using ps by (auto simp: is_ip6_like_def)
next
  assume a: "is_ip6_like s"
  let ?ps = "splitOn CHR '':'' s"
  have ne: "?ps \<noteq> []" by (rule splitOn_not_Nil)
  have "s = segs (butlast ?ps) @ last ?ps"
    using join_splitOn [of "CHR '':''" s] join_segs [OF ne] by simp
  moreover have "\<forall>p \<in> set (last ?ps # butlast ?ps). length p \<le> 4 \<and> (\<forall>c \<in> set p. is_hex c)"
    using a ne by (auto simp: is_ip6_like_def Let_def dest: in_set_butlastD)
  moreover have "2 \<le> length (butlast ?ps)" "length (butlast ?ps) \<le> 7"
    using a by (auto simp: is_ip6_like_def Let_def)
  ultimately show "rx_full IP6_RE s" unfolding rx_full_iff IP6_RE_segs by blast
qed

subsection \<open>Properties\<close>

lemma IP_RE_test_iff: "IP_RE_test s \<longleftrightarrow> is_ipv4 s \<or> is_ip6_like s"
  by (simp add: IP_RE_test_def IPV4_RE_iff IP6_RE_iff)

lemma agent_id_iff:
  "rx_full agent_id_rx s \<longleftrightarrow> s \<noteq> [] \<and> (\<forall>c \<in> set s. is_word c \<or> c = CHR ''.'' \<or> c = CHR ''-'')"
  unfolding rx_full_iff agent_id_rx_def by (rule matches_plus_cls)

text \<open>C31. A command passes validation exactly when its type is one of the seven
known ones, its payload text has between one and 4096 characters, a ban names
an IPv4 quad or a colon-separated hexadecimal address, and its target, when it
has one, is an agent name of at most 128 letters, digits, dots, dashes or
underscores other than the watch-only node.\<close>

theorem validateFleetCommand_exact:
  "validateFleetCommand body = None \<longleftrightarrow>
     (let ty = trim (String_nullish (json_get (Some body) ''commandType'') []);
          payload = payload_text (json_get (Some body) ''payload'');
          target = json_get (Some body) ''targetAgentId'';
          aid = js_String (the target)
      in ty \<in> set ALLOWED_TYPES \<and> 1 \<le> length payload \<and> length payload \<le> 4096
         \<and> (if ty \<in> {''BAN_IP'', ''UNBAN_IP''} then is_ipv4 (trim payload) \<or> is_ip6_like (trim payload) else True)
         \<and> (if target \<in> {None, Some JNull, Some (JStr [])} then True
             else aid \<noteq> ''node-vps-01'' \<and> aid \<noteq> [] \<and> length aid \<le> 128
                  \<and> list_all (\<lambda>c. is_word c \<or> c = CHR ''.'' \<or> c = CHR ''-'') aid))"
proof -
  have "[] \<notin> set ALLOWED_TYPES" by (simp add: ALLOWED_TYPES_def)
  moreover have len: "1 \<le> length s \<longleftrightarrow> s \<noteq> []" for s :: string by (cases s) auto
  ultimately show ?thesis
    unfolding validateFleetCommand_def Let_def IP_RE_test_iff agent_id_iff isVpsFleetShadowAgent_def
      VPS_FLEET_AGENT_ID_def MAX_PAYLOAD_LEN_def MAX_AGENT_ID_LEN_def list_all_iff len
    by (auto split: if_splits)
qed

lemma bar_split:
  assumes "CHR ''|'' \<notin> set a" "CHR ''|'' \<notin> set b"
  shows "a @ ''|'' @ u = b @ ''|'' @ v \<longleftrightarrow> a = b \<and> u = v"
  using comma_split [OF assms] by simp

lemma bar_split_last:
  assumes "CHR ''|'' \<notin> set a" "CHR ''|'' \<notin> set b"
  shows "u @ ''|'' @ a = v @ ''|'' @ b \<longleftrightarrow> u = v \<and> a = b"
proof -
  have "u @ ''|'' @ a = v @ ''|'' @ b \<longleftrightarrow> rev (u @ ''|'' @ a) = rev (v @ ''|'' @ b)" by (rule rev_is_rev_conv [symmetric])
  also have "\<dots> \<longleftrightarrow> rev a @ ''|'' @ rev u = rev b @ ''|'' @ rev v" by simp
  also have "\<dots> \<longleftrightarrow> rev a = rev b \<and> rev u = rev v" using assms by (intro bar_split) auto
  finally show ?thesis by auto
qed

text \<open>The parts that never hold the separator: identifiers, tenants, the known
types and agent names.\<close>

definition no_bar :: "sign_input \<Rightarrow> bool" where
  "no_bar i = (CHR ''|'' \<notin> set (si_id i) \<and> CHR ''|'' \<notin> set (si_tenantId i)
     \<and> CHR ''|'' \<notin> set (si_commandType i) \<and> CHR ''|'' \<notin> set (nullish (si_targetAgentId i) []))"

lemma digest_inject:
  assumes "no_bar a" "no_bar b"
  shows "buildFleetCommandDigest a = buildFleetCommandDigest b \<longleftrightarrow>
     si_id a = si_id b \<and> si_tenantId a = si_tenantId b \<and> si_commandType a = si_commandType b
     \<and> si_payload a = si_payload b \<and> nullish (si_targetAgentId a) [] = nullish (si_targetAgentId b) []"
  using assms unfolding no_bar_def buildFleetCommandDigest_def Let_def
  by (simp only: bar_split bar_split_last simp_thms)

lemma verify_iff:
  "verifyFleetCommandSignature hmac env i sig \<longleftrightarrow>
     (if truthy (map_option trim sig)
      then the (map_option trim sig) \<noteq> [] \<and> signFleetCommand hmac env i = map_option trim sig
      else \<not> fleetRequireSig env)"
proof -
  have ts: "(case timingSafeEqual (utf8 c) (utf8 e) of Some r \<Rightarrow> r | None \<Rightarrow> False) \<longleftrightarrow> c = e" for c e
    using timingSafeEqual_iff [of "utf8 c" "utf8 e"] by (auto split: option.splits)
  show ?thesis
    by (cases sig) (auto simp: verifyFleetCommandSignature_def Let_def truthy_def ts split: option.splits)
qed


definition demo_hmac :: hmac_fn where
  "demo_hmac k m = ''<'' @ m @ ''>''"


end
