(* ===== verification/BanExec.thy ===== *)
theory BanExec
  imports BanUtils Bans
begin

section \<open>Executing a ban on the host\<close>

text \<open>
  \<^verbatim>\<open>lib/guardianBanExec.ts\<close> and \<^verbatim>\<open>app/api/guardian/ban/route.ts\<close>. The host API and
  the command-line tool are parameters; the calls made to them are returned
  with the result, in the order they are made. Letters outside Latin-1 in the
  messages are written by their code point.
\<close>

datatype ban_action = Ban_action | Unban_action

datatype ban_via = Analyzer_api | Cli | Queued_only

record ban_result =
  gr_ok :: bool
  gr_via :: ban_via
  gr_ip :: string
  gr_action :: ban_action
  gr_message :: string
  gr_detail :: "string option"

text \<open>The body the API returns; a body that is no JSON reads as the empty object.\<close>

record api_body =
  ab_success :: "bool option"
  ab_error :: "string option"
  ab_path :: "string option"

datatype api_reply = Api_throws string | Api_reply nat api_body

datatype ban_call = Api_call string headers | Cli_call string "string list"

record exec_deps =
  xd_fetch :: "string \<Rightarrow> headers \<Rightarrow> api_reply"
  xd_cli :: "string \<Rightarrow> string list \<Rightarrow> string + string \<times> string"

subsection \<open>URL encoding\<close>

definition uri_unreserved :: "char \<Rightarrow> bool" where
  "uri_unreserved c =
     (is_word c \<or> c \<in> set ''-.!~*()'' \<or> c = CHR 0x27)"

definition hex_upper :: "nat \<Rightarrow> char" where
  "hex_upper n = ''0123456789ABCDEF'' ! n"

definition encodeURIComponent :: "string \<Rightarrow> string" where
  "encodeURIComponent s =
     concat (map (\<lambda>c. if uri_unreserved c then [c]
                      else concat (map (\<lambda>b. [CHR 0x25, hex_upper (b div 16), hex_upper (b mod 16)])
                             (utf8_char c))) s)"

subsection \<open>The operation\<close>

definition res_ok :: "nat \<Rightarrow> bool" where
  "res_ok st = (200 \<le> st \<and> st \<le> 299)"

definition cli_args :: "ban_action \<Rightarrow> string \<Rightarrow> string \<Rightarrow> string \<Rightarrow> string list" where
  "cli_args act ip reason rules =
     (if act = Unban_action then [''unban'', ip, ''--rules'', rules]
      else [''ban'', ip, ''--reason'', reason, ''--rules'', rules])"

definition run_cli :: "exec_deps \<Rightarrow> env \<Rightarrow> string \<Rightarrow> ban_action \<Rightarrow> string \<Rightarrow> ban_result \<times> ban_call list" where
  "run_cli d env ip act reason =
     (let bin = or_default (env ''GUARDIAN_BIN'') ''log-guardian'';
          rules = or_default (env ''GUARDIAN_RULES'') ''/etc/log-guardian/rules.conf'';
          args = cli_args act ip reason rules
      in (case xd_cli d bin args of
            Inr (stdout, stderr) \<Rightarrow>
              let out = trim (if stdout \<noteq> [] then stdout else stderr);
                  ok = (rx_search (rlit_i ''[OK]'') out \<or> out = [])
              in \<lparr> gr_ok = ok, gr_via = Cli, gr_ip = ip, gr_action = act,
                   gr_message =
                     (if ok then (if act = Unban_action then ip @ '' unban (CLI)'' else ip @ '' ban (CLI)'')
                      else if out \<noteq> [] then out else ''CLI ban ba(U+015F)ar(U+0131)s(U+0131)z''),
                   gr_detail = Some out \<rparr>
          | Inl msg \<Rightarrow>
              \<lparr> gr_ok = False, gr_via = Cli, gr_ip = ip, gr_action = act,
                gr_message = msg, gr_detail = None \<rparr>,
          [Cli_call bin args]))"

definition api_url :: "string \<Rightarrow> ban_action \<Rightarrow> string \<Rightarrow> string \<Rightarrow> string" where
  "api_url base act ip reason =
     base @ (if act = Unban_action then ''/api/v1/unban'' else ''/api/v1/ban'')
     @ ''?ip='' @ encodeURIComponent ip @ ''&reason='' @ encodeURIComponent reason"

definition executeGuardianBan ::
  "exec_deps \<Rightarrow> env \<Rightarrow> string \<Rightarrow> ban_action \<Rightarrow> string \<Rightarrow> ban_result \<times> ban_call list" where
  "executeGuardianBan d env rawIp act reason =
     (let ip = trim rawIp in
      if \<not> rx_full IPV4_RE ip
      then (\<lparr> gr_ok = False, gr_via = Queued_only, gr_ip = ip, gr_action = act,
              gr_message = ''Ge'' @ [CHR 0xE7] @ ''ersiz IPv4'', gr_detail = None \<rparr>, [])
      else let apiBase = guardianApiBase env in
        if apiBase \<noteq> []
        then (case guardianApiMutationToken env of
                None \<Rightarrow>
                  (\<lparr> gr_ok = False, gr_via = Analyzer_api, gr_ip = ip, gr_action = act,
                     gr_message =
                       ''GUARDIAN_API_MUTATION_TOKEN eksik (U+2014) bash scripts/sync_dashboard_api_token.sh'',
                     gr_detail = None \<rparr>, [])
              | Some apiToken \<Rightarrow>
                  let url = api_url apiBase act ip reason;
                      hs = [(''authorization'', ''Bearer '' @ apiToken)]
                  in (case xd_fetch d url hs of
                        Api_reply st body \<Rightarrow>
                          (if res_ok st \<and> ab_success body \<noteq> Some False
                           then \<lparr> gr_ok = True, gr_via = Analyzer_api, gr_ip = ip, gr_action = act,
                                  gr_message =
                                    (if act = Unban_action then ip @ '' engeli kald(U+0131)r(U+0131)ld(U+0131) (kernel)''
                                     else ip @ '' kernel seviyesinde engellendi''),
                                  gr_detail = ab_path body \<rparr>
                           else \<lparr> gr_ok = False, gr_via = Analyzer_api, gr_ip = ip, gr_action = act,
                                  gr_message = or_default (ab_error body) (''Analyzer API HTTP '' @ show_nat st),
                                  gr_detail = None \<rparr>,
                           [Api_call url hs])
                      | Api_throws msg \<Rightarrow>
                          if \<not> truthy (env ''GUARDIAN_BIN'')
                          then (\<lparr> gr_ok = False, gr_via = Analyzer_api, gr_ip = ip, gr_action = act,
                                  gr_message = ''Analyzer API eri(U+015F)ilemedi: '' @ msg,
                                  gr_detail = None \<rparr>, [Api_call url hs])
                          else let (r, calls) = run_cli d env ip act reason
                               in (r, Api_call url hs # calls)))
        else run_cli d env ip act reason)"

subsection \<open>The handler\<close>

fun via_name :: "ban_via \<Rightarrow> string" where
  "via_name Analyzer_api = ''analyzer_api''"
| "via_name Cli = ''cli''"
| "via_name Queued_only = ''queued_only''"

fun action_name :: "ban_action \<Rightarrow> string" where
  "action_name Ban_action = ''ban''"
| "action_name Unban_action = ''unban''"

definition ban_result_fields :: "ban_result \<Rightarrow> (string \<times> json) list" where
  "ban_result_fields r =
     [(''ok'', JBool (gr_ok r)), (''via'', JStr (via_name (gr_via r))), (''ip'', JStr (gr_ip r)),
      (''action'', JStr (action_name (gr_action r))), (''message'', JStr (gr_message r))]
     @ (case gr_detail r of None \<Rightarrow> [] | Some t \<Rightarrow> [(''detail'', JStr t)])"

definition guardian_ban_POST ::
  "exec_deps \<Rightarrow> env \<Rightarrow> request \<Rightarrow> bans_cache \<Rightarrow> response \<times> ban_call list \<times> bans_cache" where
  "guardian_ban_POST d env rq cache =
     (let userRole = or_default (header rq ''x-user-role'') [] in
      if userRole \<noteq> ''admin'' then (error_reply 403 ''Admin role required'', [], cache)
      else case rq_body rq of
        None \<Rightarrow> (error_reply 500 ''json'', [], cache)
      | Some JNull \<Rightarrow> (error_reply 500 ''json'', [], cache)
      | Some body \<Rightarrow>
          let ip = trim (String_or (json_get (Some body) ''ip'') []);
              reason = String_or (json_get (Some body) ''reason'') ''dashboard-ban'';
              act = (if json_get (Some body) ''action'' = Some (JStr ''unban'') then Unban_action else Ban_action)
          in if \<not> rx_full IPV4_RE ip then (error_reply 400 ''Invalid IPv4'', [], cache)
             else if env_trim env ''GUARDIAN_API_TOKEN'' = None
             then (error_reply 503
                     ''GUARDIAN_API_TOKEN eksik (U+2014) host: bash scripts/sync_dashboard_api_token.sh'', [], cache)
             else let (result, calls) = executeGuardianBan d env ip act reason
                  in if \<not> gr_ok result
                     then (json_reply 502 ([(''success'', JBool False), (''error'', JStr (gr_message result))]
                                           @ ban_result_fields result), calls, cache)
                     else (json_reply 200 ((''success'', JBool True) # ban_result_fields result),
                           calls, invalidateAllBansCache cache))"

subsection \<open>Properties\<close>

lemma run_cli_calls: "snd (run_cli d env ip act reason) =
    [Cli_call (or_default (env ''GUARDIAN_BIN'') ''log-guardian'')
       (cli_args act ip reason (or_default (env ''GUARDIAN_RULES'') ''/etc/log-guardian/rules.conf''))]"
  by (simp add: run_cli_def Let_def)

lemma run_cli_sel: "gr_ip (fst (run_cli d env ip act reason)) = ip"
  "gr_action (fst (run_cli d env ip act reason)) = act"
  by (auto simp: run_cli_def Let_def split: sum.splits prod.splits)

text \<open>The calls an address that passed the check can lead to.\<close>

definition allowed_calls :: "env \<Rightarrow> string \<Rightarrow> ban_action \<Rightarrow> string \<Rightarrow> ban_call set" where
  "allowed_calls env ip act reason =
     {Cli_call (or_default (env ''GUARDIAN_BIN'') ''log-guardian'')
        (cli_args act ip reason (or_default (env ''GUARDIAN_RULES'') ''/etc/log-guardian/rules.conf''))}
     \<union> {Api_call (api_url (guardianApiBase env) act ip reason) [(''authorization'', ''Bearer '' @ tok)] | tok.
          guardianApiMutationToken env = Some tok}"

lemma execute_calls:
  "set (snd (executeGuardianBan d env rawIp act reason)) \<subseteq>
     (if is_ipv4 (trim rawIp) then allowed_calls env (trim rawIp) act reason else {})"
  by (auto simp: executeGuardianBan_def Let_def IPV4_RE_iff allowed_calls_def run_cli_calls
      split: option.splits api_reply.splits prod.splits dest!: arg_cong [where f = snd])

lemma execute_ok_calls: "gr_ok (fst (executeGuardianBan d env rawIp act reason)) \<Longrightarrow>
    snd (executeGuardianBan d env rawIp act reason) \<noteq> []"
  by (auto simp: executeGuardianBan_def Let_def run_cli_calls case_prod_beta
      split: if_splits option.splits api_reply.splits)

lemma execute_length: "length (snd (executeGuardianBan d env rawIp act reason)) \<le> 2"
  by (auto simp: executeGuardianBan_def Let_def run_cli_calls split: option.splits api_reply.splits prod.splits
      dest!: arg_cong [where f = snd])

text \<open>C37. The host is called only for a well-formed IPv4 address, and only in
two ways: one request to the configured API with that address, the requested
action and the mutation token, or one run of the configured tool with that
address as a single argument. A result is reported as successful only after
such a call.\<close>

theorem ban_calls_valid:
  "let (r, calls) = executeGuardianBan d env rawIp act reason; ip = trim rawIp in
     set calls \<subseteq> (if is_ipv4 ip then allowed_calls env ip act reason else {})
     \<and> length calls \<le> 2 \<and> \<not> (gr_ok r \<and> calls = [])"
  using execute_calls [of d env rawIp act reason] execute_ok_calls [of d env rawIp act reason]
    execute_length [of d env rawIp act reason]
  by (simp add: case_prod_beta Let_def)


definition ban_deps :: exec_deps where
  "ban_deps =
     \<lparr> xd_fetch = (\<lambda>_ _. Api_reply 200 \<lparr>ab_success = Some True, ab_error = None, ab_path = None\<rparr>),
       xd_cli = (\<lambda>_ _. Inl ''no tool'') \<rparr>"

definition ban_env :: env where
  "ban_env v = (if v = ''GUARDIAN_API_TOKEN'' then Some ''tok'' else None)"

definition ban_request :: request where
  "ban_request =
     \<lparr> rq_protocol = ''http:'', rq_hostname = ''dash'', rq_origin = ''http://dash'',
       rq_path = ''/api/guardian/ban'', rq_search = [], rq_query = [],
       rq_headers = [(''x-user-role'', ''admin'')], rq_cookies = [],
       rq_body = Some (JObj [(''ip'', JStr ''203.0.113.7'')]), rq_form = None \<rparr>"

lemma ban_demo:
  "\<exists>rs cs c. guardian_ban_POST ban_deps ban_env ban_request [] = (rs, cs, c) \<and> cs \<noteq> []"
proof -
  have "trim ''203.0.113.7'' = ''203.0.113.7''" by (simp add: trim_def)
  moreover have "rx_full IPV4_RE ''203.0.113.7''"
    by (simp add: IPV4_RE_iff is_ipv4_def is_octet_def is_digit_def dec_val_def digit_val_def)
  moreover have "trim ''tok'' = ''tok''" by (simp add: trim_def)
  moreover have "guardianApiBase ban_env = ''http://127.0.0.1:8090''"
    by (simp add: guardianApiBase_def strip_slash_def ban_env_def js_defs endsWith_def)
  ultimately show ?thesis
    by (simp add: guardian_ban_POST_def executeGuardianBan_def ban_request_def ban_env_def ban_deps_def
        header_def headers_get_def map_get_def toLowerCase_def String_or_def json_get_def
        env_trim_def guardianApiMutationToken_def js_or_def truthy_def or_default_def res_ok_def Let_def)
qed


end
