(* ===== verification/Fleet.thy ===== *)
theory Fleet
  imports FleetCommand BanExec
begin

section \<open>The fleet command queue\<close>

text \<open>
  \<^verbatim>\<open>app/api/fleet/commands/route.ts\<close>, \<^verbatim>\<open>app/api/fleet/commands/ack/route.ts\<close> and
  \<open>createSignedFleetCommand\<close> of \<^verbatim>\<open>lib/fleetCommandSign.ts\<close>. The tables of
  \<^verbatim>\<open>prisma/schema.prisma\<close> the handlers use are lists of rows; each query is the
  \<open>where\<close>, \<open>orderBy\<close> and \<open>data\<close> object the handler passes. The row identifier and
  the time of a new row are arguments. A row of an unknown tenant, or with a
  field of another type than its column, is refused: the call throws.
\<close>

datatype cmd_status = Pending | Delivered | Executed | Failed_cmd | Completed

record api_key =
  ak_key :: string
  ak_tenantId :: string

record agent_command =
  ac_id :: string
  ac_tenantId :: string
  ac_targetAgentId :: "string option"
  ac_commandType :: string
  ac_payload :: string
  ac_executed :: bool
  ac_status :: cmd_status
  ac_executedAt :: "int option"
  ac_signature :: "string option"
  ac_createdAt :: int

record fleet_db =
  fd_tenants :: "string list"
  fd_keys :: "api_key list"
  fd_commands :: "agent_command list"

definition findKey :: "fleet_db \<Rightarrow> string \<Rightarrow> api_key option" where
  "findKey db token = find (\<lambda>k. ak_key k = token) (fd_keys db)"

text \<open>\<open>authHeader.split(' ')[1]\<close> after the test for the scheme.\<close>

definition bearerToken :: "request \<Rightarrow> string option" where
  "bearerToken rq =
     (case header rq ''authorization'' of
        None \<Rightarrow> None
      | Some h \<Rightarrow> if startsWith h ''Bearer '' then Some (splitOn CHR '' '' h ! 1) else None)"

definition command_input :: "agent_command \<Rightarrow> sign_input" where
  "command_input c =
     \<lparr> si_id = ac_id c, si_tenantId = ac_tenantId c, si_commandType = ac_commandType c,
       si_payload = ac_payload c, si_targetAgentId = ac_targetAgentId c \<rparr>"

definition verified :: "hmac_fn \<Rightarrow> env \<Rightarrow> agent_command \<Rightarrow> bool" where
  "verified hmac env c = verifyFleetCommandSignature hmac env (command_input c) (ac_signature c)"

subsection \<open>Polling\<close>

definition pending_for :: "string \<Rightarrow> string \<Rightarrow> agent_command \<Rightarrow> bool" where
  "pending_for tenantId agentId c =
     (ac_tenantId c = tenantId \<and> \<not> ac_executed c \<and> ac_status c = Pending
      \<and> (ac_targetAgentId c = Some agentId \<or> ac_targetAgentId c = None))"

definition findPending :: "fleet_db \<Rightarrow> string \<Rightarrow> string \<Rightarrow> agent_command list" where
  "findPending db tenantId agentId =
     sort_key ac_createdAt (filter (pending_for tenantId agentId) (fd_commands db))"

definition markDelivered :: "string list \<Rightarrow> fleet_db \<Rightarrow> fleet_db" where
  "markDelivered ids db =
     db\<lparr>fd_commands :=
          map (\<lambda>c. if ac_id c \<in> set ids \<and> ac_status c = Pending then c\<lparr>ac_status := Delivered\<rparr> else c)
            (fd_commands db)\<rparr>"

text \<open>The answer of the poll: a status and message, or the commands.\<close>

type_synonym poll_reply = "nat \<times> string + agent_command list"

definition commands_GET :: "hmac_fn \<Rightarrow> env \<Rightarrow> request \<Rightarrow> fleet_db \<Rightarrow> poll_reply \<times> fleet_db" where
  "commands_GET hmac env rq db =
     (case bearerToken rq of
        None \<Rightarrow> (Inl (401, ''Unauthorized''), db)
      | Some token \<Rightarrow>
          (case findKey db token of
             None \<Rightarrow> (Inl (401, ''Invalid API Key''), db)
           | Some apiKey \<Rightarrow>
               let agentId = query rq ''agent_id'' in
               if \<not> truthy agentId then (Inl (400, ''Missing agent_id''), db)
               else if isVpsFleetShadowAgent agentId then (Inr [], db)
               else let commands = findPending db (ak_tenantId apiKey) (the agentId);
                        deliverable = filter (verified hmac env) commands
                    in (Inr deliverable,
                        if 0 < length deliverable then markDelivered (map ac_id deliverable) db else db)))"

subsection \<open>Creating a command\<close>

definition create_data :: "string option \<Rightarrow> json option \<Rightarrow> json option \<Rightarrow> json option \<Rightarrow>
    (string \<times> string option \<times> string \<times> string) option" where
  "create_data tenant target ty payload =
     (case (tenant, ty) of
        (Some t, Some (JStr cty)) \<Rightarrow>
          (let body = (case payload of Some (JStr s) \<Rightarrow> s | Some v \<Rightarrow> json_stringify v | None \<Rightarrow> []) in
           if \<not> json_truthy target then Some (t, None, cty, body)
           else (case target of Some (JStr a) \<Rightarrow> Some (t, Some a, cty, body) | _ \<Rightarrow> None))
      | _ \<Rightarrow> None)"

definition new_command :: "string \<Rightarrow> int \<Rightarrow> string \<times> string option \<times> string \<times> string \<Rightarrow> agent_command" where
  "new_command newId now data =
     (case data of (tenant, target, ty, payload) \<Rightarrow>
        \<lparr> ac_id = newId, ac_tenantId = tenant, ac_targetAgentId = target, ac_commandType = ty,
          ac_payload = payload, ac_executed = False, ac_status = Pending, ac_executedAt = None,
          ac_signature = None, ac_createdAt = now \<rparr>)"

definition updateCommand :: "string \<Rightarrow> (agent_command \<Rightarrow> agent_command) \<Rightarrow> fleet_db \<Rightarrow> fleet_db" where
  "updateCommand i f db =
     db\<lparr>fd_commands := map (\<lambda>c. if ac_id c = i then f c else c) (fd_commands db)\<rparr>"

definition createSignedFleetCommand ::
  "hmac_fn \<Rightarrow> env \<Rightarrow> string \<Rightarrow> int \<Rightarrow> string \<times> string option \<times> string \<times> string \<Rightarrow> fleet_db \<Rightarrow>
     (agent_command \<times> fleet_db) option" where
  "createSignedFleetCommand hmac env newId now data db =
     (if fst data \<notin> set (fd_tenants db) then None
      else let command = new_command newId now data;
               db1 = db\<lparr>fd_commands := fd_commands db @ [command]\<rparr>
           in (case signFleetCommand hmac env (command_input command) of
                 None \<Rightarrow> Some (command, db1)
               | Some signature \<Rightarrow>
                   if signature = [] then Some (command, db1)
                   else Some (command\<lparr>ac_signature := Some signature\<rparr>,
                              updateCommand newId (\<lambda>c. c\<lparr>ac_signature := Some signature\<rparr>) db1)))"

record create_result =
  cr_success :: bool
  cr_command :: agent_command
  cr_immediateBan :: "ban_result option"
  cr_message :: string

record fleet_state =
  fs_db :: fleet_db
  fs_cache :: bans_cache

record fleet_deps =
  fx_hmac :: hmac_fn
  fx_exec :: exec_deps

text \<open>\<open>await request.json()\<close> destructured: no JSON and \<open>null\<close> throw.\<close>

definition object_body :: "request \<Rightarrow> json option" where
  "object_body rq = (if rq_body rq = Some JNull then None else rq_body rq)"

definition ban_command :: "json option \<Rightarrow> bool" where
  "ban_command ty = (ty = Some (JStr ''BAN_IP'') \<or> ty = Some (JStr ''UNBAN_IP''))"

definition immediate_ban :: "fleet_deps \<Rightarrow> env \<Rightarrow> json \<Rightarrow> ban_result" where
  "immediate_ban d env body =
     (let payload = json_get (Some body) ''payload'';
          ip = trim (case payload of Some v \<Rightarrow> js_String v | None \<Rightarrow> ''undefined'');
          reason = (case json_get (Some body) ''reason'' of
                      Some (JStr r) \<Rightarrow> if r \<noteq> [] then r else ''dashboard-fleet''
                    | _ \<Rightarrow> ''dashboard-fleet'')
      in fst (executeGuardianBan (fx_exec d) env ip
                (if json_get (Some body) ''commandType'' = Some (JStr ''UNBAN_IP'') then Unban_action else Ban_action)
                reason))"

definition after_create ::
  "fleet_deps \<Rightarrow> env \<Rightarrow> bool \<Rightarrow> json \<Rightarrow> agent_command \<Rightarrow> fleet_state \<Rightarrow> create_result \<times> fleet_state" where
  "after_create d env admin body command st =
     (if admin \<and> ban_command (json_get (Some body) ''commandType'')
      then let ban = immediate_ban d env body in
           (\<lparr> cr_success = gr_ok ban, cr_command = command, cr_immediateBan = Some ban,
              cr_message = gr_message ban \<rparr>,
            if gr_ok ban
            then \<lparr> fs_db = updateCommand (ac_id command)
                             (\<lambda>c. c\<lparr>ac_executed := True, ac_status := Completed\<rparr>) (fs_db st),
                   fs_cache = invalidateAllBansCache (fs_cache st) \<rparr>
            else st)
      else (\<lparr> cr_success = True, cr_command = command, cr_immediateBan = None,
              cr_message = ac_commandType command @ '' kuyru(U+011F)a al(U+0131)nd(U+0131)'' \<rparr>, st))"

definition post_command ::
  "fleet_deps \<Rightarrow> env \<Rightarrow> string \<Rightarrow> int \<Rightarrow> bool \<Rightarrow> string option \<Rightarrow> json \<Rightarrow> fleet_state \<Rightarrow>
     (nat \<times> string + create_result) \<times> fleet_state" where
  "post_command d env newId now admin finalTenantId body st =
     (case create_data finalTenantId (json_get (Some body) ''targetAgentId'')
             (json_get (Some body) ''commandType'') (json_get (Some body) ''payload'') of
        None \<Rightarrow> (Inl (500, ''Internal Server Error''), st)
      | Some data \<Rightarrow>
          (case createSignedFleetCommand (fx_hmac d) env newId now data (fs_db st) of
             None \<Rightarrow> (Inl (500, ''Internal Server Error''), st)
           | Some (command, db') \<Rightarrow>
               let (r, st') = after_create d env admin body command (st\<lparr>fs_db := db'\<rparr>)
               in (Inr r, st')))"

definition commands_POST ::
  "fleet_deps \<Rightarrow> env \<Rightarrow> string \<Rightarrow> int \<Rightarrow> request \<Rightarrow> fleet_state \<Rightarrow>
     (nat \<times> string + create_result) \<times> fleet_state" where
  "commands_POST d env newId now rq st =
     (let userRole = header rq ''x-user-role'';
          userTenant = js_or (header rq ''x-user-tenant'') (header rq ''X-User-Tenant'')
      in if \<not> truthy userRole then (Inl (401, ''Unauthorized''), st)
         else case object_body rq of
           None \<Rightarrow> (Inl (500, ''Internal Server Error''), st)
         | Some body \<Rightarrow>
             (case validateFleetCommand body of
                Some err \<Rightarrow> (Inl (400, err), st)
              | None \<Rightarrow>
                  if isVpsFleetShadowAgent (json_str (json_get (Some body) ''targetAgentId''))
                  then (Inl (403, VPS_FLEET_AGENT_ID @ '' is SSH watch-only; fleet commands are disabled''), st)
                  else if \<not> json_truthy (json_get (Some body) ''commandType'')
                          \<or> \<not> json_truthy (json_get (Some body) ''payload'')
                  then (Inl (400, ''Missing parameters''), st)
                  else let targetTenantId = json_get (Some body) ''targetTenantId'';
                           finalTenantId =
                             (if userRole = Some ''admin'' \<and> json_truthy targetTenantId
                              then json_str targetTenantId else userTenant)
                       in post_command d env newId now (userRole = Some ''admin'') finalTenantId body st))"

subsection \<open>Acknowledging a command\<close>

definition ack_status :: "json option \<Rightarrow> cmd_status" where
  "ack_status status =
     (if status = Some (JStr ''failed'') then Failed_cmd
      else if status = Some (JStr ''delivered'') then Delivered else Executed)"

definition ack_payload :: "string \<Rightarrow> json option \<Rightarrow> json option \<Rightarrow> string" where
  "ack_payload payload agentId detail =
     (case detail of
        Some (JStr t) \<Rightarrow>
          if t \<noteq> [] then payload @ '' | ack:'' @ String_nullish agentId ''?'' @ '':'' @ t else payload
      | _ \<Rightarrow> payload)"

definition ack_POST :: "int \<Rightarrow> request \<Rightarrow> fleet_db \<Rightarrow> (nat \<times> string + string \<times> cmd_status) \<times> fleet_db" where
  "ack_POST now rq db =
     (case bearerToken rq of
        None \<Rightarrow> (Inl (401, ''Unauthorized''), db)
      | Some token \<Rightarrow>
          (case findKey db token of
             None \<Rightarrow> (Inl (401, ''Invalid API Key''), db)
           | Some apiKey \<Rightarrow>
               (case object_body rq of
                  None \<Rightarrow> (Inl (500, ''Internal Server Error''), db)
                | Some body \<Rightarrow>
                    (case json_str (json_get (Some body) ''id'') of
                       None \<Rightarrow> (Inl (400, ''Missing id''), db)
                     | Some i \<Rightarrow>
                         if i = [] then (Inl (400, ''Missing id''), db)
                         else (case find (\<lambda>c. ac_id c = i \<and> ac_tenantId c = ak_tenantId apiKey) (fd_commands db) of
                                 None \<Rightarrow> (Inl (404, ''Command not found''), db)
                               | Some cmd \<Rightarrow>
                                   let st = ack_status (json_get (Some body) ''status'') in
                                   (Inr (i, st),
                                    updateCommand i
                                      (\<lambda>c. c\<lparr> ac_status := st,
                                              ac_executed := (st = Executed \<or> st = Failed_cmd),
                                              ac_executedAt := Some now,
                                              ac_payload := ack_payload (ac_payload cmd)
                                                              (json_get (Some body) ''agent_id'')
                                                              (json_get (Some body) ''detail'') \<rparr>) db))))))"

subsection \<open>The queue as a transition system\<close>

inductive fleet_step :: "fleet_db \<Rightarrow> fleet_db \<Rightarrow> bool" where
  poll: "fleet_step db (snd (commands_GET hmac env rq db))"
| ack: "fleet_step db (snd (ack_POST now rq db))"
| create: "newId \<notin> ac_id ` set (fd_commands db) \<Longrightarrow>
     fleet_step db (fs_db (snd (commands_POST d env newId now rq \<lparr>fs_db = db, fs_cache = cache\<rparr>)))"

text \<open>What one step does to the rows: each old row keeps its identity and never
returns to the queue, new rows are appended under fresh identifiers.\<close>

definition row_keeps :: "(agent_command \<Rightarrow> agent_command) \<Rightarrow> bool" where
  "row_keeps f \<longleftrightarrow> (\<forall>c. ac_id (f c) = ac_id c \<and> ac_tenantId (f c) = ac_tenantId c
     \<and> ac_targetAgentId (f c) = ac_targetAgentId c \<and> ac_commandType (f c) = ac_commandType c
     \<and> (ac_status c \<noteq> Pending \<longrightarrow> ac_status (f c) \<noteq> Pending))"

definition evolves :: "fleet_db \<Rightarrow> fleet_db \<Rightarrow> bool" where
  "evolves db db' \<longleftrightarrow>
     (\<exists>f new. fd_commands db' = map f (fd_commands db) @ new \<and> row_keeps f
        \<and> distinct (map ac_id new) \<and> ac_id ` set new \<inter> ac_id ` set (fd_commands db) = {}
        \<and> fd_keys db' = fd_keys db \<and> fd_tenants db' = fd_tenants db)"

lemma evolvesI:
  "fd_commands db' = map f (fd_commands db) @ new \<Longrightarrow> row_keeps f \<Longrightarrow> distinct (map ac_id new) \<Longrightarrow>
   ac_id ` set new \<inter> ac_id ` set (fd_commands db) = {} \<Longrightarrow> fd_keys db' = fd_keys db \<Longrightarrow>
   fd_tenants db' = fd_tenants db \<Longrightarrow> evolves db db'"
  unfolding evolves_def by blast

lemma row_keeps_id [simp]: "row_keeps (\<lambda>c. c)" "row_keeps id"
  by (simp_all add: row_keeps_def)

lemma evolves_refl [simp]: "evolves db db"
  by (rule evolvesI [where f = id and new = "[]"]) simp_all

lemma evolves_deliver [simp]: "evolves db (markDelivered ids db)"
proof (rule evolvesI)
  show "fd_commands (markDelivered ids db) =
      map (\<lambda>c. if ac_id c \<in> set ids \<and> ac_status c = Pending then c\<lparr>ac_status := Delivered\<rparr> else c)
        (fd_commands db) @ []"
    by (simp add: markDelivered_def)
qed (simp_all add: markDelivered_def row_keeps_def)

lemma evolves_poll: "evolves db (snd (commands_GET hmac env rq db))"
  by (auto simp: commands_GET_def Let_def split: option.splits)

lemma evolves_update:
  assumes "row_keeps f"
  shows "evolves db (updateCommand i f db)"
proof (rule evolvesI)
  show "fd_commands (updateCommand i f db) =
      map (\<lambda>c. if ac_id c = i then f c else c) (fd_commands db) @ []"
    by (simp add: updateCommand_def)
  show "row_keeps (\<lambda>c. if ac_id c = i then f c else c)"
    using assms by (simp add: row_keeps_def)
qed (simp_all add: updateCommand_def)

lemma evolves_ack: "evolves db (snd (ack_POST now rq db))"
  by (auto simp: ack_POST_def Let_def ack_status_def row_keeps_def intro!: evolves_update
      split: option.splits)

lemma update_fresh:
  assumes "i \<notin> ac_id ` set cs"
  shows "map (\<lambda>c. if ac_id c = i then f c else c) cs = cs"
  using assms by (induction cs) auto

lemma created_rows:
  assumes "createSignedFleetCommand hmac env newId now data db = Some (c, db')"
    and "newId \<notin> ac_id ` set (fd_commands db)"
  shows "fd_commands db' = fd_commands db @ [c]" "fd_keys db' = fd_keys db" "fd_tenants db' = fd_tenants db"
    "ac_id c = newId" "ac_status c = Pending" "\<not> ac_executed c" "ac_tenantId c = fst data"
    "ac_tenantId c \<in> set (fd_tenants db)"
  using assms
  by (auto simp: createSignedFleetCommand_def new_command_def updateCommand_def Let_def update_fresh
      split: option.splits if_splits prod.splits)

lemma after_create_rows:
  assumes "fd_commands (fs_db st) = cs @ [c]" "ac_id c \<notin> ac_id ` set cs"
  shows "\<exists>c'. fd_commands (fs_db (snd (after_create d env adm body c st))) = cs @ [c']
     \<and> ac_id c' = ac_id c \<and> ac_tenantId c' = ac_tenantId c
     \<and> (c' = c \<or> c' = c\<lparr>ac_executed := True, ac_status := Completed\<rparr>)"
  "fd_keys (fs_db (snd (after_create d env adm body c st))) = fd_keys (fs_db st)"
  "fd_tenants (fs_db (snd (after_create d env adm body c st))) = fd_tenants (fs_db st)"
  using assms
  by (auto simp: after_create_def updateCommand_def Let_def update_fresh)

lemma POST_cases:
  assumes "newId \<notin> ac_id ` set (fd_commands (fs_db st))"
  obtains (same) "fs_db (snd (commands_POST d env newId now rq st)) = fs_db st"
  | (new) c where "fd_commands (fs_db (snd (commands_POST d env newId now rq st))) = fd_commands (fs_db st) @ [c]"
      "fd_keys (fs_db (snd (commands_POST d env newId now rq st))) = fd_keys (fs_db st)"
      "fd_tenants (fs_db (snd (commands_POST d env newId now rq st))) = fd_tenants (fs_db st)"
      "ac_id c = newId" "ac_tenantId c \<in> set (fd_tenants (fs_db st))"
      "ac_status c = Pending \<and> \<not> ac_executed c \<or> ac_status c = Completed \<and> ac_executed c"
proof -
  let ?st = "snd (commands_POST d env newId now rq st)"
  have "?st = st \<or> (\<exists>adm tenant body. ?st = snd (post_command d env newId now adm tenant body st))"
    by (auto simp: commands_POST_def Let_def split: option.splits)
  moreover have "snd (post_command d env newId now adm tenant body st) = st \<or> (\<exists>data c db'.
      createSignedFleetCommand (fx_hmac d) env newId now data (fs_db st) = Some (c, db')
      \<and> snd (post_command d env newId now adm tenant body st) = snd (after_create d env adm body c (st\<lparr>fs_db := db'\<rparr>)))"
    for adm tenant body
    by (simp add: post_command_def Let_def case_prod_beta split: option.splits) blast
  ultimately have "fs_db ?st = fs_db st \<or> (\<exists>body data c db' adm.
      createSignedFleetCommand (fx_hmac d) env newId now data (fs_db st) = Some (c, db')
      \<and> ?st = snd (after_create d env adm body c (st\<lparr>fs_db := db'\<rparr>)))"
    by metis
  then show thesis
  proof
    assume "fs_db ?st = fs_db st"
    then show thesis by (rule same)
  next
    assume "\<exists>body data c db' adm.
      createSignedFleetCommand (fx_hmac d) env newId now data (fs_db st) = Some (c, db')
      \<and> ?st = snd (after_create d env adm body c (st\<lparr>fs_db := db'\<rparr>))"
    then obtain body data c db' adm where
      cr: "createSignedFleetCommand (fx_hmac d) env newId now data (fs_db st) = Some (c, db')"
      and st: "?st = snd (after_create d env adm body c (st\<lparr>fs_db := db'\<rparr>))" by blast
    note rows = created_rows [OF cr assms]
    obtain c' where "fd_commands (fs_db ?st) = fd_commands (fs_db st) @ [c']" "ac_id c' = ac_id c"
      "ac_tenantId c' = ac_tenantId c" "c' = c \<or> c' = c\<lparr>ac_executed := True, ac_status := Completed\<rparr>"
      using after_create_rows(1) [of "st\<lparr>fs_db := db'\<rparr>" "fd_commands (fs_db st)" c d env adm body] rows assms st
      by auto
    then show thesis
      using rows after_create_rows(2,3) [of "st\<lparr>fs_db := db'\<rparr>" "fd_commands (fs_db st)" c d env adm body] assms st
      by (intro new [of c']) auto
  qed
qed

lemma evolves_create:
  assumes "newId \<notin> ac_id ` set (fd_commands (fs_db st))"
  shows "evolves (fs_db st) (fs_db (snd (commands_POST d env newId now rq st)))"
  using assms
proof (cases rule: POST_cases [where d = d and env = env and now = now and rq = rq])
  case (new c)
  then show ?thesis
    using assms by (intro evolvesI [where f = id and new = "[c]"]) auto
qed simp

lemma step_evolves: "fleet_step db db' \<Longrightarrow> evolves db db'"
proof (induction rule: fleet_step.induct)
  case (create newId db d env now rq cache)
  then show ?case using evolves_create [of newId "\<lparr>fs_db = db, fs_cache = cache\<rparr>"] by simp
qed (simp_all add: evolves_poll evolves_ack)

subsection \<open>Invariants of the queue\<close>

definition ids_ok :: "fleet_db \<Rightarrow> bool" where
  "ids_ok db = distinct (map ac_id (fd_commands db))"

text \<open>A command that has left the queue.\<close>

definition taken :: "string \<Rightarrow> fleet_db \<Rightarrow> bool" where
  "taken i db \<longleftrightarrow> ids_ok db \<and> (\<exists>c \<in> set (fd_commands db). ac_id c = i \<and> ac_status c \<noteq> Pending)"

lemma evolves_ids:
  assumes "evolves db db'" "ids_ok db"
  shows "ids_ok db'"
proof -
  obtain f new where new: "fd_commands db' = map f (fd_commands db) @ new" "row_keeps f"
    "distinct (map ac_id new)" "ac_id ` set new \<inter> ac_id ` set (fd_commands db) = {}"
    using assms(1) unfolding evolves_def by blast
  then have "map ac_id (fd_commands db') = map ac_id (fd_commands db) @ map ac_id new"
    by (simp add: row_keeps_def)
  then show ?thesis using new(3,4) assms(2) by (auto simp: ids_ok_def)
qed

lemma evolves_taken: "evolves db db' \<Longrightarrow> taken i db \<Longrightarrow> taken i db'"
proof -
  assume ev: "evolves db db'" and tk: "taken i db"
  then obtain f new c where "fd_commands db' = map f (fd_commands db) @ new" "row_keeps f"
    "c \<in> set (fd_commands db)" "ac_id c = i" "ac_status c \<noteq> Pending"
    unfolding evolves_def taken_def by blast
  then have "f c \<in> set (fd_commands db')" "ac_id (f c) = i" "ac_status (f c) \<noteq> Pending"
    by (simp_all add: row_keeps_def)
  then show "taken i db'" using evolves_ids [OF ev] tk unfolding taken_def by blast
qed

interpretation ids: preserved fleet_step ids_ok
  by unfold_locales (auto dest: step_evolves evolves_ids)

interpretation taken: preserved fleet_step "taken i" for i
  by unfold_locales (auto dest: step_evolves evolves_taken)

definition flag_ok :: "fleet_db \<Rightarrow> bool" where
  "flag_ok db \<longleftrightarrow> (\<forall>c \<in> set (fd_commands db).
     ac_executed c = (ac_status c \<in> {Executed, Failed_cmd, Completed}))"

lemma flag_ok_step: "fleet_step db db' \<Longrightarrow> flag_ok db \<Longrightarrow> flag_ok db'"
proof (induction rule: fleet_step.induct)
  case (poll db hmac env rq)
  then show ?case
    by (auto simp: commands_GET_def Let_def flag_ok_def markDelivered_def split: option.splits)
next
  case (ack db now rq)
  then show ?case
    by (auto simp: ack_POST_def Let_def flag_ok_def updateCommand_def ack_status_def split: option.splits)
next
  case (create newId db d env now rq cache)
  from create.hyps have "newId \<notin> ac_id ` set (fd_commands (fs_db \<lparr>fs_db = db, fs_cache = cache\<rparr>))" by simp
  then show ?case
    by (cases rule: POST_cases [where d = d and env = env and now = now and rq = rq])
      (use create.prems in \<open>auto simp: flag_ok_def\<close>)
qed

interpretation flag: preserved fleet_step flag_ok
  by unfold_locales (rule flag_ok_step)

lemma commands_GET_Inr:
  assumes "commands_GET hmac env rq db = (Inr cs, db')"
  obtains token key agent where "bearerToken rq = Some token" "findKey db token = Some key"
    "query rq ''agent_id'' = Some agent" "agent \<noteq> []"
    "cs = (if agent = VPS_FLEET_AGENT_ID then []
           else filter (verified hmac env) (findPending db (ak_tenantId key) agent))"
    "db' = (if cs = [] then db else markDelivered (map ac_id cs) db)"
proof -
  obtain token where t: "bearerToken rq = Some token"
    using assms by (auto simp: commands_GET_def split: option.splits)
  obtain key where k: "findKey db token = Some key"
    using assms t by (auto simp: commands_GET_def split: option.splits)
  obtain agent where a: "query rq ''agent_id'' = Some agent" "agent \<noteq> []"
    using assms t k by (auto simp: commands_GET_def truthy_def Let_def split: option.splits if_splits)
  show thesis
    using assms t k a by (intro that [OF t k a])
      (auto simp: commands_GET_def truthy_def Let_def isVpsFleetShadowAgent_def split: if_splits)
qed

lemma delivered_pending:
  assumes "commands_GET hmac env rq db = (Inr cs, db')" "c \<in> set cs"
  shows "c \<in> set (fd_commands db)" "ac_status c = Pending"
  using assms by (auto elim!: commands_GET_Inr simp: findPending_def pending_for_def split: if_splits)

lemma delivered_taken:
  assumes "commands_GET hmac env rq db = (Inr cs, db')" "c \<in> set cs" "ids_ok db"
  shows "taken (ac_id c) db'"
proof -
  have "cs \<noteq> []" using assms(2) by auto
  with assms(1) have db': "db' = markDelivered (map ac_id cs) db"
    by (auto elim: commands_GET_Inr)
  have "c\<lparr>ac_status := Delivered\<rparr> \<in> set (fd_commands db')"
    using delivered_pending [OF assms(1,2)] assms(2) unfolding db' by (force simp: markDelivered_def)
  moreover have "ids_ok db'" using evolves_ids [OF evolves_deliver assms(3)] by (simp add: db')
  ultimately show ?thesis
    unfolding taken_def by (auto intro!: bexI [of _ "c\<lparr>ac_status := Delivered\<rparr>"])
qed

lemma commands_POST_Inr:
  assumes "commands_POST d env newId now rq st = (Inr r, st')"
  obtains body data c db' where "truthy (header rq ''x-user-role'')" "object_body rq = Some body"
    "validateFleetCommand body = None"
    "create_data (if header rq ''x-user-role'' = Some ''admin'' \<and> json_truthy (json_get (Some body) ''targetTenantId'')
        then json_str (json_get (Some body) ''targetTenantId'')
        else js_or (header rq ''x-user-tenant'') (header rq ''X-User-Tenant''))
        (json_get (Some body) ''targetAgentId'') (json_get (Some body) ''commandType'')
        (json_get (Some body) ''payload'') = Some data"
    "createSignedFleetCommand (fx_hmac d) env newId now data (fs_db st) = Some (c, db')"
    "after_create d env (header rq ''x-user-role'' = Some ''admin'') body c (st\<lparr>fs_db := db'\<rparr>) = (r, st')"
proof -
  have role: "truthy (header rq ''x-user-role'')"
    using assms by (auto simp: commands_POST_def Let_def split: if_splits)
  obtain body where body: "object_body rq = Some body"
    using assms role by (auto simp: commands_POST_def Let_def split: option.splits)
  have val: "validateFleetCommand body = None"
    using assms role body by (auto simp: commands_POST_def Let_def split: option.splits)
  let ?t = "if header rq ''x-user-role'' = Some ''admin'' \<and> json_truthy (json_get (Some body) ''targetTenantId'')
        then json_str (json_get (Some body) ''targetTenantId'')
        else js_or (header rq ''x-user-tenant'') (header rq ''X-User-Tenant'')"
  have post: "post_command d env newId now (header rq ''x-user-role'' = Some ''admin'') ?t body st = (Inr r, st')"
    using assms role body val by (auto simp: commands_POST_def Let_def split: if_splits)
  then obtain data where data: "create_data ?t (json_get (Some body) ''targetAgentId'')
      (json_get (Some body) ''commandType'') (json_get (Some body) ''payload'') = Some data"
    by (auto simp: post_command_def split: option.splits)
  obtain c db' where c: "createSignedFleetCommand (fx_hmac d) env newId now data (fs_db st) = Some (c, db')"
    using post data by (auto simp: post_command_def split: option.splits prod.splits)
  show thesis
    using post data c by (intro that [OF role body val data c])
      (auto simp: post_command_def Let_def split: prod.splits)
qed

lemma create_data_tenant: "create_data t a ty p = Some data \<Longrightarrow> t = Some (fst data)"
  by (auto simp: create_data_def Let_def split: option.splits json.splits if_splits)

lemma after_create_command:
  assumes "after_create d env adm body c st = (r, st')"
  shows "cr_command r = c" "\<not> adm \<Longrightarrow> cr_immediateBan r = None" "cr_immediateBan r = None \<Longrightarrow> st' = st"
  using assms by (auto simp: after_create_def Let_def split: if_splits)

lemma created_signed:
  assumes "createSignedFleetCommand hmac env newId now data db = Some (c, db')"
    and "fleetSignKey env \<noteq> None" "\<And>k m. hmac k m \<noteq> [] \<and> trim (hmac k m) = hmac k m"
  shows "verified hmac env c"
proof -
  obtain k where k: "fleetSignKey env = Some k" using assms(2) by auto
  let ?c = "new_command newId now data"
  have "c = ?c\<lparr>ac_signature := Some (hmac k (buildFleetCommandDigest (command_input ?c)))\<rparr>"
    using assms(1,3) by (auto simp: createSignedFleetCommand_def signFleetCommand_def k Let_def split: if_splits)
  then show ?thesis
    using assms(3) by (simp add: verified_def verify_iff truthy_def signFleetCommand_def k command_input_def)
qed

subsection \<open>Properties\<close>


text \<open>C30. A poll hands out exactly the commands meant for it: with a known key
and an agent name other than the watch-only node, the commands returned are
the verified ones among the waiting commands of the key's own tenant that
address this agent or the whole tenant, oldest first.\<close>

theorem fleet_poll_exact:
  assumes "commands_GET hmac env rq db = (Inr cs, db')"
  shows "\<exists>token key agent. bearerToken rq = Some token \<and> findKey db token = Some key
     \<and> query rq ''agent_id'' = Some agent
     \<and> set cs = {c \<in> set (fd_commands db). agent \<noteq> VPS_FLEET_AGENT_ID \<and> verified hmac env c
                  \<and> ac_tenantId c = ak_tenantId key \<and> ac_status c = Pending \<and> \<not> ac_executed c
                  \<and> ac_targetAgentId c \<in> {Some agent, None}}
     \<and> sorted (map ac_createdAt cs)"
proof -
  obtain token key agent where k: "bearerToken rq = Some token" "findKey db token = Some key"
    "query rq ''agent_id'' = Some agent"
    and cs: "cs = (if agent = VPS_FLEET_AGENT_ID then []
           else filter (verified hmac env) (findPending db (ak_tenantId key) agent))"
    using commands_GET_Inr [OF assms] by metis
  show ?thesis
    using k by (intro exI [of _ token] exI [of _ key] exI [of _ agent])
      (auto simp: cs findPending_def pending_for_def intro!: sorted_filter)
qed



text \<open>A command addressed to the whole tenant reaches one agent only: after
the first agent that polls has received it, the poll of any other agent, even
the very next one, does not return it.\<close>

theorem fleet_broadcast_reaches_one:
  assumes "ids_ok db" "c \<in> set (fd_commands db)" "ac_targetAgentId c = None"
    and "commands_GET hmac env rq1 db = (Inr cs1, db1)" "c \<in> set cs1"
    and "commands_GET hmac env rq2 db1 = (Inr cs2, db2)"
  shows "ac_id c \<notin> ac_id ` set cs2"
proof
  assume "ac_id c \<in> ac_id ` set cs2"
  then obtain c' where c': "c' \<in> set cs2" "ac_id c' = ac_id c" by auto
  have "taken (ac_id c) db1" by (rule delivered_taken [OF assms(4,5,1)])
  then obtain c'' where "c'' \<in> set (fd_commands db1)" "ac_id c'' = ac_id c" "ac_status c'' \<noteq> Pending" "ids_ok db1"
    unfolding taken_def by blast
  moreover have "c' \<in> set (fd_commands db1)" "ac_status c' = Pending"
    using delivered_pending [OF assms(6) c'(1)] by auto
  ultimately show False using c'(2) by (metis distinct_map ids_ok_def inj_on_def)
qed

text \<open>The flag and the status of every command agree in every reachable
state: a command counts as executed exactly when it was executed, failed or
completed.\<close>

theorem fleet_flag_invariant:
  assumes "fleet_step\<^sup>*\<^sup>* db db'" "flag_ok db"
  shows "flag_ok db'"
  using assms by (rule flag.run_inv)

text \<open>An acknowledgement changes at most the one command it names, and only
a command of the tenant whose key was presented; every other row, and every
row's tenant, type, target and signature, stays as it was.\<close>

theorem fleet_ack_isolated:
  assumes "ack_POST now rq db = (r, db')" "ids_ok db"
  shows "\<exists>key token i. length (fd_commands db') = length (fd_commands db)
     \<and> (db' = db \<or> bearerToken rq = Some token \<and> findKey db token = Some key)
     \<and> (\<forall>n < length (fd_commands db).
          let c = fd_commands db ! n; c' = fd_commands db' ! n in
          c' = c \<or> (ac_id c = i \<and> ac_tenantId c = ak_tenantId key \<and> ac_status c' \<noteq> Pending
                    \<and> ac_id c' = ac_id c \<and> ac_tenantId c' = ac_tenantId c \<and> ac_commandType c' = ac_commandType c
                    \<and> ac_targetAgentId c' = ac_targetAgentId c \<and> ac_signature c' = ac_signature c))"
proof (cases "db' = db")
  case False
  then obtain token key i cmd f where k: "bearerToken rq = Some token" "findKey db token = Some key"
    and find: "find (\<lambda>c. ac_id c = i \<and> ac_tenantId c = ak_tenantId key) (fd_commands db) = Some cmd"
    and db': "db' = updateCommand i f db"
    and f: "\<forall>c. ac_status (f c) \<noteq> Pending \<and> ac_id (f c) = ac_id c \<and> ac_tenantId (f c) = ac_tenantId c
       \<and> ac_commandType (f c) = ac_commandType c \<and> ac_targetAgentId (f c) = ac_targetAgentId c
       \<and> ac_signature (f c) = ac_signature c"
    using assms(1) unfolding ack_POST_def Let_def ack_status_def
    by (auto split: option.splits if_splits)
  have cmd: "cmd \<in> set (fd_commands db)" "ac_id cmd = i" "ac_tenantId cmd = ak_tenantId key"
    using find by (auto simp: find_Some_iff in_set_conv_nth)
  have "ac_tenantId c = ak_tenantId key" if "c \<in> set (fd_commands db)" "ac_id c = i" for c
    using that cmd assms(2) by (metis distinct_map ids_ok_def inj_on_def)
  then show ?thesis
    using k f unfolding db'
    by (intro exI [of _ key] exI [of _ token] exI [of _ i]) (auto simp: updateCommand_def Let_def)
qed auto

subsection \<open>Witnesses\<close>

definition q_command :: agent_command where
  "q_command =
     \<lparr> ac_id = ''c1'', ac_tenantId = ''t1'', ac_targetAgentId = None, ac_commandType = ''PUSH_CONFIG'',
       ac_payload = ''x'', ac_executed = False, ac_status = Pending, ac_executedAt = None,
       ac_signature = None, ac_createdAt = 1 \<rparr>"

definition q_db :: fleet_db where
  "q_db = \<lparr> fd_tenants = [''t1''], fd_keys = [\<lparr>ak_key = ''k1'', ak_tenantId = ''t1''\<rparr>],
            fd_commands = [q_command] \<rparr>"

definition q_db' :: fleet_db where
  "q_db' = q_db\<lparr>fd_commands := [q_command\<lparr>ac_status := Delivered\<rparr>]\<rparr>"

definition q_env :: env where
  "q_env v = (if v = ''FLEET_COMMAND_REQUIRE_SIG'' then Some ''0'' else None)"

definition q_request :: "string \<Rightarrow> json option \<Rightarrow> request" where
  "q_request agent body =
     \<lparr> rq_protocol = ''http:'', rq_hostname = ''dash'', rq_origin = ''http://dash'',
       rq_path = ''/api/fleet/commands'', rq_search = [], rq_query = [(''agent_id'', agent)],
       rq_headers = [(''authorization'', ''Bearer k1'')], rq_cookies = [], rq_body = body, rq_form = None \<rparr>"

lemma q_token: "bearerToken (q_request agent body) = Some ''k1''"
  by (simp add: bearerToken_def q_request_def header_def headers_get_def map_get_def toLowerCase_def)

lemmas q_simps = q_token findKey_def q_db_def q_db'_def q_command_def query_def truthy_def

lemma q_agents: "isVpsFleetShadowAgent (Some ''a1'') = False" "isVpsFleetShadowAgent (Some ''a2'') = False"
  by (simp_all add: isVpsFleetShadowAgent_def VPS_FLEET_AGENT_ID_def)

lemma q_verified: "verified hmac q_env c = (ac_signature c = None)" if "ac_signature c = None"
  using that by (simp add: verified_def verify_iff truthy_def fleetRequireSig_def q_env_def)

lemma q_poll: "commands_GET hmac q_env (q_request ''a1'' None) q_db = (Inr [q_command], q_db')"
proof -
  have "query (q_request ''a1'' None) ''agent_id'' = Some ''a1''" by (simp add: query_def q_request_def)
  moreover have "verified hmac q_env q_command" using q_verified [of q_command] by (simp add: q_command_def)
  ultimately show ?thesis
    by (simp add: commands_GET_def q_token findKey_def truthy_def q_agents findPending_def pending_for_def
        markDelivered_def q_db_def q_db'_def Let_def) (simp add: q_command_def)
qed

lemma q_poll_again: "commands_GET hmac q_env (q_request ''a2'' None) q_db' = (Inr [], q_db')"
proof -
  have "query (q_request ''a2'' None) ''agent_id'' = Some ''a2''" by (simp add: query_def q_request_def)
  then show ?thesis
    by (simp add: commands_GET_def q_token findKey_def truthy_def q_agents findPending_def pending_for_def
        q_db_def q_db'_def Let_def)
qed

lemma q_ok: "ids_ok q_db" "flag_ok q_db"
  by (simp_all add: ids_ok_def flag_ok_def q_db_def q_command_def)

definition q_deps :: fleet_deps where
  "q_deps = \<lparr>fx_hmac = demo_hmac, fx_exec = ban_deps\<rparr>"

definition q_state :: fleet_state where
  "q_state = \<lparr>fs_db = q_db\<lparr>fd_commands := []\<rparr>, fs_cache = []\<rparr>"

definition q_post :: request where
  "q_post = (q_request [] (Some (JObj [(''commandType'', JStr ''PUSH_CONFIG''), (''payload'', JStr ''x'')])))
     \<lparr>rq_headers := [(''x-user-role'', ''user''), (''x-user-tenant'', ''t1'')]\<rparr>"

lemma q_key: "fleetSignKey q_env = Some DEV_FLEET_HMAC_KEY"
  by (simp add: fleetSignKey_def q_env_def DEV_FLEET_HMAC_KEY_def js_defs)

lemma q_hex: "fx_hmac q_deps k m \<noteq> [] \<and> trim (fx_hmac q_deps k m) = fx_hmac q_deps k m"
  by (simp add: q_deps_def demo_hmac_def trim_def)

lemma q_header: "header q_post ''x-user-role'' = Some ''user''" "header q_post ''x-user-tenant'' = Some ''t1''"
  by (simp_all add: q_post_def header_def headers_get_def map_get_def toLowerCase_def)

lemma q_posted: "\<exists>r st'. commands_POST q_deps q_env ''c9'' 5 q_post q_state = (Inr r, st')
    \<and> cr_immediateBan r = None \<and> ac_tenantId (cr_command r) = ''t1'' \<and> ac_targetAgentId (cr_command r) = None
    \<and> fd_keys (fs_db st') = fd_keys q_db"
proof -
  let ?b = "JObj [(''commandType'', JStr ''PUSH_CONFIG''), (''payload'', JStr ''x'')]"
  have v: "validateFleetCommand ?b = None"
    by (simp add: validateFleetCommand_def Let_def json_get_def String_nullish_def trim_def payload_text_def
        ALLOWED_TYPES_def MAX_PAYLOAD_LEN_def)
  have b: "object_body q_post = Some ?b" by (simp add: object_body_def q_post_def q_request_def)
  show ?thesis
    using v b q_header q_key q_hex [of DEV_FLEET_HMAC_KEY]
    by (simp add: commands_POST_def post_command_def createSignedFleetCommand_def after_create_def truthy_def
        js_or_def json_get_def create_data_def new_command_def isVpsFleetShadowAgent_def q_state_def q_db_def
        signFleetCommand_def updateCommand_def command_input_def Let_def)
qed




theorem fleet_poll_exact_witness:
  "\<exists>key. findKey q_db ''k1'' = Some key \<and> sorted (map ac_createdAt [q_command])"
  using fleet_poll_exact [OF q_poll] by (auto simp: q_token)

theorem fleet_broadcast_reaches_one_witness:
  "commands_GET demo_hmac q_env (q_request ''a1'' None) q_db = (Inr [q_command], q_db')
   \<and> ac_id q_command \<notin> ac_id ` set ([] :: agent_command list)"
  using fleet_broadcast_reaches_one [OF q_ok(1) _ _ q_poll _ q_poll_again, of q_command] q_poll
  by (simp add: q_db_def q_command_def)

theorem fleet_flag_invariant_witness: "flag_ok q_db'"
proof -
  have "fleet_step q_db (snd (commands_GET demo_hmac q_env (q_request ''a1'' None) q_db))"
    by (rule fleet_step.poll)
  then have "fleet_step\<^sup>*\<^sup>* q_db q_db'" by (simp add: q_poll)
  then show ?thesis using fleet_flag_invariant q_ok(2) by blast
qed

theorem fleet_ack_isolated_witness:
  "length (fd_commands (snd (ack_POST 9 (q_request ''a1'' (Some (JObj [(''id'', JStr ''c1'')]))) q_db))) = 1"
proof -
  obtain r db' where r: "ack_POST 9 (q_request ''a1'' (Some (JObj [(''id'', JStr ''c1'')]))) q_db = (r, db')"
    by fastforce
  have "length (fd_commands db') = length (fd_commands q_db)"
    using fleet_ack_isolated [OF r q_ok(1)] by blast
  then show ?thesis unfolding r by (simp add: q_db_def)
qed

end
