(* ===== verification/Telemetry.thy ===== *)
theory Telemetry
  imports Fleet
begin

section \<open>Agent telemetry, the fleet view and the tenant view\<close>

text \<open>
  \<^verbatim>\<open>app/api/telemetry/route.ts\<close>, \<^verbatim>\<open>app/api/fleet/route.ts\<close>, \<^verbatim>\<open>app/api/tenants/route.ts\<close>,
  \<^verbatim>\<open>app/api/tenants/isolation/route.ts\<close> and the shadow agent of
  \<^verbatim>\<open>lib/vpsFleetShadow.ts\<close>. The telemetry table is a list of rows; a value of
  another type than its column, or an integer outside the 32 bits of an \<open>Int\<close> column,
  makes the write throw. Times are milliseconds; \<open>Date\<close> parsing of a string is an argument.
\<close>

record telemetry =
  tl_agentId :: string
  tl_tenantId :: string
  tl_eps :: rat
  tl_totalLines :: int
  tl_alertsTotal :: int
  tl_rceDetections :: int
  tl_tarpitActive :: int
  tl_tarpitTrapped :: int
  tl_meshPeers :: int
  tl_uniqueIps :: int
  tl_tlsDecrypted :: int
  tl_etcdPeers :: int
  tl_attackTreeJson :: string
  tl_incidentsActive :: int
  tl_incidentsCorrelated :: int
  tl_lastSeen :: int

record telemetry_db =
  td_tenants :: "(string \<times> string) list"
  td_keys :: "api_key list"
  td_rows :: "telemetry list"

subsection \<open>Ingestion\<close>

text \<open>\<open>v || 0\<close> and \<open>v ?? 0\<close> written to a \<open>Float\<close> and to an \<open>Int\<close> column.\<close>

definition float_or0 :: "json option \<Rightarrow> rat option" where
  "float_or0 v = (if json_truthy v then json_num v else Some 0)"

definition rat_int :: "rat \<Rightarrow> int option" where
  "rat_int q = (if of_int \<lfloor>q\<rfloor> = q \<and> - (2 ^ 31) \<le> \<lfloor>q\<rfloor> \<and> \<lfloor>q\<rfloor> < 2 ^ 31 then Some \<lfloor>q\<rfloor> else None)"

definition int_or0 :: "json option \<Rightarrow> int option" where
  "int_or0 v = (if json_truthy v then Option.bind (json_num v) rat_int else Some 0)"

definition int_nullish0 :: "json option \<Rightarrow> int option" where
  "int_nullish0 v = (if v = None \<or> v = Some JNull then Some 0 else Option.bind (json_num v) rat_int)"

definition tree_text :: "json option \<Rightarrow> string" where
  "tree_text v =
     (case v of
        Some (JStr s) \<Rightarrow> s
      | None \<Rightarrow> json_stringify (JArr [])
      | Some JNull \<Rightarrow> json_stringify (JArr [])
      | Some w \<Rightarrow> json_stringify w)"

definition telemetry_row :: "string \<Rightarrow> string \<Rightarrow> int \<Rightarrow> json \<Rightarrow> telemetry option" where
  "telemetry_row agentId tenantId now data =
     (let d = json_get (Some data) in
      case (float_or0 (d ''eps''), int_or0 (d ''total_lines''), int_or0 (d ''alerts_total''),
            int_or0 (d ''rce_detections''), int_or0 (d ''tarpit_active''), int_or0 (d ''tarpit_trapped''),
            int_or0 (d ''mesh_peers''), int_or0 (d ''unique_ips''), int_or0 (d ''tls_decrypted''),
            int_or0 (d ''etcd_peers''), int_nullish0 (d ''incidents_active''),
            int_nullish0 (d ''incidents_correlated'')) of
        (Some eps, Some lines, Some alerts, Some rce, Some ta, Some tt, Some mesh, Some ips, Some tls,
         Some etcd, Some ia, Some ic) \<Rightarrow>
          Some \<lparr> tl_agentId = agentId, tl_tenantId = tenantId, tl_eps = eps, tl_totalLines = lines,
                 tl_alertsTotal = alerts, tl_rceDetections = rce, tl_tarpitActive = ta,
                 tl_tarpitTrapped = tt, tl_meshPeers = mesh, tl_uniqueIps = ips, tl_tlsDecrypted = tls,
                 tl_etcdPeers = etcd, tl_attackTreeJson = tree_text (d ''attack_tree''),
                 tl_incidentsActive = ia, tl_incidentsCorrelated = ic, tl_lastSeen = now \<rparr>
      | _ \<Rightarrow> None)"

definition same_agent :: "telemetry \<Rightarrow> telemetry \<Rightarrow> bool" where
  "same_agent a b = (tl_agentId a = tl_agentId b \<and> tl_tenantId a = tl_tenantId b)"

definition upsert :: "telemetry \<Rightarrow> telemetry list \<Rightarrow> telemetry list" where
  "upsert row rows =
     (if list_ex (same_agent row) rows
      then map (\<lambda>r. if same_agent row r then row else r) rows
      else rows @ [row])"

definition telemetry_POST :: "int \<Rightarrow> request \<Rightarrow> telemetry_db \<Rightarrow> response \<times> telemetry_db" where
  "telemetry_POST now rq db =
     (case bearerToken rq of
        None \<Rightarrow> (error_reply 401 ''Unauthorized: Missing or invalid token'', db)
      | Some token \<Rightarrow>
          (case find (\<lambda>k. ak_key k = token) (td_keys db) of
             None \<Rightarrow> (error_reply 401 ''Unauthorized: Invalid API Key'', db)
           | Some apiKey \<Rightarrow>
               (case object_body rq of
                  None \<Rightarrow> (error_reply 500 ''Internal Server Error'', db)
                | Some data \<Rightarrow>
                    let agent = json_get (Some data) ''agent_id'' in
                    if \<not> json_truthy agent then (error_reply 400 ''Missing agent_id'', db)
                    else (case json_str agent of
                            None \<Rightarrow> (error_reply 500 ''Internal Server Error'', db)
                          | Some agentId \<Rightarrow>
                              (case telemetry_row agentId (ak_tenantId apiKey) now data of
                                 None \<Rightarrow> (error_reply 500 ''Internal Server Error'', db)
                               | Some row \<Rightarrow>
                                   (json_reply 200 [(''success'', JBool True),
                                                    (''tenant_id'', JStr (ak_tenantId apiKey)),
                                                    (''timestamp'', JInt now)],
                                    db\<lparr>td_rows := upsert row (td_rows db)\<rparr>))))))"

subsection \<open>The shadow agent\<close>

record vps_status =
  vs_pass :: "bool option"
  vs_ssh_ok :: "bool option"
  vs_hostname :: "string option"
  vs_host :: "string option"
  vs_remote_root :: "string option"
  vs_xdp_mode :: "string option"
  vs_eps :: "rat option"
  vs_soak_proof_72h :: "rat option"
  vs_date :: "string option"

text \<open>The fields only the shadow agent has.\<close>

record shadow_info =
  si_xdp_mode :: "string option"
  si_soak_proof_72h :: "rat option"
  si_hostname :: "string option"
  si_host :: "string option"

record fleet_row =
  fr_agent_id :: string
  fr_tenant_id :: string
  fr_tenant_name :: string
  fr_eps :: rat
  fr_total_lines :: int
  fr_alerts_total :: int
  fr_rce_detections :: int
  fr_tarpit_active :: int
  fr_tarpit_trapped :: int
  fr_mesh_peers :: int
  fr_unique_ips :: int
  fr_tls_decrypted :: int
  fr_etcd_peers :: int
  fr_incidents_active :: int
  fr_incidents_correlated :: int
  fr_attack_trees :: nat
  fr_last_seen :: "int option"
  fr_status :: string
  fr_remote_shadow :: "shadow_info option"

text \<open>The first of the three directories whose file can be read and parsed.\<close>

fun readVpsRemoteStatus :: "(string \<Rightarrow> vps_status option) \<Rightarrow> string list \<Rightarrow> vps_status option" where
  "readVpsRemoteStatus file [] = None"
| "readVpsRemoteStatus file (base # bases) =
     (case file base of Some st \<Rightarrow> Some st | None \<Rightarrow> readVpsRemoteStatus file bases)"

definition buildVpsFleetShadow :: "(string \<Rightarrow> int option) \<Rightarrow> int \<Rightarrow> vps_status option \<Rightarrow> fleet_row option" where
  "buildVpsFleetShadow parse_date now remote =
     (case remote of
        None \<Rightarrow> None
      | Some r \<Rightarrow>
          if vs_ssh_ok r \<noteq> Some True then None
          else Some \<lparr> fr_agent_id = VPS_FLEET_AGENT_ID, fr_tenant_id = ''vps-prod'',
                      fr_tenant_name = ''VPS prod'', fr_eps = nullish (vs_eps r) 0,
                      fr_total_lines = 0, fr_alerts_total = 0, fr_rce_detections = 0,
                      fr_tarpit_active = 0, fr_tarpit_trapped = 0, fr_mesh_peers = 0,
                      fr_unique_ips = 0, fr_tls_decrypted = 0, fr_etcd_peers = 0,
                      fr_incidents_active = 0, fr_incidents_correlated = 0, fr_attack_trees = 0,
                      fr_last_seen = (if truthy (vs_date r) then parse_date (the (vs_date r)) else Some now),
                      fr_status = ''Online'',
                      fr_remote_shadow = Some \<lparr> si_xdp_mode = vs_xdp_mode r,
                        si_soak_proof_72h = vs_soak_proof_72h r, si_hostname = vs_hostname r,
                        si_host = vs_host r \<rparr> \<rparr>)"

subsection \<open>The fleet view\<close>

text \<open>\<open>parseFloat(s)\<close>: a decimal prefix; \<open>NaN\<close> without a digit.\<close>

datatype jsfloat = FNaN | FInf bool | FNum rat

definition parseFloat :: "string \<Rightarrow> jsfloat" where
  "parseFloat s =
     (let t = dropWhile js_ws s;
          neg = (t \<noteq> [] \<and> hd t = CHR ''-'');
          u = (if t \<noteq> [] \<and> hd t \<in> set ''+-'' then tl t else t);
          ip = takeWhile is_digit u;
          v = dropWhile is_digit u;
          fp = (if v \<noteq> [] \<and> hd v = CHR ''.'' then takeWhile is_digit (tl v) else []);
          w = (if v \<noteq> [] \<and> hd v = CHR ''.'' then dropWhile is_digit (tl v) else v);
          ex = (if w \<noteq> [] \<and> hd w \<in> set ''eE'' then tl w else []);
          exneg = (ex \<noteq> [] \<and> hd ex = CHR ''-'');
          ed = takeWhile is_digit (if ex \<noteq> [] \<and> hd ex \<in> set ''+-'' then tl ex else ex);
          m = of_nat (dec_val (ip @ fp)) / 10 ^ length fp;
          q = (if exneg then m / 10 ^ dec_val ed else m * 10 ^ dec_val ed)
      in if startsWith u ''Infinity'' then FInf neg
         else if ip = [] \<and> fp = [] then FNaN
         else FNum (if neg then - q else q))"

definition stale_keep :: "jsfloat \<Rightarrow> bool \<Rightarrow> int \<Rightarrow> bool" where
  "stale_keep staleHours online age =
     (case staleHours of
        FNaN \<Rightarrow> online
      | FInf neg \<Rightarrow> True
      | FNum h \<Rightarrow> if h \<le> 0 then True else if online then True else of_int age < h * 3600 * 1000)"

definition agent_online :: "int \<Rightarrow> telemetry \<Rightarrow> bool" where
  "agent_online now a = (now - tl_lastSeen a < 15000)"

definition fleet_view_row :: "(string \<Rightarrow> json option) \<Rightarrow> (string \<times> string) list \<Rightarrow> int \<Rightarrow> telemetry \<Rightarrow> fleet_row" where
  "fleet_view_row parse tenants now a =
     \<lparr> fr_agent_id = tl_agentId a, fr_tenant_id = tl_tenantId a,
       fr_tenant_name = nullish (map_of tenants (tl_tenantId a)) (tl_tenantId a),
       fr_eps = tl_eps a, fr_total_lines = tl_totalLines a, fr_alerts_total = tl_alertsTotal a,
       fr_rce_detections = tl_rceDetections a, fr_tarpit_active = tl_tarpitActive a,
       fr_tarpit_trapped = tl_tarpitTrapped a, fr_mesh_peers = tl_meshPeers a,
       fr_unique_ips = tl_uniqueIps a, fr_tls_decrypted = tl_tlsDecrypted a,
       fr_etcd_peers = tl_etcdPeers a, fr_incidents_active = tl_incidentsActive a,
       fr_incidents_correlated = tl_incidentsCorrelated a,
       fr_attack_trees =
         (case parse (if tl_attackTreeJson a = [] then ''[]'' else tl_attackTreeJson a) of
            Some (JArr ts) \<Rightarrow> length ts
          | _ \<Rightarrow> 0),
       fr_last_seen = Some (tl_lastSeen a),
       fr_status = (if agent_online now a then ''Online'' else ''Offline''),
       fr_remote_shadow = None \<rparr>"

text \<open>\<open>groupBy\<close> a column, with the number of rows of each value.\<close>

definition count_by :: "('a \<Rightarrow> string) \<Rightarrow> 'a list \<Rightarrow> (string \<times> nat) list" where
  "count_by f xs = map (\<lambda>k. (k, length (filter (\<lambda>x. f x = k) xs))) (remdups (map f xs))"

record fleet_view =
  fv_fleet :: "fleet_row list"
  fv_remote_shadow :: "(string \<times> shadow_info) option"
  fv_tenant_id :: string
  fv_tenant_count :: nat
  fv_tenants :: "(string \<times> nat) list"
  fv_pending_commands :: nat

definition fleet_GET ::
  "(string \<Rightarrow> json option) \<Rightarrow> (string \<Rightarrow> int option) \<Rightarrow> vps_status option \<Rightarrow> int \<Rightarrow> request
   \<Rightarrow> telemetry_db \<Rightarrow> fleet_db \<Rightarrow> fleet_view" where
  "fleet_GET parse parse_date remote now rq db cdb =
     (let tenantId = header rq ''x-tenant-id'';
          staleHours = parseFloat (or_default (query rq ''stale_hours'') ''0'');
          agents = (if truthy tenantId \<and> tenantId \<noteq> Some ''*''
                    then filter (\<lambda>a. tl_tenantId a = the tenantId) (td_rows db) else td_rows db);
          enriched = map (fleet_view_row parse (td_tenants db) now)
                       (filter (\<lambda>a. stale_keep staleHours (agent_online now a) (now - tl_lastSeen a)) agents);
          shadow = buildVpsFleetShadow parse_date now remote;
          fleetOut = (case shadow of
                        None \<Rightarrow> enriched
                      | Some s \<Rightarrow> if list_ex (\<lambda>a. fr_agent_id a = fr_agent_id s) enriched then enriched
                                   else enriched @ [s]);
          tenants = count_by tl_tenantId (td_rows db)
      in \<lparr> fv_fleet = fleetOut,
           fv_remote_shadow =
             Option.bind shadow (\<lambda>s. map_option (Pair (fr_agent_id s)) (fr_remote_shadow s)),
           fv_tenant_id = or_default tenantId ''*'',
           fv_tenant_count = length tenants, fv_tenants = tenants,
           fv_pending_commands =
             length (filter (\<lambda>c. \<not> ac_executed c \<and> ac_status c \<in> {Delivered, Pending}) (fd_commands cdb)) \<rparr>)"

subsection \<open>The tenant view\<close>

type_synonym tenant_map = "(string, telemetry list) jsmap"

definition group_push :: "tenant_map \<Rightarrow> telemetry \<Rightarrow> tenant_map" where
  "group_push m agent =
     (let m' = (if map_has m (tl_tenantId agent) then m else map_set m (tl_tenantId agent) [])
      in map_set m' (tl_tenantId agent) (the (map_get m' (tl_tenantId agent)) @ [agent]))"

record tenant_view =
  tv_tenant_id :: string
  tv_agent_count :: nat
  tv_online_agents :: nat
  tv_total_eps :: rat
  tv_total_rce :: int
  tv_total_tarpit :: int
  tv_tls_decrypted :: int
  tv_etcd_peers :: int

definition tenant_entry :: "int \<Rightarrow> string \<times> telemetry list \<Rightarrow> tenant_view" where
  "tenant_entry now e =
     (case e of (tenantId, agents) \<Rightarrow>
        \<lparr> tv_tenant_id = tenantId, tv_agent_count = length agents,
          tv_online_agents = length (filter (agent_online now) agents),
          tv_total_eps = foldl (\<lambda>s a. s + tl_eps a) 0 agents,
          tv_total_rce = foldl (\<lambda>s a. s + tl_rceDetections a) 0 agents,
          tv_total_tarpit = foldl (\<lambda>s a. s + tl_tarpitActive a) 0 agents,
          tv_tls_decrypted = foldl (\<lambda>s a. s + tl_tlsDecrypted a) 0 agents,
          tv_etcd_peers = foldl (\<lambda>s a. s + tl_etcdPeers a) 0 agents \<rparr>)"

text \<open>The column is required, so a query for the tenant \<open>null\<close> throws.\<close>

definition tenants_GET :: "int \<Rightarrow> request \<Rightarrow> telemetry list \<Rightarrow> string + tenant_view list" where
  "tenants_GET now rq rows =
     (let isAdmin = (header rq ''x-user-role'' = Some ''admin'');
          userTenant = header rq ''x-user-tenant''
      in if \<not> isAdmin \<and> userTenant = None then Inl ''Internal Server Error''
         else let allAgents = (if isAdmin then rows
                               else filter (\<lambda>a. tl_tenantId a = the userTenant) rows)
              in Inr (map (tenant_entry now) (foldl group_push [] allAgents)))"

record isolation_view =
  iv_available :: bool
  iv_pass :: json
  iv_checks_passed :: "json option"
  iv_checks_total :: "json option"
  iv_tenant :: "json option"
  iv_checks :: "json option"
  iv_tenant_count :: nat
  iv_api_key_count :: nat
  iv_telemetry_by_tenant :: "(string \<times> nat) list"
  iv_api_key_bound_telemetry :: bool
  iv_middleware_enforces_tenant :: bool
  iv_hint :: "string option"

definition isolation_GET :: "json option \<Rightarrow> telemetry_db \<Rightarrow> isolation_view" where
  "isolation_GET file db =
     \<lparr> iv_available = json_truthy file,
       iv_pass = (case json_get file ''pass'' of None \<Rightarrow> JBool False | Some JNull \<Rightarrow> JBool False | Some v \<Rightarrow> v),
       iv_checks_passed = json_get file ''checks_passed'', iv_checks_total = json_get file ''checks_total'',
       iv_tenant = json_get file ''tenant'', iv_checks = json_get file ''checks'',
       iv_tenant_count = length (td_tenants db), iv_api_key_count = length (td_keys db),
       iv_telemetry_by_tenant = count_by tl_tenantId (td_rows db),
       iv_api_key_bound_telemetry = True, iv_middleware_enforces_tenant = True,
       iv_hint = (if json_truthy file then None
                  else Some ''Run: bash scripts/tenant_isolation_export.sh'') \<rparr>"

subsection \<open>Well-typed telemetry tables\<close>

definition agent_key :: "telemetry \<Rightarrow> string \<times> string" where
  "agent_key r = (tl_agentId r, tl_tenantId r)"

definition int32 :: "int \<Rightarrow> bool" where
  "int32 i = (- (2 ^ 31) \<le> i \<and> i < 2 ^ 31)"

definition row_ok :: "telemetry \<Rightarrow> bool" where
  "row_ok r = list_all int32
     [tl_totalLines r, tl_alertsTotal r, tl_rceDetections r, tl_tarpitActive r, tl_tarpitTrapped r,
      tl_meshPeers r, tl_uniqueIps r, tl_tlsDecrypted r, tl_etcdPeers r, tl_incidentsActive r,
      tl_incidentsCorrelated r]"

definition telemetry_ok :: "telemetry_db \<Rightarrow> bool" where
  "telemetry_ok db = (distinct (map agent_key (td_rows db)) \<and> list_all row_ok (td_rows db))"

inductive telemetry_step :: "telemetry_db \<Rightarrow> telemetry_db \<Rightarrow> bool" where
  ingest: "telemetry_step db (snd (telemetry_POST now rq db))"

lemma same_agent_key: "same_agent a b \<longleftrightarrow> agent_key a = agent_key b"
  by (simp add: same_agent_def agent_key_def)

lemma rat_int_int32: "rat_int q = Some i \<Longrightarrow> int32 i"
  by (auto simp: rat_int_def int32_def split: if_splits)

lemma int_or0_int32: "int_or0 v = Some i \<Longrightarrow> int32 i"
  by (auto simp: int_or0_def int32_def bind_eq_Some_conv dest!: rat_int_int32 split: if_splits)

lemma int_nullish0_int32: "int_nullish0 v = Some i \<Longrightarrow> int32 i"
  by (auto simp: int_nullish0_def int32_def bind_eq_Some_conv dest!: rat_int_int32 split: if_splits)

lemma telemetry_row_Some:
  assumes "telemetry_row a t now data = Some row"
  shows "tl_agentId row = a" "tl_tenantId row = t" "tl_lastSeen row = now" "row_ok row"
  using assms
  by (auto simp: telemetry_row_def Let_def row_ok_def split: option.splits
      intro: int_or0_int32 int_nullish0_int32)

lemma upsert_keys:
  "map agent_key (upsert row rows) =
     (if agent_key row \<in> agent_key ` set rows then map agent_key rows else map agent_key rows @ [agent_key row])"
  by (auto simp: upsert_def same_agent_key list_ex_iff)

lemma upsert_set: "set (upsert row rows) = insert row {r \<in> set rows. \<not> same_agent row r}"
  by (auto simp: upsert_def list_ex_iff)

lemma json_str_Some: "json_str v = Some s \<Longrightarrow> v = Some (JStr s)"
  by (cases v rule: json_str.cases) simp_all

lemma telemetry_POST_cases:
  assumes "telemetry_POST now rq db = (r, db')"
  obtains (refused) "db' = db" "rs_status r \<in> {400, 401, 500}"
  | (stored) token key data a row where "rs_status r = 200" "bearerToken rq = Some token"
      "find (\<lambda>k. ak_key k = token) (td_keys db) = Some key" "object_body rq = Some data"
      "json_get (Some data) ''agent_id'' = Some (JStr a)" "a \<noteq> []"
      "telemetry_row a (ak_tenantId key) now data = Some row"
      "db' = db\<lparr>td_rows := upsert row (td_rows db)\<rparr>"
proof -
  note step = telemetry_POST_def Let_def
  show thesis
  proof (cases "bearerToken rq")
    case None
    then show ?thesis using assms refused by (auto simp: step)
  next
    case t: (Some token)
    show ?thesis
    proof (cases "find (\<lambda>k. ak_key k = token) (td_keys db)")
      case None
      then show ?thesis using assms refused t by (auto simp: step)
    next
      case k: (Some key)
      show ?thesis
      proof (cases "object_body rq")
        case None
        then show ?thesis using assms refused t k by (auto simp: step)
      next
        case b: (Some data)
        show ?thesis
        proof (cases "\<exists>a row. json_get (Some data) ''agent_id'' = Some (JStr a) \<and> a \<noteq> []
                        \<and> telemetry_row a (ak_tenantId key) now data = Some row")
          case True
          then obtain a row where a: "json_get (Some data) ''agent_id'' = Some (JStr a)" "a \<noteq> []"
              "telemetry_row a (ak_tenantId key) now data = Some row" by blast
          show ?thesis by (rule stored [OF _ t k b a]) (use assms t k b a in \<open>auto simp: step\<close>)
        next
          case False
          then show ?thesis
            using assms refused t k b
            by (auto simp: step dest!: json_str_Some split: option.splits if_splits)
        qed
      qed
    qed
  qed
qed

lemma telemetry_POST_ok:
  assumes "telemetry_ok db"
  shows "telemetry_ok (snd (telemetry_POST now rq db))"
proof -
  obtain r db' where r: "telemetry_POST now rq db = (r, db')" by fastforce
  from r show ?thesis
  proof (cases rule: telemetry_POST_cases)
    case refused
    then show ?thesis using assms r by simp
  next
    case stored
    then show ?thesis
      using assms r telemetry_row_Some(4) [OF stored(7)]
      by (auto simp: telemetry_ok_def upsert_keys list_all_iff upsert_set)
  qed
qed

interpretation tel: preserved telemetry_step telemetry_ok
  by unfold_locales (erule telemetry_step.cases, simp add: telemetry_POST_ok)

subsection \<open>Grouping\<close>

definition first_order :: "('a \<Rightarrow> 'b) \<Rightarrow> 'a list \<Rightarrow> 'b list" where
  "first_order f xs = rev (remdups (rev (map f xs)))"

lemma first_order_simps [simp]:
  "first_order f [] = []"
  "first_order f (xs @ [x]) = (if f x \<in> f ` set xs then first_order f xs else first_order f xs @ [f x])"
  by (simp_all add: first_order_def)

lemma first_order_set [simp]: "set (first_order f xs) = f ` set xs"
  and first_order_distinct [simp]: "distinct (first_order f xs)"
  by (simp_all add: first_order_def)

lemma update_tabulated:
  "distinct ts \<Longrightarrow> AList.update k v (map (\<lambda>t. (t, g t)) ts) =
     (if k \<in> set ts then map (\<lambda>t. (t, if t = k then v else g t)) ts
      else map (\<lambda>t. (t, g t)) ts @ [(k, v)])"
  by (induction ts) auto

lemma map_of_tabulated: "map_of (map (\<lambda>t. (t, g t)) ts) k = (if k \<in> set ts then Some (g k) else None)"
  by (induction ts) auto

lemma update_append_other:
  "k \<notin> fst ` set m \<Longrightarrow> AList.update k v (m @ [(k, w)]) = m @ [(k, v)]"
  by (induction m) auto

lemma group_push_tabulated:
  assumes "distinct ts" "tl_tenantId x \<notin> set ts \<Longrightarrow> g (tl_tenantId x) = []"
  shows "group_push (map (\<lambda>t. (t, g t)) ts) x =
    map (\<lambda>t. (t, if t = tl_tenantId x then g t @ [x] else g t))
      (if tl_tenantId x \<in> set ts then ts else ts @ [tl_tenantId x])"
  using assms
  by (auto simp: group_push_def map_has_def map_get_def map_set_def map_of_tabulated Let_def
      update_tabulated update_append_other image_image map_add_def)

lemma group_push_groups:
  "foldl group_push [] xs = map (\<lambda>t. (t, filter (\<lambda>a. tl_tenantId a = t) xs)) (first_order tl_tenantId xs)"
proof (induction xs rule: rev_induct)
  case Nil
  show ?case by simp
next
  case (snoc x xs)
  have "foldl group_push [] (xs @ [x]) =
    group_push (map (\<lambda>t. (t, filter (\<lambda>a. tl_tenantId a = t) xs)) (first_order tl_tenantId xs)) x"
    by (simp add: snoc)
  also have "\<dots> = map (\<lambda>t. (t, filter (\<lambda>a. tl_tenantId a = t) (xs @ [x]))) (first_order tl_tenantId (xs @ [x]))"
    by (subst group_push_tabulated) (auto simp: filter_empty_conv image_iff)
  finally show ?case .
qed

lemma foldl_plus_sum: "foldl (\<lambda>s a. s + f a) z xs = z + (\<Sum>a\<leftarrow>xs. f a)" for z :: "'b::comm_monoid_add"
  by (induction xs arbitrary: z) (simp_all add: add.assoc)

lemma sum_list_groups:
  "(\<Sum>t\<leftarrow>first_order f xs. \<Sum>a\<leftarrow>filter (\<lambda>a. f a = t) xs. h a) = (\<Sum>a\<leftarrow>xs. h a)"
  for h :: "'a \<Rightarrow> 'b::comm_monoid_add"
proof -
  have "(\<Sum>t\<leftarrow>ts. \<Sum>a\<leftarrow>filter (\<lambda>a. f a = t) xs. h a) = (\<Sum>a\<leftarrow>xs. h a)"
    if "distinct ts" "f ` set xs \<subseteq> set ts" for ts
    using that
  proof (induction xs)
    case (Cons x xs)
    have "(\<Sum>t\<leftarrow>ts. \<Sum>a\<leftarrow>filter (\<lambda>a. f a = t) (x # xs). h a)
        = (\<Sum>t\<leftarrow>ts. (if t = f x then h x else 0) + (\<Sum>a\<leftarrow>filter (\<lambda>a. f a = t) xs. h a))"
      by (intro arg_cong [where f = sum_list] map_cong) auto
    also have "\<dots> = (\<Sum>t\<leftarrow>ts. if t = f x then h x else 0) + (\<Sum>a\<leftarrow>xs. h a)"
      using Cons by (simp add: sum_list_addf)
    also have "(\<Sum>t\<leftarrow>ts. if t = f x then h x else 0) = h x"
      using Cons(2,3) by (simp add: sum_list_distinct_conv_sum_set)
    finally show ?case by simp
  qed simp
  then show ?thesis by simp
qed

text \<open>The rows a request may see: all of them for an administrator, else those of the user's tenant.\<close>

definition visible :: "request \<Rightarrow> telemetry list \<Rightarrow> telemetry list" where
  "visible rq rows =
     filter (\<lambda>a. header rq ''x-user-role'' = Some ''admin''
                 \<or> header rq ''x-user-tenant'' = Some (tl_tenantId a)) rows"

lemma visible_eq:
  "visible rq rows =
     (if header rq ''x-user-role'' = Some ''admin'' then rows
      else case header rq ''x-user-tenant'' of
             None \<Rightarrow> []
           | Some t \<Rightarrow> filter (\<lambda>a. tl_tenantId a = t) rows)"
  by (auto simp: visible_def split: option.splits intro!: filter_cong)

subsection \<open>Properties\<close>


text \<open>C7. An ingestion request either changes nothing and is answered 400, 401 or 500,
or it writes the one row of the named agent under the tenant of the presented API
key, whatever tenant the body names; every row of another agent or tenant stays.\<close>

theorem telemetry_ingest_isolated:
  assumes "telemetry_POST now rq db = (r, db')"
  shows "db' = db \<and> rs_status r \<in> {400, 401, 500}
    \<or> (\<exists>token key row. rs_status r = 200 \<and> bearerToken rq = Some token
         \<and> key \<in> set (td_keys db) \<and> ak_key key = token
         \<and> tl_tenantId row = ak_tenantId key \<and> tl_lastSeen row = now
         \<and> json_get (rq_body rq) ''agent_id'' = Some (JStr (tl_agentId row))
         \<and> set (td_rows db') = insert row {x \<in> set (td_rows db). agent_key x \<noteq> agent_key row})"
  using assms
proof (cases rule: telemetry_POST_cases)
  case (stored token key data a row)
  note row = telemetry_row_Some [OF stored(7)]
  have "key \<in> set (td_keys db) \<and> ak_key key = token"
    using stored(3) by (auto simp: find_Some_iff)
  moreover have "rq_body rq = Some data"
    using stored(4) by (simp add: object_body_def split: if_splits)
  ultimately show ?thesis
    using stored row by (intro disjI2 exI [of _ token] exI [of _ key] exI [of _ row])
      (auto simp: upsert_set same_agent_key)
qed simp


text \<open>The rows of the fleet view are scoped by the tenant header, the tenant list
beside them is not: whatever tenant the request is confined to, the reply names every
tenant of the table with its number of agents.\<close>

theorem fleet_tenants_unscoped:
  "fst ` set (fv_tenants (fleet_GET parse parse_date remote now rq db cdb)) = tl_tenantId ` set (td_rows db)"
  by (simp add: fleet_GET_def Let_def count_by_def image_image)

lemma shadow_row: "buildVpsFleetShadow pd now remote = Some s \<Longrightarrow> fr_remote_shadow s \<noteq> None"
  by (auto simp: buildVpsFleetShadow_def split: option.splits if_splits)

lemma fleet_rows_scoped:
  assumes "row \<in> set (fv_fleet (fleet_GET parse pd remote now rq db cdb))"
    and "header rq ''x-tenant-id'' = Some t" "t \<noteq> []" "t \<noteq> ''*''"
  shows "fr_tenant_id row = t \<or> fr_remote_shadow row \<noteq> None"
  using assms
  by (auto simp: fleet_GET_def Let_def truthy_def fleet_view_row_def dest: shadow_row
      split: option.splits if_splits)

subsection \<open>A worked example\<close>

definition t_db :: telemetry_db where
  "t_db = \<lparr> td_tenants = [(''t1'', ''One'')], td_keys = [\<lparr>ak_key = ''k1'', ak_tenantId = ''t1''\<rparr>], td_rows = [] \<rparr>"

definition t_request :: request where
  "t_request = q_request [] (Some (JObj [(''agent_id'', JStr ''a1''), (''tenant_id'', JStr ''t2''),
     (''eps'', JInt 5), (''total_lines'', JInt 7)]))"

definition t_row :: telemetry where
  "t_row = \<lparr> tl_agentId = ''a1'', tl_tenantId = ''t1'', tl_eps = 5, tl_totalLines = 7, tl_alertsTotal = 0,
     tl_rceDetections = 0, tl_tarpitActive = 0, tl_tarpitTrapped = 0, tl_meshPeers = 0, tl_uniqueIps = 0,
     tl_tlsDecrypted = 0, tl_etcdPeers = 0, tl_attackTreeJson = ''[]'', tl_incidentsActive = 0,
     tl_incidentsCorrelated = 0, tl_lastSeen = 9 \<rparr>"

lemma t_ingested: "\<exists>r. telemetry_POST 9 t_request t_db = (r, t_db\<lparr>td_rows := [t_row]\<rparr>) \<and> rs_status r = 200"
proof -
  have t: "bearerToken t_request = Some ''k1''" by (simp add: t_request_def q_token)
  have b: "object_body t_request = Some (JObj [(''agent_id'', JStr ''a1''), (''tenant_id'', JStr ''t2''),
     (''eps'', JInt 5), (''total_lines'', JInt 7)])"
    by (simp add: t_request_def object_body_def q_request_def)
  show ?thesis
    by (simp add: telemetry_POST_def t b t_db_def Let_def json_get_def telemetry_row_def float_or0_def
        int_or0_def int_nullish0_def rat_int_def tree_text_def upsert_def t_row_def)
qed


theorem telemetry_ingest_isolated_witness:
  "\<exists>key. key \<in> set (td_keys t_db) \<and> tl_tenantId t_row = ak_tenantId key
     \<and> json_get (rq_body t_request) ''agent_id'' = Some (JStr (tl_agentId t_row))"
proof -
  obtain r where "telemetry_POST 9 t_request t_db = (r, t_db\<lparr>td_rows := [t_row]\<rparr>)" "rs_status r = 200"
    using t_ingested by blast
  from telemetry_ingest_isolated [OF this(1)] this(2) show ?thesis by auto
qed


end
