(* ===== verification/Registry.thy ===== *)
theory Registry
  imports Telemetry
begin

section \<open>Schema registry, plugins, marketplace and the kill log\<close>

text \<open>
  \<^verbatim>\<open>app/api/schema/route.ts\<close>, \<^verbatim>\<open>app/api/plugins/route.ts\<close>,
  \<^verbatim>\<open>lib/marketplaceSigned.ts\<close>, \<^verbatim>\<open>app/api/marketplace/signed/route.ts\<close> and
  \<^verbatim>\<open>app/api/k8s/route.ts\<close>. The tables and the written files are the state; whether
  the disk accepts a write, the JSON parser and the HMAC are arguments. An exception the handler
  does not catch is the value \<open>None\<close>.
\<close>

subsection \<open>File paths\<close>

text \<open>\<open>path.join(a, b)\<close> for two non-empty POSIX paths, the second without a trailing slash.\<close>

fun norm_segments :: "bool \<Rightarrow> string list \<Rightarrow> string list \<Rightarrow> string list" where
  "norm_segments absolute acc [] = rev acc"
| "norm_segments absolute acc (s # ss) =
     (if s = [] \<or> s = ''.'' then norm_segments absolute acc ss
      else if s = ''..''
      then (case acc of
              a # as \<Rightarrow> if a = ''..'' then norm_segments absolute (s # acc) ss else norm_segments absolute as ss
            | [] \<Rightarrow> if absolute then norm_segments absolute [] ss else norm_segments absolute [s] ss)
      else norm_segments absolute (s # acc) ss)"

definition path_join :: "string \<Rightarrow> string \<Rightarrow> string" where
  "path_join a b =
     (let p = a @ ''/'' @ b; absolute = startsWith p ''/'';
          body = join ''/'' (norm_segments absolute [] (splitOn CHR ''/'' p))
      in (if absolute then ''/'' @ body else if body = [] then ''.'' else body))"

subsection \<open>The schema registry\<close>

record schema_row =
  sr_id :: string
  sr_tenantId :: string
  sr_name :: string
  sr_version :: string
  sr_jsonContent :: string
  sr_active :: bool
  sr_uploadedAt :: int

record plugin_row =
  pl_id :: string
  pl_tenantId :: string
  pl_name :: string
  pl_version :: string
  pl_filePath :: string
  pl_active :: bool
  pl_uploadedAt :: int

record registry =
  rg_schemas :: "schema_row list"
  rg_plugins :: "plugin_row list"
  rg_fleet :: fleet_db
  rg_files :: "(string \<times> json) list"

record registry_deps =
  rd_parse :: "string \<Rightarrow> json option"
  rd_hmac :: hmac_fn
  rd_env :: env
  rd_write_ok :: bool

text \<open>\<open>Object.keys(v || {}).length\<close>.\<close>

fun keys_count :: "json option \<Rightarrow> nat" where
  "keys_count (Some (JObj fs)) = length fs"
| "keys_count (Some (JArr vs)) = length vs"
| "keys_count (Some (JStr s)) = length s"
| "keys_count _ = 0"

definition endpoint_count :: "(string \<Rightarrow> json option) \<Rightarrow> string \<Rightarrow> nat" where
  "endpoint_count parse content =
     (case parse content of None \<Rightarrow> 0 | Some v \<Rightarrow> keys_count (json_get (Some v) ''paths''))"

definition user_tenant :: "request \<Rightarrow> string" where
  "user_tenant rq = or_default (header rq ''x-user-tenant'') []"

definition is_admin :: "request \<Rightarrow> bool" where
  "is_admin rq = (or_default (header rq ''x-user-role'') [] = ''admin'')"

definition active_schemas :: "string \<Rightarrow> registry \<Rightarrow> schema_row list" where
  "active_schemas t db = filter (\<lambda>s. sr_tenantId s = t \<and> sr_active s) (rg_schemas db)"

text \<open>\<open>findFirst\<close> ordered by upload time, newest first.\<close>

definition find_active :: "string \<Rightarrow> registry \<Rightarrow> schema_row option" where
  "find_active t db =
     (case sort_key (\<lambda>s. - sr_uploadedAt s) (active_schemas t db) of [] \<Rightarrow> None | s # _ \<Rightarrow> Some s)"

definition schema_GET :: "(string \<Rightarrow> json option) \<Rightarrow> request \<Rightarrow> registry \<Rightarrow> response" where
  "schema_GET parse rq db =
     (case find_active (user_tenant rq) db of
        None \<Rightarrow> json_reply 200 [(''loaded'', JBool False), (''message'', JStr ''No active schema'')]
      | Some s \<Rightarrow>
          json_reply 200
            [(''loaded'', JBool True), (''id'', JStr (sr_id s)), (''name'', JStr (sr_name s)),
             (''version'', JStr (sr_version s)), (''uploadedAt'', JInt (sr_uploadedAt s)),
             (''endpointCount'', JNat (endpoint_count parse (sr_jsonContent s)))])"

definition deactivate_schemas :: "string \<Rightarrow> registry \<Rightarrow> registry" where
  "deactivate_schemas t db =
     db\<lparr>rg_schemas := map (\<lambda>s. if sr_tenantId s = t \<and> sr_active s then s\<lparr>sr_active := False\<rparr> else s) (rg_schemas db)\<rparr>"

text \<open>The destructuring default: \<open>undefined\<close> only.\<close>

definition version_of :: "json \<Rightarrow> json" where
  "version_of body = (case json_get (Some body) ''version'' of None \<Rightarrow> JStr ''1.0'' | Some v \<Rightarrow> v)"

definition write_file :: "registry_deps \<Rightarrow> string \<Rightarrow> json \<Rightarrow> registry \<Rightarrow> registry" where
  "write_file d p content db = (if rd_write_ok d then db\<lparr>rg_files := (p, content) # rg_files db\<rparr> else db)"

definition push_command :: "registry_deps \<Rightarrow> string \<Rightarrow> int \<Rightarrow> string \<Rightarrow> string \<Rightarrow> string \<Rightarrow> registry \<Rightarrow> registry option" where
  "push_command d cmdId now t ty payload db =
     map_option (\<lambda>(c, f). db\<lparr>rg_fleet := f\<rparr>)
       (createSignedFleetCommand (rd_hmac d) (rd_env d) cmdId now (t, None, ty, payload) (rg_fleet db))"

definition schema_path :: "registry_deps \<Rightarrow> string \<Rightarrow> string" where
  "schema_path d t = path_join (or_default (rd_env d ''SCHEMA_DIR'') ''./schemas'') (t @ ''_openapi.json'')"

text \<open>Writing the file and queueing the command; a failure of either is only logged.\<close>

definition distribute_schema :: "registry_deps \<Rightarrow> string \<Rightarrow> int \<Rightarrow> string \<Rightarrow> string \<Rightarrow> registry \<Rightarrow> registry" where
  "distribute_schema d cmdId now t content db =
     (if \<not> rd_write_ok d then db
      else let db1 = write_file d (schema_path d t) (JStr content) db
           in nullish (push_command d cmdId now t ''PUSH_SCHEMA'' (schema_path d t) db1) db1)"

definition schema_store ::
  "registry_deps \<Rightarrow> string \<Rightarrow> string \<Rightarrow> int \<Rightarrow> string \<Rightarrow> json \<Rightarrow> nat \<Rightarrow> registry \<Rightarrow> response \<times> registry" where
  "schema_store d newId cmdId now t body pathCount db =
     (let db1 = deactivate_schemas t db in
      case (json_get (Some body) ''name'', version_of body, json_get (Some body) ''jsonContent'') of
        (Some (JStr name), JStr version, Some (JStr content)) \<Rightarrow>
          (json_reply 200
             [(''success'', JBool True), (''id'', JStr newId), (''name'', JStr name),
              (''version'', JStr version), (''pathCount'', JNat pathCount),
              (''message'', JStr (''Schema y'' @ [CHR 0xFC] @ ''klendi: '' @ show_nat pathCount
                 @ '' endpoint tan(U+0131)mland(U+0131)''))],
           distribute_schema d cmdId now t content
             (db1\<lparr>rg_schemas := rg_schemas db1 @
                [\<lparr> sr_id = newId, sr_tenantId = t, sr_name = name, sr_version = version,
                   sr_jsonContent = content, sr_active = True, sr_uploadedAt = now \<rparr>]\<rparr>))
      | _ \<Rightarrow> (error_reply 500 ''Internal Server Error'', db1))"

definition schema_POST ::
  "registry_deps \<Rightarrow> string \<Rightarrow> string \<Rightarrow> int \<Rightarrow> request \<Rightarrow> registry \<Rightarrow> response \<times> registry" where
  "schema_POST d newId cmdId now rq db =
     (if \<not> is_admin rq then (error_reply 403 ''Admin required'', db)
      else case object_body rq of
             None \<Rightarrow> (error_reply 500 ''Internal Server Error'', db)
           | Some body \<Rightarrow>
               let content = json_get (Some body) ''jsonContent'' in
               if \<not> json_truthy (json_get (Some body) ''name'') \<or> \<not> json_truthy content
               then (error_reply 400 ''name and jsonContent required'', db)
               else case rd_parse d (js_String (the content)) of
                      None \<Rightarrow> (error_reply 400 ''Invalid JSON'', db)
                    | Some parsed \<Rightarrow>
                        if parsed = JNull then (error_reply 500 ''Internal Server Error'', db)
                        else if \<not> json_truthy (json_get (Some parsed) ''openapi'')
                                \<and> \<not> json_truthy (json_get (Some parsed) ''swagger'')
                        then (error_reply 400 ''Not a valid OpenAPI schema (missing openapi/swagger field)'', db)
                        else schema_store d newId cmdId now (user_tenant rq) body
                               (keys_count (json_get (Some parsed) ''paths'')) db)"

definition schema_DELETE :: "request \<Rightarrow> registry \<Rightarrow> response \<times> registry" where
  "schema_DELETE rq db =
     (if \<not> is_admin rq then (error_reply 403 ''Admin required'', db)
      else (json_reply 200 [(''success'', JBool True), (''message'', JStr ''Schema deaktif edildi'')],
            deactivate_schemas (user_tenant rq) db))"

subsection \<open>Plugins\<close>

definition plugins_GET :: "request \<Rightarrow> registry \<Rightarrow> plugin_row list \<times> nat" where
  "plugins_GET rq db =
     (let plugins = sort_key (\<lambda>p. - pl_uploadedAt p) (filter (\<lambda>p. pl_tenantId p = user_tenant rq) (rg_plugins db))
      in (plugins, length plugins))"

definition safe_char :: "char \<Rightarrow> bool" where
  "safe_char c = (is_word c \<or> c = CHR ''-'')"

definition plugin_file :: "string \<Rightarrow> string \<Rightarrow> string" where
  "plugin_file t name = t @ ''_'' @ map (\<lambda>c. if safe_char c then c else CHR ''_'') name @ ''.wasm''"

definition plugin_path :: "registry_deps \<Rightarrow> string \<Rightarrow> string \<Rightarrow> string" where
  "plugin_path d t name =
     path_join (or_default (rd_env d ''WASM_PLUGIN_DIR'') ''/etc/log-guardian/plugins'') (plugin_file t name)"

definition plugin_store ::
  "registry_deps \<Rightarrow> string \<Rightarrow> string \<Rightarrow> int \<Rightarrow> string \<Rightarrow> string \<Rightarrow> json \<Rightarrow> registry \<Rightarrow> response \<times> registry" where
  "plugin_store d newId cmdId now t name body db =
     (let filePath = plugin_path d t name;
          wasm = json_get (Some body) ''wasmBase64'';
          db1 = (if json_truthy wasm then write_file d filePath (the wasm) db else db)
      in case version_of body of
           JStr version \<Rightarrow>
             (let db2 = db1\<lparr>rg_plugins := rg_plugins db1 @
                    [\<lparr> pl_id = newId, pl_tenantId = t, pl_name = name, pl_version = version,
                       pl_filePath = filePath, pl_active = True, pl_uploadedAt = now \<rparr>]\<rparr>
              in case push_command d cmdId now t ''PUSH_WASM_PLUGIN'' filePath db2 of
                   None \<Rightarrow> (error_reply 500 ''Internal Server Error'', db2)
                 | Some db3 \<Rightarrow>
                     (json_reply 200
                        [(''success'', JBool True), (''id'', JStr newId), (''name'', JStr name),
                         (''version'', JStr version), (''filePath'', JStr filePath),
                         (''message'', JStr (''Wasm plugin '' @ [CHR 0x27] @ name @ [CHR 0x27] @ '' y'' @ [CHR 0xFC]
                            @ ''klendi ve filoya da(U+011F)(U+0131)t(U+0131)l(U+0131)yor''))], db3))
         | _ \<Rightarrow> (error_reply 500 ''Internal Server Error'', db1))"

definition plugins_POST ::
  "registry_deps \<Rightarrow> string \<Rightarrow> string \<Rightarrow> int \<Rightarrow> request \<Rightarrow> registry \<Rightarrow> response \<times> registry" where
  "plugins_POST d newId cmdId now rq db =
     (if \<not> is_admin rq then (error_reply 403 ''Admin required'', db)
      else case object_body rq of
             None \<Rightarrow> (error_reply 500 ''Internal Server Error'', db)
           | Some body \<Rightarrow>
               let name = json_get (Some body) ''name'' in
               if \<not> json_truthy name then (error_reply 400 ''name required'', db)
               else case json_str name of
                      None \<Rightarrow> (error_reply 500 ''Internal Server Error'', db)
                    | Some n \<Rightarrow> plugin_store d newId cmdId now (user_tenant rq) n body db)"

definition plugins_DELETE :: "request \<Rightarrow> registry \<Rightarrow> response \<times> registry" where
  "plugins_DELETE rq db =
     (if \<not> is_admin rq then (error_reply 403 ''Admin required'', db)
      else if \<not> truthy (query rq ''id'') then (error_reply 400 ''Plugin ID required'', db)
      else (json_reply 200 [(''success'', JBool True), (''message'', JStr ''Plugin deaktif edildi'')],
            db\<lparr>rg_plugins := map (\<lambda>p. if pl_id p = the (query rq ''id'') \<and> pl_tenantId p = user_tenant rq
                                       then p\<lparr>pl_active := False\<rparr> else p) (rg_plugins db)\<rparr>))"

subsection \<open>The signed marketplace\<close>

record market_package =
  mp_id :: string
  mp_name :: "string option"
  mp_version :: "string option"
  mp_author :: "string option"
  mp_description :: "string option"
  mp_sha256 :: "string option"
  mp_signature :: "string option"
  mp_signed :: "bool option"

record market_manifest =
  mm_version :: "rat option"
  mm_marketplace :: "string option"
  mm_packages :: "market_package list option"

definition signKey :: "env \<Rightarrow> string" where
  "signKey env = or_default (env ''MARKETPLACE_SIGN_KEY'') ''log-guardian-marketplace-dev-key''"

definition verifyPackageSignature :: "hmac_fn \<Rightarrow> env \<Rightarrow> market_package \<Rightarrow> bool" where
  "verifyPackageSignature hmac env pkg =
     (let digest = map_option trim (mp_sha256 pkg); expected = map_option trim (mp_signature pkg)
      in truthy digest \<and> truthy expected \<and> hmac (signKey env) (the digest) = the expected)"

definition manifestCandidates :: "env \<Rightarrow> string \<Rightarrow> string list" where
  "manifestCandidates env cwd =
     (if truthy (env ''BENCH_DATA_DIR'')
      then [path_join (the (env ''BENCH_DATA_DIR'')) ''marketplace-manifest.json''] else [])
     @ [''/data/lg/marketplace-manifest.json'', path_join cwd ''../rules/marketplace/manifest.json'',
        path_join cwd ''rules/marketplace/manifest.json'']"

fun first_manifest :: "(string \<Rightarrow> market_manifest option) \<Rightarrow> string list \<Rightarrow> market_manifest option" where
  "first_manifest file [] = None"
| "first_manifest file (p # ps) = (case file p of Some m \<Rightarrow> Some m | None \<Rightarrow> first_manifest file ps)"

definition loadMarketplaceManifest ::
  "hmac_fn \<Rightarrow> env \<Rightarrow> string \<Rightarrow> (string \<Rightarrow> market_manifest option) \<Rightarrow> market_manifest option" where
  "loadMarketplaceManifest hmac env cwd file =
     map_option (\<lambda>data. data\<lparr>mm_packages :=
         Some (map (\<lambda>pkg. pkg\<lparr>mp_signed := Some (verifyPackageSignature hmac env pkg)\<rparr>)
                 (nullish (mm_packages data) []))\<rparr>)
       (first_manifest file (manifestCandidates env cwd))"

definition requireSigEnforced :: "env \<Rightarrow> bool" where
  "requireSigEnforced env = (or_default (env ''MARKETPLACE_REQUIRE_SIG'') ''1'' \<noteq> ''0'')"

record market_list =
  ml_marketplace :: string
  ml_require_sig :: bool
  ml_packages :: "market_package list"
  ml_packages_signed :: nat
  ml_packages_total :: nat

definition marketplace_GET ::
  "hmac_fn \<Rightarrow> env \<Rightarrow> string \<Rightarrow> (string \<Rightarrow> market_manifest option) \<Rightarrow> response + market_list" where
  "marketplace_GET hmac env cwd file =
     (case Option.bind (loadMarketplaceManifest hmac env cwd file)
             (\<lambda>m. map_option (Pair m) (mm_packages m)) of
        Some (m, p # ps) \<Rightarrow>
          Inr \<lparr> ml_marketplace = nullish (mm_marketplace m) ''log-guardian-rules'',
                ml_require_sig = requireSigEnforced env, ml_packages = p # ps,
                ml_packages_signed = length (filter (\<lambda>p. mp_signed p = Some True) (p # ps)),
                ml_packages_total = length (p # ps) \<rparr>
      | _ \<Rightarrow> Inl (json_reply 503 [(''error'', JStr ''marketplace manifest not found''),
                                 (''hint'', JStr ''bash scripts/sync_dashboard_data.sh'')]))"

text \<open>\<open>body.package_id?.trim()\<close>: \<open>null\<close> as the body and an id that is no string throw.\<close>

definition package_id :: "json \<Rightarrow> string option option" where
  "package_id body =
     (if body = JNull then None
      else case json_get (Some body) ''package_id'' of
             None \<Rightarrow> Some None
           | Some JNull \<Rightarrow> Some None
           | Some (JStr s) \<Rightarrow> Some (Some (trim s))
           | _ \<Rightarrow> None)"

definition json_of_opt :: "string option \<Rightarrow> json" where
  "json_of_opt v = (case v of None \<Rightarrow> JNull | Some s \<Rightarrow> JStr s)"

definition marketplace_POST ::
  "hmac_fn \<Rightarrow> env \<Rightarrow> string \<Rightarrow> (string \<Rightarrow> market_manifest option) \<Rightarrow> request \<Rightarrow> response option" where
  "marketplace_POST hmac env cwd file rq =
     (case rq_body rq of
        None \<Rightarrow> Some (error_reply 400 ''invalid JSON'')
      | Some body \<Rightarrow>
          (case package_id body of
             None \<Rightarrow> None
           | Some pid \<Rightarrow>
               if \<not> truthy pid then Some (error_reply 400 ''package_id required'')
               else (case Option.bind (Option.bind (loadMarketplaceManifest hmac env cwd file) mm_packages)
                            (find (\<lambda>p. mp_id p = the pid)) of
                       None \<Rightarrow> Some (json_reply 404 [(''error'', JStr ''package not found''),
                                                    (''package_id'', JStr (the pid))])
                     | Some pkg \<Rightarrow>
                         if requireSigEnforced env \<and> \<not> verifyPackageSignature hmac env pkg
                         then Some (json_reply 403 [(''error'', JStr ''signature invalid or missing''),
                                                    (''package_id'', JStr (the pid))])
                         else Some (json_reply 200
                           [(''ok'', JBool True), (''package_id'', JStr (the pid)),
                            (''name'', json_of_opt (mp_name pkg)), (''version'', json_of_opt (mp_version pkg)),
                            (''sha256'', json_of_opt (mp_sha256 pkg)), (''verified'', JBool True),
                            (''hint'', JStr (''Host kurulum: MARKETPLACE_REQUIRE_SIG=1 python3 scripts/marketplace_install.py ''
                               @ the pid))]))))"

subsection \<open>The kill log\<close>

record kill_event =
  ke_id :: string
  ke_timestamp :: int
  ke_pid :: "json option"
  ke_container_id :: "json option"
  ke_workload_name :: "json option"
  ke_parent_comm :: "json option"
  ke_exec_filename :: "json option"
  ke_argv1 :: "json option"

definition MAX_LOG_SIZE :: nat where "MAX_LOG_SIZE = 100"

text \<open>\<open>new Date(Number(v) / 1000000).toISOString()\<close> in milliseconds; \<open>None\<close> where it throws. How a
  string or a boolean converts is an argument.\<close>

definition kill_time :: "(json \<Rightarrow> rat option) \<Rightarrow> json option \<Rightarrow> int option" where
  "kill_time to_number v =
     (case v of
        None \<Rightarrow> None
      | Some w \<Rightarrow>
          (case (case w of JNum q \<Rightarrow> Some q | JNull \<Rightarrow> Some 0 | _ \<Rightarrow> to_number w) of
             None \<Rightarrow> None
           | Some q \<Rightarrow>
               let ms = q / 1000000 in
               if \<bar>ms\<bar> \<le> 8640000000000000 then Some (if 0 \<le> ms then \<lfloor>ms\<rfloor> else \<lceil>ms\<rceil>) else None))"

definition kill_event_of :: "(json \<Rightarrow> rat option) \<Rightarrow> string \<Rightarrow> json \<Rightarrow> kill_event option" where
  "kill_event_of to_number newId data =
     (let d = json_get (Some data) in
      map_option (\<lambda>t. \<lparr> ke_id = newId, ke_timestamp = t, ke_pid = d ''pid'',
          ke_container_id = d ''container_id'', ke_workload_name = d ''workload_name'',
          ke_parent_comm = d ''parent_comm'', ke_exec_filename = d ''exec_filename'',
          ke_argv1 = d ''argv1'' \<rparr>) (kill_time to_number (d ''timestamp_ns'')))"

definition kill_push :: "kill_event list \<Rightarrow> kill_event \<Rightarrow> kill_event list" where
  "kill_push killLog e =
     (let killLog' = e # killLog in if MAX_LOG_SIZE < length killLog' then butlast killLog' else killLog')"

definition k8s_GET :: "kill_event list \<Rightarrow> nat \<times> kill_event list" where
  "k8s_GET killLog = (length killLog, killLog)"

definition k8s_POST ::
  "(json \<Rightarrow> rat option) \<Rightarrow> string \<Rightarrow> request \<Rightarrow> kill_event list \<Rightarrow> response \<times> kill_event list" where
  "k8s_POST to_number newId rq killLog =
     (case Option.bind (object_body rq) (kill_event_of to_number newId) of
        None \<Rightarrow> (error_reply 400 ''Bad Request'', killLog)
      | Some e \<Rightarrow> (json_reply 200 [(''status'', JStr ''success'')], kill_push killLog e))"

subsection \<open>At most one active schema\<close>

definition one_active :: "registry \<Rightarrow> bool" where
  "one_active db = (\<forall>t. length (active_schemas t db) \<le> 1)"

inductive registry_step :: "registry \<Rightarrow> registry \<Rightarrow> bool" where
  upload: "registry_step db (snd (schema_POST d newId cmdId now rq db))"
| remove: "registry_step db (snd (schema_DELETE rq db))"
| plugin: "registry_step db (snd (plugins_POST d newId cmdId now rq db))"
| unplug: "registry_step db (snd (plugins_DELETE rq db))"

lemma write_file_schemas [simp]: "rg_schemas (write_file d p c db) = rg_schemas db"
  by (simp add: write_file_def)

lemma push_command_schemas: "push_command d i n t ty p db = Some db' \<Longrightarrow> rg_schemas db' = rg_schemas db"
  by (auto simp: push_command_def)

lemma distribute_schemas [simp]: "rg_schemas (distribute_schema d i n t c db) = rg_schemas db"
  by (cases "push_command d i n t ''PUSH_SCHEMA'' (schema_path d t) (write_file d (schema_path d t) (JStr c) db)")
    (auto simp: distribute_schema_def Let_def dest: push_command_schemas)

lemma filter_deactivated:
  "filter (\<lambda>s. sr_tenantId s = u \<and> sr_active s)
     (map (\<lambda>s. if sr_tenantId s = t \<and> sr_active s then s\<lparr>sr_active := False\<rparr> else s) ss)
   = (if u = t then [] else filter (\<lambda>s. sr_tenantId s = u \<and> sr_active s) ss)"
  by (induction ss) auto

lemma active_deactivate:
  "active_schemas u (deactivate_schemas t db) = (if u = t then [] else active_schemas u db)"
proof -
  have "rg_schemas (deactivate_schemas t db) =
      map (\<lambda>s. if sr_tenantId s = t \<and> sr_active s then s\<lparr>sr_active := False\<rparr> else s) (rg_schemas db)"
    by (simp add: deactivate_schemas_def)
  then show ?thesis unfolding active_schemas_def by (simp only: filter_deactivated)
qed

lemma active_stored:
  "active_schemas u (distribute_schema d i k t c (db\<lparr>rg_schemas := rg_schemas db @ [s]\<rparr>))
     = active_schemas u db @ (if sr_tenantId s = u \<and> sr_active s then [s] else [])"
  by (simp add: active_schemas_def)

lemma one_active_deactivate: "one_active db \<Longrightarrow> one_active (deactivate_schemas t db)"
  by (simp add: one_active_def active_deactivate)

lemma active_schemas_cong: "rg_schemas a = rg_schemas b \<Longrightarrow> active_schemas t a = active_schemas t b"
  by (simp add: active_schemas_def)

lemma one_active_cong: "rg_schemas a = rg_schemas b \<Longrightarrow> one_active a = one_active b"
  by (simp add: one_active_def active_schemas_cong [of a b])

text \<open>What an upload does to the active schemas: with text fields the new schema replaces the old ones,
  with any other field the old ones are gone and none takes their place.\<close>

lemma schema_store_active:
  "active_schemas u (snd (schema_store d newId cmdId now t body n db)) =
     (if u \<noteq> t then active_schemas u db
      else case (json_get (Some body) ''name'', version_of body, json_get (Some body) ''jsonContent'') of
             (Some (JStr name), JStr version, Some (JStr content)) \<Rightarrow>
               [\<lparr> sr_id = newId, sr_tenantId = t, sr_name = name, sr_version = version,
                  sr_jsonContent = content, sr_active = True, sr_uploadedAt = now \<rparr>]
           | _ \<Rightarrow> [])"
  by (auto simp: schema_store_def Let_def active_stored active_deactivate split: option.splits json.splits)

lemma schema_POST_cases:
  obtains "snd (schema_POST d newId cmdId now rq db) = db" "rs_status (fst (schema_POST d newId cmdId now rq db)) \<noteq> 200"
  | body n where "schema_POST d newId cmdId now rq db = schema_store d newId cmdId now (user_tenant rq) body n db"
      "is_admin rq" "rq_body rq = Some body"
      "n = endpoint_count (rd_parse d) (js_String (the (json_get (Some body) ''jsonContent'')))"
proof (cases "is_admin rq")
  case adm: True
  show ?thesis
  proof (cases "object_body rq")
    case None
    then show ?thesis using that(1) adm by (simp add: schema_POST_def)
  next
    case b: (Some body)
    then have body: "rq_body rq = Some body" by (simp add: object_body_def split: if_splits)
    let ?c = "json_get (Some body) ''jsonContent''"
    show ?thesis
    proof (cases "rd_parse d (js_String (the ?c))")
      case None
      then show ?thesis using that(1) adm b by (auto simp: schema_POST_def Let_def split: if_splits)
    next
      case p: (Some parsed)
      then have "endpoint_count (rd_parse d) (js_String (the ?c)) = keys_count (json_get (Some parsed) ''paths'')"
        by (simp add: endpoint_count_def)
      note n = this
      show ?thesis
      proof (cases "json_truthy (json_get (Some body) ''name'') \<and> json_truthy ?c \<and> parsed \<noteq> JNull
          \<and> (json_truthy (json_get (Some parsed) ''openapi'') \<or> json_truthy (json_get (Some parsed) ''swagger''))")
        case True
        then have "schema_POST d newId cmdId now rq db
            = schema_store d newId cmdId now (user_tenant rq) body (keys_count (json_get (Some parsed) ''paths'')) db"
          using adm b p by (auto simp: schema_POST_def Let_def)
        then show ?thesis by (rule that(2) [OF _ adm body]) (simp add: n)
      next
        case False
        then have "snd (schema_POST d newId cmdId now rq db) = db
            \<and> rs_status (fst (schema_POST d newId cmdId now rq db)) \<noteq> 200"
          using adm b p by (auto simp: schema_POST_def Let_def)
        then show ?thesis using that(1) by blast
      qed
    qed
  qed
qed (use that(1) in \<open>simp add: schema_POST_def\<close>)

lemma one_active_upload:
  assumes "one_active db"
  shows "one_active (snd (schema_POST d newId cmdId now rq db))"
proof (cases rule: schema_POST_cases [of d newId cmdId now rq db])
  case 1
  then show ?thesis using assms by simp
next
  case (2 body n)
  have "length (active_schemas u (snd (schema_store d newId cmdId now (user_tenant rq) body n db))) \<le> 1" for u
    using assms by (auto simp: schema_store_active one_active_def split: option.splits json.splits)
  then show ?thesis by (simp add: 2(1) one_active_def)
qed

lemma plugin_schemas: "rg_schemas (snd (plugins_POST d newId cmdId now rq db)) = rg_schemas db"
  by (auto simp: plugins_POST_def plugin_store_def Let_def dest!: push_command_schemas
      split: option.splits json.splits)

lemma one_active_step: "one_active db \<Longrightarrow> registry_step db db' \<Longrightarrow> one_active db'"
proof (erule registry_step.cases, goal_cases)
  case 1
  then show ?case by (simp add: one_active_upload)
next
  case 2
  then show ?case by (simp add: schema_DELETE_def one_active_deactivate)
next
  case 3
  then show ?case using one_active_cong [OF plugin_schemas] by blast
next
  case (4 db rq)
  have "rg_schemas (snd (plugins_DELETE rq db)) = rg_schemas db" by (simp add: plugins_DELETE_def)
  from one_active_cong [OF this] show ?case using 4 by simp
qed

interpretation reg: preserved registry_step one_active
  by unfold_locales (rule one_active_step)

subsection \<open>Plugin paths\<close>

lemma norm_segments_snoc:
  "f \<notin> {[], ''.'', ''..''} \<Longrightarrow> norm_segments a acc (ss @ [f]) = norm_segments a acc ss @ [f]"
  by (induction a acc ss rule: norm_segments.induct) (auto split: list.splits)

lemma join_snoc: "join c (xs @ [x]) = (if xs = [] then x else join c xs @ c @ x)"
  by (induction c xs rule: join.induct) auto

text \<open>The directory a plugin is written to: the configured one, normalised.\<close>

definition plugin_dir :: "registry_deps \<Rightarrow> string" where
  "plugin_dir d =
     (let dir = or_default (rd_env d ''WASM_PLUGIN_DIR'') ''/etc/log-guardian/plugins'';
          a = startsWith dir ''/'';
          segs = norm_segments a [] (splitOn CHR ''/'' dir)
      in (if a then ''/'' else []) @ join ''/'' segs @ (if segs = [] then [] else ''/''))"

lemma plugin_file_segment:
  assumes "CHR ''/'' \<notin> set t"
  shows "CHR ''/'' \<notin> set (plugin_file t name)" "plugin_file t name \<notin> {[], ''.'', ''..''}"
proof -
  have "\<not> safe_char CHR ''/''" by (simp add: safe_char_def is_word_def is_digit_def)
  then show "CHR ''/'' \<notin> set (plugin_file t name)" using assms by (auto simp: plugin_file_def)
  have "5 \<le> length (plugin_file t name)" by (simp add: plugin_file_def)
  then show "plugin_file t name \<notin> {[], ''.'', ''..''}" by auto
qed

lemma or_default_not_Nil: "or_default v d \<noteq> []" if "d \<noteq> []"
  using that by (simp add: or_default_def split: option.splits)

lemma plugin_path_split:
  assumes "CHR ''/'' \<notin> set t"
  shows "plugin_path d t name = plugin_dir d @ plugin_file t name"
proof -
  let ?dir = "or_default (rd_env d ''WASM_PLUGIN_DIR'') ''/etc/log-guardian/plugins''"
  note f = plugin_file_segment [OF assms, of name]
  have "?dir \<noteq> []" by (rule or_default_not_Nil) simp
  then have "startsWith (?dir @ ''/'' @ plugin_file t name) ''/'' = startsWith ?dir ''/''"
    by (cases ?dir) auto
  moreover have "splitOn CHR ''/'' (?dir @ ''/'' @ plugin_file t name) = splitOn CHR ''/'' ?dir @ [plugin_file t name]"
    using splitOn_at [of "CHR ''/''" ?dir "plugin_file t name"] splitOn_id [OF f(1)] by simp
  ultimately show ?thesis
    using f(2) by (simp add: plugin_path_def path_join_def plugin_dir_def Let_def norm_segments_snoc join_snoc)
qed

subsection \<open>The ring buffer\<close>

lemma object_field: "json_get (Some (JObj fs)) k = map_of fs k"
  by (simp add: json_get_def)

lemma kill_push_take: "kill_push (take MAX_LOG_SIZE es) e = take MAX_LOG_SIZE (e # es)"
proof (cases "length es < 100")
  case False
  then have "butlast (e # take 100 es) = e # butlast (take 100 es)" by (cases es) auto
  then show ?thesis using False by (simp add: kill_push_def MAX_LOG_SIZE_def Let_def butlast_take)
qed (simp add: kill_push_def MAX_LOG_SIZE_def)

subsection \<open>Properties\<close>


text \<open>C12. A schema that is uploaded is the schema that is served: after an upload that
was answered 200, the same tenant's query returns the new id, the uploaded name and the
number of paths the upload reported, and the upload came from an administrator.\<close>

theorem schema_upload_roundtrip:
  assumes "schema_POST d newId cmdId now rq db = (r, db')" "rs_status r = 200"
  shows "is_admin rq
    \<and> (\<exists>body. rq_body rq = Some body
         \<and> rs_field (schema_GET (rd_parse d) rq db') ''id'' = Some (JStr newId)
         \<and> rs_field (schema_GET (rd_parse d) rq db') ''name'' = json_get (Some body) ''name''
         \<and> rs_field (schema_GET (rd_parse d) rq db') ''endpointCount'' = rs_field r ''pathCount'')"
proof (cases rule: schema_POST_cases [of d newId cmdId now rq db])
  case 1
  then show ?thesis using assms by simp
next
  case (2 body n)
  have st: "schema_store d newId cmdId now (user_tenant rq) body n db = (r, db')" using 2(1) assms(1) by simp
  obtain name version content where f: "json_get (Some body) ''name'' = Some (JStr name)"
      "version_of body = JStr version" "json_get (Some body) ''jsonContent'' = Some (JStr content)"
    using st assms(2) by (auto simp: schema_store_def Let_def split: option.splits json.splits)
  let ?s = "\<lparr> sr_id = newId, sr_tenantId = user_tenant rq, sr_name = name, sr_version = version,
               sr_jsonContent = content, sr_active = True, sr_uploadedAt = now \<rparr>"
  have "active_schemas (user_tenant rq) db' = [?s]"
    using schema_store_active [of "user_tenant rq" d newId cmdId now "user_tenant rq" body n db]
    by (simp add: st f)
  then have g: "schema_GET (rd_parse d) rq db' = json_reply 200
      [(''loaded'', JBool True), (''id'', JStr newId), (''name'', JStr name), (''version'', JStr version),
       (''uploadedAt'', JInt now), (''endpointCount'', JNat (endpoint_count (rd_parse d) content))]"
    by (simp add: schema_GET_def find_active_def)
  have "rs_field r ''pathCount'' = Some (JNat n)"
    using st by (auto simp: schema_store_def Let_def f object_field)
  moreover have "n = endpoint_count (rd_parse d) content" using 2(4) by (simp add: f)
  ultimately show ?thesis using 2(2,3) g f(1) by (auto simp: object_field)
qed

text \<open>C36. A plugin upload cannot leave the plugin directory through its name: for a tenant
id without a slash the file is the sanitised name directly inside the configured directory,
whatever dots, slashes or other characters the name has.\<close>

theorem plugin_path_confined:
  assumes "CHR ''/'' \<notin> set t"
  shows "plugin_path d t name = plugin_dir d @ plugin_file t name \<and> CHR ''/'' \<notin> set (plugin_file t name)"
  using plugin_path_split [OF assms] plugin_file_segment(1) [OF assms] by blast


text \<open>The kill log refines the full history: after any sequence of accepted events the
in-memory ring buffer holds exactly the last hundred, newest first.\<close>

theorem kill_log_refines: "foldl kill_push [] es = take 100 (rev es)"
proof -
  have "foldl kill_push [] es = take MAX_LOG_SIZE (rev es)"
    by (induction es rule: rev_induct) (simp_all add: kill_push_take)
  then show ?thesis by (simp add: MAX_LOG_SIZE_def)
qed

text \<open>An upload whose name is not a text fails with 500 after the tenant's active schema was switched off.\<close>

lemma schema_upload_not_atomic:
  assumes "json_str (json_get (Some body) ''name'') = None"
  shows "schema_store d newId cmdId now t body n db
           = (error_reply 500 ''Internal Server Error'', deactivate_schemas t db)"
  using assms
  by (cases "json_get (Some body) ''name''" rule: json_str.cases)
    (auto simp: schema_store_def Let_def split: option.splits json.splits)

subsection \<open>A worked example\<close>

definition r_deps :: registry_deps where
  "r_deps = \<lparr> rd_parse = (\<lambda>s. Some (JObj [(''openapi'', JStr ''3''), (''paths'', JObj [(''/a'', JNull)])])),
     rd_hmac = demo_hmac, rd_env = (\<lambda>_. None), rd_write_ok = False \<rparr>"

definition r_request :: request where
  "r_request = (q_request [] (Some (JObj [(''name'', JStr ''api''), (''jsonContent'', JStr ''x'')])))
     \<lparr>rq_headers := [(''x-user-role'', ''admin''), (''x-user-tenant'', ''t1'')]\<rparr>"

definition r_empty :: registry where
  "r_empty = \<lparr> rg_schemas = [], rg_plugins = [], rg_fleet = q_db, rg_files = [] \<rparr>"

lemma r_headers: "is_admin r_request" "user_tenant r_request = ''t1''"
  by (simp_all add: is_admin_def user_tenant_def r_request_def or_default_def header_def headers_get_def
      map_get_def toLowerCase_def)

lemma r_upload: "rs_status (fst (schema_POST r_deps ''s1'' ''c1'' 5 r_request r_empty)) = 200"
proof -
  have "object_body r_request = Some (JObj [(''name'', JStr ''api''), (''jsonContent'', JStr ''x'')])"
    by (simp add: object_body_def r_request_def q_request_def)
  then show ?thesis
    by (simp add: schema_POST_def r_headers json_get_def r_deps_def schema_store_def version_of_def Let_def)
qed


theorem schema_upload_roundtrip_witness:
  "rs_field (schema_GET (rd_parse r_deps) r_request (snd (schema_POST r_deps ''s1'' ''c1'' 5 r_request r_empty))) ''id''
     = Some (JStr ''s1'')"
  using schema_upload_roundtrip [OF prod.collapse [symmetric] r_upload] by blast

theorem plugin_path_confined_witness:
  "plugin_path r_deps ''t1'' ''../../x'' = plugin_dir r_deps @ ''t1_______x.wasm''"
proof -
  have "plugin_file ''t1'' ''../../x'' = ''t1_______x.wasm''"
    by (simp add: plugin_file_def safe_char_def is_word_def is_digit_def)
  moreover have "plugin_path r_deps ''t1'' ''../../x'' = plugin_dir r_deps @ plugin_file ''t1'' ''../../x''"
    using plugin_path_confined [of "''t1''" r_deps "''../../x''"] by simp
  ultimately show ?thesis by simp
qed

definition r_package :: market_package where
  "r_package = \<lparr> mp_id = ''p1'', mp_name = None, mp_version = None, mp_author = None, mp_description = None,
     mp_sha256 = Some ''d'', mp_signature = Some ''s'', mp_signed = None \<rparr>"

definition r_manifest :: market_manifest where
  "r_manifest = \<lparr> mm_version = None, mm_marketplace = None, mm_packages = Some [r_package] \<rparr>"

definition r_ask :: request where
  "r_ask = q_request [] (Some (JObj [(''package_id'', JStr ''p1'')]))"


text \<open>With enforcement off the reply still says \<open>verified\<close>, though no signature verifies.\<close>

lemma marketplace_unverified:
  defines "env \<equiv> \<lambda>v. if v = ''MARKETPLACE_REQUIRE_SIG'' then Some ''0'' else None"
  shows "\<not> verifyPackageSignature (\<lambda>_ _. ''other'') env r_package
    \<and> (\<exists>r. marketplace_POST (\<lambda>_ _. ''other'') env ''/app'' (\<lambda>_. Some r_manifest) r_ask = Some r
          \<and> rs_field r ''verified'' = Some (JBool True))"
  by (simp add: env_def marketplace_POST_def r_ask_def q_request_def package_id_def json_get_def trim_def truthy_def
      loadMarketplaceManifest_def manifestCandidates_def r_manifest_def r_package_def
      verifyPackageSignature_def requireSigEnforced_def or_default_def)

end
