(* ===== verification/Lineage.thy ===== *)
theory Lineage
  imports Telemetry
begin

section \<open>Process lineage\<close>

text \<open>
  \<^verbatim>\<open>lib/lineageGraph.ts\<close> and \<^verbatim>\<open>app/api/attack-tree/route.ts\<close>. Trees are taken at
  their declared type. What a file or the analyzer holds is an argument; paths are joined
  without removing the dots.
\<close>

record lineage_event =
  le_type :: string
  le_pid :: int
  le_ppid :: "int option"
  le_comm :: string
  le_detail :: string
  le_ts :: int

record attack_tree =
  at_pid :: int
  at_comm :: string
  at_risk :: "rat option"
  at_agentId :: "string option"
  at_events :: "lineage_event list option"
  at_firstSeen :: "int option"
  at_lastSeen :: "int option"

datatype node_kind = Process_node | Event_node

record graph_node =
  gn_id :: string
  gn_label :: string
  gn_kind :: node_kind
  gn_pid :: "int option"
  gn_risk :: "rat option"
  gn_eventType :: "string option"

record graph_edge =
  ge_id :: string
  ge_source :: string
  ge_target :: string
  ge_label :: string
  ge_detail :: "string option"
  ge_eventType :: "string option"

type_synonym graph = "graph_node list \<times> graph_edge list"

definition EVENT_COLORS :: "(string \<times> string) list" where
  "EVENT_COLORS =
     [(''FILE_READ'', ''#60a5fa''), (''EXEC_SHELL'', ''#f87171''), (''NET_CONNECT'', ''#c084fc''),
      (''FILE_WRITE'', ''#fb923c''), (''NET_RECV'', ''#22d3ee'')]"

definition eventColor :: "string \<Rightarrow> string" where
  "eventColor type = nullish (map_of EVENT_COLORS type) ''#94a3b8''"

subsection \<open>Building the graph\<close>

record graph_builder =
  gb_nodes :: "graph_node list"
  gb_edges :: "graph_edge list"
  gb_procNodes :: "(int, string) jsmap"
  gb_commByPid :: "(int, string) jsmap"
  gb_prevPid :: int

definition process_id :: "string \<Rightarrow> int \<Rightarrow> string" where
  "process_id treeKey pid = ''p-'' @ treeKey @ ''-'' @ show_int pid"

definition edge_id :: "string \<Rightarrow> nat \<Rightarrow> string" where
  "edge_id treeKey idx = ''e-'' @ treeKey @ ''-'' @ show_nat idx"

definition ensureProcess ::
  "attack_tree \<Rightarrow> string \<Rightarrow> int \<Rightarrow> string \<Rightarrow> bool \<Rightarrow> graph_builder \<Rightarrow> string \<times> graph_builder" where
  "ensureProcess tree treeKey pid comm isRoot b =
     (let known = map_get (gb_procNodes b) pid in
      if truthy known then (the known, b)
      else let id = process_id treeKey pid in
        (id, b\<lparr> gb_procNodes := map_set (gb_procNodes b) pid id,
                gb_commByPid := map_set (gb_commByPid b) pid comm,
                gb_nodes := gb_nodes b @
                  [\<lparr> gn_id = id, gn_label = comm @ [CHR 0x0A] @ ''PID '' @ show_int pid,
                     gn_kind = Process_node, gn_pid = Some pid,
                     gn_risk = (if isRoot then at_risk tree else None), gn_eventType = None \<rparr>] \<rparr>))"

definition parent_pid :: "attack_tree \<Rightarrow> graph_builder \<Rightarrow> nat \<Rightarrow> lineage_event \<Rightarrow> int" where
  "parent_pid tree b idx ev =
     (case le_ppid ev of
        Some p \<Rightarrow> if 0 < p then p else if idx = 0 then at_pid tree else gb_prevPid b
      | None \<Rightarrow> if idx = 0 then at_pid tree else gb_prevPid b)"

definition graph_event :: "attack_tree \<Rightarrow> string \<Rightarrow> graph_builder \<Rightarrow> nat \<times> lineage_event \<Rightarrow> graph_builder" where
  "graph_event tree treeKey b e =
     (let (idx, ev) = e;
          b1 = b\<lparr>gb_commByPid := map_set (gb_commByPid b) (le_pid ev) (le_comm ev)\<rparr>;
          (target, b2) = ensureProcess tree treeKey (le_pid ev) (le_comm ev) (le_pid ev = at_pid tree) b1;
          parentPid = parent_pid tree b2 idx ev;
          parentComm = nullish (map_get (gb_commByPid b2) parentPid) (at_comm tree);
          (source, b3) = ensureProcess tree treeKey parentPid parentComm (parentPid = at_pid tree) b2
      in b3\<lparr> gb_edges := gb_edges b3 @
               [\<lparr> ge_id = edge_id treeKey idx, ge_source = source, ge_target = target,
                  ge_label = replace_char CHR ''_'' CHR '' '' (le_type ev),
                  ge_detail = Some (le_detail ev), ge_eventType = Some (le_type ev) \<rparr>],
             gb_prevPid := le_pid ev \<rparr>)"

definition graph_start :: "attack_tree \<Rightarrow> string \<Rightarrow> graph_builder" where
  "graph_start tree treeKey =
     snd (ensureProcess tree treeKey (at_pid tree) (at_comm tree) True
       \<lparr> gb_nodes = [], gb_edges = [], gb_procNodes = [],
         gb_commByPid = map_set [] (at_pid tree) (at_comm tree), gb_prevPid = at_pid tree \<rparr>)"

definition treeToGraph :: "attack_tree \<Rightarrow> string \<Rightarrow> graph" where
  "treeToGraph tree treeKey =
     (let b = foldl (graph_event tree treeKey) (graph_start tree treeKey)
                (enumerate 0 (nullish (at_events tree) []))
      in (gb_nodes b, gb_edges b))"

definition treesToGraph :: "attack_tree list \<Rightarrow> graph" where
  "treesToGraph trees =
     foldl (\<lambda>(nodes, edges) (i, t).
              let g = treeToGraph t (show_nat i) in (nodes @ fst g, edges @ snd g))
       ([], []) (enumerate 0 trees)"

definition riskClass :: "rat \<Rightarrow> string" where
  "riskClass risk = (if 85 \<le> risk then ''high'' else if 60 \<le> risk then ''medium'' else ''low'')"

subsection \<open>The attack-tree route\<close>

datatype lineage_source = Src_telemetry | Src_guardian_api | Src_daemon_file | Src_demo | Src_empty

datatype lineage_mode = Mode_live | Mode_preview | Mode_none

definition allowDemoFallback :: "env \<Rightarrow> request \<Rightarrow> bool" where
  "allowDemoFallback env rq =
     (env ''LINEAGE_ALLOW_DEMO'' = Some ''1'' \<or> query rq ''allow_demo'' = Some ''1''
      \<or> query rq ''preview'' = Some ''1'')"

text \<open>What the analyzer answers, after the test of \<open>res.ok\<close> and of the array.\<close>

definition fetchFromAnalyzerApi ::
  "(string \<Rightarrow> headers \<Rightarrow> (bool \<times> attack_tree list option) option) \<Rightarrow> env \<Rightarrow> attack_tree list option" where
  "fetchFromAnalyzerApi fetch env =
     (case fetch (guardianApiBase env @ ''/api/v1/attack-tree'') (guardianApiAuthHeaders env) of
        None \<Rightarrow> None
      | Some (ok, trees) \<Rightarrow> if ok then trees else None)"

definition basename :: "string \<Rightarrow> string" where
  "basename p = last (splitOn CHR ''/'' (rev (dropWhile (\<lambda>c. c = CHR ''/'') (rev p))))"

definition isDemoTreePath :: "string \<Rightarrow> bool" where
  "isDemoTreePath treePath =
     (basename treePath = ''lineage-demo.json'' \<or> str_includes (basename treePath) ''demo'')"

text \<open>The shape of a parsed tree file: an array, or an object with or without a \<open>trees\<close> array.\<close>

datatype tree_file = File_array "attack_tree list" | File_object "attack_tree list option"

fun file_trees :: "tree_file \<Rightarrow> attack_tree list option" where
  "file_trees (File_array ts) = Some ts"
| "file_trees (File_object ts) = ts"

definition live_candidates :: "env \<Rightarrow> string \<Rightarrow> string \<Rightarrow> string list" where
  "live_candidates env cwd home =
     filter (\<lambda>p. p \<noteq> [])
       [nullish (env ''ATTACK_TREE_PATH'') [], ''/data/lg/attack_tree.json'',
        ''/run/log-guardian/attack_tree.json'', ''/var/lib/log-guardian/attack_tree.json'',
        cwd @ ''/attack_tree.json'', cwd @ ''/../attack_tree.json'',
        cwd @ ''/../corpus/lineage_live_snapshot.json'', cwd @ ''/corpus/lineage_live_snapshot.json'',
        home @ ''/.local/share/log-guardian/attack_tree.json'']"

definition demo_candidates :: "bool \<Rightarrow> string \<Rightarrow> string list" where
  "demo_candidates permitDemo cwd =
     (if permitDemo then [cwd @ ''/../rules/lineage-demo.json'', cwd @ ''/rules/lineage-demo.json''] else [])"

fun first_tree_file ::
  "bool \<Rightarrow> (string \<Rightarrow> tree_file option) \<Rightarrow> string list \<Rightarrow> (attack_tree list \<times> lineage_source) option" where
  "first_tree_file permitDemo file [] = None"
| "first_tree_file permitDemo file (p # ps) =
     (case Option.bind (file p) file_trees of
        Some (t # ts) \<Rightarrow>
          if isDemoTreePath p \<and> \<not> permitDemo then first_tree_file permitDemo file ps
          else Some (t # ts, if isDemoTreePath p then Src_demo else Src_daemon_file)
      | _ \<Rightarrow> first_tree_file permitDemo file ps)"

definition readLocalAttackTreeFile ::
  "env \<Rightarrow> string \<Rightarrow> string \<Rightarrow> (string \<Rightarrow> tree_file option) \<Rightarrow> bool \<Rightarrow> (attack_tree list \<times> lineage_source) option" where
  "readLocalAttackTreeFile env cwd home file permitDemo =
     first_tree_file permitDemo file (live_candidates env cwd home @ demo_candidates permitDemo cwd)"

definition mergeAgentTrees :: "(string \<Rightarrow> attack_tree list option) \<Rightarrow> telemetry list \<Rightarrow> attack_tree list" where
  "mergeAgentTrees parse agents =
     concat (map (\<lambda>a. map (\<lambda>t. t\<lparr>at_agentId := Some (tl_agentId a)\<rparr>)
       (nullish (parse (if tl_attackTreeJson a = [] then ''[]'' else tl_attackTreeJson a)) [])) agents)"

fun toDataMode :: "lineage_source \<Rightarrow> lineage_mode" where
  "toDataMode Src_demo = Mode_preview"
| "toDataMode Src_empty = Mode_none"
| "toDataMode _ = Mode_live"

record guardian_probes =
  gp_ipc :: "string option"
  gp_lineage_probe :: "bool option"
  gp_l7_probe :: bool
  gp_l7_ebpf_hits :: "rat option"

text \<open>\<open>probe_active\<close> is a boolean or a string.\<close>

record guardian_status_file =
  gs_ipc :: "string option"
  gs_lineage_probe :: "bool option"
  gs_l7_probe :: "bool option"
  gs_ebpf_hits :: "rat option"
  gs_probe_active :: "json option"

definition probes_of :: "guardian_status_file \<Rightarrow> guardian_probes" where
  "probes_of d =
     \<lparr> gp_ipc = gs_ipc d, gp_lineage_probe = gs_lineage_probe d,
       gp_l7_probe = nullish (gs_l7_probe d)
         (gs_probe_active d = Some (JBool True) \<or> gs_probe_active d = Some (JStr ''true'')),
       gp_l7_ebpf_hits = gs_ebpf_hits d \<rparr>"

definition readGuardianProbes :: "string \<Rightarrow> (string \<Rightarrow> guardian_status_file option) \<Rightarrow> guardian_probes option" where
  "readGuardianProbes cwd file =
     (case file (cwd @ ''/guardian-status.json'') of
        Some d \<Rightarrow> Some (probes_of d)
      | None \<Rightarrow> map_option probes_of (file (cwd @ ''/../guardian-status.json'')))"

fun at_least :: "rat option \<Rightarrow> jsfloat \<Rightarrow> bool" where
  "at_least risk FNaN = False"
| "at_least risk (FInf neg) = neg"
| "at_least risk (FNum m) = (m \<le> nullish risk 0)"

record lineage_reply =
  lr_trees :: "attack_tree list"
  lr_total :: nat
  lr_high_risk :: nat
  lr_graph :: graph
  lr_source :: lineage_source
  lr_data_mode :: lineage_mode
  lr_live :: bool
  lr_preview_only :: bool
  lr_probes :: "guardian_probes option"
  lr_setup_hint :: "string option"
  lr_generated_at :: int

record lineage_deps =
  ld_env :: env
  ld_cwd :: string
  ld_home :: string
  ld_parse :: "string \<Rightarrow> attack_tree list option"
  ld_fetch :: "string \<Rightarrow> headers \<Rightarrow> (bool \<times> attack_tree list option) option"
  ld_file :: "string \<Rightarrow> tree_file option"
  ld_status :: "string \<Rightarrow> guardian_status_file option"

definition lineage_agents :: "string \<Rightarrow> telemetry list \<Rightarrow> telemetry list" where
  "lineage_agents agentId rows =
     take 32 (sort_key (\<lambda>r. - tl_lastSeen r) (if agentId \<noteq> ''*'' then filter (\<lambda>r. tl_agentId r = agentId) rows else rows))"

text \<open>The sources in order of preference.\<close>

definition lineage_trees :: "lineage_deps \<Rightarrow> bool \<Rightarrow> telemetry list \<Rightarrow> attack_tree list \<times> lineage_source" where
  "lineage_trees d permitDemo agents =
     (let s0 = (if agents \<noteq> [] then (mergeAgentTrees (ld_parse d) agents, Src_telemetry) else ([], Src_empty));
          s1 = (if fst s0 = []
                then (case fetchFromAnalyzerApi (ld_fetch d) (ld_env d) of
                        Some (t # ts) \<Rightarrow> (t # ts, Src_guardian_api)
                      | _ \<Rightarrow> s0)
                else s0)
      in if fst s1 = []
         then (case readLocalAttackTreeFile (ld_env d) (ld_cwd d) (ld_home d) (ld_file d) permitDemo of
                 Some local \<Rightarrow> local
               | None \<Rightarrow> s1)
         else s1)"

definition lineage_hint :: "lineage_source \<Rightarrow> guardian_probes option \<Rightarrow> string option" where
  "lineage_hint source probes =
     (if source = Src_empty
      then Some ''sudo ./log-guardian-daemon --iface eth0  # eBPF (U+2192) /run/log-guardian/attack_tree.json''
      else case probes of
             None \<Rightarrow> None
           | Some p \<Rightarrow>
               if gp_ipc p = Some ''ok'' \<and> gp_lineage_probe p \<noteq> Some True
               then Some ''Daemon IPC OK; lineage_probe kapali (U+2014) BPF objeleri (lineage_probe.o) kontrol edin.''
               else None)"

definition attack_tree_GET :: "lineage_deps \<Rightarrow> int \<Rightarrow> request \<Rightarrow> telemetry list \<Rightarrow> lineage_reply" where
  "attack_tree_GET d now rq rows =
     (let agentId = or_default (query rq ''agent_id'') ''*'';
          minRisk = parseFloat (or_default (query rq ''min_risk'') ''0'');
          permitDemo = allowDemoFallback (ld_env d) rq;
          (trees, source) = lineage_trees d permitDemo (lineage_agents agentId rows);
          filtered = filter (\<lambda>t. at_least (at_risk t) minRisk) trees;
          probes = readGuardianProbes (ld_cwd d) (ld_status d)
      in \<lparr> lr_trees = filtered, lr_total = length filtered,
           lr_high_risk = length (filter (\<lambda>t. 85 \<le> nullish (at_risk t) 0) filtered),
           lr_graph = treesToGraph filtered, lr_source = source, lr_data_mode = toDataMode source,
           lr_live = (toDataMode source = Mode_live), lr_preview_only = (source = Src_demo),
           lr_probes = probes, lr_setup_hint = lineage_hint source probes, lr_generated_at = now \<rparr>)"

subsection \<open>Well-formed graphs\<close>

text \<open>Every process node is recorded in \<open>procNodes\<close> under its process, and every edge joins two nodes.\<close>

definition builder_ok :: "string \<Rightarrow> nat \<Rightarrow> graph_builder \<Rightarrow> bool" where
  "builder_ok key n b =
     (map_wf (gb_procNodes b)
      \<and> map snd (gb_procNodes b) = map gn_id (gb_nodes b)
      \<and> list_all (\<lambda>(p, i). i = process_id key p) (gb_procNodes b)
      \<and> map ge_id (gb_edges b) = map (edge_id key) [0..<n]
      \<and> list_all (\<lambda>e. ge_source e \<in> gn_id ` set (gb_nodes b) \<and> ge_target e \<in> gn_id ` set (gb_nodes b)) (gb_edges b))"

lemma process_id_truthy [simp]: "truthy (Some (process_id key pid))"
  by (simp add: truthy_def process_id_def)

lemma process_id_inject [simp]: "process_id key p = process_id key q \<longleftrightarrow> p = q"
  by (simp add: process_id_def)

lemma ensureProcess_ok:
  assumes "builder_ok key n b" "ensureProcess tree key pid comm isRoot b = (i, b')"
  shows "builder_ok key n b' \<and> i = process_id key pid \<and> i \<in> gn_id ` set (gb_nodes b')
     \<and> gn_id ` set (gb_nodes b) \<subseteq> gn_id ` set (gb_nodes b') \<and> gb_edges b' = gb_edges b"
proof (cases "map_get (gb_procNodes b) pid")
  case None
  then have new: "pid \<notin> fst ` set (gb_procNodes b)" by (simp add: map_get_None_iff)
  show ?thesis
    using assms None
    by (auto simp: ensureProcess_def Let_def truthy_def builder_ok_def map_set_new [OF new] map_wf_def
        list_all_iff new)
next
  case (Some j)
  then have mem: "(pid, j) \<in> set (gb_procNodes b)" by (simp add: map_get_def map_of_SomeD)
  then have j: "j = process_id key pid" using assms(1) by (auto simp: builder_ok_def list_all_iff)
  have "j \<in> set (map gn_id (gb_nodes b))"
    using mem assms(1) unfolding builder_ok_def by (metis in_set_zipE zip_map_fst_snd)
  then show ?thesis using assms Some j by (auto simp: ensureProcess_def)
qed

lemma builder_ok_comm [simp]: "builder_ok key n (b\<lparr>gb_commByPid := m\<rparr>) = builder_ok key n b"
  by (simp add: builder_ok_def)

lemma graph_event_ok:
  assumes "builder_ok key n b"
  shows "builder_ok key (Suc n) (graph_event tree key b (n, ev))"
proof -
  let ?b1 = "b\<lparr>gb_commByPid := map_set (gb_commByPid b) (le_pid ev) (le_comm ev)\<rparr>"
  obtain t b2 where 2: "ensureProcess tree key (le_pid ev) (le_comm ev) (le_pid ev = at_pid tree) ?b1 = (t, b2)"
    by fastforce
  let ?p = "parent_pid tree b2 n ev"
  obtain s b3 where 3: "ensureProcess tree key ?p (nullish (map_get (gb_commByPid b2) ?p) (at_comm tree))
      (?p = at_pid tree) b2 = (s, b3)" by fastforce
  have ok2: "builder_ok key n b2" "t \<in> gn_id ` set (gb_nodes b2)"
    using ensureProcess_ok [OF _ 2] assms by auto
  have ok3: "builder_ok key n b3" "s \<in> gn_id ` set (gb_nodes b3)" "t \<in> gn_id ` set (gb_nodes b3)"
    using ensureProcess_ok [OF ok2(1) 3] ok2(2) by auto
  then show ?thesis by (simp add: graph_event_def Let_def 2 3 builder_ok_def)
qed

lemma graph_events_ok:
  "builder_ok key n b \<Longrightarrow>
   builder_ok key (n + length evs) (foldl (graph_event tree key) b (enumerate n evs))"
proof (induction evs arbitrary: n b)
  case (Cons ev evs)
  from Cons.IH [OF graph_event_ok [OF Cons.prems]] show ?case by simp
qed simp

lemma graph_start_ok: "builder_ok key 0 (graph_start tree key)"
proof -
  let ?b = "\<lparr> gb_nodes = [], gb_edges = [], gb_procNodes = [],
              gb_commByPid = map_set [] (at_pid tree) (at_comm tree), gb_prevPid = at_pid tree \<rparr>"
  have "builder_ok key 0 ?b" by (simp add: builder_ok_def)
  from ensureProcess_ok [OF this] show ?thesis
    unfolding graph_start_def by (metis prod.collapse)
qed

definition graph_ok :: "graph \<Rightarrow> bool" where
  "graph_ok g = (distinct (map gn_id (fst g)) \<and> distinct (map ge_id (snd g))
     \<and> list_all (\<lambda>e. ge_source e \<in> gn_id ` set (fst g) \<and> ge_target e \<in> gn_id ` set (fst g)) (snd g))"

lemma builder_ok_graph:
  assumes "builder_ok key n b"
  shows "graph_ok (gb_nodes b, gb_edges b)"
    and "gn_id ` set (gb_nodes b) \<subseteq> range (process_id key)"
    and "ge_id ` set (gb_edges b) \<subseteq> range (edge_id key)" and "length (gb_edges b) = n"
proof -
  let ?m = "gb_procNodes b"
  have ids: "map gn_id (gb_nodes b) = map (process_id key) (map fst ?m)"
  proof -
    have "map gn_id (gb_nodes b) = map snd ?m" using assms by (simp add: builder_ok_def)
    also have "\<dots> = map (process_id key) (map fst ?m)"
    proof -
      have "list_all (\<lambda>(p, i). i = process_id key p) ?m" using assms by (simp add: builder_ok_def)
      then show ?thesis by (auto simp: list_all_iff)
    qed
    finally show ?thesis .
  qed
  have "distinct (map fst ?m)" using assms by (simp add: builder_ok_def map_wf_def)
  then have "distinct (map gn_id (gb_nodes b))"
    unfolding ids by (simp add: distinct_map inj_on_def)
  moreover have edges: "map ge_id (gb_edges b) = map (edge_id key) [0..<n]"
    using assms by (simp add: builder_ok_def)
  moreover have "distinct (map (edge_id key) [0..<n])"
    by (simp add: distinct_map inj_on_def edge_id_def)
  ultimately show "graph_ok (gb_nodes b, gb_edges b)"
    using assms by (simp add: graph_ok_def builder_ok_def)
  have "set (map gn_id (gb_nodes b)) \<subseteq> range (process_id key)" unfolding ids by auto
  then show "gn_id ` set (gb_nodes b) \<subseteq> range (process_id key)" by simp
  have "set (map ge_id (gb_edges b)) \<subseteq> range (edge_id key)" unfolding edges by auto
  then show "ge_id ` set (gb_edges b) \<subseteq> range (edge_id key)" by simp
  show "length (gb_edges b) = n" using arg_cong [OF edges, of length] by simp
qed

lemma treeToGraph_ok:
  "graph_ok (treeToGraph tree key)"
  "gn_id ` set (fst (treeToGraph tree key)) \<subseteq> range (process_id key)"
  "ge_id ` set (snd (treeToGraph tree key)) \<subseteq> range (edge_id key)"
  "length (snd (treeToGraph tree key)) = length (nullish (at_events tree) [])"
proof -
  let ?b = "foldl (graph_event tree key) (graph_start tree key) (enumerate 0 (nullish (at_events tree) []))"
  have "builder_ok key (length (nullish (at_events tree) [])) ?b"
    using graph_events_ok [OF graph_start_ok [of key tree]] by simp
  from builder_ok_graph [OF this]
  show "graph_ok (treeToGraph tree key)"
    "gn_id ` set (fst (treeToGraph tree key)) \<subseteq> range (process_id key)"
    "ge_id ` set (snd (treeToGraph tree key)) \<subseteq> range (edge_id key)"
    "length (snd (treeToGraph tree key)) = length (nullish (at_events tree) [])"
    by (simp_all add: treeToGraph_def Let_def)
qed

lemma before_separator:
  assumes "c \<notin> set u" "c \<notin> set v" "u @ c # x = v @ c # y"
  shows "u = v"
proof -
  have "takeWhile (\<lambda>a. a \<noteq> c) (w @ c # z) = w" if "c \<notin> set w" for w z
    using that by (induction w) auto
  then show ?thesis using assms by metis
qed

lemma show_nat_no_dash: "CHR ''-'' \<notin> set (show_nat n)"
  using show_nat_digits digit_not_sign by blast

lemma key_of_id:
  "process_id (show_nat i) p = process_id (show_nat j) q \<Longrightarrow> i = j"
  "edge_id (show_nat i) m = edge_id (show_nat j) n \<Longrightarrow> i = j"
  using before_separator [OF show_nat_no_dash show_nat_no_dash, of i _ j]
  by (simp_all add: process_id_def edge_id_def)

lemma ids_disjoint:
  "(\<Union>i<n. range (process_id (show_nat i))) \<inter> range (process_id (show_nat n)) = {}"
  "(\<Union>i<n. range (edge_id (show_nat i))) \<inter> range (edge_id (show_nat n)) = {}"
  by (auto dest!: key_of_id)

lemma disjoint_subsets: "A \<subseteq> X \<Longrightarrow> B \<subseteq> Y \<Longrightarrow> X \<inter> Y = {} \<Longrightarrow> A \<inter> B = {}"
  by blast

lemma graph_ok_append:
  assumes "graph_ok g" "graph_ok h" "gn_id ` set (fst g) \<inter> gn_id ` set (fst h) = {}"
    "ge_id ` set (snd g) \<inter> ge_id ` set (snd h) = {}"
  shows "graph_ok (fst g @ fst h, snd g @ snd h)"
proof -
  have "list_all (\<lambda>e. ge_source e \<in> gn_id ` set (fst g @ fst h) \<and> ge_target e \<in> gn_id ` set (fst g @ fst h)) (snd k)"
    if "k = g \<or> k = h" for k
    using assms(1,2) that unfolding graph_ok_def list_all_iff set_append image_Un by blast
  then show ?thesis using assms by (simp add: graph_ok_def)
qed

definition forest_ok :: "nat \<Rightarrow> graph \<Rightarrow> bool" where
  "forest_ok n g = (graph_ok g \<and> gn_id ` set (fst g) \<subseteq> (\<Union>i<n. range (process_id (show_nat i)))
     \<and> ge_id ` set (snd g) \<subseteq> (\<Union>i<n. range (edge_id (show_nat i))))"

lemma forest_ok_step:
  assumes "forest_ok n g"
  shows "forest_ok (Suc n) (fst g @ fst (treeToGraph t (show_nat n)), snd g @ snd (treeToGraph t (show_nat n)))"
proof -
  let ?h = "treeToGraph t (show_nat n)"
  note h = treeToGraph_ok [of t "show_nat n"]
  have g: "gn_id ` set (fst g) \<subseteq> (\<Union>i<n. range (process_id (show_nat i)))"
    "ge_id ` set (snd g) \<subseteq> (\<Union>i<n. range (edge_id (show_nat i)))"
    using assms by (simp_all add: forest_ok_def)
  note disjoint_subsets [OF g(1) h(2) ids_disjoint(1)] disjoint_subsets [OF g(2) h(3) ids_disjoint(2)]
  then have "graph_ok (fst g @ fst ?h, snd g @ snd ?h)"
    using assms h(1) by (intro graph_ok_append) (simp_all add: forest_ok_def)
  moreover have "gn_id ` set (fst g) \<union> gn_id ` set (fst ?h) \<subseteq> (\<Union>i<Suc n. range (process_id (show_nat i)))"
    "ge_id ` set (snd g) \<union> ge_id ` set (snd ?h) \<subseteq> (\<Union>i<Suc n. range (edge_id (show_nat i)))"
    using assms h(2,3) by (simp_all add: forest_ok_def lessThan_Suc le_supI1 le_supI2)
  ultimately show ?thesis by (simp add: forest_ok_def image_Un)
qed

lemma treesToGraph_fold:
  fixes ts :: "attack_tree list"
  defines "step \<equiv> \<lambda>(nodes, edges) (i, t). let g = treeToGraph t (show_nat i) in (nodes @ fst g, edges @ snd g)"
  assumes "forest_ok n g"
  shows "forest_ok (n + length ts) (foldl step g (enumerate n ts))
     \<and> length (snd (foldl step g (enumerate n ts)))
        = length (snd g) + (\<Sum>t\<leftarrow>ts. length (nullish (at_events t) []))"
  using assms(2)
proof (induction ts arbitrary: n g)
  case (Cons t ts)
  have "step g (n, t) = (fst g @ fst (treeToGraph t (show_nat n)), snd g @ snd (treeToGraph t (show_nat n)))"
    by (simp add: step_def Let_def case_prod_beta)
  with Cons.IH [OF forest_ok_step [OF Cons.prems, of t]] show ?case
    by (simp add: treeToGraph_ok(4))
qed simp

subsection \<open>Which source is shown\<close>

lemma first_tree_file_source:
  "first_tree_file permit file ps = Some (ts, src) \<Longrightarrow>
   ts \<noteq> [] \<and> (src = Src_daemon_file \<or> src = Src_demo \<and> permit)"
  by (induction ps) (auto split: option.splits list.splits if_splits)

lemma lineage_trees_source:
  assumes "lineage_trees d permit agents = (ts, src)"
  shows "src = Src_demo \<Longrightarrow> permit" and "src = Src_empty \<Longrightarrow> ts = []"
  using assms
  by (auto simp: lineage_trees_def Let_def readLocalAttackTreeFile_def
      dest!: first_tree_file_source split: option.splits list.splits if_splits)

lemma attack_tree_fields:
  assumes "lineage_trees d (allowDemoFallback (ld_env d) rq)
    (lineage_agents (or_default (query rq ''agent_id'') ''*'') rows) = (ts, src)"
  shows "lr_source (attack_tree_GET d now rq rows) = src"
    "lr_data_mode (attack_tree_GET d now rq rows) = toDataMode src"
    "lr_live (attack_tree_GET d now rq rows) = (toDataMode src = Mode_live)"
    "lr_preview_only (attack_tree_GET d now rq rows) = (src = Src_demo)"
    "lr_trees (attack_tree_GET d now rq rows)
       = filter (\<lambda>t. at_least (at_risk t) (parseFloat (or_default (query rq ''min_risk'') ''0''))) ts"
  by (simp_all add: attack_tree_GET_def Let_def assms)

subsection \<open>Properties\<close>

text \<open>C32. The lineage graph of any forest of attack trees is well formed: node ids and
edge ids are unique over all trees, every edge joins two nodes of the graph, and there is
exactly one edge per recorded event.\<close>

theorem lineage_graph_wf:
  "distinct (map gn_id (fst (treesToGraph trees))) \<and> distinct (map ge_id (snd (treesToGraph trees)))
   \<and> list_all (\<lambda>e. ge_source e \<in> gn_id ` set (fst (treesToGraph trees))
                 \<and> ge_target e \<in> gn_id ` set (fst (treesToGraph trees))) (snd (treesToGraph trees))
   \<and> length (snd (treesToGraph trees)) = (\<Sum>t\<leftarrow>trees. length (nullish (at_events t) []))"
proof -
  have "forest_ok 0 ([], [])" by (simp add: forest_ok_def graph_ok_def)
  from treesToGraph_fold [OF this, of trees] show ?thesis
    by (simp add: treesToGraph_def forest_ok_def graph_ok_def)
qed

text \<open>Demo data is never passed off as live: the route shows the bundled demo trees
only when the environment or the query asks for them, and then marks the reply as a
preview; a reply marked live is not from a demo file, and an empty one has no trees.\<close>

theorem lineage_demo_gated:
  "(lr_source (attack_tree_GET d now rq rows) = Src_demo \<longrightarrow>
      allowDemoFallback (ld_env d) rq \<and> lr_preview_only (attack_tree_GET d now rq rows)
      \<and> lr_data_mode (attack_tree_GET d now rq rows) = Mode_preview)
   \<and> (lr_live (attack_tree_GET d now rq rows) \<longrightarrow>
      lr_source (attack_tree_GET d now rq rows) \<in> {Src_telemetry, Src_guardian_api, Src_daemon_file})
   \<and> (lr_data_mode (attack_tree_GET d now rq rows) = Mode_none \<longrightarrow>
      lr_trees (attack_tree_GET d now rq rows) = [])"
proof -
  obtain ts src where s: "lineage_trees d (allowDemoFallback (ld_env d) rq)
      (lineage_agents (or_default (query rq ''agent_id'') ''*'') rows) = (ts, src)" by fastforce
  show ?thesis
    using lineage_trees_source [OF s] unfolding attack_tree_fields [OF s] by (cases src) simp_all
qed

text \<open>The lineage reply does not depend on the headers of the request, so on no tenant: every user
is shown the trees of the agents of all tenants.\<close>

lemma attack_tree_ignores_tenant:
  "attack_tree_GET d now (rq\<lparr>rq_headers := h\<rparr>) rows = attack_tree_GET d now rq rows"
  by (simp add: attack_tree_GET_def allowDemoFallback_def query_def)

subsection \<open>A worked example\<close>

definition l_tree :: attack_tree where
  "l_tree = \<lparr> at_pid = 7, at_comm = ''sh'', at_risk = Some 90, at_agentId = None, at_events = None,
     at_firstSeen = None, at_lastSeen = None \<rparr>"

definition l_deps :: lineage_deps where
  "l_deps = \<lparr> ld_env = (\<lambda>_. None), ld_cwd = ''/app'', ld_home = ''/root'', ld_parse = (\<lambda>_. None),
     ld_fetch = (\<lambda>_ _. None),
     ld_file = (\<lambda>p. if p = ''/app/rules/lineage-demo.json'' then Some (File_array [l_tree]) else None),
     ld_status = (\<lambda>_. None) \<rparr>"

definition l_request :: request where
  "l_request = (q_request [] None)\<lparr>rq_query := [(''preview'', ''1'')]\<rparr>"

lemma l_source: "lr_source (attack_tree_GET l_deps 9 l_request []) = Src_demo"
proof -
  have "allowDemoFallback (ld_env l_deps) l_request"
    by (simp add: allowDemoFallback_def l_request_def query_def)
  then show ?thesis
    by (simp add: attack_tree_GET_def lineage_trees_def lineage_agents_def Let_def fetchFromAnalyzerApi_def
        l_deps_def readLocalAttackTreeFile_def live_candidates_def demo_candidates_def
        isDemoTreePath_def basename_def)
qed

theorem lineage_demo_gated_witness: "lr_data_mode (attack_tree_GET l_deps 9 l_request []) = Mode_preview"
  using lineage_demo_gated [of l_deps 9 l_request "[]"] l_source by blast

end
