(* ===== verification/Timeline.thy ===== *)
theory Timeline
  imports Lineage "HOL-Library.Multiset"
begin

section \<open>The SOC timeline\<close>

text \<open>
  \<^verbatim>\<open>lib/socTimelineTypes.ts\<close>, \<^verbatim>\<open>lib/socTimelineFallback.ts\<close> and
  \<^verbatim>\<open>app/api/soc-timeline/route.ts\<close>. Reports are read at their declared types; the
  files, the host API and date parsing are arguments. \<open>expandIpBlock\<close> is the same function as in
  \<^verbatim>\<open>lib/attackGeoFallback.ts\<close>.
\<close>

datatype timeline_kind = K_incident | K_ban | K_lineage | K_waf | K_ack

record timeline_entry =
  te_id :: string
  te_kind :: timeline_kind
  te_ts :: int
  te_title :: string
  te_detail :: string
  te_ip :: "string option"
  te_risk :: "rat option"
  te_href :: "string option"

definition ban_href :: "string \<Rightarrow> string option" where
  "ban_href ip = Some (''/bans?search='' @ encodeURIComponent ip)"

subsection \<open>The preview from the proof reports\<close>

definition parseIsoTs :: "(string \<Rightarrow> int option) \<Rightarrow> string option \<Rightarrow> int" where
  "parseIsoTs parse_date date =
     (if \<not> truthy date then 0
      else case parse_date (the date) of Some ms \<Rightarrow> ms div 1000 | None \<Rightarrow> 0)"

definition tl_push :: "timeline_entry list \<Rightarrow> timeline_entry \<Rightarrow> timeline_entry list" where
  "tl_push out e = (if te_id e \<in> te_id ` set out then out else out @ [e])"

definition proof_ban :: "string \<Rightarrow> int \<Rightarrow> string \<Rightarrow> string \<Rightarrow> timeline_entry" where
  "proof_ban prefix ts detail ip =
     \<lparr> te_id = prefix @ ip, te_kind = K_ban, te_ts = ts, te_title = ip, te_detail = detail,
       te_ip = Some ip, te_risk = None, te_href = ban_href ip \<rparr>"

definition ja3_live_entries :: "(string \<Rightarrow> int option) \<Rightarrow> json option \<Rightarrow> timeline_entry list" where
  "ja3_live_entries pd ja3Live =
     (if truthy (field_str ja3Live ''ip_block'')
      then map (proof_ban ''proof-ja3-ban-'' (parseIsoTs pd (field_str ja3Live ''date''))
                  ''JA3 cluster live ban (proof)'') (expandIpBlock (the (field_str ja3Live ''ip_block'')))
      else [])"

definition ja3_entries :: "(string \<Rightarrow> int option) \<Rightarrow> json option \<Rightarrow> timeline_entry list" where
  "ja3_entries pd ja3 =
     (let ts = parseIsoTs pd (field_str ja3 ''date'');
          detail = ''distributed '' @ String_nullish (json_get ja3 ''category'') ''scanner'' @ '' recall ''
                   @ String_nullish (json_get ja3 ''recall_pct'') ''?'' @ ''%''
      in map (\<lambda>ip. \<lparr> te_id = ''proof-ja3-dist-'' @ ip, te_kind = K_incident, te_ts = ts, te_title = ip,
                     te_detail = detail, te_ip = Some ip, te_risk = None,
                     te_href = Some ''/#attack-world-map'' \<rparr>)
             (take 12 (json_strs (json_get ja3 ''sample_ips''))))"

definition replay_entries :: "(string \<Rightarrow> int option) \<Rightarrow> json option \<Rightarrow> timeline_entry list" where
  "replay_entries pd replay =
     (if truthy (field_str replay ''ip_block'')
      then map (proof_ban ''proof-replay-'' (parseIsoTs pd (field_str replay ''date''))
                  ''corpus replay force_waf ban (proof)'') (expandIpBlock (the (field_str replay ''ip_block'')))
      else [])"

definition live_attack_entries :: "(string \<Rightarrow> int option) \<Rightarrow> json option \<Rightarrow> timeline_entry list" where
  "live_attack_entries pd live =
     (let p = json_get live ''ban_proof'' in
      if truthy (field_str p ''ip'')
      then [proof_ban ''proof-live-ban-'' (parseIsoTs pd (field_str live ''date''))
              (nullish (field_str p ''reason'') ''live-attack harness ban_proof'') (the (field_str p ''ip''))]
      else [])"

definition webhook_entries :: "(string \<Rightarrow> int option) \<Rightarrow> json option \<Rightarrow> timeline_entry list" where
  "webhook_entries pd w =
     (let ts = parseIsoTs pd (field_str w ''date'') in
      if json_truthy (json_get (json_get w ''prod_e2e'') ''ok'')
      then [\<lparr> te_id = ''proof-webhook-waf'', te_kind = K_waf, te_ts = ts, te_title = ''203.0.113.198'',
              te_detail = ''prod webhook E2E (U+2014) '' @ String_nullish (json_get w ''alerts_total'') ''1''
                @ '' alarm, (U+0394)'' @ String_nullish (json_get w ''metrics_delta'') ''2'' @ '' Telegram'',
              te_ip = Some ''203.0.113.198'', te_risk = None, te_href = Some ''/tests'' \<rparr>,
            \<lparr> te_id = ''proof-webhook-ban'', te_kind = K_ban, te_ts = (if 0 < ts then ts + 1 else ts),
              te_title = ''203.0.113.198'', te_detail = ''prod webhook E2E (U+2014) ipset ban (RFC5737)'',
              te_ip = Some ''203.0.113.198'', te_risk = None,
              te_href = Some ''/bans?search=203.0.113.198'' \<rparr>]
      else [])"

definition timeline_keep :: "timeline_entry \<Rightarrow> bool" where
  "timeline_keep e = (0 < te_ts e \<or> te_kind e = K_ban)"

definition newest_first :: "timeline_entry list \<Rightarrow> timeline_entry list" where
  "newest_first es = sort_key (\<lambda>e. - te_ts e) es"

definition fetchSocTimelineFallback ::
  "(string \<Rightarrow> int option) \<Rightarrow> (string \<Rightarrow> json option) \<Rightarrow> timeline_entry list" where
  "fetchSocTimelineFallback pd readJson =
     (let out = foldl tl_push []
            (ja3_live_entries pd (readJson ''ja3-cluster-ban-live.json'')
             @ ja3_entries pd (readJson ''ja3-cluster-report.json'')
             @ replay_entries pd (readJson ''proof-replay-webhook-ban.json'')
             @ live_attack_entries pd (readJson ''live-attack-report.json'')
             @ webhook_entries pd (readJson ''webhook-route-proof-report.json''))
      in take 20 (newest_first (filter timeline_keep out)))"

subsection \<open>Live entries\<close>

record status_alert =
  sa_ts :: "int option"
  sa_ip :: "string option"
  sa_level :: "rat option"
  sa_message :: "string option"
  sa_incident_id :: "string option"

record status_ban =
  sb_ts :: "int option"
  sb_ip :: "string option"
  sb_action :: "string option"
  sb_reason :: "string option"

record status_ack =
  sk_ts :: "int option"
  sk_ack_key :: "string option"
  sk_operator :: "string option"
  sk_operator_id :: "string option"

record guardian_status =
  gu_recent_alerts :: "status_alert list option"
  gu_recent_bans :: "status_ban list option"
  gu_recent_telegram_acks :: "status_ack list option"

definition quad_rx :: rx where
  "quad_rx = RSeq (rbetween 1 3 rdigit) (rtimes 3 (RSeq (rlit ''.'') (rbetween 1 3 rdigit)))"

definition isPublicIp :: "string option \<Rightarrow> bool" where
  "isPublicIp ip =
     (if \<not> truthy ip \<or> ip = Some ''lineage'' \<or> ip = Some ''system'' then False
      else rx_full quad_rx (the ip))"

definition isWafMessage :: "string option \<Rightarrow> bool" where
  "isWafMessage msg =
     (truthy msg \<and> list_ex (str_includes (toLowerCase (the msg)))
        [''waf'', ''schemaviolation'', ''sqli'', ''xss'', ''crs'', ''force_waf''])"

fun first_status :: "(string \<Rightarrow> guardian_status option) \<Rightarrow> string list \<Rightarrow> guardian_status option \<times> string" where
  "first_status file [] = (None, ''empty'')"
| "first_status file (p # ps) =
     (case file p of Some d \<Rightarrow> (Some d, ''guardian_status'') | None \<Rightarrow> first_status file ps)"

definition readGuardianStatus ::
  "env \<Rightarrow> string \<Rightarrow> (string \<Rightarrow> guardian_status option) \<Rightarrow> guardian_status option \<times> string" where
  "readGuardianStatus env cwd file =
     first_status file
       [or_default (env ''BENCH_DATA_DIR'') ''/data/lg'' @ ''/guardian-status.json'',
        cwd @ ''/guardian-status.json'', cwd @ ''/../guardian-status.json'']"

definition waf_skipped :: "status_alert \<Rightarrow> bool" where
  "waf_skipped a =
     (\<not> isWafMessage (sa_message a) \<and> sa_ip a \<noteq> Some ''lineage''
        \<and> (\<not> isPublicIp (sa_ip a) \<or> nullish (sa_level a) 0 < 2)
      \<or> sa_ip a = Some ''lineage''
      \<or> \<not> isPublicIp (sa_ip a) \<and> \<not> isWafMessage (sa_message a))"

definition waf_entry :: "status_alert \<Rightarrow> timeline_entry" where
  "waf_entry a =
     (let ip = (if isPublicIp (sa_ip a) then sa_ip a else None) in
      \<lparr> te_id = ''waf-'' @ show_int (nullish (sa_ts a) 0) @ ''-'' @ nullish ip ''evt'',
        te_kind = K_waf, te_ts = nullish (sa_ts a) 0,
        te_title = nullish ip (or_default (sa_incident_id a) ''WAF alarm''),
        te_detail = nullish (sa_message a) ''WAF alarm'', te_ip = ip,
        te_risk = map_option (\<lambda>l. l * 20) (sa_level a),
        te_href = (if truthy ip then ban_href (the ip) else Some ''/tests'') \<rparr>)"

definition wafAlertEntries :: "status_alert list \<Rightarrow> timeline_entry list" where
  "wafAlertEntries alerts =
     foldl (\<lambda>out a. if waf_skipped a then out else tl_push out (waf_entry a)) [] alerts"

definition status_ban_kept :: "status_ban \<Rightarrow> bool" where
  "status_ban_kept b =
     (toLowerCase (nullish (sb_action b) []) \<notin> {''unban'', ''info''} \<and> isPublicIp (sb_ip b))"

definition status_ban_entry :: "status_ban \<Rightarrow> timeline_entry" where
  "status_ban_entry b =
     (let act = toLowerCase (nullish (sb_action b) []); ip = the (sb_ip b) in
      \<lparr> te_id = ''status-ban-'' @ show_int (nullish (sb_ts b) 0) @ ''-'' @ ip, te_kind = K_ban,
        te_ts = nullish (sb_ts b) 0, te_title = ip,
        te_detail = nullish (sb_reason b) (if act \<noteq> [] then act else ''kernel ban''),
        te_ip = sb_ip b, te_risk = None, te_href = ban_href ip \<rparr>)"

definition statusBanEntries :: "status_ban list \<Rightarrow> timeline_entry list" where
  "statusBanEntries bans = map status_ban_entry (filter status_ban_kept bans)"

definition ackDisplayTitle :: "string \<Rightarrow> string \<Rightarrow> string" where
  "ackDisplayTitle key op =
     (if isPublicIp (Some key) then key
      else if key = [] then op
      else if length key \<le> 28 then key
      else take 26 key @ ''(U+2026)'')"

definition ack_entry :: "status_ack \<Rightarrow> timeline_entry" where
  "ack_entry a =
     (let key = nullish (sk_ack_key a) [];
          ip = (if isPublicIp (Some key) then Some key else None);
          op = or_default (js_or (map_option trim (sk_operator a)) (map_option trim (sk_operator_id a))) ''operator''
      in \<lparr> te_id = ''ack-'' @ show_int (nullish (sk_ts a) 0) @ ''-'' @ (if key \<noteq> [] then key else op),
           te_kind = K_ack, te_ts = nullish (sk_ts a) 0, te_title = ackDisplayTitle key op,
           te_detail = ''G'' @ [CHR 0xF6] @ ''rd'' @ [CHR 0xFC] @ ''m '' @ [CHR 0xB7] @ '' '' @ op,
           te_ip = ip, te_risk = None,
           te_href = (if truthy ip then ban_href (the ip) else Some ''#webhook-ops'') \<rparr>)"

definition telegramAckEntries :: "status_ack list \<Rightarrow> timeline_entry list" where
  "telegramAckEntries acks = map ack_entry acks"

record incident_row =
  ir_incident_id :: "string option"
  ir_ip :: "string option"
  ir_risk_score :: "rat option"
  ir_primary_signal :: "string option"
  ir_last_ts :: "int option"
  ir_first_ts :: "int option"

type_synonym incident_fetch = "string \<Rightarrow> headers \<Rightarrow> incident_row list option fetched"

definition fetchIncidents :: "incident_fetch \<Rightarrow> env \<Rightarrow> incident_row list \<times> string" where
  "fetchIncidents fetch env =
     (case fetch (guardianApiBase env @ ''/api/v1/incidents'') (guardianApiAuthHeaders env) of
        Fetched rows \<Rightarrow> (nullish rows [], ''guardian_api'')
      | _ \<Rightarrow> ([], ''empty''))"

fun first_trees :: "(string \<Rightarrow> tree_file option) \<Rightarrow> string list \<Rightarrow> attack_tree list option" where
  "first_trees file [] = None"
| "first_trees file (p # ps) =
     (case Option.bind (file p) file_trees of
        Some (t # ts) \<Rightarrow> Some (t # ts)
      | _ \<Rightarrow> first_trees file ps)"

definition tree_paths :: "env \<Rightarrow> string \<Rightarrow> string \<Rightarrow> string list" where
  "tree_paths env cwd home =
     filter (\<lambda>p. p \<noteq> [])
       [nullish (env ''ATTACK_TREE_PATH'') [], ''/data/lg/attack_tree.json'',
        ''/run/log-guardian/attack_tree.json'', cwd @ ''/attack_tree.json'',
        cwd @ ''/../attack_tree.json'', home @ ''/.local/share/log-guardian/attack_tree.json'']"

definition readAttackTrees :: "lineage_deps \<Rightarrow> attack_tree list \<times> string" where
  "readAttackTrees d =
     (case first_trees (ld_file d) (tree_paths (ld_env d) (ld_cwd d) (ld_home d)) of
        Some ts \<Rightarrow> (ts, ''daemon_file'')
      | None \<Rightarrow>
          (case ld_fetch d (guardianApiBase (ld_env d) @ ''/api/v1/attack-tree'') (guardianApiAuthHeaders (ld_env d)) of
             Some (True, Some (t # ts)) \<Rightarrow> (t # ts, ''guardian_api'')
           | _ \<Rightarrow> ([], ''empty'')))"

definition incidentEntries :: "incident_row list \<Rightarrow> timeline_entry list" where
  "incidentEntries rows =
     map (\<lambda>inc. \<lparr> te_id = ''inc-'' @ nullish (ir_incident_id inc) (nullish (ir_ip inc) ''undefined''),
       te_kind = K_incident, te_ts = nullish (ir_last_ts inc) (nullish (ir_first_ts inc) 0),
       te_title = nullish (ir_incident_id inc) ''incident'',
       te_detail = nullish (ir_primary_signal inc) ''multi-signal'', te_ip = ir_ip inc,
       te_risk = ir_risk_score inc,
       te_href = (if truthy (ir_incident_id inc)
                  then Some (''/?incident='' @ encodeURIComponent (the (ir_incident_id inc))) else None) \<rparr>) rows"

definition banEntries :: "int \<Rightarrow> ban_entry list \<Rightarrow> timeline_entry list" where
  "banEntries nowMs bans =
     map (\<lambda>(i, b). \<lparr> te_id = ''ban-'' @ be_ip b @ ''-'' @ show_int (nullish (be_ts b) (int i)), te_kind = K_ban,
       te_ts = (case be_ts b of
                  Some t \<Rightarrow> if 1000000000 < t then t else nowMs div 1000 - int i
                | None \<Rightarrow> nowMs div 1000 - int i),
       te_title = be_ip b, te_detail = nullish (be_reason b) ''kernel ban'', te_ip = Some (be_ip b),
       te_risk = None, te_href = Some ''/bans'' \<rparr>) (enumerate 0 bans)"

definition LINEAGE_MIN_RISK :: rat where "LINEAGE_MIN_RISK = 55"

definition lineageEntries :: "attack_tree list \<Rightarrow> timeline_entry list" where
  "lineageEntries trees =
     concat (map (\<lambda>tree. if nullish (at_risk tree) 0 < LINEAGE_MIN_RISK then []
       else map (\<lambda>e. \<lparr> te_id = ''lg-'' @ show_int (at_pid tree) @ ''-'' @ show_int (le_ts e) @ ''-'' @ le_type e,
                      te_kind = K_lineage, te_ts = le_ts e,
                      te_title = at_comm tree @ '' '' @ [CHR 0xB7] @ '' '' @ le_type e,
                      te_detail = le_detail e, te_ip = None, te_risk = at_risk tree,
                      te_href = Some ''/attack-tree'' \<rparr>)
              (filter (\<lambda>e. le_type e \<in> {''EXEC_SHELL'', ''NET_CONNECT'', ''FILE_READ''})
                 (nullish (at_events tree) []))) trees)"

subsection \<open>Merging\<close>

type_synonym best_bans = "(string, timeline_entry) jsmap"

definition dedupe_step :: "best_bans \<times> timeline_entry list \<Rightarrow> timeline_entry \<Rightarrow> best_bans \<times> timeline_entry list" where
  "dedupe_step s e =
     (case s of (bestBan, rest) \<Rightarrow>
        if te_kind e = K_ban \<and> truthy (te_ip e)
        then (case map_get bestBan (the (te_ip e)) of
                None \<Rightarrow> (map_set bestBan (the (te_ip e)) e, rest)
              | Some prev \<Rightarrow>
                  if te_ts prev \<le> te_ts e then (map_set bestBan (the (te_ip e)) e, rest) else (bestBan, rest))
        else (bestBan, rest @ [e]))"

definition dedupeTimelineBansByIp :: "timeline_entry list \<Rightarrow> timeline_entry list" where
  "dedupeTimelineBansByIp entries =
     (case foldl dedupe_step ([], []) entries of (bestBan, rest) \<Rightarrow> rest @ map snd bestBan)"

definition MAX_ENTRIES :: nat where "MAX_ENTRIES = 32"

datatype timeline_mode = TL_live | TL_live_partial | TL_preview | TL_none

record timeline_reply =
  tr_entries :: "timeline_entry list"
  tr_incidents :: string
  tr_bans :: string
  tr_lineage :: string
  tr_status :: string
  tr_data_mode :: timeline_mode
  tr_preview_allowed :: bool

record timeline_deps =
  tp_incidents :: incident_fetch
  tp_bans :: bans_world
  tp_lineage :: lineage_deps
  tp_status :: "string \<Rightarrow> guardian_status option"
  tp_json :: "string \<Rightarrow> json option"
  tp_parse_date :: "string \<Rightarrow> int option"

definition timeline_opts :: fetch_opts where
  "timeline_opts = \<lparr> fo_countOnly = False, fo_limit = Some (Num 20), fo_offset = Some (Num 0), fo_search = None \<rparr>"

definition merged_entries ::
  "incident_row list \<Rightarrow> timeline_entry list \<Rightarrow> attack_tree list \<Rightarrow> status_alert list \<Rightarrow> status_ban list
   \<Rightarrow> status_ack list \<Rightarrow> timeline_entry list" where
  "merged_entries rows bans trees alerts sbans acks =
     take MAX_ENTRIES (newest_first (filter timeline_keep (dedupeTimelineBansByIp
       (incidentEntries rows @ bans @ lineageEntries trees @ wafAlertEntries alerts
        @ statusBanEntries sbans @ telegramAckEntries acks))))"

definition soc_timeline_GET :: "timeline_deps \<Rightarrow> env \<Rightarrow> int \<Rightarrow> request \<Rightarrow> timeline_reply" where
  "soc_timeline_GET d env now rq =
     (let allowPreview = (env ''SOC_TIMELINE_PREVIEW'' \<noteq> Some ''0'' \<or> query rq ''preview'' = Some ''1'');
          (rows, incSource) = fetchIncidents (tp_incidents d) env;
          banRes = fetchBannedIps (tp_bans d) timeline_opts;
          (trees, lineageSource) = readAttackTrees (tp_lineage d);
          (status, statusSource) = readGuardianStatus env (ld_cwd (tp_lineage d)) (tp_status d);
          alerts = nullish (Option.bind status gu_recent_alerts) [];
          sbans = nullish (Option.bind status gu_recent_bans) [];
          acks = nullish (Option.bind status gu_recent_telegram_acks) [];
          entries = merged_entries rows (banEntries now (br_bans banRes)) trees alerts sbans acks;
          finalSorted = take MAX_ENTRIES (newest_first (foldl tl_push [] entries));
          liveCount = length (filter id
            [incSource = ''guardian_api'' \<and> rows \<noteq> [],
             br_source banRes \<noteq> ''empty'' \<and> 0 < br_count banRes,
             lineageSource \<noteq> ''empty'' \<and> trees \<noteq> [],
             statusSource = ''guardian_status'' \<and>
               (wafAlertEntries alerts \<noteq> [] \<or> statusBanEntries sbans \<noteq> [] \<or> telegramAckEntries acks \<noteq> [])]);
          fallback = fetchSocTimelineFallback (tp_parse_date d) (tp_json d);
          (finalEntries, mode) =
            (if entries \<noteq> [] then (finalSorted, if 2 \<le> liveCount then TL_live else TL_live_partial)
             else if allowPreview \<and> fallback \<noteq> [] then (take MAX_ENTRIES fallback, TL_preview)
             else (finalSorted, TL_none))
      in \<lparr> tr_entries = finalEntries, tr_incidents = incSource, tr_bans = br_source banRes,
           tr_lineage = lineageSource, tr_status = statusSource, tr_data_mode = mode,
           tr_preview_allowed = allowPreview \<rparr>)"

subsection \<open>Order and uniqueness\<close>

definition timeline_ok :: "timeline_entry list \<Rightarrow> bool" where
  "timeline_ok es = (length es \<le> MAX_ENTRIES \<and> sorted_wrt (\<lambda>a b. te_ts b \<le> te_ts a) es \<and> distinct (map te_id es))"

lemma tl_push_distinct: "distinct (map te_id out) \<Longrightarrow> distinct (map te_id (foldl tl_push out es))"
  by (induction es arbitrary: out) (auto simp: tl_push_def)

lemma newest_first_sorted: "sorted_wrt (\<lambda>a b. te_ts b \<le> te_ts a) (newest_first es)"
  using sorted_sort_key [of "\<lambda>e. - te_ts e" es] by (simp add: newest_first_def sorted_map)

lemma newest_first_set [simp]: "set (newest_first es) = set es"
  by (simp add: newest_first_def)

lemma newest_first_distinct: "distinct (map te_id (newest_first es)) = distinct (map te_id es)"
proof -
  have "mset (map te_id (newest_first es)) = mset (map te_id es)"
    by (simp add: newest_first_def)
  then show ?thesis by (metis mset_eq_imp_distinct_iff)
qed

lemma timeline_ok_take: "distinct (map te_id es) \<Longrightarrow> n \<le> MAX_ENTRIES \<Longrightarrow> timeline_ok (take n (newest_first es))"
  using newest_first_sorted [of es] distinct_take [of "map te_id (newest_first es)" n]
  by (auto simp: timeline_ok_def sorted_wrt_take take_map newest_first_distinct)

lemma fallback_ok: "timeline_ok (fetchSocTimelineFallback pd readJson)"
  unfolding fetchSocTimelineFallback_def Let_def
  by (rule timeline_ok_take) (simp_all add: tl_push_distinct distinct_map_filter MAX_ENTRIES_def)

text \<open>The ban of an address that survives is the newest one.\<close>

definition ban_of :: "string \<Rightarrow> timeline_entry \<Rightarrow> bool" where
  "ban_of ip e = (te_kind e = K_ban \<and> te_ip e = Some ip)"

definition dedupe_ok :: "timeline_entry list \<Rightarrow> best_bans \<times> timeline_entry list \<Rightarrow> bool" where
  "dedupe_ok es s =
     (map_wf (fst s)
      \<and> list_all (\<lambda>(ip, b). ip \<noteq> [] \<and> ban_of ip b \<and> b \<in> set es) (fst s)
      \<and> snd s = filter (\<lambda>e. \<not> (te_kind e = K_ban \<and> truthy (te_ip e))) es
      \<and> list_all (\<lambda>e. te_kind e = K_ban \<and> truthy (te_ip e) \<longrightarrow>
            (\<exists>b. map_get (fst s) (the (te_ip e)) = Some b \<and> te_ts e \<le> te_ts b)) es)"

lemma map_wf_set [simp]: "map_wf m \<Longrightarrow> map_wf (map_set m k v)"
  by (rule jsm.wf_put)

lemma dedupe_ok_put:
  assumes ok: "dedupe_ok es (m, rest)" and e: "te_kind e = K_ban" "te_ip e = Some ip" "ip \<noteq> []"
    and newer: "\<And>prev. map_get m ip = Some prev \<Longrightarrow> te_ts prev \<le> te_ts e"
  shows "dedupe_ok (es @ [e]) (map_set m ip e, rest)"
proof -
  have "list_all (\<lambda>(ip, b). ip \<noteq> [] \<and> ban_of ip b \<and> b \<in> set (es @ [e])) (map_set m ip e)"
    unfolding list_all_iff
  proof
    fix x assume "x \<in> set (map_set m ip e)"
    then have "x = (ip, e) \<or> x \<in> set m" by (rule set_map_setD)
    then show "case x of (ip, b) \<Rightarrow> ip \<noteq> [] \<and> ban_of ip b \<and> b \<in> set (es @ [e])"
      using ok e by (auto simp: dedupe_ok_def list_all_iff ban_of_def)
  qed
  moreover have "\<exists>b. map_get (map_set m ip e) (the (te_ip x)) = Some b \<and> te_ts x \<le> te_ts b"
    if x: "x \<in> set (es @ [e])" "te_kind x = K_ban" "truthy (te_ip x)" for x
  proof (cases "x = e")
    case False
    then obtain b where "map_get m (the (te_ip x)) = Some b" "te_ts x \<le> te_ts b"
      using ok x by (auto simp: dedupe_ok_def list_all_iff)
    then show ?thesis using newer by (cases "the (te_ip x) = ip") (force simp: jsm.get_put)+
  qed (simp add: e)
  ultimately show ?thesis
    using ok e by (simp add: dedupe_ok_def list_all_iff truthy_def)
qed

lemma dedupe_step_ok:
  assumes "dedupe_ok es s"
  shows "dedupe_ok (es @ [e]) (dedupe_step s e)"
proof -
  obtain m rest where s: "s = (m, rest)" by fastforce
  show ?thesis
  proof (cases "te_kind e = K_ban \<and> truthy (te_ip e)")
    case False
    then show ?thesis
      using assms by (auto simp: s dedupe_step_def dedupe_ok_def list_all_iff)
  next
    case True
    then obtain ip where ip: "te_ip e = Some ip" "ip \<noteq> []" by (auto simp: truthy_def split: option.splits)
    show ?thesis
    proof (cases "\<exists>prev. map_get m ip = Some prev \<and> te_ts e < te_ts prev")
      case older: True
      then obtain prev where "map_get m ip = Some prev" "te_ts e < te_ts prev" by blast
      then show ?thesis
        using assms True ip by (auto simp: s dedupe_step_def dedupe_ok_def list_all_iff)
    next
      case False
      then have "dedupe_step s e = (map_set m ip e, rest)"
        using True ip by (auto simp: s dedupe_step_def split: option.splits)
      then show ?thesis
        using dedupe_ok_put [OF assms [unfolded s] _ ip] True False by force
    qed
  qed
qed

lemma dedupe_ok_fold: "dedupe_ok es (foldl dedupe_step ([], []) es)"
  by (induction es rule: rev_induct) (simp_all add: dedupe_step_ok, simp add: dedupe_ok_def)

lemma dedupe_cases:
  obtains m where "dedupe_ok es (m, filter (\<lambda>e. \<not> (te_kind e = K_ban \<and> truthy (te_ip e))) es)"
    "dedupeTimelineBansByIp es = filter (\<lambda>e. \<not> (te_kind e = K_ban \<and> truthy (te_ip e))) es @ map snd m"
proof -
  obtain m rest where f: "foldl dedupe_step ([], []) es = (m, rest)" by fastforce
  have "dedupe_ok es (m, rest)" using dedupe_ok_fold [of es] by (simp add: f)
  moreover from this have "rest = filter (\<lambda>e. \<not> (te_kind e = K_ban \<and> truthy (te_ip e))) es"
    by (simp add: dedupe_ok_def)
  ultimately show ?thesis using that f by (simp add: dedupeTimelineBansByIp_def)
qed

lemma filter_ban_of_map:
  assumes "map_wf m" "map_get m ip = Some b" "\<And>k c. (k, c) \<in> set m \<Longrightarrow> ban_of k c"
  shows "filter (ban_of ip) (map snd m) = [b]"
  using assms
proof (induction m)
  case (Cons x m)
  obtain k c where x: "x = (k, c)" by fastforce
  have c: "ban_of k c" using Cons.prems(3) x by simp
  show ?case
  proof (cases "k = ip")
    case True
    have "\<not> ban_of ip d" if "d \<in> snd ` set m" for d
      using that Cons.prems(1,3) True x by (force simp: map_wf_def ban_of_def)
    then show ?thesis using Cons.prems(2) True c x by (simp add: map_get_def filter_empty_conv)
  next
    case False
    then have "\<not> ban_of ip c" using c by (simp add: ban_of_def)
    moreover have "filter (ban_of ip) (map snd m) = [b]"
      using Cons.prems False x by (intro Cons.IH) (auto simp: map_wf_def map_get_def)
    ultimately show ?thesis by (simp add: x)
  qed
qed (simp add: map_get_def)

subsection \<open>Properties\<close>

text \<open>C35. Whatever the sources hold, the timeline has at most 32 entries, newest first,
with distinct ids, in the live modes and in the preview.\<close>

theorem timeline_sound:
  "length (tr_entries (soc_timeline_GET d env now rq)) \<le> 32
   \<and> sorted_wrt (\<lambda>a b. te_ts b \<le> te_ts a) (tr_entries (soc_timeline_GET d env now rq))
   \<and> distinct (map te_id (tr_entries (soc_timeline_GET d env now rq)))"
proof -
  have "timeline_ok (take MAX_ENTRIES (newest_first (foldl tl_push [] es)))" for es
    by (rule timeline_ok_take) (simp_all add: tl_push_distinct)
  moreover have "timeline_ok (take MAX_ENTRIES (fetchSocTimelineFallback (tp_parse_date d) (tp_json d)))"
    using fallback_ok [of "tp_parse_date d" "tp_json d"] by (simp add: timeline_ok_def)
  ultimately have "timeline_ok (tr_entries (soc_timeline_GET d env now rq))"
    by (auto simp: soc_timeline_GET_def Let_def case_prod_beta newest_first_def timeline_ok_def)
  then show ?thesis by (simp add: timeline_ok_def MAX_ENTRIES_def)
qed

text \<open>Merging the ban feeds keeps every entry that is no ban of an address, keeps one
ban per banned address, and the one it keeps is the newest of that address.\<close>

theorem dedupe_keeps_newest:
  "filter (\<lambda>e. \<not> (te_kind e = K_ban \<and> truthy (te_ip e))) (dedupeTimelineBansByIp es)
     = filter (\<lambda>e. \<not> (te_kind e = K_ban \<and> truthy (te_ip e))) es
   \<and> set (dedupeTimelineBansByIp es) \<subseteq> set es
   \<and> (ip \<noteq> [] \<and> list_ex (ban_of ip) es \<longrightarrow>
        (\<exists>b. filter (ban_of ip) (dedupeTimelineBansByIp es) = [b]
           \<and> list_all (\<lambda>e. ban_of ip e \<longrightarrow> te_ts e \<le> te_ts b) es))"
proof (intro conjI impI)
  obtain m where ok: "dedupe_ok es (m, filter (\<lambda>e. \<not> (te_kind e = K_ban \<and> truthy (te_ip e))) es)"
    and d: "dedupeTimelineBansByIp es = filter (\<lambda>e. \<not> (te_kind e = K_ban \<and> truthy (te_ip e))) es @ map snd m"
    by (rule dedupe_cases)
  have m: "k \<noteq> [] \<and> ban_of k b \<and> b \<in> set es" if "(k, b) \<in> set m" for k b
    using ok that by (auto simp: dedupe_ok_def list_all_iff)
  then have bans: "te_kind b = K_ban \<and> truthy (te_ip b)" if "b \<in> set (map snd m)" for b
    using that by (auto simp: ban_of_def truthy_def)
  then show "filter (\<lambda>e. \<not> (te_kind e = K_ban \<and> truthy (te_ip e))) (dedupeTimelineBansByIp es)
     = filter (\<lambda>e. \<not> (te_kind e = K_ban \<and> truthy (te_ip e))) es"
    unfolding d filter_append by (simp add: filter_empty_conv)
  show "set (dedupeTimelineBansByIp es) \<subseteq> set es" unfolding d using m by auto
  assume ip: "ip \<noteq> [] \<and> list_ex (ban_of ip) es"
  then obtain e where "e \<in> set es" "ban_of ip e" by (auto simp: list_ex_iff)
  have newest: "\<exists>b. map_get m ip = Some b \<and> te_ts e \<le> te_ts b" if "e \<in> set es" "ban_of ip e" for e
    using ok ip that by (auto simp: dedupe_ok_def list_all_iff ban_of_def truthy_def)
  with \<open>e \<in> set es\<close> \<open>ban_of ip e\<close> obtain b where b: "map_get m ip = Some b" by blast
  have "filter (ban_of ip) (filter (\<lambda>e. \<not> (te_kind e = K_ban \<and> truthy (te_ip e))) es) = []"
    using ip by (auto simp: filter_empty_conv ban_of_def truthy_def)
  moreover have "filter (ban_of ip) (map snd m) = [b]"
    by (rule filter_ban_of_map) (use ok b m in \<open>auto simp: dedupe_ok_def\<close>)
  ultimately show "\<exists>b. filter (ban_of ip) (dedupeTimelineBansByIp es) = [b]
      \<and> list_all (\<lambda>e. ban_of ip e \<longrightarrow> te_ts e \<le> te_ts b) es"
    using newest b unfolding d by (intro exI [of _ b]) (auto simp: list_all_iff)
qed

theorem dedupe_keeps_newest_witness:
  "\<exists>b. filter (ban_of ''1.2.3.4'')
          (dedupeTimelineBansByIp [proof_ban ''a-'' 1 ''old'' ''1.2.3.4'', proof_ban ''b-'' 2 ''new'' ''1.2.3.4'']) = [b]
      \<and> 2 \<le> te_ts b"
  using dedupe_keeps_newest [of "[proof_ban ''a-'' 1 ''old'' ''1.2.3.4'', proof_ban ''b-'' 2 ''new'' ''1.2.3.4'']" "''1.2.3.4''"]
  by (auto simp: ban_of_def proof_ban_def)

end
