(* ===== verification/JsNumber.thy ===== *)
theory JsNumber
  imports Prelude "HOL-Library.Log_Nat"
begin

text \<open>
  Numbers and dates as the JavaScript of the dashboard prints them: rounding to a double,
  \<^verbatim>\<open>String(x)\<close>, \<^verbatim>\<open>x.toFixed(d)\<close>, \<^verbatim>\<open>x.toLocaleString("en-US")\<close> and
  \<^verbatim>\<open>new Date(ms).toISOString()\<close>.

  A double is the rational number it stands for.  Infinities, not-a-number and the sign of
  zero have no counterpart; the code that uses this theory prints finite quantities.
\<close>

subsection \<open>Doubles\<close>

definition round_half_even :: "rat \<Rightarrow> int" where
  "round_half_even x =
     (let f = \<lfloor>x\<rfloor>; d = x - of_int f in
      if d < 1 / 2 then f else if 1 / 2 < d then f + 1 else if even f then f else f + 1)"

text \<open>The binary exponent of a positive number: \<open>2 ^ e \<le> x < 2 ^ (e + 1)\<close>.\<close>

definition exponent :: "rat \<Rightarrow> int" where
  "exponent x = (if 1 \<le> x then bitlen \<lfloor>x\<rfloor> - 1 else - bitlen (\<lceil>1 / x\<rceil> - 1))"

definition fl_pos :: "rat \<Rightarrow> rat" where
  "fl_pos x =
     (let k = min 1074 (52 - exponent x) in
      if 0 \<le> k then of_int (round_half_even (x * of_int (2 ^ nat k))) / of_int (2 ^ nat k)
      else of_int (round_half_even (x / of_int (2 ^ nat (- k)))) * of_int (2 ^ nat (- k)))"

definition fl :: "rat \<Rightarrow> rat" where
  "fl x = (if x = 0 then 0 else if x < 0 then - fl_pos (- x) else fl_pos x)"

abbreviation fadd :: "rat \<Rightarrow> rat \<Rightarrow> rat" where "fadd x y \<equiv> fl (x + y)"
abbreviation fsub :: "rat \<Rightarrow> rat \<Rightarrow> rat" where "fsub x y \<equiv> fl (x - y)"
abbreviation fmul :: "rat \<Rightarrow> rat \<Rightarrow> rat" where "fmul x y \<equiv> fl (x * y)"
abbreviation fdiv :: "rat \<Rightarrow> rat \<Rightarrow> rat" where "fdiv x y \<equiv> fl (x / y)"

subsection \<open>Printing\<close>

definition pad0 :: "nat \<Rightarrow> string \<Rightarrow> string" where
  "pad0 n s = replicate (n - length s) CHR ''0'' @ s"

text \<open>\<open>x.toFixed(d)\<close>: the integer nearest to \<open>x * 10 ^ d\<close>, the larger one of two.\<close>

definition toFixed :: "nat \<Rightarrow> rat \<Rightarrow> string" where
  "toFixed d x =
     (let n = nat \<lfloor>\<bar>x\<bar> * 10 ^ d + 1 / 2\<rfloor>
      in (if x < 0 then ''-'' else []) @ show_nat (n div 10 ^ d)
         @ (if d = 0 then [] else ''.'' @ pad0 d (show_nat (n mod 10 ^ d))))"

text \<open>\<open>String(x)\<close>: the fewest digits that still round to the same double.  \<open>dec_exp\<close> is
  the \<open>n\<close> with \<open>10 ^ (n - 1) \<le> x < 10 ^ n\<close>.\<close>

definition dec_exp :: "rat \<Rightarrow> int" where
  "dec_exp x =
     (if 1 \<le> x then int (length (show_nat (nat \<lfloor>x\<rfloor>)))
      else 1 - int (length (show_nat (nat (\<lceil>1 / x\<rceil> - 1)))))"

definition pow10 :: "int \<Rightarrow> rat" where
  "pow10 e = (if 0 \<le> e then of_int (10 ^ nat e) else 1 / of_int (10 ^ nat (- e)))"

fun shortest :: "nat \<Rightarrow> nat \<Rightarrow> rat \<Rightarrow> int \<Rightarrow> nat \<times> int" where
  "shortest 0 k x n = (nat \<lfloor>x * pow10 (17 - n) + 1 / 2\<rfloor>, 17 - n)"
| "shortest (Suc m) k x n =
     (let s = nat \<lfloor>x * pow10 (int k - n) + 1 / 2\<rfloor>
      in if fl (of_nat s * pow10 (n - int k)) = x then (s, int k - n) else shortest m (Suc k) x n)"

fun strip0 :: "nat \<Rightarrow> nat \<Rightarrow> int \<Rightarrow> nat \<times> int" where
  "strip0 0 s e = (s, e)"
| "strip0 (Suc m) s e = (if s \<noteq> 0 \<and> s mod 10 = 0 then strip0 m (s div 10) (e - 1) else (s, e))"

text \<open>The digits \<open>ds\<close> of a number \<open>0.ds * 10 ^ n\<close> in positional or exponential form.\<close>

definition place_digits :: "string \<Rightarrow> int \<Rightarrow> string" where
  "place_digits ds n =
     (let k = int (length ds) in
      if k \<le> n \<and> n \<le> 21 then ds @ replicate (nat (n - k)) CHR ''0''
      else if 0 < n \<and> n \<le> 21 then take (nat n) ds @ ''.'' @ drop (nat n) ds
      else if - 6 < n \<and> n \<le> 0 then ''0.'' @ replicate (nat (- n)) CHR ''0'' @ ds
      else take 1 ds @ (if k = 1 then [] else ''.'' @ drop 1 ds)
           @ ''e'' @ (if 0 \<le> n - 1 then ''+'' else ''-'') @ show_nat (nat \<bar>n - 1\<bar>))"

definition show_num :: "rat \<Rightarrow> string" where
  "show_num x =
     (if of_int \<lfloor>x\<rfloor> = x \<and> \<bar>x\<bar> < 10 ^ 15 then show_int \<lfloor>x\<rfloor>
      else let y = \<bar>x\<bar>;
               (s, e) = (case shortest 17 1 y (dec_exp y) of (s, e) \<Rightarrow> strip0 20 s e);
               ds = show_nat s
           in (if x < 0 then ''-'' else []) @ place_digits ds (int (length ds) - e))"

text \<open>\<open>x.toLocaleString("en-US")\<close>: groups of three digits and at most three decimals.\<close>

fun group3 :: "string \<Rightarrow> string" where
  "group3 (a # b # c # d # s) = a # b # c # CHR '','' # group3 (d # s)"
| "group3 s = s"

definition drop_zeros :: "string \<Rightarrow> string" where
  "drop_zeros s = rev (dropWhile (\<lambda>c. c = CHR ''0'') (rev s))"

definition toLocaleString_en :: "rat \<Rightarrow> string" where
  "toLocaleString_en x =
     (let n = nat \<lfloor>\<bar>x\<bar> * 1000 + 1 / 2\<rfloor>;
          frac = drop_zeros (pad0 3 (show_nat (n mod 1000)))
      in (if x < 0 then ''-'' else []) @ rev (group3 (rev (show_nat (n div 1000))))
         @ (if frac = [] then [] else ''.'' @ frac))"

subsection \<open>Dates\<close>

text \<open>Year, month and day of a day number, counted from 1970-01-01, in the proleptic Gregorian
  calendar; a year is taken to begin in March.\<close>

definition civil :: "int \<Rightarrow> int \<times> int \<times> int" where
  "civil days =
     (let z = days + 719468; era = z div 146097; doe = z mod 146097;
          yoe = (doe - doe div 1460 + doe div 36524 - doe div 146096) div 365;
          doy = doe - (365 * yoe + yoe div 4 - yoe div 100);
          mp = (5 * doy + 2) div 153;
          m = (if mp < 10 then mp + 3 else mp - 9)
      in (yoe + era * 400 + (if m \<le> 2 then 1 else 0), m, doy - (153 * mp + 2) div 5 + 1))"

definition pad :: "nat \<Rightarrow> int \<Rightarrow> string" where
  "pad n i = pad0 n (show_nat (nat i))"

definition toISOString :: "int \<Rightarrow> string" where
  "toISOString ms =
     (let (y, m, d) = civil (ms div 86400000); t = ms mod 86400000
      in (if 0 \<le> y \<and> y \<le> 9999 then pad 4 y else (if y < 0 then ''-'' else ''+'') @ pad 6 \<bar>y\<bar>)
         @ ''-'' @ pad 2 m @ ''-'' @ pad 2 d @ ''T'' @ pad 2 (t div 3600000) @ '':''
         @ pad 2 (t div 60000 mod 60) @ '':'' @ pad 2 (t div 1000 mod 60) @ ''.'' @ pad 3 (t mod 1000) @ ''Z'')"

subsection \<open>Lemmas\<close>

lemma floor_rat_numeral [simp]: "\<lfloor>numeral a / (numeral b :: rat)\<rfloor> = numeral a div numeral b"
  by (metis floor_divide_of_int_eq of_int_numeral)

lemma round_half_even_of_int [simp]: "round_half_even (of_int i) = i"
  by (simp add: round_half_even_def)

text \<open>Integers below \<open>2 ^ 53\<close> are doubles.\<close>

lemma fl_pos_of_int:
  assumes "0 < i" "i < 2 ^ 53"
  shows "fl_pos (of_int i) = of_int i"
proof -
  have "bitlen i \<le> 53" using assms by (simp add: bitlen_le_iff_power)
  then have k: "exponent (of_int i) = bitlen i - 1" "0 \<le> 52 - (bitlen i - 1)"
    using assms by (auto simp: exponent_def)
  define k where "k = min 1074 (52 - (bitlen i - 1))"
  have "0 \<le> k" using k by (simp add: k_def)
  moreover have "round_half_even (of_int i * of_int (2 ^ nat k)) = i * 2 ^ nat k"
    by (metis of_int_mult round_half_even_of_int)
  ultimately show ?thesis
    unfolding fl_pos_def k(1) k_def [symmetric] Let_def by simp
qed

lemma fl_of_int:
  assumes "\<bar>i\<bar> < 2 ^ 53"
  shows "fl (of_int i) = of_int i"
  using assms fl_pos_of_int [of i] fl_pos_of_int [of "- i"] by (auto simp: fl_def)

lemma fl_numeral [simp]:
  "fl 0 = 0" "fl 1 = 1"
  "(numeral n :: int) < 2 ^ 53 \<Longrightarrow> fl (numeral n) = numeral n"
  using fl_of_int [of 0] fl_of_int [of 1] fl_of_int [of "numeral n"] by simp_all

lemma show_num_of_int: "\<bar>i\<bar> < 10 ^ 15 \<Longrightarrow> show_num (of_int i) = show_int i"
proof -
  assume "\<bar>i\<bar> < 10 ^ 15"
  then have "\<bar>of_int i\<bar> < (of_int (10 ^ 15) :: rat)" by (metis of_int_abs of_int_less_iff)
  then show ?thesis by (simp add: show_num_def)
qed

text \<open>What is printed is made of digits, signs, points and exponents.\<close>

definition num_char :: "char \<Rightarrow> bool" where
  "num_char c = (is_digit c \<or> c = CHR ''-'' \<or> c = CHR ''.'' \<or> c = CHR ''e'' \<or> c = CHR ''+'')"

lemma num_char_digits: "c \<in> set (show_nat n) \<Longrightarrow> num_char c"
  by (simp add: num_char_def show_nat_digits)

lemma num_char_int: "c \<in> set (show_int i) \<Longrightarrow> num_char c"
  by (auto simp: show_int_def num_char_def dest: show_nat_digits split: if_splits)

lemma num_char_place:
  assumes "\<And>c. c \<in> set ds \<Longrightarrow> num_char c" "c \<in> set (place_digits ds n)"
  shows "num_char c"
proof -
  have "is_digit (CHR ''0'')" by (simp add: is_digit_def)
  then show ?thesis
    using assms(2) by (auto simp: place_digits_def Let_def num_char_def [of "CHR ''0''"]
        num_char_def [of "CHR ''.''"] num_char_def [of "CHR ''e''"] num_char_def [of "CHR ''-''"]
        num_char_def [of "CHR ''+''"] intro: num_char_digits assms(1)
        dest: in_set_takeD in_set_dropD split: if_splits)
qed

lemma show_num_chars: "c \<in> set (show_num x) \<Longrightarrow> num_char c"
  using num_char_place [OF num_char_digits]
  by (auto simp: show_num_def Let_def num_char_def [of "CHR ''-''"] intro: num_char_int split: if_splits prod.splits)

lemma toFixed_chars: "c \<in> set (toFixed d x) \<Longrightarrow> num_char c"
proof -
  have z: "num_char (CHR ''0'')" "num_char (CHR ''.'')" "num_char (CHR ''-'')"
    by (simp_all add: num_char_def is_digit_def)
  assume "c \<in> set (toFixed d x)"
  then show ?thesis
    using z by (auto simp: toFixed_def Let_def pad0_def intro: num_char_digits split: if_splits)
qed

lemma show_nat_01: "show_nat 0 = ''0''" "show_nat (Suc 0) = ''1''"
  by (subst show_nat.simps, simp)+

lemmas show_nat_eval = show_nat_01 show_nat.simps [of "numeral n" for n]

lemma printing_samples:
  "toLocaleString_en 1234567 = ''1,234,567''"
  by (simp add: toLocaleString_en_def pad0_def show_nat_eval drop_zeros_def Let_def)

lemma date_samples:
  "toISOString 1709164800000 = ''2024-02-29T00:00:00.000Z''"
  by code_simp

end
