(* ===== verification/GeoLookup.thy ===== *)
theory GeoLookup
  imports BanExec JsNumber "HOL-Library.Sublist"
begin

section \<open>Geographic lookup of addresses\<close>

text \<open>
  \<^verbatim>\<open>lib/countryCentroids.ts\<close> and \<^verbatim>\<open>lib/ipGeoLookup.ts\<close>.  The module's cache is explicit state.
  The lookup service and the functions \<^verbatim>\<open>Math.cos\<close> and \<^verbatim>\<open>Math.sin\<close>, which the language leaves to
  the implementation, are arguments.  A lookup that throws returns \<open>None\<close>.
\<close>

subsection \<open>Country centroids\<close>

text \<open>\<open>toUpperCase\<close> of the letters whose capital is a Latin-1 character.\<close>

definition upper_char :: "char \<Rightarrow> string" where
  "upper_char c =
     (let u = of_char c :: nat in
      if 97 \<le> u \<and> u \<le> 122 \<or> 0xE0 \<le> u \<and> u \<le> 0xFE \<and> u \<noteq> 0xF7 then [char_of (u - 32)]
      else if u = 0xDF then ''SS'' else [c])"

definition toUpperCase :: "string \<Rightarrow> string" where
  "toUpperCase s = concat (map upper_char s)"

definition COUNTRY_CENTROIDS :: "(string \<times> rat \<times> rat) list" where
  "COUNTRY_CENTROIDS =
     [(''AD'', fl (152 / 100), fl (4251 / 100)), (''AE'', fl (5385 / 100), fl (2342 / 100)),
      (''AF'', fl (6771 / 100), fl (3394 / 100)), (''AL'', fl (2017 / 100), fl (4115 / 100)),
      (''AM'', fl (4504 / 100), fl (4007 / 100)), (''AO'', fl (1787 / 100), fl (- 112 / 10)),
      (''AR'', fl (- 6362 / 100), fl (- 3842 / 100)), (''AT'', fl (1455 / 100), fl (4752 / 100)),
      (''AU'', fl (13378 / 100), fl (- 2527 / 100)), (''AZ'', fl (4758 / 100), fl (4014 / 100)),
      (''BA'', fl (1768 / 100), fl (4392 / 100)), (''BD'', fl (9036 / 100), fl (2368 / 100)),
      (''BE'', fl (447 / 100), fl (505 / 10)), (''BF'', fl (- 156 / 100), fl (1224 / 100)),
      (''BG'', fl (2549 / 100), fl (4273 / 100)), (''BH'', fl (5056 / 100), fl (2607 / 100)),
      (''BI'', fl (2992 / 100), fl (- 337 / 100)), (''BJ'', fl (232 / 100), fl (931 / 100)),
      (''BN'', fl (11473 / 100), fl (454 / 100)), (''BO'', fl (- 6359 / 100), fl (- 1629 / 100)),
      (''BR'', fl (- 5193 / 100), fl (- 1424 / 100)), (''BS'', fl (- 774 / 10), fl (2503 / 100)),
      (''BT'', fl (9043 / 100), fl (2751 / 100)), (''BW'', fl (2468 / 100), fl (- 2233 / 100)),
      (''BY'', fl (2795 / 100), fl (5371 / 100)), (''BZ'', fl (- 885 / 10), fl (1719 / 100)),
      (''CA'', fl (- 10635 / 100), fl (5613 / 100)), (''CD'', fl (2176 / 100), fl (- 404 / 100)),
      (''CF'', fl (2094 / 100), fl (661 / 100)), (''CG'', fl (1583 / 100), fl (- 23 / 100)),
      (''CH'', fl (823 / 100), fl (4682 / 100)), (''CI'', fl (- 555 / 100), fl (754 / 100)),
      (''CL'', fl (- 7154 / 100), fl (- 3568 / 100)), (''CM'', fl (1235 / 100), fl (737 / 100)),
      (''CN'', fl (1042 / 10), fl (3586 / 100)), (''CO'', fl (- 743 / 10), fl (457 / 100)),
      (''CR'', fl (- 8375 / 100), fl (975 / 100)), (''CU'', fl (- 7778 / 100), fl (2152 / 100)),
      (''CY'', fl (3343 / 100), fl (3513 / 100)), (''CZ'', fl (1547 / 100), fl (4982 / 100)),
      (''DE'', fl (1045 / 100), fl (5117 / 100)), (''DJ'', fl (4259 / 100), fl (1183 / 100)),
      (''DK'', fl (95 / 10), fl (5626 / 100)), (''DO'', fl (- 7016 / 100), fl (1874 / 100)),
      (''DZ'', fl (166 / 100), fl (2803 / 100)), (''EC'', fl (- 7818 / 100), fl (- 183 / 100)),
      (''EE'', fl (2501 / 100), fl (586 / 10)), (''EG'', fl (308 / 10), fl (2682 / 100)),
      (''ER'', fl (3978 / 100), fl (1518 / 100)), (''ES'', fl (- 375 / 100), fl (4046 / 100)),
      (''ET'', fl (4049 / 100), fl (915 / 100)), (''FI'', fl (2575 / 100), fl (6192 / 100)),
      (''FJ'', fl (17807 / 100), fl (- 1771 / 100)), (''FR'', fl (221 / 100), fl (4623 / 100)),
      (''GA'', fl (1161 / 100), fl (- 8 / 10)), (''GB'', fl (- 344 / 100), fl (5538 / 100)),
      (''GE'', fl (4336 / 100), fl (4232 / 100)), (''GH'', fl (- 102 / 100), fl (795 / 100)),
      (''GM'', fl (- 1531 / 100), fl (1344 / 100)), (''GN'', fl (- 97 / 10), fl (995 / 100)),
      (''GQ'', fl (1027 / 100), fl (165 / 100)), (''GR'', fl (2182 / 100), fl (3907 / 100)),
      (''GT'', fl (- 9023 / 100), fl (1578 / 100)), (''GW'', fl (- 1518 / 100), fl (118 / 10)),
      (''GY'', fl (- 5893 / 100), fl (486 / 100)), (''HK'', fl (11417 / 100), fl (2232 / 100)),
      (''HN'', fl (- 8624 / 100), fl (152 / 10)), (''HR'', fl (152 / 10), fl (451 / 10)),
      (''HT'', fl (- 7229 / 100), fl (1897 / 100)), (''HU'', fl (195 / 10), fl (4716 / 100)),
      (''ID'', fl (11392 / 100), fl (- 79 / 100)), (''IE'', fl (- 824 / 100), fl (5341 / 100)),
      (''IL'', fl (3485 / 100), fl (3105 / 100)), (''IN'', fl (7896 / 100), fl (2059 / 100)),
      (''IQ'', fl (4368 / 100), fl (3322 / 100)), (''IR'', fl (5369 / 100), fl (3243 / 100)),
      (''IS'', fl (- 1902 / 100), fl (6496 / 100)), (''IT'', fl (1257 / 100), fl (4187 / 100)),
      (''JM'', fl (- 773 / 10), fl (1811 / 100)), (''JO'', fl (3624 / 100), fl (3059 / 100)),
      (''JP'', fl (13825 / 100), fl (362 / 10)), (''KE'', fl (3791 / 100), fl (- 2 / 100)),
      (''KG'', fl (7477 / 100), fl (412 / 10)), (''KH'', fl (10499 / 100), fl (1257 / 100)),
      (''KP'', fl (12751 / 100), fl (4034 / 100)), (''KR'', fl (12777 / 100), fl (3591 / 100)),
      (''KW'', fl (4748 / 100), fl (2931 / 100)), (''KZ'', fl (6692 / 100), fl (4802 / 100)),
      (''LA'', fl (1025 / 10), fl (1986 / 100)), (''LB'', fl (3586 / 100), fl (3385 / 100)),
      (''LK'', fl (8077 / 100), fl (787 / 100)), (''LR'', fl (- 943 / 100), fl (643 / 100)),
      (''LS'', fl (2823 / 100), fl (- 2961 / 100)), (''LT'', fl (2388 / 100), fl (5517 / 100)),
      (''LU'', fl (613 / 100), fl (4982 / 100)), (''LV'', fl (246 / 10), fl (5688 / 100)),
      (''LY'', fl (1723 / 100), fl (2634 / 100)), (''MA'', fl (- 709 / 100), fl (3179 / 100)),
      (''MD'', fl (2837 / 100), fl (4741 / 100)), (''ME'', fl (1937 / 100), fl (4271 / 100)),
      (''MG'', fl (4687 / 100), fl (- 1877 / 100)), (''MK'', fl (2175 / 100), fl (4151 / 100)),
      (''ML'', fl (- 352 / 100), fl (1757 / 100)), (''MM'', fl (9596 / 100), fl (2191 / 100)),
      (''MN'', fl (10385 / 100), fl (4686 / 100)), (''MO'', fl (11354 / 100), fl (222 / 10)),
      (''MR'', fl (- 1094 / 100), fl (2101 / 100)), (''MT'', fl (1438 / 100), fl (3594 / 100)),
      (''MU'', fl (5755 / 100), fl (- 2035 / 100)), (''MV'', fl (7322 / 100), fl (32 / 10)),
      (''MW'', fl (343 / 10), fl (- 1325 / 100)), (''MX'', fl (- 10255 / 100), fl (2363 / 100)),
      (''MY'', fl (10198 / 100), fl (421 / 100)), (''MZ'', fl (3553 / 100), fl (- 1867 / 100)),
      (''NA'', fl (1849 / 100), fl (- 2296 / 100)), (''NE'', fl (808 / 100), fl (1761 / 100)),
      (''NG'', fl (868 / 100), fl (908 / 100)), (''NI'', fl (- 8521 / 100), fl (1287 / 100)),
      (''NL'', fl (529 / 100), fl (5213 / 100)), (''NO'', fl (847 / 100), fl (6047 / 100)),
      (''NP'', fl (8412 / 100), fl (2839 / 100)), (''NZ'', fl (17489 / 100), fl (- 409 / 10)),
      (''OM'', fl (5592 / 100), fl (2151 / 100)), (''PA'', fl (- 8078 / 100), fl (854 / 100)),
      (''PE'', fl (- 7502 / 100), fl (- 919 / 100)), (''PG'', fl (14396 / 100), fl (- 631 / 100)),
      (''PH'', fl (12177 / 100), fl (1288 / 100)), (''PK'', fl (6935 / 100), fl (3038 / 100)),
      (''PL'', fl (1915 / 100), fl (5192 / 100)), (''PR'', fl (- 6659 / 100), fl (1822 / 100)),
      (''PS'', fl (3523 / 100), fl (3195 / 100)), (''PT'', fl (- 822 / 100), fl (394 / 10)),
      (''PY'', fl (- 5844 / 100), fl (- 2344 / 100)), (''QA'', fl (5118 / 100), fl (2535 / 100)),
      (''RO'', fl (2497 / 100), fl (4594 / 100)), (''RS'', fl (2101 / 100), fl (4402 / 100)),
      (''RU'', fl (10532 / 100), fl (6152 / 100)), (''RW'', fl (2987 / 100), fl (- 194 / 100)),
      (''SA'', fl (4508 / 100), fl (2389 / 100)), (''SD'', fl (3022 / 100), fl (1286 / 100)),
      (''SE'', fl (1864 / 100), fl (6013 / 100)), (''SG'', fl (10382 / 100), fl (135 / 100)),
      (''SI'', fl (1499 / 100), fl (4615 / 100)), (''SK'', fl (197 / 10), fl (4867 / 100)),
      (''SL'', fl (- 1178 / 100), fl (846 / 100)), (''SN'', fl (- 1445 / 100), fl (145 / 10)),
      (''SO'', fl (462 / 10), fl (515 / 100)), (''SR'', fl (- 5603 / 100), fl (392 / 100)),
      (''SS'', fl (3131 / 100), fl (688 / 100)), (''SV'', fl (- 889 / 10), fl (1379 / 100)),
      (''SY'', fl (3899 / 100), fl (348 / 10)), (''SZ'', fl (3147 / 100), fl (- 2652 / 100)),
      (''TD'', fl (1873 / 100), fl (1545 / 100)), (''TG'', fl (82 / 100), fl (862 / 100)),
      (''TH'', fl (10099 / 100), fl (1587 / 100)), (''TJ'', fl (7128 / 100), fl (3886 / 100)),
      (''TM'', fl (5956 / 100), fl (3897 / 100)), (''TN'', fl (954 / 100), fl (3389 / 100)),
      (''TR'', fl (3524 / 100), fl (3896 / 100)), (''TW'', fl (12096 / 100), fl (237 / 10)),
      (''TZ'', fl (3489 / 100), fl (- 637 / 100)), (''UA'', fl (3117 / 100), fl (4838 / 100)),
      (''UG'', fl (3229 / 100), fl (137 / 100)), (''US'', fl (- 9571 / 100), fl (3709 / 100)),
      (''UY'', fl (- 5577 / 100), fl (- 3252 / 100)), (''UZ'', fl (6459 / 100), fl (4138 / 100)),
      (''VE'', fl (- 6659 / 100), fl (642 / 100)), (''VN'', fl (10828 / 100), fl (1406 / 100)),
      (''YE'', fl (4852 / 100), fl (1555 / 100)), (''ZA'', fl (2294 / 100), fl (- 3056 / 100)),
      (''ZM'', fl (2785 / 100), fl (- 1313 / 100)), (''ZW'', fl (2915 / 100), fl (- 1902 / 100))]"

definition centroidForCountry :: "string \<Rightarrow> (rat \<times> rat) option" where
  "centroidForCountry cc = map_of COUNTRY_CENTROIDS (toUpperCase (trim cc))"

subsection \<open>The answer for one address\<close>

record geo =
  ge_ip :: string
  ge_lat :: rat
  ge_lon :: rat
  ge_countryCode :: string
  ge_country :: string
  ge_source_name :: string

definition RFC5737_ATTACK_REGIONS :: "(string \<times> string \<times> rat \<times> rat) list" where
  "RFC5737_ATTACK_REGIONS =
     [(''US'', ''United States'', fl (407128 / 10000), fl (- 74006 / 1000)),
      (''US'', ''US West'', fl (377749 / 10000), fl (- 1224194 / 10000)),
      (''CA'', ''Canada'', fl (436532 / 10000), fl (- 793832 / 10000)),
      (''GB'', ''United Kingdom'', fl (515074 / 10000), fl (- 1278 / 10000)),
      (''DE'', ''Germany'', fl (5252 / 100), fl (13405 / 1000)), (''FR'', ''France'', fl (488566 / 10000), fl (23522 / 10000)),
      (''NL'', ''Netherlands'', fl (523676 / 10000), fl (49041 / 10000)),
      (''RU'', ''Russia'', fl (557558 / 10000), fl (376173 / 10000)),
      (''CN'', ''China'', fl (399042 / 10000), fl (1164074 / 10000)),
      (''IN'', ''India'', fl (286139 / 10000), fl (77209 / 1000)),
      (''BR'', ''Brazil'', fl (- 235505 / 10000), fl (- 466333 / 10000)),
      (''SG'', ''Singapore'', fl (13521 / 10000), fl (1038198 / 10000)),
      (''AU'', ''Australia'', fl (- 338688 / 10000), fl (1512093 / 10000)),
      (''JP'', ''Japan'', fl (356762 / 10000), fl (1396503 / 10000)),
      (''KR'', ''South Korea'', fl (375665 / 10000), fl (126978 / 1000)),
      (''IR'', ''Iran'', fl (356892 / 10000), fl (51389 / 1000)),
      (''UA'', ''Ukraine'', fl (504501 / 10000), fl (305234 / 10000)),
      (''ZA'', ''South Africa'', fl (- 262041 / 10000), fl (280473 / 10000)),
      (''MX'', ''Mexico'', fl (194326 / 10000), fl (- 991332 / 10000)),
      (''PL'', ''Poland'', fl (522297 / 10000), fl (210122 / 10000))]"

text \<open>\<open>octets[i]\<close> after \<open>split(".").map(parseInt)\<close>, zero when it is no number.\<close>

definition octet_or0 :: "string \<Rightarrow> nat \<Rightarrow> int" where
  "octet_or0 ip i =
     (let os = map parseInt (splitOn CHR ''.'' ip) in if i < length os then nullish (os ! i) 0 else 0)"

text \<open>The remainder of JavaScript: its sign is that of the dividend.\<close>

definition js_rem :: "int \<Rightarrow> int \<Rightarrow> int" where
  "js_rem a b = (if 0 \<le> a then a mod b else - ((- a) mod b))"

definition frem :: "rat \<Rightarrow> rat \<Rightarrow> rat" where
  "frem x y = (let q = x / y in x - y * of_int (if 0 \<le> q then \<lfloor>q\<rfloor> else \<lceil>q\<rceil>))"

definition rfc5737SpreadGeo :: "string \<Rightarrow> geo option" where
  "rfc5737SpreadGeo ip =
     (let o3 = octet_or0 ip 2; o4 = octet_or0 ip 3;
          idx = js_rem (o3 * 7 + o4) (int (length RFC5737_ATTACK_REGIONS));
          jitterLat = fmul (of_int (js_rem o4 9 - 4)) (fl (38 / 100));
          jitterLon = fmul (of_int (js_rem o3 11 - 5)) (fl (42 / 100))
      in if idx < 0 then None
         else case RFC5737_ATTACK_REGIONS ! nat idx of (cc, country, lat, lon) \<Rightarrow>
           Some \<lparr> ge_ip = ip, ge_lat = fadd lat jitterLat, ge_lon = fadd lon jitterLon, ge_countryCode = cc,
                  ge_country = ''Demo '' @ [CHR 0xB7] @ '' '' @ country, ge_source_name = ''private'' \<rparr>)"

definition isRfc5737TestIp :: "string \<Rightarrow> bool" where
  "isRfc5737TestIp ip = (startsWith ip ''203.0.113.'' \<or> startsWith ip ''198.51.100.'' \<or> startsWith ip ''192.0.2.'')"

definition isPrivateIpv4 :: "string \<Rightarrow> bool" where
  "isPrivateIpv4 ip =
     (case splitOn CHR ''.'' ip of
        [p, q, r, s] \<Rightarrow>
          list_all (\<lambda>x. x \<noteq> [] \<and> list_all is_digit x) [p, q, r, s]
          \<and> (let a = dec_val p; b = dec_val q; c = dec_val r in
              a = 10 \<or> a = 127 \<or> a = 192 \<and> b = 168 \<or> a = 172 \<and> 16 \<le> b \<and> b \<le> 31 \<or> a = 100 \<and> 64 \<le> b \<and> b \<le> 127
              \<or> a = 192 \<and> b = 0 \<and> c = 2 \<or> a = 198 \<and> b = 51 \<and> c = 100 \<or> a = 203 \<and> b = 0 \<and> c = 113)
      | _ \<Rightarrow> False)"

text \<open>The service's answer: a coordinate is present when it is a number.\<close>

record ip_api =
  ia_status :: "string option"
  ia_country :: "string option"
  ia_countryCode :: "string option"
  ia_lat :: "rat option"
  ia_lon :: "rat option"

record geo_world =
  gw_env :: env
  gw_fetch :: "string \<Rightarrow> ip_api fetched"
  gw_cos :: "rat \<Rightarrow> rat"
  gw_sin :: "rat \<Rightarrow> rat"

text \<open>A thrown error and a missing answer are the same to the caller.\<close>

definition fetchIpApi :: "geo_world \<Rightarrow> string \<Rightarrow> geo option" where
  "fetchIpApi w ip =
     (if \<not> rx_full IPV4_RE ip then None
      else case gw_fetch w (''http://ip-api.com/json/'' @ encodeURIComponent ip @ ''?fields=status,country,countryCode,lat,lon'') of
             Fetched data \<Rightarrow>
               if ia_status data \<noteq> Some ''success'' \<or> \<not> truthy (ia_countryCode data) then None
               else let cc = toUpperCase (the (ia_countryCode data));
                        lat = (case ia_lat data of Some v \<Rightarrow> Some v | None \<Rightarrow> map_option snd (centroidForCountry cc));
                        lon = (case ia_lon data of Some v \<Rightarrow> Some v | None \<Rightarrow> map_option fst (centroidForCountry cc))
                    in if lat = None \<or> lon = None then None
                       else Some \<lparr> ge_ip = ip, ge_lat = the lat, ge_lon = the lon, ge_countryCode = cc,
                                   ge_country = or_default (ia_country data) cc,
                                   ge_source_name = (if ia_lat data \<noteq> None then ''lookup'' else ''centroid'') \<rparr>
           | _ \<Rightarrow> None)"

text \<open>\<open>(a * 31 + p) | 0\<close> in 32 bits; not-a-number becomes zero.\<close>

definition hash_step :: "int \<Rightarrow> int option \<Rightarrow> int" where
  "hash_step a p = (case p of None \<Rightarrow> 0 | Some v \<Rightarrow> (a * 31 + v + 2 ^ 31) mod 2 ^ 32 - 2 ^ 31)"

definition private_geo :: "geo_world \<Rightarrow> string \<Rightarrow> geo" where
  "private_geo w key =
     (let last = octet_or0 key 3;
          hash = foldl hash_step 0 (map parseInt (splitOn CHR ''.'' key));
          pi = 884279719003555 / 281474976710656;
          angle = fmul (frem (fmul (of_int hash) (fl (137508 / 1000))) 360) (fdiv pi 180);
          radius = fadd (fl (18 / 100)) (fmul (of_int (js_rem last 16)) (fl (11 / 100)))
      in \<lparr> ge_ip = key, ge_lat = fadd 39 (fmul radius (gw_cos w angle)), ge_lon = fadd 35 (fmul radius (gw_sin w angle)),
           ge_countryCode = ''PRV'', ge_country = ''Private'', ge_source_name = ''private'' \<rparr>)"

definition env_geo :: "geo_world \<Rightarrow> string \<Rightarrow> geo option" where
  "env_geo w key =
     (case gw_env w (''GEOIP_CC_'' @ replace_char CHR ''.'' CHR ''_'' key) of
        None \<Rightarrow> None
      | Some cc \<Rightarrow>
          if cc = [] then None
          else case centroidForCountry cc of
                 None \<Rightarrow> None
               | Some (lon, lat) \<Rightarrow>
                   Some \<lparr> ge_ip = key, ge_lat = lat, ge_lon = lon, ge_countryCode = toUpperCase cc,
                          ge_country = toUpperCase cc, ge_source_name = ''centroid'' \<rparr>)"

text \<open>The uncached answer; the outer \<open>None\<close> is an exception.\<close>

definition resolve_geo :: "geo_world \<Rightarrow> string \<Rightarrow> geo option option" where
  "resolve_geo w key =
     (if isRfc5737TestIp key then map_option Some (rfc5737SpreadGeo key)
      else if isPrivateIpv4 key \<or> startsWith key ''::'' then Some (Some (private_geo w key))
      else Some (case fetchIpApi w key of Some g \<Rightarrow> Some g | None \<Rightarrow> env_geo w key))"

subsection \<open>The cache\<close>

type_synonym geo_cache = "(string, geo option) jsmap"

definition MAX_CACHE :: nat where "MAX_CACHE = 512"

definition trimCache :: "geo_cache \<Rightarrow> geo_cache" where
  "trimCache c = (if length c \<le> MAX_CACHE then c else foldl map_delete c (take (length c - MAX_CACHE) (map fst c)))"

definition lookupIpGeo :: "geo_world \<Rightarrow> string \<Rightarrow> geo_cache \<Rightarrow> geo option option \<times> geo_cache" where
  "lookupIpGeo w ip c =
     (let key = trim ip in
      if key = [] \<or> 45 < length key then (Some None, c)
      else case map_get c key of
             Some r \<Rightarrow> (Some r, c)
           | None \<Rightarrow> (case resolve_geo w key of
                        None \<Rightarrow> (None, c)
                      | Some r \<Rightarrow> (Some r, trimCache (map_set c key r))))"

fun lookup_each :: "geo_world \<Rightarrow> string list \<Rightarrow> geo_cache \<Rightarrow> geo list option \<times> geo_cache" where
  "lookup_each w [] c = (Some [], c)"
| "lookup_each w (ip # ips) c =
     (case lookupIpGeo w ip c of
        (None, c') \<Rightarrow> (None, c')
      | (Some r, c') \<Rightarrow>
          (case lookup_each w ips c' of
             (None, c'') \<Rightarrow> (None, c'')
           | (Some gs, c'') \<Rightarrow> (Some (case r of Some g \<Rightarrow> g # gs | None \<Rightarrow> gs), c'')))"

definition lookupManyIps :: "geo_world \<Rightarrow> string list \<Rightarrow> nat \<Rightarrow> geo_cache \<Rightarrow> geo list option \<times> geo_cache" where
  "lookupManyIps w ips limit c =
     lookup_each w (take limit (foldl set_add [] (filter (\<lambda>x. x \<noteq> []) (map trim ips)))) c"

subsection \<open>The cache invariant\<close>

definition geo_ok :: "geo_cache \<Rightarrow> bool" where
  "geo_ok c = (map_wf c \<and> length c \<le> MAX_CACHE
     \<and> list_all (\<lambda>(k, v). trim k = k \<and> (case v of Some g \<Rightarrow> ge_ip g = k | None \<Rightarrow> True)) c)"

lemma answer_ip:
  "rfc5737SpreadGeo key = Some g \<Longrightarrow> ge_ip g = key"
  "ge_ip (private_geo w key) = key"
  "fetchIpApi w key = Some g \<Longrightarrow> ge_ip g = key"
  "env_geo w key = Some g \<Longrightarrow> ge_ip g = key"
proof -
  show "rfc5737SpreadGeo key = Some g \<Longrightarrow> ge_ip g = key"
    unfolding rfc5737SpreadGeo_def Let_def by (simp split: if_split_asm prod.split_asm) auto
  show "ge_ip (private_geo w key) = key" by (simp add: private_geo_def Let_def)
  show "fetchIpApi w key = Some g \<Longrightarrow> ge_ip g = key"
    unfolding fetchIpApi_def Let_def by (simp split: if_split_asm fetched.split_asm) auto
  show "env_geo w key = Some g \<Longrightarrow> ge_ip g = key"
    unfolding env_geo_def by (simp split: if_split_asm option.split_asm prod.split_asm) auto
qed

lemma resolve_geo_ip: "resolve_geo w key = Some (Some g) \<Longrightarrow> ge_ip g = key"
  unfolding resolve_geo_def by (auto simp: answer_ip split: if_split_asm option.split_asm)

lemma delete_first:
  assumes "map_wf c" "c = (k, v) # c'"
  shows "map_delete c k = c'"
  using assms by (auto simp: map_delete_def map_wf_def intro!: filter_True)

lemma foldl_delete_take:
  "map_wf c \<Longrightarrow> foldl map_delete c (take n (map fst c)) = drop n c"
proof (induction n arbitrary: c)
  case (Suc n)
  show ?case
  proof (cases c)
    case (Cons e c')
    obtain k v where e: "e = (k, v)" by (cases e)
    have "map_delete c k = c'" using delete_first [OF Suc.prems] Cons e by blast
    moreover have "map_wf c'" using Suc.prems Cons by (simp add: map_wf_def)
    ultimately have "map_wf c'" "map_delete c k = c'" by simp_all
    then show ?thesis using Suc.IH [of c'] Cons e by simp
  qed simp
qed simp

text \<open>The trimming drops the oldest entries.\<close>

lemma trimCache_drop: "map_wf c \<Longrightarrow> trimCache c = drop (length c - MAX_CACHE) c"
  by (simp add: trimCache_def foldl_delete_take)

lemma map_set_miss: "map_get c k = None \<Longrightarrow> map_set c k v = c @ [(k, v)]"
  by (simp add: map_set_new map_get_None_iff)

lemma geo_ok_drop:
  assumes "map_wf d" "list_all (\<lambda>(k, v). trim k = k \<and> (case v of Some g \<Rightarrow> ge_ip g = k | None \<Rightarrow> True)) d"
  shows "geo_ok (drop (length d - MAX_CACHE) d)"
proof -
  let ?e = "drop (length d - MAX_CACHE) d"
  have "distinct (drop (length d - MAX_CACHE) (map fst d))" using assms(1) by (simp add: map_wf_def)
  then have "map_wf ?e" by (simp add: map_wf_def drop_map)
  moreover have "length ?e \<le> MAX_CACHE" by simp
  moreover have "set ?e \<subseteq> set d" by (rule set_drop_subset)
  ultimately show ?thesis using assms(2) unfolding geo_ok_def list_all_iff by blast
qed

lemma lookupIpGeo_cases:
  assumes "lookupIpGeo w ip c = (r, c')"
  obtains (skip) "c' = c" "r = None \<or> r = Some None \<and> (trim ip = [] \<or> 45 < length (trim ip))"
    | (hit) v where "map_get c (trim ip) = Some v" "r = Some v" "c' = c"
    | (miss) v where "map_get c (trim ip) = None" "resolve_geo w (trim ip) = Some v" "r = Some v"
        "c' = trimCache (c @ [(trim ip, v)])"
proof (cases "trim ip = [] \<or> 45 < length (trim ip)")
  case True
  show thesis by (rule skip) (use assms True in \<open>auto simp: lookupIpGeo_def\<close>)
next
  case False
  note body = assms [unfolded lookupIpGeo_def Let_def if_not_P [OF False]]
  show thesis
  proof (cases "map_get c (trim ip)")
    case None
    note body = body [unfolded None option.case map_set_miss [OF None]]
    show thesis
    proof (cases "resolve_geo w (trim ip)")
      case None
      show thesis by (rule skip) (use body [unfolded None] in simp_all)
    next
      case (Some v)
      show thesis by (rule miss [OF \<open>map_get c (trim ip) = None\<close> Some]) (use body [unfolded Some] in simp_all)
    qed
  next
    case (Some v)
    show thesis by (rule hit [OF Some]) (use body [unfolded Some] in simp_all)
  qed
qed

lemma lookupIpGeo_ok:
  assumes "geo_ok c" "lookupIpGeo w ip c = (r, c')"
  shows "geo_ok c'" "r = Some (Some g) \<Longrightarrow> ge_ip g = trim ip"
proof -
  from assms(2) have "geo_ok c' \<and> (r = Some (Some g) \<longrightarrow> ge_ip g = trim ip)"
  proof (cases rule: lookupIpGeo_cases)
    case skip
    then show ?thesis using assms(1) by auto
  next
    case (hit v)
    then have "(trim ip, v) \<in> set c" by (auto simp: map_get_def dest: map_of_SomeD)
    then have "case v of Some g \<Rightarrow> ge_ip g = trim ip | None \<Rightarrow> True"
      using assms(1) unfolding geo_ok_def list_all_iff by blast
    then show ?thesis using assms(1) hit by auto
  next
    case (miss v)
    let ?d = "c @ [(trim ip, v)]"
    have wf: "map_wf ?d" using assms(1) miss(1) by (auto simp: geo_ok_def map_wf_def map_get_None_iff)
    have v: "case v of Some g \<Rightarrow> ge_ip g = trim ip | None \<Rightarrow> True"
      using miss(2) resolve_geo_ip by (cases v) auto
    then have "geo_ok c'"
      unfolding miss(4) trimCache_drop [OF wf] using assms(1) by (intro geo_ok_drop wf) (simp add: geo_ok_def)
    then show ?thesis using v miss(3) by auto
  qed
  then show "geo_ok c'" "r = Some (Some g) \<Longrightarrow> ge_ip g = trim ip" by auto
qed

lemma lookup_each_ok:
  assumes "geo_ok c" "lookup_each w ips c = (r, c')" "list_all (\<lambda>ip. trim ip = ip) ips"
  shows "geo_ok c' \<and> (\<forall>gs. r = Some gs \<longrightarrow> subseq (map ge_ip gs) ips)"
  using assms
proof (induction w ips c arbitrary: r c' rule: lookup_each.induct)
  case (2 w ip ips c)
  obtain r1 c1 where l: "lookupIpGeo w ip c = (r1, c1)" by (cases "lookupIpGeo w ip c")
  note one = lookupIpGeo_ok [OF 2(2) l]
  show ?case
  proof (cases r1)
    case None
    then show ?thesis using 2(3) l one by auto
  next
    case (Some v)
    obtain r2 c2 where e: "lookup_each w ips c1 = (r2, c2)" by (cases "lookup_each w ips c1")
    have ih: "geo_ok c2 \<and> (\<forall>gs. r2 = Some gs \<longrightarrow> subseq (map ge_ip gs) ips)"
      using 2(1) [OF l [symmetric] Some one(1) e] 2(4) by simp
    have "c' = c2" "r = map_option (\<lambda>gs. case v of Some g \<Rightarrow> g # gs | None \<Rightarrow> gs) r2"
      using 2(3) l Some e by (auto split: option.splits)
    then show ?thesis using ih one(2) Some 2(4) by (auto split: option.split)
  qed
qed auto

text \<open>A lookup that succeeded answers the same as long as its entry is cached, whatever the service says.\<close>

lemma lookup_stable:
  assumes "geo_ok c" "lookupIpGeo w ip c = (Some r, c')"
  shows "lookupIpGeo w' ip c' = (Some r, c')"
proof (cases "trim ip = [] \<or> 45 < length (trim ip)")
  case False
  from assms(2) have "map_get c' (trim ip) = Some r"
  proof (cases rule: lookupIpGeo_cases)
    case skip
    then show ?thesis using False by simp
  next
    case (miss v)
    let ?d = "c @ [(trim ip, v)]" and ?n = "length (c @ [(trim ip, v)]) - MAX_CACHE"
    have wf: "map_wf ?d" using assms(1) miss(1) by (auto simp: geo_ok_def map_wf_def map_get_None_iff)
    have c': "c' = drop ?n ?d" unfolding miss(4) by (rule trimCache_drop [OF wf])
    have "?n \<le> length c" using assms(1) by (simp add: geo_ok_def MAX_CACHE_def)
    then have "(trim ip, v) \<in> set c'" unfolding c' by simp
    moreover have "distinct (map fst c')"
      using wf unfolding c' map_wf_def drop_map [symmetric] by (rule distinct_drop)
    ultimately show ?thesis using miss(3) by (simp add: map_get_def)
  qed simp
  then show ?thesis using False by (simp add: lookupIpGeo_def)
qed (use assms(2) in \<open>auto simp: lookupIpGeo_def\<close>)

lemma uniq_ips: "distinct (foldl set_add [] xs)" "set (foldl set_add [] xs) = set xs"
proof -
  have "distinct (foldl set_add ys xs) = distinct ys \<and> set (foldl set_add ys xs) = set ys \<union> set xs" for ys
    by (induction xs arbitrary: ys) auto
  from this [of "[]"] show "distinct (foldl set_add [] xs)" "set (foldl set_add [] xs) = set xs" by simp_all
qed

lemma lookupManyIps_ok:
  assumes "geo_ok c" "lookupManyIps w ips limit c = (r, c')"
  shows "geo_ok c'"
    and "r = Some gs \<Longrightarrow> length gs \<le> limit \<and> distinct (map ge_ip gs) \<and> set (map ge_ip gs) \<subseteq> trim ` set ips"
proof -
  let ?u = "foldl set_add [] (filter (\<lambda>x. x \<noteq> []) (map trim ips))"
  have "list_all (\<lambda>ip. trim ip = ip) (take limit ?u)"
    using uniq_ips(2) [of "filter (\<lambda>x. x \<noteq> []) (map trim ips)"] by (auto simp: list_all_iff dest!: in_set_takeD)
  from lookup_each_ok [OF assms(1) assms(2) [unfolded lookupManyIps_def] this]
  have ok: "geo_ok c'" and sub: "r = Some gs \<Longrightarrow> subseq (map ge_ip gs) (take limit ?u)" by auto
  show "geo_ok c'" by (rule ok)
  show "length gs \<le> limit \<and> distinct (map ge_ip gs) \<and> set (map ge_ip gs) \<subseteq> trim ` set ips" if "r = Some gs"
  proof -
    have "length (map ge_ip gs) \<le> length (take limit ?u)" using sub [OF that] by (rule list_emb_length)
    moreover have "distinct (map ge_ip gs)"
      using sub [OF that] uniq_ips(1) by (metis subseq_conv_nths distinct_nthsI distinct_take)
    moreover have "set (map ge_ip gs) \<subseteq> set ?u" using sub [OF that] by (metis subseq_conv_nths set_nths_subset set_take_subset subset_trans)
    ultimately show ?thesis using uniq_ips(2) [of "filter (\<lambda>x. x \<noteq> []) (map trim ips)"] by auto
  qed
qed

end
