(* ===== verification/Evidence.thy ===== *)
theory Evidence
  imports Middleware Registry Timeline GeoLookup
begin

section \<open>Data room, incidents, acknowledgements and the attack map\<close>

text \<open>
  \<^verbatim>\<open>app/api/data-room/[file]/route.ts\<close>, \<^verbatim>\<open>app/api/incidents/route.ts\<close>,
  \<^verbatim>\<open>app/api/telegram-acks/route.ts\<close> and \<^verbatim>\<open>app/api/attack-geo/route.ts\<close>. The files,
  the host API and the token verifier are arguments; the map keeps the cache of \<open>GeoLookup\<close>.
\<close>

subsection \<open>The data room\<close>

definition PUBLIC_FILES :: "string list" where
  "PUBLIC_FILES = [''competitive-proof.pdf'', ''competitive-proof.json'']"

definition ALLOWED :: "(string \<times> string) list" where
  "ALLOWED =
     [(''competitive-proof.pdf'', ''application/pdf''), (''competitive-proof.json'', ''application/json''),
      (''soak-report.json'', ''application/json''), (''MANIFEST.json'', ''application/json'')]"

text \<open>A property lookup in a plain object also finds the members it inherits.\<close>

definition INHERITED :: "string list" where
  "INHERITED =
     [''constructor'', ''toString'', ''valueOf'', ''hasOwnProperty'', ''isPrototypeOf'', ''propertyIsEnumerable'',
      ''toLocaleString'', ''__proto__'', ''__defineGetter__'', ''__defineSetter__'', ''__lookupGetter__'',
      ''__lookupSetter__'']"

datatype content_type = Mime string | Inherited_member string

definition content_type_of :: "string \<Rightarrow> content_type option" where
  "content_type_of f =
     (case map_of ALLOWED f of
        Some m \<Rightarrow> Some (Mime m)
      | None \<Rightarrow> if f \<in> set INHERITED then Some (Inherited_member f) else None)"

definition dataRoomAuthOk :: "jwt_verify \<Rightarrow> env \<Rightarrow> request \<Rightarrow> bool" where
  "dataRoomAuthOk v env rq =
     (case cookie_value rq ''auth_token'' of
        None \<Rightarrow> False
      | Some token \<Rightarrow> token \<noteq> [] \<and> verify_session v env token \<noteq> None)"

definition room_candidates :: "env \<Rightarrow> string \<Rightarrow> string \<Rightarrow> string list" where
  "room_candidates env cwd name =
     (if truthy (env ''BENCH_DATA_DIR'') then [path_join (the (env ''BENCH_DATA_DIR'')) name] else [])
     @ [path_join ''/data/lg'' name, path_join cwd (''data-room/'' @ name), path_join cwd name,
        path_join cwd (''../'' @ name), path_join cwd (''../data-room/'' @ name)]"

definition resolveFile :: "(string \<Rightarrow> string option) \<Rightarrow> env \<Rightarrow> string \<Rightarrow> string \<Rightarrow> string option" where
  "resolveFile disk env cwd name = find (\<lambda>p. disk p \<noteq> None) (room_candidates env cwd name)"

record room_file =
  rf_path :: string
  rf_body :: string
  rf_type :: content_type
  rf_disposition :: "string option"

definition data_room_GET ::
  "jwt_verify \<Rightarrow> (string \<Rightarrow> string option) \<Rightarrow> env \<Rightarrow> string \<Rightarrow> request \<Rightarrow> string \<Rightarrow> response + room_file" where
  "data_room_GET v disk env cwd rq f =
     (case content_type_of f of
        None \<Rightarrow> Inl (error_reply 404 ''not allowed'')
      | Some contentType \<Rightarrow>
          if f \<notin> set PUBLIC_FILES \<and> \<not> dataRoomAuthOk v env rq then Inl (error_reply 401 ''Unauthorized'')
          else (case resolveFile disk env cwd f of
                  None \<Rightarrow> Inl (json_reply 404 [(''error'', JStr ''file not found''),
                                             (''hint'', JStr ''bash scripts/competitive_proof.sh'')])
                | Some p \<Rightarrow>
                    Inr \<lparr> rf_path = p, rf_body = the (disk p), rf_type = contentType,
                          rf_disposition =
                            (if endsWith f ''.pdf''
                             then Some (''inline; filename='' @ [dquote] @ f @ [dquote]) else None) \<rparr>))"

subsection \<open>Incidents\<close>

text \<open>The last line of the first snapshot file that parses.\<close>

fun first_snapshot :: "(string \<Rightarrow> string option) \<Rightarrow> (string \<Rightarrow> json option) \<Rightarrow> string list \<Rightarrow> json option" where
  "first_snapshot disk parse [] = None"
| "first_snapshot disk parse (p # ps) =
     (case Option.bind (disk p) (\<lambda>raw. parse (last (splitOn (CHR 0x0A) (trim raw)))) of
        Some v \<Rightarrow> Some v
      | None \<Rightarrow> first_snapshot disk parse ps)"

definition readSnapshot :: "(string \<Rightarrow> string option) \<Rightarrow> (string \<Rightarrow> json option) \<Rightarrow> string \<Rightarrow> json option" where
  "readSnapshot disk parse cwd =
     first_snapshot disk parse [cwd @ ''/incidents-snapshot.json'', cwd @ ''/../incidents-snapshot.json'']"

definition incidents_url :: "env \<Rightarrow> string option \<Rightarrow> string" where
  "incidents_url env i =
     guardianApiBase env @ ''/api/v1/incidents'' @ (if truthy i then ''?id='' @ encodeURIComponent (the i) else [])"

datatype incidents_reply = One_incident json | Incident_list json | Snapshot "json option" "json option"
  | No_such_incident | No_incidents

text \<open>\<open>data.count > 0 || (data.incidents && data.incidents.length > 0)\<close> of a count that is a number.\<close>

definition has_incidents :: "json \<Rightarrow> bool" where
  "has_incidents data =
     ((case json_get (Some data) ''count'' of Some (JNum q) \<Rightarrow> 0 < q | _ \<Rightarrow> False)
      \<or> (case json_get (Some data) ''incidents'' of
           Some (JArr vs) \<Rightarrow> vs \<noteq> [] | Some (JStr s) \<Rightarrow> s \<noteq> [] | _ \<Rightarrow> False))"

definition incidents_fallback :: "env \<Rightarrow> json option \<Rightarrow> string option \<Rightarrow> incidents_reply" where
  "incidents_fallback env snap i =
     (let allowSnapshot = (env ''INCIDENTS_ALLOW_SNAPSHOT'' = Some ''1'' \<or> env ''NODE_ENV'' \<noteq> Some ''production'') in
      if json_truthy snap \<and> allowSnapshot
      then Snapshot (json_get snap ''incident_id'') (json_get snap ''ip'')
      else if truthy i then No_such_incident else No_incidents)"

definition incidents_GET ::
  "(string \<Rightarrow> headers \<Rightarrow> json fetched) \<Rightarrow> (string \<Rightarrow> string option) \<Rightarrow> (string \<Rightarrow> json option) \<Rightarrow> env \<Rightarrow> string
   \<Rightarrow> request \<Rightarrow> incidents_reply" where
  "incidents_GET fetch disk parse env cwd rq =
     (let i = query rq ''id''; fallback = incidents_fallback env (readSnapshot disk parse cwd) i in
      case fetch (incidents_url env i) (guardianApiAuthHeaders env) of
        Fetched data \<Rightarrow>
          if data = JNull then fallback
          else if truthy i \<and> json_truthy (json_get (Some data) ''incident_id'') then One_incident data
          else if has_incidents data then Incident_list data
          else fallback
      | _ \<Rightarrow> fallback)"

subsection \<open>Acknowledgements by address\<close>

definition is_quad :: "string option \<Rightarrow> bool" where
  "is_quad ip = (truthy ip \<and> rx_full quad_rx (the ip))"

definition status_paths :: "env \<Rightarrow> string \<Rightarrow> string list" where
  "status_paths env cwd =
     [or_default (env ''BENCH_DATA_DIR'') ''/data/lg'' @ ''/guardian-status.json'',
      cwd @ ''/guardian-status.json'', cwd @ ''/../guardian-status.json'']"

definition readAcks :: "env \<Rightarrow> string \<Rightarrow> (string \<Rightarrow> guardian_status option) \<Rightarrow> status_ack list" where
  "readAcks env cwd file =
     nullish (Option.bind (fst (first_status file (status_paths env cwd))) gu_recent_telegram_acks) []"

type_synonym ack_table = "(string, string \<times> int) jsmap"

definition ack_step :: "ack_table \<Rightarrow> status_ack \<Rightarrow> ack_table" where
  "ack_step by_ip a =
     (let key = nullish (sk_ack_key a) []; ts = nullish (sk_ts a) 0;
          op = or_default (js_or (map_option trim (sk_operator a)) (map_option trim (sk_operator_id a))) ''operator''
      in if \<not> is_quad (Some key) then by_ip
         else (case map_get by_ip key of
                 None \<Rightarrow> map_set by_ip key (op, ts)
               | Some e \<Rightarrow> if snd e < ts then map_set by_ip key (op, ts) else by_ip))"

record acks_reply =
  kr_acks :: "status_ack list"
  kr_by_ip :: ack_table
  kr_count :: nat

definition telegram_acks_GET :: "env \<Rightarrow> string \<Rightarrow> (string \<Rightarrow> guardian_status option) \<Rightarrow> acks_reply" where
  "telegram_acks_GET env cwd file =
     (let rows = readAcks env cwd file; by_ip = foldl ack_step [] rows
      in \<lparr> kr_acks = rows, kr_by_ip = by_ip, kr_count = length by_ip \<rparr>)"

subsection \<open>The attack map\<close>

datatype marker_kind = M_ban | M_incident | M_ack

record marker_meta =
  mk_reason :: "string option"
  mk_kind :: marker_kind
  mk_risk :: "rat option"
  mk_operator :: "string option"

type_synonym meta_map = "(string, marker_meta) jsmap"

definition GEO_LIMIT :: nat where "GEO_LIMIT = 64"

definition meta_ban :: "meta_map \<Rightarrow> ban_entry \<Rightarrow> meta_map" where
  "meta_ban m b =
     (if be_ip b = [] then m
      else map_set m (be_ip b) \<lparr> mk_reason = be_reason b, mk_kind = M_ban, mk_risk = None, mk_operator = None \<rparr>)"

definition meta_incident :: "meta_map \<Rightarrow> incident_row \<Rightarrow> meta_map" where
  "meta_incident m inc =
     (if \<not> truthy (ir_ip inc) then m
      else let ip = the (ir_ip inc); prev = Option.bind (map_get m ip) mk_reason in
        map_set m ip
          \<lparr> mk_reason = (if prev = None then ir_incident_id inc else prev), mk_kind = M_incident,
             mk_risk = ir_risk_score inc, mk_operator = None \<rparr>)"

definition meta_ack :: "meta_map \<Rightarrow> status_ack \<Rightarrow> meta_map" where
  "meta_ack m a =
     (let ip = the (sk_ack_key a); op = or_default (map_option trim (sk_operator a)) ''operator'' in
      if map_has m ip then m
      else map_set m ip
        \<lparr> mk_reason = Some (''G'' @ [CHR 0xF6] @ ''rd'' @ [CHR 0xFC] @ ''m '' @ [CHR 0xB7] @ '' '' @ op),
           mk_kind = M_ack, mk_risk = None, mk_operator = Some op \<rparr>)"

definition meta_fallback :: "meta_map \<Rightarrow> fallback_ip \<Rightarrow> meta_map" where
  "meta_fallback m f =
     map_set m (fi_ip f)
       \<lparr> mk_reason = Some (fi_reason f), mk_kind = (case fi_kind f of Ban \<Rightarrow> M_ban | Incident \<Rightarrow> M_incident),
          mk_risk = None, mk_operator = None \<rparr>"

definition attack_meta ::
  "ban_entry list \<Rightarrow> incident_row list \<Rightarrow> status_ack list \<Rightarrow> fallback_ip list \<Rightarrow> meta_map \<times> string" where
  "attack_meta bans incidents acks fallback =
     (let m = foldl meta_ack (foldl meta_incident (foldl meta_ban [] bans) incidents) acks
      in if m = [] then (foldl meta_fallback [] fallback, if fallback \<noteq> [] then ''report'' else ''live'')
         else (m, ''live''))"

record marker =
  mr_geo :: geo
  mr_kind :: marker_kind
  mr_reason :: "string option"
  mr_risk :: "rat option"
  mr_operator :: "string option"

definition marker_of :: "meta_map \<Rightarrow> geo \<Rightarrow> marker" where
  "marker_of m g =
     (let e = map_get m (ge_ip g) in
      \<lparr> mr_geo = g, mr_kind = (case e of Some x \<Rightarrow> mk_kind x | None \<Rightarrow> M_ban),
        mr_reason = Option.bind e mk_reason, mr_risk = Option.bind e mk_risk,
        mr_operator = Option.bind e mk_operator \<rparr>)"

text \<open>The coordinates of the defender are kept as the texts that \<open>Number\<close> reads.\<close>

record map_reply =
  mq_count :: nat
  mq_total_ips :: nat
  mq_geo_lookup :: bool
  mq_bans_source :: string
  mq_data_source :: string
  mq_defender :: "string \<times> string"
  mq_markers :: "marker list"

record map_deps =
  md_bans :: bans_world
  md_incidents :: incident_fetch
  md_status :: "string \<Rightarrow> guardian_status option"
  md_json :: "string \<Rightarrow> json option"
  md_geo :: geo_world

definition map_opts :: fetch_opts where
  "map_opts = \<lparr> fo_countOnly = False, fo_limit = Some (Num 40), fo_offset = Some (Num 0), fo_search = None \<rparr>"

text \<open>A lookup that throws fails the whole request.\<close>

definition attack_geo_GET ::
  "map_deps \<Rightarrow> env \<Rightarrow> string \<Rightarrow> geo_cache \<Rightarrow> map_reply option \<times> geo_cache" where
  "attack_geo_GET d env cwd c =
     (let bans = fetchBannedIps (md_bans d) map_opts;
          incidents = fst (fetchIncidents (md_incidents d) env);
          acks = filter (\<lambda>a. is_quad (sk_ack_key a)) (readAcks env cwd (md_status d));
          (m, dataSource) = attack_meta (br_bans bans) incidents acks (fetchFallbackAttackIps (md_json d));
          geoEnabled = (env ''ATTACK_GEO_LOOKUP'' \<noteq> Some ''0'');
          (looked, c') = (if geoEnabled then lookupManyIps (md_geo d) (map fst m) GEO_LIMIT c else (Some [], c))
      in (case looked of
            None \<Rightarrow> None
          | Some geos \<Rightarrow>
              let markers = map (marker_of m) geos in
              Some \<lparr> mq_count = length markers, mq_total_ips = length m, mq_geo_lookup = geoEnabled,
                mq_bans_source = br_source bans, mq_data_source = dataSource,
                mq_defender = (nullish (env ''ATTACK_MAP_DEFENDER_LAT'') ''41.0082'',
                               nullish (env ''ATTACK_MAP_DEFENDER_LNG'') ''28.9784''),
                mq_markers = markers \<rparr>, c'))"

text \<open>Where the addresses of the map come from.\<close>

definition attack_sources ::
  "ban_entry list \<Rightarrow> incident_row list \<Rightarrow> status_ack list \<Rightarrow> fallback_ip list \<Rightarrow> string set" where
  "attack_sources bans incidents acks fallback =
     set (map be_ip bans) \<union> set (List.map_filter ir_ip incidents)
     \<union> set (map (\<lambda>a. the (sk_ack_key a)) acks) \<union> set (map fi_ip fallback)"

text \<open>A host with one acknowledged address that the service knows.\<close>

definition sample_map :: map_deps where
  "sample_map =
     \<lparr> md_bans = \<lparr> bw_env = Map.empty, bw_fetch = \<lambda>_ _. Failed, bw_files = Map.empty, bw_parse = Map.empty, bw_json = Map.empty \<rparr>,
       md_incidents = \<lambda>_ _. Failed,
       md_status = \<lambda>_. Some \<lparr> gu_recent_alerts = None, gu_recent_bans = None,
         gu_recent_telegram_acks =
           Some [\<lparr> sk_ts = Some 7, sk_ack_key = Some ''8.8.4.4'', sk_operator = Some ''ops'', sk_operator_id = None \<rparr>] \<rparr>,
       md_json = Map.empty,
       md_geo = \<lparr> gw_env = Map.empty,
         gw_fetch = \<lambda>_. Fetched \<lparr> ia_status = Some ''success'', ia_country = Some ''United States'',
           ia_countryCode = Some ''US'', ia_lat = Some 39, ia_lon = Some (- 77) \<rparr>,
         gw_cos = \<lambda>_. 1, gw_sin = \<lambda>_. 0 \<rparr> \<rparr>"

subsection \<open>Properties\<close>


definition e_request :: request where
  "e_request = (q_request [] None)\<lparr>rq_cookies := []\<rparr>"


lemma map_set_dom: "fst ` set (map_set m k v) = insert k (fst ` set m)"
  by (simp add: map_set_def dom_update)

lemma foldl_keys:
  assumes "\<And>m x. fst ` set (f m x) \<subseteq> fst ` set m \<union> A x"
  shows "fst ` set (foldl f m xs) \<subseteq> fst ` set m \<union> (\<Union>x\<in>set xs. A x)"
proof (induction xs arbitrary: m)
  case (Cons x xs)
  show ?case using Cons.IH [of "f m x"] assms [of m x] by auto
qed simp

lemma attack_meta_keys:
  "fst ` set (fst (attack_meta bans incidents acks fallback)) \<subseteq> attack_sources bans incidents acks fallback"
proof -
  have b: "fst ` set (meta_ban m x) \<subseteq> fst ` set m \<union> {be_ip x}" for m x
    by (auto simp: meta_ban_def map_set_dom)
  have i: "fst ` set (meta_incident m x) \<subseteq> fst ` set m \<union> set_option (ir_ip x)" for m x
    by (cases "ir_ip x") (auto simp: meta_incident_def Let_def map_set_dom truthy_def)
  have a: "fst ` set (meta_ack m x) \<subseteq> fst ` set m \<union> {the (sk_ack_key x)}" for m x
    by (auto simp: meta_ack_def Let_def map_set_dom)
  have f: "fst ` set (meta_fallback m x) \<subseteq> fst ` set m \<union> {fi_ip x}" for m x
    by (simp add: meta_fallback_def map_set_dom)
  note fs = foldl_keys [where f = meta_ban and A = "\<lambda>x. {be_ip x}", OF b]
    foldl_keys [where f = meta_incident and A = "\<lambda>x. set_option (ir_ip x)", OF i]
    foldl_keys [where f = meta_ack and A = "\<lambda>x. {the (sk_ack_key x)}", OF a]
    foldl_keys [where f = meta_fallback and A = "\<lambda>x. {fi_ip x}", OF f]
  have inc: "(\<Union>x\<in>set incidents. set_option (ir_ip x)) = set (List.map_filter ir_ip incidents)"
    by (induction incidents) (simp_all add: map_filter_simps split: option.split)
  let ?B = "foldl meta_ban [] bans" and ?I = "foldl meta_incident (foldl meta_ban [] bans) incidents"
  have chain: "B \<subseteq> b \<Longrightarrow> I \<subseteq> B \<union> i \<Longrightarrow> A \<subseteq> I \<union> a \<Longrightarrow> A \<subseteq> b \<union> i \<union> a \<union> f" for A B I a b i f :: "string set"
    by blast
  have "fst ` set ?B \<subseteq> be_ip ` set bans" using fs(1) [where m = "[]" and xs = bans] by (simp add: UNION_singleton_eq_range)
  moreover have "fst ` set ?I \<subseteq> fst ` set ?B \<union> set (List.map_filter ir_ip incidents)"
    unfolding inc [symmetric] by (rule fs(2))
  moreover have "fst ` set (foldl meta_ack ?I acks) \<subseteq> fst ` set ?I \<union> (\<lambda>a. the (sk_ack_key a)) ` set acks"
    using fs(3) [where m = ?I and xs = acks] by (simp add: UNION_singleton_eq_range)
  ultimately have live: "fst ` set (foldl meta_ack ?I acks) \<subseteq> attack_sources bans incidents acks fallback"
    unfolding attack_sources_def set_map by (rule chain)
  have "fst ` set (foldl meta_fallback [] fallback) \<subseteq> attack_sources bans incidents acks fallback"
    using fs(4) [where m = "[]" and xs = fallback] by (simp add: UNION_singleton_eq_range attack_sources_def le_supI2)
  with live show ?thesis by (simp add: attack_meta_def Let_def)
qed

text \<open>C22. The attack map: from a cache with at most 512 entries, each keyed by a trimmed
address and holding an answer for that very address or a remembered miss, every request
leaves such a cache; what it draws is at most 64 markers, one per address, counted in the
reply, each for an address (up to surrounding white space) of a ban, an incident, an
acknowledgement or a fallback report, and none at all when the lookup is switched off.\<close>

theorem attack_map_sound:
  assumes "geo_ok c" "attack_geo_GET d env cwd c = (r, c')"
  shows "geo_ok c' \<and>
    (case r of
       None \<Rightarrow> env ''ATTACK_GEO_LOOKUP'' \<noteq> Some ''0''
     | Some q \<Rightarrow>
         let ips = map (\<lambda>k. ge_ip (mr_geo k)) (mq_markers q) in
         mq_count q = length ips \<and> length ips \<le> 64 \<and> distinct ips
         \<and> set ips \<subseteq> trim ` attack_sources (br_bans (fetchBannedIps (md_bans d) map_opts))
              (fst (fetchIncidents (md_incidents d) env))
              (filter (\<lambda>a. is_quad (sk_ack_key a)) (readAcks env cwd (md_status d)))
              (fetchFallbackAttackIps (md_json d))
         \<and> (mq_geo_lookup q = (env ''ATTACK_GEO_LOOKUP'' \<noteq> Some ''0''))
         \<and> (mq_geo_lookup q \<or> ips = [] \<and> c' = c))"
proof -
  let ?b = "br_bans (fetchBannedIps (md_bans d) map_opts)" and ?i = "fst (fetchIncidents (md_incidents d) env)"
    and ?a = "filter (\<lambda>a. is_quad (sk_ack_key a)) (readAcks env cwd (md_status d))"
    and ?f = "fetchFallbackAttackIps (md_json d)" and ?on = "env ''ATTACK_GEO_LOOKUP'' \<noteq> Some ''0''"
  obtain m src where m: "attack_meta ?b ?i ?a ?f = (m, src)" by fastforce
  have keys: "set (map fst m) \<subseteq> attack_sources ?b ?i ?a ?f" using attack_meta_keys [of ?b ?i ?a ?f] m by simp
  obtain looked c1 where l: "(if ?on then lookupManyIps (md_geo d) (map fst m) GEO_LIMIT c else (Some [], c)) = (looked, c1)"
    by fastforce
  have ips: "map (\<lambda>k. ge_ip (mr_geo k)) (map (marker_of m) gs) = map ge_ip gs" for gs
    by (simp add: marker_of_def Let_def)
  have res: "c' = c1" "r = None \<longleftrightarrow> looked = None"
    "\<And>q. r = Some q \<Longrightarrow> mq_count q = length (mq_markers q) \<and> mq_geo_lookup q = ?on
       \<and> mq_markers q = map (marker_of m) (the looked)"
    using assms(2) unfolding attack_geo_GET_def Let_def m prod.case l by (auto split: option.splits)
  have ok: "geo_ok c1"
    using l assms(1) lookupManyIps_ok(1) [OF assms(1), of "md_geo d" "map fst m" GEO_LIMIT] by (cases ?on) auto
  have gs: "length (the looked) \<le> 64 \<and> distinct (map ge_ip (the looked)) \<and> set (map ge_ip (the looked)) \<subseteq> trim ` set (map fst m)
      \<and> (?on \<or> the looked = [] \<and> c1 = c)" if "looked \<noteq> None"
    using l that lookupManyIps_ok(2) [OF assms(1), of "md_geo d" "map fst m" GEO_LIMIT looked c1 "the looked"]
    by (cases ?on) (auto simp: GEO_LIMIT_def)
  show ?thesis
  proof (cases r)
    case None
    then show ?thesis using ok res l by (cases ?on) auto
  next
    case (Some q)
    note q = res(3) [OF Some] and g = gs [unfolded res(2) [symmetric]]
    have e: "map (\<lambda>k. ge_ip (mr_geo k)) (mq_markers q) = map ge_ip (the looked)"
      using q ips [of "the looked"] by (simp only:)
    have c: "mq_count q = length (the looked)" using q by simp
    have "set (map ge_ip (the looked)) \<subseteq> trim ` attack_sources ?b ?i ?a ?f"
      using g Some keys by (meson image_mono option.discI order_trans)
    then show ?thesis unfolding Some option.case Let_def e length_map c using ok res(1) q g Some by simp
  qed
qed

lemma sample_map_run:
  "(case attack_geo_GET sample_map Map.empty ''/'' [] of
      (Some q, c') \<Rightarrow> map (\<lambda>k. ge_ip (mr_geo k)) (mq_markers q) = [''8.8.4.4''] \<and> map fst c' = [''8.8.4.4'']
    | _ \<Rightarrow> False)"
  by code_simp

theorem attack_map_sound_witness:
  "case attack_geo_GET sample_map Map.empty ''/'' [] of
     (Some q, c') \<Rightarrow> geo_ok c' \<and> map fst c' = [''8.8.4.4''] \<and> mq_count q = 1 \<and> mq_geo_lookup q
   | _ \<Rightarrow> False"
proof -
  obtain r c' where r: "attack_geo_GET sample_map Map.empty ''/'' [] = (r, c')" by fastforce
  obtain q where q: "r = Some q" "map (\<lambda>k. ge_ip (mr_geo k)) (mq_markers q) = [''8.8.4.4'']" "map fst c' = [''8.8.4.4'']"
    using sample_map_run unfolding r by (cases r) simp_all
  have "geo_ok []" by (simp add: geo_ok_def map_wf_def)
  from attack_map_sound [OF this r] show ?thesis unfolding r q(1) by (simp add: q Let_def)
qed

end
