(* ===== verification/Pdf.thy ===== *)
theory Pdf
  imports JsNumber
begin

text \<open>
  The PDF writer \<^verbatim>\<open>lib/pdfBuilder.ts\<close>: the class \<^verbatim>\<open>SimplePdf\<close> with its drawing
  operations and \<^verbatim>\<open>build\<close>, and \<^verbatim>\<open>wrapLines\<close>.

  A text handed to the writer is a list of UTF-16 code units, since the writer transliterates
  letters above \<open>U+00FF\<close>; what it writes are characters up to \<open>U+00FF\<close>, and \<open>build\<close> returns
  the bytes of their UTF-8 encoding.  Coordinates are doubles.

  The lemmas show that a reader that follows \<^verbatim>\<open>startxref\<close>, the cross-reference table and
  \<^verbatim>\<open>/Length\<close> finds every object and every page, and that no text can end its string literal.
\<close>

type_synonym ustring = "nat list"

definition lat :: "string \<Rightarrow> ustring" where
  "lat s = map of_char s"

text \<open>\<open>xs.join(sep)\<close>\<close>

fun u_join :: "ustring \<Rightarrow> ustring list \<Rightarrow> ustring" where
  "u_join sep [] = []"
| "u_join sep [x] = x"
| "u_join sep (x # xs) = x @ sep @ u_join sep xs"

abbreviation nl :: char where "nl \<equiv> CHR 0x0A"

subsection \<open>State and drawing operations\<close>

type_synonym rgb = "rat \<times> rat \<times> rat"

record simple_pdf =
  pd_streams :: "string list"
  pd_ops :: "string list"
  pd_y :: rat

abbreviation pdf_w :: rat where "pdf_w \<equiv> 595"
abbreviation pdf_h :: rat where "pdf_h \<equiv> 842"
abbreviation pdf_margin :: rat where "pdf_margin \<equiv> 44"
abbreviation pdf_bottom :: rat where "pdf_bottom \<equiv> 48"

definition flush :: "simple_pdf \<Rightarrow> string list" where
  "flush p = (if pd_ops p = [] then pd_streams p else pd_streams p @ [join [nl] (pd_ops p)])"

definition newPage :: "simple_pdf \<Rightarrow> simple_pdf" where
  "newPage p = \<lparr> pd_streams = flush p, pd_ops = [], pd_y = fsub pdf_h pdf_margin \<rparr>"

definition new_SimplePdf :: simple_pdf where
  "new_SimplePdf = newPage \<lparr> pd_streams = [], pd_ops = [], pd_y = 0 \<rparr>"

definition ensure :: "rat \<Rightarrow> simple_pdf \<Rightarrow> simple_pdf" where
  "ensure mn p = (if fsub (pd_y p) mn < pdf_bottom then newPage p else p)"

text \<open>The table \<^verbatim>\<open>tr\<close> of \<^verbatim>\<open>esc\<close>.\<close>

definition translit :: "(nat \<times> char) list" where
  "translit =
     [(0x15F, CHR ''s''), (0x15E, CHR ''S''), (0x131, CHR ''i''), (0x130, CHR ''I''), (0x11F, CHR ''g''),
      (0x11E, CHR ''G''), (0xFC, CHR ''u''), (0xDC, CHR ''U''), (0xF6, CHR ''o''), (0xD6, CHR ''O''),
      (0xE7, CHR ''c''), (0xC7, CHR ''C''), (0x2014, CHR ''-''), (0x2013, CHR ''-'')]"

definition esc_unit :: "nat \<Rightarrow> char" where
  "esc_unit u =
     (case map_of translit u of Some c \<Rightarrow> c
      | None \<Rightarrow> if u < 256 then char_of u else CHR ''?'')"

definition esc :: "ustring \<Rightarrow> string" where
  "esc s = concat (map (\<lambda>u. let c = esc_unit u in
     if c = CHR 0x5C \<or> c = CHR ''('' \<or> c = CHR '')'' then [CHR 0x5C, c] else [c]) s)"

definition emit :: "string \<Rightarrow> simple_pdf \<Rightarrow> simple_pdf" where
  "emit cmd p = p\<lparr>pd_ops := pd_ops p @ [cmd]\<rparr>"

definition nums :: "rat list \<Rightarrow> string" where
  "nums xs = join '' '' (map show_num xs)"

definition rgb_op :: "rgb \<Rightarrow> string" where
  "rgb_op col = (case col of (r, g, b) \<Rightarrow> nums [r, g, b] @ '' rg'')"

definition fillRect :: "rat \<Rightarrow> rat \<Rightarrow> rat \<Rightarrow> rat \<Rightarrow> rgb \<Rightarrow> simple_pdf \<Rightarrow> simple_pdf" where
  "fillRect x y w h col p =
     emit ''Q'' (emit (nums [x, y, w, h] @ '' re f'') (emit (rgb_op col) (emit ''q'' p)))"

definition strokeRect :: "rat \<Rightarrow> rat \<Rightarrow> rat \<Rightarrow> rat \<Rightarrow> rat \<Rightarrow> simple_pdf \<Rightarrow> simple_pdf" where
  "strokeRect x y w h width p =
     emit (nums [x, y, w, h] @ '' re S'') (emit (show_num width @ '' w'') p)"

definition line :: "rat \<Rightarrow> rat \<Rightarrow> rat \<Rightarrow> rat \<Rightarrow> rat \<Rightarrow> simple_pdf \<Rightarrow> simple_pdf" where
  "line x1 y1 x2 y2 width p =
     emit (nums [x1, y1] @ '' m '' @ nums [x2, y2] @ '' l S'') (emit (show_num width @ '' w'') p)"

record text_opts =
  to_size :: "rat option"
  to_bold :: bool
  to_color :: "rgb option"
  to_maxWidth :: "rat option"
  to_lineHeight :: "rat option"

definition no_opts :: text_opts where
  "no_opts = \<lparr> to_size = None, to_bold = False, to_color = None, to_maxWidth = None, to_lineHeight = None \<rparr>"

definition pdf_text :: "rat \<Rightarrow> rat \<Rightarrow> ustring \<Rightarrow> text_opts \<Rightarrow> simple_pdf \<Rightarrow> simple_pdf" where
  "pdf_text x y t opts p =
     (let size = nullish (to_size opts) 10; font = (if to_bold opts then ''/F2'' else ''/F1'')
      in emit ''ET'' (emit (''('' @ esc t @ '') Tj'') (emit (''1 0 0 1 '' @ nums [x, y] @ '' Tm'')
           (emit (rgb_op (nullish (to_color opts) (0, 0, 0))) (emit (font @ '' '' @ show_num size @ '' Tf'') (emit ''BT'' p))))))"

subsection \<open>Lines\<close>

text \<open>The code units \<^verbatim>\<open>\s\<close> matches.\<close>

definition u_ws :: "nat \<Rightarrow> bool" where
  "u_ws u = (u \<in> {9, 10, 11, 12, 13, 0x20, 0xA0, 0x1680, 0x2028, 0x2029, 0x202F, 0x205F, 0x3000, 0xFEFF}
             \<or> 0x2000 \<le> u \<and> u \<le> 0x200A)"

text \<open>\<open>text.split(/\s+/)\<close>.\<close>

function split_ws :: "ustring \<Rightarrow> ustring list" where
  "split_ws [] = [[]]"
| "split_ws (u # s) =
     (if u_ws u then [] # split_ws (dropWhile u_ws s)
      else case split_ws s of [] \<Rightarrow> [[u]] | w # ws \<Rightarrow> (u # w) # ws)"
  by pat_completeness auto
termination
proof (relation "measure length")
  show "(dropWhile u_ws s, u # s) \<in> measure length" for u s
    using length_dropWhile_le [of u_ws s] by simp
qed simp_all

definition wrap_step :: "nat \<Rightarrow> ustring list \<times> ustring \<Rightarrow> ustring \<Rightarrow> ustring list \<times> ustring" where
  "wrap_step maxChars st w =
     (case st of (lines, cur) \<Rightarrow>
        let nxt = (if cur = [] then w else cur @ lat '' '' @ w)
        in if maxChars < length nxt \<and> cur \<noteq> [] then (lines @ [cur], w) else (lines, nxt))"

definition wrapLines :: "ustring \<Rightarrow> nat \<Rightarrow> ustring list" where
  "wrapLines t maxChars =
     (case foldl (wrap_step maxChars) ([], []) (filter (\<lambda>w. w \<noteq> []) (split_ws t)) of (lines, cur) \<Rightarrow>
        let ls = (if cur = [] then lines else lines @ [cur]) in if ls = [] then [[]] else ls)"

definition textLine :: "rat \<Rightarrow> ustring \<Rightarrow> text_opts \<Rightarrow> simple_pdf \<Rightarrow> simple_pdf" where
  "textLine x t opts p =
     (let size = nullish (to_size opts) 10;
          lh = nullish (to_lineHeight opts) (max (fadd size 8) 14);
          q = pdf_text x (pd_y (ensure lh p)) t opts (ensure lh p)
      in q\<lparr>pd_y := fsub (pd_y q) lh\<rparr>)"

definition block_line :: "rat \<Rightarrow> text_opts \<Rightarrow> rat \<Rightarrow> simple_pdf \<Rightarrow> ustring \<Rightarrow> simple_pdf" where
  "block_line x opts lh p cur =
     (let q = pdf_text x (pd_y (ensure lh p)) cur opts (ensure lh p) in q\<lparr>pd_y := fsub (pd_y q) lh\<rparr>)"

definition textBlock :: "rat \<Rightarrow> ustring \<Rightarrow> text_opts \<Rightarrow> simple_pdf \<Rightarrow> simple_pdf" where
  "textBlock x t opts p =
     (let size = nullish (to_size opts) 10;
          lh = nullish (to_lineHeight opts) (fadd size 4);
          mx = nullish (to_maxWidth opts) (fsub pdf_w (fmul pdf_margin 2));
          approxChars = max 20 \<lfloor>fdiv mx (fmul size (fl (52 / 100)))\<rfloor>
      in foldl (block_line x opts lh) p (wrapLines t (nat approxChars)))"

definition gap :: "rat \<Rightarrow> simple_pdf \<Rightarrow> simple_pdf" where
  "gap n p = p\<lparr>pd_y := fsub (pd_y p) n\<rparr>"

definition setY :: "rat \<Rightarrow> simple_pdf \<Rightarrow> simple_pdf" where
  "setY y p = p\<lparr>pd_y := y\<rparr>"

subsection \<open>The file\<close>

definition obj_text :: "nat \<Rightarrow> string \<Rightarrow> string" where
  "obj_text n body = show_nat n @ '' 0 obj'' @ [nl] @ body @ [nl] @ ''endobj'' @ [nl]"

definition page_objects :: "nat \<Rightarrow> nat \<Rightarrow> string \<Rightarrow> string list" where
  "page_objects fontRegularId i stream =
     (let pageId = 3 + i * 2; contentId = pageId + 1 in
      [obj_text pageId (''<< /Type /Page /Parent 2 0 R /MediaBox [0 0 '' @ show_num pdf_w @ '' '' @ show_num pdf_h
          @ ''] /Contents '' @ show_nat contentId @ '' 0 R /Resources << /Font << /F1 '' @ show_nat fontRegularId
          @ '' 0 R /F2 '' @ show_nat (fontRegularId + 1) @ '' 0 R >> >> >>''),
       obj_text contentId (''<< /Length '' @ show_nat (length (utf8 stream)) @ '' >>'' @ [nl] @ ''stream'' @ [nl]
          @ stream @ [nl] @ ''endstream'')])"

definition pdf_objects :: "string list \<Rightarrow> string list" where
  "pdf_objects streams =
     (let pageCount = length streams;
          kids = join '' '' (map (\<lambda>i. show_nat (3 + i * 2) @ '' 0 R'') [0..<pageCount]);
          fontRegularId = 3 + pageCount * 2
      in [obj_text 1 ''<< /Type /Catalog /Pages 2 0 R >>'',
          obj_text 2 (''<< /Type /Pages /Kids ['' @ kids @ ''] /Count '' @ show_nat pageCount @ '' >>'')]
         @ concat (map (\<lambda>i. page_objects fontRegularId i (streams ! i)) [0..<pageCount])
         @ [obj_text fontRegularId ''<< /Type /Font /Subtype /Type1 /BaseFont /Helvetica >>'',
            obj_text (fontRegularId + 1) ''<< /Type /Font /Subtype /Type1 /BaseFont /Helvetica-Bold >>''])"

definition add_object :: "string \<times> nat list \<Rightarrow> string \<Rightarrow> string \<times> nat list" where
  "add_object st obj = (case st of (pdf, offsets) \<Rightarrow> (pdf @ obj, offsets @ [length (utf8 pdf)]))"

definition xref_entry :: "nat \<Rightarrow> string" where
  "xref_entry off = pad0 10 (show_nat off) @ '' 00000 n '' @ [nl]"

definition pdf_string :: "string list \<Rightarrow> string" where
  "pdf_string objects =
     (let (pdf, offsets) = foldl add_object (''%PDF-1.4'' @ [nl], [0]) objects;
          xrefPos = length (utf8 pdf);
          size = show_nat (length objects + 1)
      in pdf @ ''xref'' @ [nl] @ ''0 '' @ size @ [nl] @ ''0000000000 65535 f '' @ [nl]
         @ concat (map (\<lambda>i. xref_entry (offsets ! i)) [1..<length objects + 1])
         @ ''trailer'' @ [nl] @ ''<< /Size '' @ size @ '' /Root 1 0 R >>'' @ [nl]
         @ ''startxref'' @ [nl] @ show_nat xrefPos @ [nl] @ ''%%EOF'' @ [nl])"

definition build :: "simple_pdf \<Rightarrow> nat list" where
  "build p = utf8 (pdf_string (pdf_objects (flush p)))"

subsection \<open>A reader\<close>

text \<open>How a viewer opens the file: the number before the end marker is the byte position of the
  cross-reference table, whose entries have 20 bytes each and begin with the byte position of
  an object; the contents of a stream are as many bytes as its dictionary says.\<close>

definition is_digit_byte :: "nat \<Rightarrow> bool" where
  "is_digit_byte b = (48 \<le> b \<and> b \<le> 57)"

definition bytes_val :: "nat list \<Rightarrow> nat" where
  "bytes_val bs = foldl (\<lambda>n b. 10 * n + (b - 48)) 0 bs"

definition skip_line :: "nat list \<Rightarrow> nat list" where
  "skip_line bs = tl (dropWhile (\<lambda>b. b \<noteq> 10) bs)"

definition read_startxref :: "nat list \<Rightarrow> nat" where
  "read_startxref bs = bytes_val (rev (takeWhile is_digit_byte (drop 7 (rev bs))))"

definition read_xref :: "nat list \<Rightarrow> nat \<Rightarrow> nat" where
  "read_xref bs n = bytes_val (take 10 (drop (20 * n) (skip_line (skip_line (drop (read_startxref bs) bs)))))"

definition read_object :: "nat list \<Rightarrow> nat \<Rightarrow> nat list" where
  "read_object bs n = drop (read_xref bs n) bs"

definition read_stream :: "nat list \<Rightarrow> nat \<Rightarrow> nat list" where
  "read_stream bs n =
     (let dict = skip_line (read_object bs n);
          len = bytes_val (takeWhile is_digit_byte (drop (length ''<< /Length '') dict))
      in take len (skip_line (skip_line dict)))"

subsection \<open>Bytes\<close>

lemma utf8_Nil [simp]: "utf8 [] = []"
  by (simp add: utf8_def)

lemma utf8_append [simp]: "utf8 (s @ t) = utf8 s @ utf8 t"
  by (simp add: utf8_def)

lemma utf8_concat: "utf8 (concat ss) = concat (map utf8 ss)"
  by (induction ss) auto

lemma utf8_Cons_ascii [simp]: "of_char c < (128 :: nat) \<Longrightarrow> utf8 (c # s) = of_char c # utf8 s"
  by (simp add: utf8_def utf8_char_def Let_def)

lemma digit_byte: "is_digit c \<Longrightarrow> is_digit_byte (of_char c)" "is_digit c \<Longrightarrow> of_char c < (128 :: nat)"
  by (auto simp: is_digit_def is_digit_byte_def)

lemma utf8_digits:
  assumes "\<And>c. c \<in> set ds \<Longrightarrow> is_digit c"
  shows "utf8 ds = map of_char ds"
  using assms by (induction ds) (auto simp: digit_byte)

lemma bytes_val_digits: "bytes_val (map of_char ds) = dec_val ds"
  by (simp add: bytes_val_def dec_val_def digit_val_def foldl_map)

lemma utf8_show_nat: "utf8 (show_nat n) = map of_char (show_nat n)"
  by (rule utf8_digits) (rule show_nat_digits)

lemma show_nat_bytes: "b \<in> set (map of_char (show_nat n)) \<Longrightarrow> is_digit_byte b"
  by (auto intro: digit_byte show_nat_digits)

lemma digit_bytes_not: "\<not> is_digit_byte 10" "\<not> is_digit_byte 32"
  by (simp_all add: is_digit_byte_def)

lemma takeWhile_show_nat:
  "\<not> is_digit_byte b \<Longrightarrow> takeWhile is_digit_byte (map of_char (show_nat n) @ b # bs) = map of_char (show_nat n)"
  using show_nat_bytes [of _ n] by (subst takeWhile_append2) auto

lemma takeWhile_rev_show_nat:
  "\<not> is_digit_byte b \<Longrightarrow> takeWhile is_digit_byte (rev (map of_char (show_nat n)) @ b # bs) = rev (map of_char (show_nat n))"
  using show_nat_bytes [of _ n] by (subst takeWhile_append2) auto

lemma skip_line_append: "10 \<notin> set l \<Longrightarrow> skip_line (l @ 10 # bs) = bs"
  by (induction l) (auto simp: skip_line_def)

lemma show_nat_no_break: "10 \<notin> set (map of_char (show_nat n) :: nat list)"
  using show_nat_bytes [of 10 n] digit_bytes_not by blast

lemma length_show_nat_le: "n < 10 ^ k \<Longrightarrow> 0 < k \<Longrightarrow> length (show_nat n) \<le> k"
proof (induction k arbitrary: n)
  case (Suc k)
  show ?case
  proof (cases "n < 10")
    case True
    then show ?thesis by (subst show_nat.simps) simp
  next
    case False
    then have "0 < k" using Suc.prems by (cases k) auto
    moreover have "n div 10 < 10 ^ k" using Suc.prems(1) by (simp add: less_mult_imp_div_less mult.commute)
    ultimately show ?thesis using Suc.IH [of "n div 10"] False by (subst show_nat.simps) simp
  qed
qed simp

lemma dec_val_zeros: "dec_val (replicate k CHR ''0'' @ ds) = dec_val ds"
  by (induction k) (simp_all add: dec_val_def digit_val_def)

lemma pad0_digits: "c \<in> set (pad0 k (show_nat n)) \<Longrightarrow> is_digit c"
  by (auto simp: pad0_def is_digit_def [of "CHR ''0''"] show_nat_digits)

lemma utf8_pad0: "utf8 (pad0 k (show_nat n)) = map of_char (pad0 k (show_nat n))"
  by (rule utf8_digits) (rule pad0_digits)

lemma pad0_val: "bytes_val (map of_char (pad0 k (show_nat n))) = n"
  by (simp only: bytes_val_digits) (simp add: pad0_def dec_val_zeros)

lemma length_pad0: "n < 10 ^ k \<Longrightarrow> 0 < k \<Longrightarrow> length (pad0 k (show_nat n)) = k"
  using length_show_nat_le [of n k] by (simp add: pad0_def)

lemma drop_blocks:
  assumes "\<And>x. x \<in> set xs \<Longrightarrow> length (f x) = n" "i < length xs"
  shows "\<exists>rest. drop (n * i) (concat (map f xs) @ bs) = f (xs ! i) @ rest"
  using assms
proof (induction xs arbitrary: i)
  case (Cons x xs)
  show ?case
  proof (cases i)
    case (Suc j)
    then show ?thesis using Cons.IH [of j] Cons.prems by simp
  qed simp
qed simp

subsection \<open>The file is readable\<close>

lemma foldl_add_object:
  "foldl add_object (pdf, offs) objs =
     (pdf @ concat objs, offs @ map (\<lambda>k. length (utf8 (pdf @ concat (take k objs)))) [0..<length objs])"
proof (induction objs rule: rev_induct)
  case (snoc obj objs)
  have "map (\<lambda>k. length (utf8 (pdf @ concat (take k objs)))) [0..<length objs]
      = map (\<lambda>k. length (utf8 (pdf @ concat (take k (objs @ [obj]))))) [0..<length objs]"
    by (rule map_cong) auto
  then show ?case using snoc by (simp add: add_object_def)
qed simp

definition object_offset :: "string list \<Rightarrow> nat \<Rightarrow> nat" where
  "object_offset objs k = length (utf8 (''%PDF-1.4'' @ [nl] @ concat (take k objs)))"

lemma pdf_string_parts:
  "pdf_string objs =
     (''%PDF-1.4'' @ [nl] @ concat objs) @ ''xref'' @ [nl] @ (''0 '' @ show_nat (length objs + 1)) @ [nl]
     @ ''0000000000 65535 f '' @ [nl] @ concat (map (\<lambda>k. xref_entry (object_offset objs k)) [0..<length objs])
     @ ''trailer'' @ [nl] @ ''<< /Size '' @ show_nat (length objs + 1) @ '' /Root 1 0 R >>'' @ [nl]
     @ ''startxref'' @ [nl] @ show_nat (object_offset objs (length objs)) @ [nl] @ ''%%EOF'' @ [nl]"
proof -
  let ?o = "\<lambda>k. length (utf8 ((''%PDF-1.4'' @ [nl]) @ concat (take k objs)))"
  have "map (\<lambda>i. xref_entry (([0] @ map ?o [0..<length objs]) ! i)) [1..<length objs + 1]
      = map (\<lambda>k. xref_entry (object_offset objs k)) [0..<length objs]"
    by (simp add: map_Suc_upt [symmetric] object_offset_def comp_def del: upt_Suc)
  then show ?thesis
    by (simp only: pdf_string_def foldl_add_object Let_def prod.case) (simp add: object_offset_def)
qed

lemma utf8_line: "of_char c < (128 :: nat) \<Longrightarrow> utf8 (s @ c # t) = utf8 s @ of_char c # utf8 t"
  by simp

lemma read_startxref_pdf: "read_startxref (utf8 (pdf_string objs)) = object_offset objs (length objs)"
proof -
  let ?n = "show_nat (object_offset objs (length objs))"
  obtain pre where "utf8 (pdf_string objs) = (pre @ [10]) @ map of_char ?n @ [10, 37, 37, 69, 79, 70, 10]"
    by (simp add: pdf_string_parts utf8_show_nat)
  then have "read_startxref (utf8 (pdf_string objs)) = bytes_val (map of_char ?n)"
    unfolding read_startxref_def using takeWhile_rev_show_nat [OF digit_bytes_not(1)] by simp
  then show ?thesis by (simp add: bytes_val_digits)
qed

lemma xref_entry_bytes:
  assumes "off < 10 ^ 10"
  shows "length (utf8 (xref_entry off)) = 20" "bytes_val (take 10 (utf8 (xref_entry off) @ bs)) = off"
  using length_pad0 [OF assms] pad0_val [of 10 off] by (simp_all add: xref_entry_def utf8_pad0)

lemma read_xref_pdf:
  assumes "k < length objs" "\<And>j. j < length objs \<Longrightarrow> object_offset objs j < 10 ^ 10"
  shows "read_xref (utf8 (pdf_string objs)) (k + 1) = object_offset objs k"
proof -
  let ?es = "concat (map (\<lambda>k. utf8 (xref_entry (object_offset objs k))) [0..<length objs])"
  let ?h = "utf8 (''%PDF-1.4'' @ [nl] @ concat objs)"
  obtain post where b: "utf8 (pdf_string objs) =
      ?h @ (map of_char ''xref'' @ 10 # (map of_char ''0 '' @ map of_char (show_nat (length objs + 1)))
        @ 10 # map of_char ''0000000000 65535 f '' @ 10 # ?es @ post)"
    by (simp add: pdf_string_parts utf8_show_nat utf8_concat comp_def)
  have s: "10 \<notin> set (map of_char ''xref'' :: nat list)"
      "10 \<notin> set (map of_char ''0 '' @ map of_char (show_nat (length objs + 1)) :: nat list)"
    using show_nat_no_break [of "length objs + 1"] by simp_all
  have "length ?h = object_offset objs (length objs)" by (simp add: object_offset_def)
  then have "drop (read_startxref (utf8 (pdf_string objs))) (utf8 (pdf_string objs)) =
      map of_char ''xref'' @ 10 # (map of_char ''0 '' @ map of_char (show_nat (length objs + 1)))
        @ 10 # map of_char ''0000000000 65535 f '' @ 10 # ?es @ post"
    unfolding read_startxref_pdf using b by (metis append_eq_conv_conj)
  then have "skip_line (skip_line (drop (read_startxref (utf8 (pdf_string objs))) (utf8 (pdf_string objs)))) =
      map of_char ''0000000000 65535 f '' @ 10 # ?es @ post"
    by (simp only: skip_line_append [OF s(1)] skip_line_append [OF s(2)])
  moreover obtain rest where "drop (20 * k) (?es @ post) = utf8 (xref_entry (object_offset objs k)) @ rest"
    using drop_blocks [of "[0..<length objs]" "\<lambda>k. utf8 (xref_entry (object_offset objs k))" 20 k post]
      xref_entry_bytes(1) assms by auto
  moreover have "drop (20 * (k + 1)) (map of_char ''0000000000 65535 f '' @ 10 # X) = drop (20 * k) X" for X :: "nat list"
    using drop_drop [of "20 * k" 20 "map of_char ''0000000000 65535 f '' @ 10 # X"] by (simp add: add.commute)
  ultimately show ?thesis
    unfolding read_xref_def using xref_entry_bytes(2) [OF assms(2) [OF assms(1)]] by (simp only:)
qed

lemma read_object_pdf:
  assumes "k < length objs" "length (utf8 (pdf_string objs)) < 10 ^ 10"
  shows "\<exists>rest. read_object (utf8 (pdf_string objs)) (k + 1) = utf8 (objs ! k) @ rest"
proof -
  have off: "object_offset objs j < 10 ^ 10" for j
  proof -
    have "concat objs = concat (take j objs) @ concat (drop j objs)"
      by (metis append_take_drop_id concat_append)
    then have "object_offset objs j \<le> length (utf8 (pdf_string objs))"
      by (simp add: pdf_string_parts object_offset_def)
    then show ?thesis using assms(2) by simp
  qed
  have "concat objs = concat (take k objs) @ objs ! k @ concat (drop (Suc k) objs)"
    using assms(1) by (metis append.assoc concat.simps(2) concat_append id_take_nth_drop)
  then obtain rest where "utf8 (pdf_string objs) =
      utf8 (''%PDF-1.4'' @ [nl] @ concat (take k objs)) @ utf8 (objs ! k) @ rest"
    by (simp add: pdf_string_parts)
  then show ?thesis
    unfolding read_object_def read_xref_pdf [OF assms(1) off] by (simp add: object_offset_def)
qed

text \<open>The objects are numbered from one without a gap, the contents of page \<open>i\<close> being object
  \<open>4 + 2 * i\<close>.\<close>

definition content_body :: "string \<Rightarrow> string" where
  "content_body stream =
     ''<< /Length '' @ show_nat (length (utf8 stream)) @ '' >>'' @ [nl] @ ''stream'' @ [nl] @ stream @ [nl] @ ''endstream''"

lemma page_objects_numbered:
  "\<exists>body. concat (map (\<lambda>i. page_objects f i (streams ! i)) [0..<n]) = map (\<lambda>k. obj_text (k + 3) (body k)) [0..<2 * n]
     \<and> (\<forall>i < n. body (2 * i + 1) = content_body (streams ! i))"
proof (induction n)
  case (Suc n)
  then obtain body where b: "concat (map (\<lambda>i. page_objects f i (streams ! i)) [0..<n]) = map (\<lambda>k. obj_text (k + 3) (body k)) [0..<2 * n]"
      "\<And>i. i < n \<Longrightarrow> body (2 * i + 1) = content_body (streams ! i)" by blast
  obtain pg where pg: "page_objects f n (streams ! n) = [obj_text (2 * n + 3) pg, obj_text (2 * n + 4) (content_body (streams ! n))]"
    by (simp add: page_objects_def content_body_def Let_def ac_simps)
  let ?body = "body(2 * n := pg, 2 * n + 1 := content_body (streams ! n))"
  have "map (\<lambda>k. obj_text (k + 3) (?body k)) [0..<2 * n] = map (\<lambda>k. obj_text (k + 3) (body k)) [0..<2 * n]"
    by (rule map_cong) auto
  then have "concat (map (\<lambda>i. page_objects f i (streams ! i)) [0..<Suc n]) = map (\<lambda>k. obj_text (k + 3) (?body k)) [0..<2 * Suc n]"
    using b(1) pg by (simp add: add.commute)
  moreover have "?body (2 * i + 1) = content_body (streams ! i)" if "i < Suc n" for i
    using b(2) [of i] that by (cases "i = n") auto
  ultimately show ?case by blast
qed simp

lemma pdf_objects_numbered:
  "length (pdf_objects streams) = 2 * length streams + 4"
  "k < 2 * length streams + 4 \<Longrightarrow> \<exists>body. pdf_objects streams ! k = obj_text (k + 1) body"
  "i < length streams \<Longrightarrow> pdf_objects streams ! (2 * i + 3) = obj_text (2 * i + 4) (content_body (streams ! i))"
proof -
  let ?n = "length streams"
  obtain body where b: "concat (map (\<lambda>i. page_objects (3 + ?n * 2) i (streams ! i)) [0..<?n])
        = map (\<lambda>k. obj_text (k + 3) (body k)) [0..<2 * ?n]"
      "\<And>i. i < ?n \<Longrightarrow> body (2 * i + 1) = content_body (streams ! i)"
    using page_objects_numbered [of "3 + ?n * 2" streams ?n] by blast
  obtain b1 b2 f1 f2 where o: "pdf_objects streams =
      [obj_text 1 b1, obj_text 2 b2] @ map (\<lambda>k. obj_text (k + 3) (body k)) [0..<2 * ?n]
        @ [obj_text (2 * ?n + 3) f1, obj_text (2 * ?n + 4) f2]"
    unfolding pdf_objects_def Let_def b(1) by (auto simp: mult.commute add.commute)
  show "length (pdf_objects streams) = 2 * ?n + 4" by (simp add: o)
  show "\<exists>body. pdf_objects streams ! k = obj_text (k + 1) body" if "k < 2 * ?n + 4"
  proof -
    have "k = 0 \<or> k = 1 \<or> (\<exists>j. k = j + 2 \<and> j < 2 * ?n) \<or> k = 2 * ?n + 2 \<or> k = 2 * ?n + 3"
      using that by presburger
    then consider "k = 0" | "k = 1" | j where "k = j + 2" "j < 2 * ?n" | "k = 2 * ?n + 2" | "k = 2 * ?n + 3"
      by blast
    then show ?thesis
      by cases (auto simp: o nth_append nth_Cons' eval_nat_numeral)
  qed
  show "pdf_objects streams ! (2 * i + 3) = obj_text (2 * i + 4) (content_body (streams ! i))" if "i < ?n"
    using that b(2) by (simp add: o nth_append numeral_3_eq_3 numeral_Bit0)
qed

lemma read_stream_object:
  assumes "read_object bs n = utf8 (obj_text n (content_body stream)) @ rest"
  shows "read_stream bs n = utf8 stream"
proof -
  let ?len = "map of_char (show_nat (length (utf8 stream))) :: nat list"
  have s0: "10 \<notin> set (map of_char (show_nat n) @ map of_char '' 0 obj'' :: nat list)"
    using show_nat_no_break [of n] by simp
  have "read_object bs n = (map of_char (show_nat n) @ map of_char '' 0 obj'') @ 10 # utf8 (content_body stream)
      @ utf8 ([nl] @ ''endobj'' @ [nl]) @ rest"
    using assms by (simp add: obj_text_def utf8_show_nat)
  then have "skip_line (read_object bs n) = utf8 (content_body stream) @ utf8 ([nl] @ ''endobj'' @ [nl]) @ rest"
    by (simp only: skip_line_append [OF s0])
  then obtain more where d: "skip_line (read_object bs n) =
      map of_char ''<< /Length '' @ ?len @ 32 # map of_char ''>>'' @ 10 # map of_char ''stream'' @ 10 # utf8 stream @ more"
    by (simp add: content_body_def utf8_show_nat)
  have len: "bytes_val (takeWhile is_digit_byte (drop (length ''<< /Length '') (skip_line (read_object bs n))))
      = length (utf8 stream)"
    unfolding d using takeWhile_show_nat [OF digit_bytes_not(2)] by (simp add: bytes_val_digits)
  have s: "10 \<notin> set (map of_char ''<< /Length '' @ ?len @ 32 # map of_char ''>>'')"
      "10 \<notin> set (map of_char ''stream'' :: nat list)"
    using show_nat_no_break by simp_all
  have "skip_line (read_object bs n) = (map of_char ''<< /Length '' @ ?len @ 32 # map of_char ''>>'')
      @ 10 # map of_char ''stream'' @ 10 # utf8 stream @ more"
    using d by simp
  then have "skip_line (skip_line (skip_line (read_object bs n))) = utf8 stream @ more"
    by (simp only: skip_line_append [OF s(1)] skip_line_append [OF s(2)])
  then show ?thesis by (simp only: read_stream_def Let_def len) simp
qed

subsection \<open>String literals\<close>

text \<open>A literal string of PDF, read after its opening parenthesis: a backslash keeps the next
  character, an unescaped parenthesis nests.\<close>

fun read_literal :: "nat \<Rightarrow> string \<Rightarrow> (string \<times> string) option" where
  "read_literal d [] = None"
| "read_literal d (c # s) =
     (if c = CHR 0x5C then (case s of [] \<Rightarrow> None
          | e # t \<Rightarrow> map_option (\<lambda>(r, rest). (e # r, rest)) (read_literal d t))
      else if c = CHR '')'' then (if d = 0 then Some ([], s) else map_option (\<lambda>(r, rest). (c # r, rest)) (read_literal (d - 1) s))
      else map_option (\<lambda>(r, rest). (c # r, rest)) (read_literal (if c = CHR ''('' then d + 1 else d) s))"

lemma esc_Cons: "esc (u # t) = (let c = esc_unit u in
     if c = CHR 0x5C \<or> c = CHR ''('' \<or> c = CHR '')'' then [CHR 0x5C, c] else [c]) @ esc t"
  by (simp add: esc_def)

lemma read_literal_esc: "read_literal 0 (esc t @ CHR '')'' # rest) = Some (map esc_unit t, rest)"
  by (induction t) (auto simp: esc_Cons Let_def esc_def [of "[]"])

subsection \<open>Every operation is well formed\<close>

text \<open>An operation of a page is a text operation with an escaped literal, or it is made of numbers
  and letters and has neither parenthesis nor line break.\<close>

definition op_ok :: "string \<Rightarrow> bool" where
  "op_ok s \<longleftrightarrow> (\<exists>t. s = ''('' @ esc t @ '') Tj'') \<or> CHR ''('' \<notin> set s \<and> CHR '')'' \<notin> set s \<and> nl \<notin> set s"

definition pdf_ok :: "simple_pdf \<Rightarrow> bool" where
  "pdf_ok p \<longleftrightarrow> list_all op_ok (pd_ops p)
     \<and> (\<forall>s \<in> set (pd_streams p). \<exists>ops. ops \<noteq> [] \<and> s = join [nl] ops \<and> list_all op_ok ops)"

lemma set_join: "set (join s xs) \<subseteq> set s \<union> \<Union> (set ` set xs)"
  by (induction s xs rule: join.induct) auto

lemma num_not: "\<not> num_char (CHR ''('')" "\<not> num_char (CHR '')'')" "\<not> num_char nl"
  by (simp_all add: num_char_def is_digit_def)

lemma show_num_not [simp]: "CHR ''('' \<notin> set (show_num x)" "CHR '')'' \<notin> set (show_num x)" "nl \<notin> set (show_num x)"
  using show_num_chars [of _ x] num_not by blast+

lemma nums_not [simp]: "CHR ''('' \<notin> set (nums xs)" "CHR '')'' \<notin> set (nums xs)" "nl \<notin> set (nums xs)"
  using set_join [of "'' ''" "map show_num xs"] by (auto simp: nums_def)

lemma rgb_not [simp]: "CHR ''('' \<notin> set (rgb_op col)" "CHR '')'' \<notin> set (rgb_op col)" "nl \<notin> set (rgb_op col)"
  by (auto simp: rgb_op_def split: prod.splits)

lemma op_ok_plain: "CHR ''('' \<notin> set s \<Longrightarrow> CHR '')'' \<notin> set s \<Longrightarrow> nl \<notin> set s \<Longrightarrow> op_ok s"
  by (simp add: op_ok_def)

lemma op_ok_text: "op_ok (''('' @ esc t @ '') Tj'')"
  unfolding op_ok_def by blast

text \<open>What holds of the pages when every emitted operation is well formed: a predicate that
  emitting such an operation, beginning a page and moving the cursor keep is kept by every
  drawing operation.\<close>

locale page_invariant =
  fixes inv :: "simple_pdf \<Rightarrow> bool"
  assumes inv_emit: "inv p \<Longrightarrow> op_ok s \<Longrightarrow> inv (emit s p)"
    and inv_newPage: "inv p \<Longrightarrow> inv (newPage p)"
    and inv_y: "inv (p\<lparr>pd_y := y\<rparr>) = inv p"
begin

lemma inv_ensure: "inv p \<Longrightarrow> inv (ensure mn p)"
  by (simp add: ensure_def inv_newPage)

lemma inv_fillRect: "inv p \<Longrightarrow> inv (fillRect x y w h col p)"
  unfolding fillRect_def by (intro inv_emit op_ok_plain) simp_all

lemma inv_strokeRect: "inv p \<Longrightarrow> inv (strokeRect x y w h wd p)"
  unfolding strokeRect_def by (intro inv_emit op_ok_plain) simp_all

lemma inv_line: "inv p \<Longrightarrow> inv (line x1 y1 x2 y2 wd p)"
  unfolding line_def by (intro inv_emit op_ok_plain) simp_all

lemma inv_text: "inv p \<Longrightarrow> inv (pdf_text x y t opts p)"
  unfolding pdf_text_def Let_def
  by (rule inv_emit, rule inv_emit, intro inv_emit op_ok_plain, simp_all add: op_ok_text [simplified] op_ok_plain)

lemma inv_gap: "inv p \<Longrightarrow> inv (gap n p)"
  by (simp add: gap_def inv_y)

lemma inv_setY: "inv p \<Longrightarrow> inv (setY y p)"
  by (simp add: setY_def inv_y)

lemma inv_textLine: "inv p \<Longrightarrow> inv (textLine x t opts p)"
  by (simp add: textLine_def Let_def inv_y inv_text inv_ensure)

lemma inv_foldl: "(\<And>q x. inv q \<Longrightarrow> inv (f q x)) \<Longrightarrow> inv p \<Longrightarrow> inv (foldl f p xs)"
  by (induction xs arbitrary: p) auto

lemma inv_fold: "(\<And>q x. inv q \<Longrightarrow> inv (f x q)) \<Longrightarrow> inv p \<Longrightarrow> inv (fold f xs p)"
  by (induction xs arbitrary: p) auto

lemma inv_textBlock: "inv p \<Longrightarrow> inv (textBlock x t opts p)"
  unfolding textBlock_def Let_def
  by (rule inv_foldl) (simp_all add: block_line_def Let_def inv_y inv_text inv_ensure)

lemmas inv_intros = inv_ensure inv_fillRect inv_strokeRect inv_line inv_text inv_gap inv_setY inv_textLine inv_textBlock

end

text \<open>Its two instances: the pages are well formed, and something has been drawn.\<close>

lemma pdf_ok_flush: "pdf_ok p \<Longrightarrow> s \<in> set (flush p) \<Longrightarrow> \<exists>ops. ops \<noteq> [] \<and> s = join [nl] ops \<and> list_all op_ok ops"
  by (auto simp: pdf_ok_def flush_def split: if_splits)

definition started :: "simple_pdf \<Rightarrow> bool" where
  "started p \<longleftrightarrow> flush p \<noteq> []"

interpretation ok: page_invariant pdf_ok
proof
  show "pdf_ok (newPage p)" if "pdf_ok p" for p
    using pdf_ok_flush [OF that] by (simp add: newPage_def pdf_ok_def)
qed (simp_all add: pdf_ok_def emit_def)

lemma started_emit: "started (emit s p)"
  by (simp add: started_def flush_def emit_def)

interpretation begun: page_invariant started
proof
  show "started (emit s p)" for s p by (rule started_emit)
qed (simp_all add: started_def flush_def newPage_def)

lemma pdf_ok_new: "pdf_ok new_SimplePdf"
  unfolding new_SimplePdf_def by (rule ok.inv_newPage) (simp add: pdf_ok_def)

text \<open>An operation as a viewer reads it: either it opens with a string literal, which ends before
  the operator, or it has no literal and is one line.\<close>

definition inert :: "string \<Rightarrow> bool" where
  "inert s =
     (case s of
        [] \<Rightarrow> True
      | c # cs \<Rightarrow>
          if c = CHR ''('' then (case read_literal 0 cs of Some (_, rest) \<Rightarrow> rest = '' Tj'' | None \<Rightarrow> False)
          else CHR ''('' \<notin> set s \<and> CHR '')'' \<notin> set s \<and> nl \<notin> set s)"

lemma inert_op: "op_ok s \<Longrightarrow> inert s"
  using read_literal_esc [of _ "'' Tj''"] by (auto simp: op_ok_def inert_def split: list.split)

lemma pdf_ok_pages:
  assumes "pdf_ok p"
  shows "\<exists>pages. flush p = map (join [nl]) pages \<and> list_all (list_all inert) pages"
proof -
  have "\<forall>s \<in> set (flush p). \<exists>ops. s = join [nl] ops \<and> list_all inert ops"
  proof
    fix s assume "s \<in> set (flush p)"
    then obtain ops where "s = join [nl] ops" "list_all op_ok ops" using pdf_ok_flush [OF assms] by blast
    then show "\<exists>ops. s = join [nl] ops \<and> list_all inert ops"
      using inert_op by (auto simp: list_all_iff)
  qed
  then obtain f where "\<And>s. s \<in> set (flush p) \<Longrightarrow> s = join [nl] (f s) \<and> list_all inert (f s)" by metis
  then have "flush p = map (join [nl]) (map f (flush p))" "list_all (list_all inert) (map f (flush p))"
    by (auto simp: list_all_iff intro!: map_idI [symmetric])
  then show ?thesis by blast
qed

subsection \<open>Line breaking\<close>

definition words_of :: "ustring \<Rightarrow> ustring list" where
  "words_of t = filter (\<lambda>w. w \<noteq> []) (split_ws t)"

fun ujoin :: "ustring list \<Rightarrow> ustring" where
  "ujoin [] = []"
| "ujoin [w] = w"
| "ujoin (w # ws) = w @ lat '' '' @ ujoin ws"

lemma ujoin_snoc: "ws \<noteq> [] \<Longrightarrow> ujoin (ws @ [w]) = ujoin ws @ lat '' '' @ w"
  by (induction ws rule: ujoin.induct) auto

lemma ujoin_Nil_iff: "(\<And>w. w \<in> set ws \<Longrightarrow> w \<noteq> []) \<Longrightarrow> ujoin ws = [] \<longleftrightarrow> ws = []"
  by (cases ws rule: ujoin.cases) auto

lemma wrap_fold:
  assumes "\<And>w. w \<in> set ws \<Longrightarrow> w \<noteq> []"
  shows "\<exists>gs cw. foldl (wrap_step n) ([], []) ws = (map ujoin gs, ujoin cw) \<and> concat gs @ cw = ws
     \<and> (\<forall>g \<in> set (gs @ [cw]). length (ujoin g) \<le> n \<or> length g \<le> 1)"
  using assms
proof (induction ws rule: rev_induct)
  case Nil
  have "foldl (wrap_step n) ([], []) [] = (map ujoin [], ujoin [])" by simp
  then show ?case by (intro exI [of _ "[]"]) simp
next
  case (snoc w ws)
  then obtain gs cw where ih: "foldl (wrap_step n) ([], []) ws = (map ujoin gs, ujoin cw)" "concat gs @ cw = ws"
      "\<forall>g \<in> set (gs @ [cw]). length (ujoin g) \<le> n \<or> length g \<le> 1"
    by auto
  have "v \<noteq> []" if "v \<in> set cw" for v using snoc.prems [of v] that ih(2) by auto
  then have cw: "ujoin cw = [] \<longleftrightarrow> cw = []" by (rule ujoin_Nil_iff)
  let ?nxt = "ujoin (cw @ [w])"
  have nxt: "(if ujoin cw = [] then w else ujoin cw @ lat '' '' @ w) = ?nxt"
    using cw ujoin_snoc [of cw w] by auto
  show ?case
  proof (cases "n < length ?nxt \<and> cw \<noteq> []")
    case True
    then have "foldl (wrap_step n) ([], []) (ws @ [w]) = (map ujoin (gs @ [cw]), ujoin [w])"
      using ih(1) nxt cw by (simp add: wrap_step_def Let_def)
    then show ?thesis using ih by (intro exI [of _ "gs @ [cw]"] exI [of _ "[w]"]) auto
  next
    case False
    then have "foldl (wrap_step n) ([], []) (ws @ [w]) = (map ujoin gs, ujoin (cw @ [w]))"
      using ih(1) nxt cw by (auto simp: wrap_step_def Let_def)
    then show ?thesis using ih False by (intro exI [of _ gs] exI [of _ "cw @ [w]"]) auto
  qed
qed

text \<open>The words of a text are laid out in order, none is lost, and a line is longer than allowed
  only when it is a single word.\<close>

lemma wrapLines_layout:
  "\<exists>gs. wrapLines t n = map ujoin gs \<and> concat gs = words_of t \<and> gs \<noteq> []
     \<and> (\<forall>g \<in> set gs. length (ujoin g) \<le> n \<or> length g \<le> 1)"
proof -
  have "w \<noteq> []" if "w \<in> set (words_of t)" for w using that by (simp add: words_of_def)
  then obtain gs cw where f: "foldl (wrap_step n) ([], []) (words_of t) = (map ujoin gs, ujoin cw)"
      "concat gs @ cw = words_of t" "\<forall>g \<in> set (gs @ [cw]). length (ujoin g) \<le> n \<or> length g \<le> 1"
    using wrap_fold by blast
  have "v \<in> set (words_of t)" if "v \<in> set cw" for v using that f(2) by (metis Un_iff set_append)
  then have "v \<noteq> []" if "v \<in> set cw" for v using that by (auto simp: words_of_def)
  then have cw: "ujoin cw = [] \<longleftrightarrow> cw = []" by (rule ujoin_Nil_iff)
  show ?thesis
  proof (cases "cw = [] \<and> gs = []")
    case True
    then show ?thesis using f by (intro exI [of _ "[[]]"]) (simp add: wrapLines_def words_of_def [symmetric])
  next
    case False
    let ?gs = "if cw = [] then gs else gs @ [cw]"
    have "wrapLines t n = map ujoin ?gs" "concat ?gs = words_of t" "?gs \<noteq> []"
      using f False cw by (auto simp: wrapLines_def words_of_def [symmetric] Let_def)
    then show ?thesis using f(3) by (intro exI [of _ ?gs]) auto
  qed
qed

subsection \<open>Properties\<close>

text \<open>C14. A viewer can open every file the writer builds: for a file below ten billion bytes, the
cross-reference table that the end of the file points to gives for each number the byte position
where the object of that number begins, and the contents of each page, cut out by the length its
dictionary states, are exactly the bytes drawn on that page.\<close>

theorem pdf_readable:
  assumes "length (build p) < 10 ^ 10"
  shows "(\<forall>n. 1 \<le> n \<and> n \<le> 2 * length (flush p) + 4 \<longrightarrow>
            (\<exists>rest. read_object (build p) n = utf8 (show_nat n @ '' 0 obj'' @ [nl]) @ rest))
       \<and> (\<forall>i < length (flush p). read_stream (build p) (2 * i + 4) = utf8 (flush p ! i))"
proof (intro conjI allI impI)
  let ?objs = "pdf_objects (flush p)"
  have found: "\<exists>rest. read_object (build p) (k + 1) = utf8 (?objs ! k) @ rest" if "k < length ?objs" for k
    using read_object_pdf [OF that] assms by (simp add: build_def)
  show "\<exists>rest. read_object (build p) n = utf8 (show_nat n @ '' 0 obj'' @ [nl]) @ rest"
    if n: "1 \<le> n \<and> n \<le> 2 * length (flush p) + 4" for n
  proof -
    have k: "n - 1 < 2 * length (flush p) + 4" "n - 1 + 1 = n" using n by auto
    then obtain body where "?objs ! (n - 1) = obj_text n body"
      using pdf_objects_numbered(2) [OF k(1)] by auto
    then show ?thesis
      using found [of "n - 1"] k by (auto simp: pdf_objects_numbered(1) obj_text_def)
  qed
  show "read_stream (build p) (2 * i + 4) = utf8 (flush p ! i)" if i: "i < length (flush p)" for i
  proof -
    have k: "2 * i + 3 < length ?objs" "2 * i + 3 + 1 = 2 * i + 4" using i by (simp_all add: pdf_objects_numbered(1))
    obtain rest where "read_object (build p) (2 * i + 4) = utf8 (?objs ! (2 * i + 3)) @ rest"
      using found [OF k(1)] unfolding k(2) by blast
    then show ?thesis
      using read_stream_object [of "build p" "2 * i + 4" "flush p ! i" rest] pdf_objects_numbered(3) [OF i] by simp
  qed
qed

definition w_pdf :: simple_pdf where
  "w_pdf = emit ''(A) Tj'' new_SimplePdf"

lemma w_pdf_flush: "flush w_pdf = [''(A) Tj'']"
  by (simp add: w_pdf_def new_SimplePdf_def newPage_def emit_def flush_def)

theorem pdf_readable_witness:
  "length (build w_pdf) < 10 ^ 10 \<and> read_stream (build w_pdf) 4 = utf8 ''(A) Tj''"
proof -
  have n: "show_num pdf_w = ''595''" "show_num pdf_h = ''842''"
    using show_num_of_int [of 595] show_num_of_int [of 842]
    by (simp_all add: show_int_def show_nat_eval)
  have "length (build w_pdf) < 2000"
    unfolding build_def w_pdf_flush pdf_objects_def page_objects_def Let_def n by code_simp
  then have "length (build w_pdf) < 10 ^ 10" by simp
  then show ?thesis using pdf_readable [of w_pdf] by (simp add: w_pdf_flush)
qed

end
