(* ===== verification/Compliance.thy ===== *)
theory Compliance
  imports Telemetry Pdf
begin

text \<open>
  The compliance report: \<^verbatim>\<open>lib/complianceReport.ts\<close> builds it from the telemetry rows or
  takes it from \<^verbatim>\<open>compliance-report.json\<close>, \<^verbatim>\<open>lib/fetchComplianceReport.ts\<close> selects the
  rows of a request, \<^verbatim>\<open>lib/compliancePdf.ts\<close> draws it, and the handlers
  \<^verbatim>\<open>app/api/reports/route.ts\<close> and \<^verbatim>\<open>app/api/reports/export/route.ts\<close> return it.

  The texts of a report are lists of UTF-16 code units.  The contents of
  \<^verbatim>\<open>compliance-report.json\<close>, which a script outside the dashboard writes, are an argument of the
  type the code declares for them; so are the functions that depend on the locale and the time
  zone of the server.
\<close>

subsection \<open>Data\<close>

record security_control =
  ctl_standard :: ustring
  ctl_id :: ustring
  ctl_name :: ustring
  ctl_status :: ustring
  ctl_evidence :: ustring
  ctl_detail :: ustring

record node_detail =
  nd_id :: ustring
  nd_status :: ustring
  nd_rce_prevented :: int
  nd_tarpit_active :: int
  nd_eps :: rat
  nd_alerts :: int
  nd_mesh_peers :: int
  nd_total_lines :: int
  nd_last_seen :: string

record executive_summary =
  ex_totalAgentsActive :: nat
  ex_onlineAgents :: nat
  ex_systemHealth :: ustring
  ex_totalThreatsMitigated :: rat
  ex_totalEventsProcessed :: rat
  ex_totalAlerts :: int
  ex_totalMeshPeers :: int
  ex_peakEps :: ustring
  ex_siemStatus :: ustring
  ex_controlsPassed :: "rat option"
  ex_controlsTotal :: "rat option"
  ex_passRatePct :: "rat option"
  ex_fpRatePct :: "rat option"

record compliance_report =
  rep_reportDate :: ustring
  rep_standards :: "ustring list"
  rep_generatedBy :: ustring
  rep_executiveSummary :: executive_summary
  rep_securityControls :: "security_control list"
  rep_nodes :: "node_detail list"
  rep_evidenceSources :: "ustring list option"

text \<open>What \<^verbatim>\<open>compliance-report.json\<close> may hold.\<close>

record file_summary =
  fs_totalThreatsMitigated :: "rat option"
  fs_totalEventsProcessed :: "rat option"
  fs_siemStatus :: "ustring option"
  fs_controlsPassed :: "rat option"
  fs_controlsTotal :: "rat option"
  fs_passRatePct :: "rat option"
  fs_fpRatePct :: "rat option"

record file_report =
  ff_reportDate :: "ustring option"
  ff_standards :: "ustring list option"
  ff_generatedBy :: "ustring option"
  ff_executiveSummary :: "file_summary option"
  ff_securityControls :: "security_control list option"
  ff_evidenceSources :: "ustring list option"

text \<open>The functions of the server's locale and time zone: \<open>toLocaleString()\<close> of a number, the long
  date of an instant and its time of day.\<close>

record locale_fmt =
  lf_number :: "int \<Rightarrow> string"
  lf_date :: "ustring \<Rightarrow> ustring"
  lf_time :: "ustring \<Rightarrow> ustring"

subsection \<open>The report of the telemetry rows\<close>

definition PASSED :: ustring where "PASSED = lat ''PASSED''"

definition control :: "ustring \<Rightarrow> ustring \<Rightarrow> ustring \<Rightarrow> ustring \<Rightarrow> ustring \<Rightarrow> security_control" where
  "control standard i name evidence detail =
     \<lparr> ctl_standard = standard, ctl_id = i, ctl_name = name, ctl_status = PASSED, ctl_evidence = evidence,
       ctl_detail = detail \<rparr>"

definition KVKK_CONTROLS :: "security_control list" where
  "KVKK_CONTROLS =
     [control (lat ''KVKK'') (lat ''m.12'') (lat ''Ki'' @ [0x15F] @ lat ''isel Verilerin G'' @ [0xFC] @ lat ''venli'' @ [0x11F] @ lat ''i'')
        (lat ''HMAC imzal'' @ [0x131] @ lat '' audit log, tenant DB ayr'' @ [0x131] @ lat ''m'' @ [0x131] @ lat '' ve eri'' @ [0x15F] @ lat ''im kontrol'' @ [0xFC] @ lat '' aktif.'')
        (lat ''Teknik/idari tedbirler: '' @ [0x15F] @ lat ''ifreli audit, TENANT_ID ile veri izolasyonu.''),
      control (lat ''KVKK'') (lat ''m.15'') (lat ''Veri Sorumlusu Y'' @ [0xFC] @ lat ''k'' @ [0xFC] @ lat ''ml'' @ [0xFC] @ lat ''l'' @ [0xFC] @ lat ''kleri'')
        (lat ''Olay kayd'' @ [0x131] @ lat '' ve ihlal tespiti events.db '' @ [0xFC] @ lat ''zerinde saklan'' @ [0x131] @ lat ''yor.'')
        (lat ''G'' @ [0xFC] @ lat ''venlik olaylar'' @ [0x131] @ lat '' SQLite + JSONL audit ile kan'' @ [0x131] @ lat ''tlanabilir.''),
      control (lat ''KVKK'') (lat ''m.18'') (lat ''Veri G'' @ [0xFC] @ lat ''venli'' @ [0x11F] @ lat ''ine '' @ [0x130] @ lat ''li'' @ [0x15F] @ lat ''kin Y'' @ [0xFC] @ lat ''k'' @ [0xFC] @ lat ''ml'' @ [0xFC] @ lat ''l'' @ [0xFC] @ lat ''kler'')
        (lat ''Adaptive FP trust ile yanl'' @ [0x131, 0x15F] @ lat '' pozitif oran'' @ [0x131] @ lat '' <%5 hedefleniyor.'')
        (lat ''FP_LEARN=1 EMA g'' @ [0xFC] @ lat ''ven skoru; fp-report.json ile denetlenebilir.''),
      control (lat ''KVKK'') (lat ''m.4'') (lat ''Ki'' @ [0x15F] @ lat ''isel Verilerin '' @ [0x130, 0x15F] @ lat ''lenme '' @ [0x15E] @ lat ''artlar'' @ [0x131])
        (lat ''Log minimizasyonu: whitelist, FP suppression, tenant telemetry.'')
        (lat ''Tenant-scoped telemetri; gereksiz PII loglanmaz.'')]"

text \<open>\<open>s.replace(pattern, repl)\<close> with a string pattern: the first occurrence.\<close>

fun replace_first :: "ustring \<Rightarrow> ustring \<Rightarrow> ustring \<Rightarrow> ustring" where
  "replace_first pat repl [] = (if pat = [] then repl else [])"
| "replace_first pat repl (u # s) =
     (if take (length pat) (u # s) = pat then repl @ drop (length pat) (u # s)
      else u # replace_first pat repl s)"

definition agent_is_online :: "int \<Rightarrow> telemetry \<Rightarrow> bool" where
  "agent_is_online now a = (now - tl_lastSeen a < 15000)"

definition node_of :: "int \<Rightarrow> telemetry \<Rightarrow> node_detail" where
  "node_of now a =
     \<lparr> nd_id = lat (tl_agentId a), nd_status = (if agent_is_online now a then lat ''Online'' else lat ''Offline''),
       nd_rce_prevented = tl_rceDetections a, nd_tarpit_active = tl_tarpitActive a, nd_eps = tl_eps a,
       nd_alerts = tl_alertsTotal a, nd_mesh_peers = tl_meshPeers a, nd_total_lines = tl_totalLines a,
       nd_last_seen = toISOString (tl_lastSeen a) \<rparr>"

record fleet_sums =
  sm_online :: nat
  sm_rce :: int
  sm_tarpit :: int
  sm_eps :: rat
  sm_lines :: int
  sm_alerts :: int
  sm_mesh :: int

definition sum_agent :: "int \<Rightarrow> fleet_sums \<Rightarrow> telemetry \<Rightarrow> fleet_sums" where
  "sum_agent now s a =
     (let s1 = (if agent_is_online now a
                then s\<lparr>sm_online := sm_online s + 1, sm_eps := fadd (sm_eps s) (tl_eps a),
                       sm_mesh := sm_mesh s + tl_meshPeers a\<rparr>
                else s)
      in s1\<lparr>sm_rce := sm_rce s1 + tl_rceDetections a, sm_tarpit := sm_tarpit s1 + tl_tarpitActive a,
            sm_lines := sm_lines s1 + tl_totalLines a, sm_alerts := sm_alerts s1 + tl_alertsTotal a\<rparr>)"

abbreviation sums0 :: fleet_sums where
  "sums0 \<equiv> \<lparr> sm_online = 0, sm_rce = 0, sm_tarpit = 0, sm_eps = 0, sm_lines = 0, sm_alerts = 0, sm_mesh = 0 \<rparr>"

definition js_round :: "rat \<Rightarrow> int" where
  "js_round x = \<lfloor>x + 1 / 2\<rfloor>"

definition percent :: "nat \<Rightarrow> nat \<Rightarrow> int" where
  "percent a b = js_round (fmul (fdiv (of_nat a) (of_nat b)) 100)"

definition healthPct :: "nat \<Rightarrow> nat \<Rightarrow> ustring" where
  "healthPct online agents =
     (if agents = 0 then lat ''N/A'' else if online = 0 then lat ''0%''
      else if online = agents then lat ''100%'' else lat (show_int (percent online agents) @ ''%''))"

definition baseControls :: "locale_fmt \<Rightarrow> fleet_sums \<Rightarrow> nat \<Rightarrow> security_control list" where
  "baseControls fmt s agents =
     [control (lat ''SOC2'') (lat ''CC6.1'') (lat ''Logical & Physical Access Security'')
        (lat (show_int (sm_rce s)) @ (lat '' RCE execve engelleme olay'' @ [0x131] @ lat '' eBPF ile kaydedildi.''))
        (lat ''EXECVE_GUARD + syscall_uprobe SIGKILL on unauthorized shell spawn.''),
      control (lat ''SOC2'') (lat ''CC6.6'') (lat ''Logical Access from Untrusted Networks'')
        ((lat ''XDP/BPF edge blacklist; '') @ lat (show_nat agents) @ (lat '' Guardian sens'' @ [0xF6] @ lat ''r'' @ [0xFC] @ lat ''.''))
        (lat ''Ban pipeline IPC'' @ [0x2192] @ lat ''XDP'' @ [0x2192] @ lat ''ipset fallback.''),
      control (lat ''SOC2'') (lat ''CC7.2'') (lat ''System Monitoring & Anomaly Detection'')
        (lat (lf_number fmt (sm_lines s)) @ (lat '' olay SIEM'' @ [0x27] @ lat ''e aktar'' @ [0x131] @ lat ''ld'' @ [0x131] @ lat ''.''))
        (lat ''Native TCP SIEM forwarder (siem_forwarder.c).''),
      control (lat ''SOC2'') (lat ''CC7.3'') (lat ''Security Event Response'')
        (lat (show_int (sm_alerts s)) @ (lat '' g'' @ [0xFC] @ lat ''venlik alarm'' @ [0x131] @ lat ''; MITRE etiketli.''))
        (lat ''AUTO_BAN_MIN_RISK + incident engine.''),
      control (lat ''PCI-DSS'') (lat ''Req 6.4'') (lat ''Web Application Protection'')
        (lat ''PCRE2-JIT WAF + OpenAPI strict v2 schema firewall.'')
        (lat ''CRS parity benchmark ile do'' @ [0x11F] @ lat ''rulanabilir.''),
      control (lat ''PCI-DSS'') (lat ''Req 10.2'') (lat ''Audit Log Implementation'')
        (lat ''HMAC-SHA256 audit + SQLite events.db.'')
        (lat ''log_alert_json_signed() + ban-policy JSONL.''),
      control (lat ''PCI-DSS'') (lat ''Req 11.5'') (lat ''Intrusion Detection'')
        (lat ''Honey-trap inotify + eBPF lineage attack tree.'')
        (lat ''WebShell upload watcher + attack_tree.c.''),
      control (lat ''ISO 27001'') (lat ''A.16.1'') (lat ''Information Security Incident Management'')
        (lat (show_int (sm_mesh s)) @ (lat '' mesh peer; threat feed pipeline (OTX/STIX).''))
        (lat ''mesh_intel.c + threat_feed.c IoC senkronizasyonu.'')]
     @ map (\<lambda>k. k\<lparr>ctl_evidence := replace_first (lat ''events.db'')
          (if 0 < sm_alerts s then lat (show_int (sm_alerts s)) @ (lat '' alarm events.db'' @ [0x27] @ lat ''de'') else (lat ''events.db''))
          (ctl_evidence k)\<rparr>) KVKK_CONTROLS"

definition passed_controls :: "security_control list \<Rightarrow> nat" where
  "passed_controls cs = length (filter (\<lambda>c. ctl_status c = PASSED) cs)"

definition buildFromTelemetry :: "locale_fmt \<Rightarrow> int \<Rightarrow> telemetry list \<Rightarrow> compliance_report" where
  "buildFromTelemetry fmt now agents =
     (let s = foldl (sum_agent now) sums0 agents;
          cs = baseControls fmt s (length agents)
      in \<lparr> rep_reportDate = lat (toISOString now),
           rep_standards = [(lat ''SOC2 Type II''), (lat ''PCI-DSS v4.0''), (lat ''KVKK''), (lat ''ISO/IEC 27001'')],
           rep_generatedBy = (lat ''Log Guardian Compliance Engine v2.0''),
           rep_executiveSummary =
             \<lparr> ex_totalAgentsActive = length agents, ex_onlineAgents = sm_online s,
               ex_systemHealth = healthPct (sm_online s) (length agents),
               ex_totalThreatsMitigated = of_int (sm_rce s + sm_tarpit s),
               ex_totalEventsProcessed = of_int (sm_lines s), ex_totalAlerts = sm_alerts s,
               ex_totalMeshPeers = sm_mesh s, ex_peakEps = lat (toFixed 2 (sm_eps s)),
               ex_siemStatus = (lat ''Active '' @ [0x2014] @ lat '' TCP JSON forwarder (SIEM_FORWARDER_ENABLED)''),
               ex_controlsPassed = Some (of_nat (passed_controls cs)),
               ex_controlsTotal = Some (of_nat (length cs)),
               ex_passRatePct = Some (of_int (percent (passed_controls cs) (length cs))),
               ex_fpRatePct = None \<rparr>,
           rep_securityControls = cs, rep_nodes = map (node_of now) agents, rep_evidenceSources = None \<rparr>)"

subsection \<open>The report of a request\<close>

text \<open>\<open>s || d\<close> of a text.\<close>

definition u_or :: "ustring option \<Rightarrow> ustring \<Rightarrow> ustring" where
  "u_or s d = (case s of Some t \<Rightarrow> if t = [] then d else t | None \<Rightarrow> d)"

definition no_summary :: file_summary where
  "no_summary = \<lparr> fs_totalThreatsMitigated = None, fs_totalEventsProcessed = None, fs_siemStatus = None,
     fs_controlsPassed = None, fs_controlsTotal = None, fs_passRatePct = None, fs_fpRatePct = None \<rparr>"

definition loadComplianceReport ::
  "locale_fmt \<Rightarrow> int \<Rightarrow> file_report option \<Rightarrow> telemetry list \<Rightarrow> compliance_report" where
  "loadComplianceReport fmt now repo agents =
     (let tel = buildFromTelemetry fmt now agents; te = rep_executiveSummary tel in
      case repo of
        None \<Rightarrow> tel
      | Some f \<Rightarrow>
          if nullish (ff_securityControls f) [] = [] then tel
          else let es = nullish (ff_executiveSummary f) no_summary in
            \<lparr> rep_reportDate = u_or (ff_reportDate f) (rep_reportDate tel),
              rep_standards = (if nullish (ff_standards f) [] = [] then rep_standards tel else the (ff_standards f)),
              rep_generatedBy = u_or (ff_generatedBy f) (rep_generatedBy tel),
              rep_executiveSummary =
                \<lparr> ex_totalAgentsActive = ex_totalAgentsActive te, ex_onlineAgents = ex_onlineAgents te,
                  ex_systemHealth = ex_systemHealth te,
                  ex_totalThreatsMitigated = nullish (fs_totalThreatsMitigated es) (ex_totalThreatsMitigated te),
                  ex_totalEventsProcessed = nullish (fs_totalEventsProcessed es) (ex_totalEventsProcessed te),
                  ex_totalAlerts = ex_totalAlerts te, ex_totalMeshPeers = ex_totalMeshPeers te,
                  ex_peakEps = ex_peakEps te, ex_siemStatus = nullish (fs_siemStatus es) (ex_siemStatus te),
                  ex_controlsPassed = fs_controlsPassed es, ex_controlsTotal = fs_controlsTotal es,
                  ex_passRatePct = fs_passRatePct es, ex_fpRatePct = fs_fpRatePct es \<rparr>,
              rep_securityControls = nullish (ff_securityControls f) [], rep_nodes = rep_nodes tel,
              rep_evidenceSources = ff_evidenceSources f \<rparr>)"

text \<open>The rows the query selects; \<open>None\<close> when the database fails.  A request without a tenant
  header names no tenant, and the query then fails too.\<close>

definition report_rows :: "request \<Rightarrow> telemetry list option \<Rightarrow> telemetry list" where
  "report_rows rq db =
     (case db of
        None \<Rightarrow> []
      | Some rows \<Rightarrow>
          if header rq ''x-user-role'' = Some ''admin'' then rows
          else filter (\<lambda>a. Some (tl_tenantId a) = header rq ''x-user-tenant'') rows)"

definition fetchComplianceReportForRequest ::
  "locale_fmt \<Rightarrow> int \<Rightarrow> file_report option \<Rightarrow> request \<Rightarrow> telemetry list option \<Rightarrow> compliance_report" where
  "fetchComplianceReportForRequest fmt now repo rq db = loadComplianceReport fmt now repo (report_rows rq db)"

definition reports_GET ::
  "locale_fmt \<Rightarrow> int \<Rightarrow> file_report option \<Rightarrow> request \<Rightarrow> telemetry list option \<Rightarrow> compliance_report" where
  "reports_GET fmt now repo rq db =
     (let report = fetchComplianceReportForRequest fmt now repo rq db in
      if rep_securityControls report = [] then buildFromTelemetry fmt now [] else report)"

subsection \<open>Drawing\<close>

abbreviation GRAY :: rgb where "GRAY \<equiv> (fl (45 / 100), fl (45 / 100), fl (45 / 100))"
abbreviation LIGHT :: rgb where "LIGHT \<equiv> (fl (96 / 100), fl (96 / 100), fl (96 / 100))"
abbreviation GREEN :: rgb where "GREEN \<equiv> (fl (12 / 100), fl (55 / 100), fl (32 / 100))"
abbreviation AMBER :: rgb where "AMBER \<equiv> (fl (85 / 100), fl (55 / 100), fl (1 / 10))"
abbreviation BLACK :: rgb where "BLACK \<equiv> (0, 0, 0)"
abbreviation WHITE :: rgb where "WHITE \<equiv> (1, 1, 1)"

definition passRate :: "compliance_report \<Rightarrow> rat" where
  "passRate r =
     (case ex_passRatePct (rep_executiveSummary r) of
        Some v \<Rightarrow> v
      | None \<Rightarrow>
          let n = length (rep_securityControls r)
          in of_int (percent (passed_controls (rep_securityControls r)) (if n = 0 then 1 else n)))"

definition fleetHealthLabel :: "compliance_report \<Rightarrow> ustring" where
  "fleetHealthLabel r =
     (let es = rep_executiveSummary r in
      if ex_totalAgentsActive es = 0 then (lat ''N/A (no agents)'')
      else ex_systemHealth es @ lat ('' ('' @ show_nat (ex_onlineAgents es) @ ''/''
             @ show_nat (ex_totalAgentsActive es) @ '' online)''))"

text \<open>The locale functions answer an unreadable date with a text, so the \<^verbatim>\<open>catch\<close> is never taken.\<close>

definition formatReportDate :: "locale_fmt \<Rightarrow> ustring \<Rightarrow> ustring \<times> ustring" where
  "formatReportDate fmt iso8601 = (lf_date fmt iso8601, lf_time fmt iso8601)"

definition opt :: "rat \<Rightarrow> bool \<Rightarrow> rgb option \<Rightarrow> text_opts" where
  "opt sz bold col = no_opts\<lparr>to_size := Some sz, to_bold := bold, to_color := col\<rparr>"

text \<open>Operations of the writer one after the other.\<close>

definition draw :: "(simple_pdf \<Rightarrow> simple_pdf) list \<Rightarrow> simple_pdf \<Rightarrow> simple_pdf" where
  "draw fs p = fold (\<lambda>f q. f q) fs p"

definition drawHeader :: "locale_fmt \<Rightarrow> compliance_report \<Rightarrow> simple_pdf \<Rightarrow> simple_pdf" where
  "drawHeader fmt r p =
     (let m = 44; (date, time) = formatReportDate fmt (rep_reportDate r); top = pd_y p;
          boxW = 148; boxX = 595 - m - boxW
      in draw [fillRect m (fsub top 40) 36 36 BLACK,
               pdf_text (m + 10) (fsub top 16) (lat ''LG'') (opt 14 True (Some WHITE)),
               pdf_text (m + 48) (fsub top 18) (u_or (Some (rep_generatedBy r)) (lat ''Log Guardian Compliance Engine''))
                 (opt 7 False (Some GRAY)),
               pdf_text (m + 48) (fsub top 8) (lat ''CONFIDENTIAL - INTERNAL USE ONLY'') (opt 7 False (Some GRAY)),
               pdf_text m (fsub top 60) (lat ''SECURITY AUDIT'') (opt 22 True None),
               pdf_text m (fsub top 84) (lat ''COMPLIANCE REPORT'') (opt 16 False (Some GRAY)),
               strokeRect boxX (fsub top 86) boxW 68 (3 / 2),
               pdf_text (boxX + 10) (fsub top 26) (lat ''REPORT DATE'') (opt 7 True (Some GRAY)),
               pdf_text (boxX + 10) (fsub top 42) date (opt 11 True None),
               pdf_text (boxX + 10) (fsub top 56) time (opt 9 False (Some GRAY)),
               setY (fsub top 100),
               (\<lambda>q. line m (pd_y q) (595 - m) (pd_y q) 2 q),
               gap 24] p)"

text \<open>The chips of the standards: the row is broken when a chip would cross the right margin.\<close>

definition chip_step :: "(rat \<times> rat) \<times> simple_pdf \<Rightarrow> ustring \<Rightarrow> (rat \<times> rat) \<times> simple_pdf" where
  "chip_step st std =
     (case st of ((x0, y0), p) \<Rightarrow>
        let w = min 122 (fadd (fmul (of_nat (length std)) (fl (52 / 10))) 14);
            wrap = (44 + 507 < fadd x0 w \<and> 44 < x0);
            x = (if wrap then 44 else x0);
            chipRowY = (if wrap then fsub y0 24 else y0);
            boxY = fadd (fsub chipRowY 18) 6
        in ((fadd x (fadd w 6), chipRowY),
            draw [fillRect x boxY w 18 LIGHT, strokeRect x boxY w 18 (1 / 2),
                  pdf_text (fadd x 6) (fsub chipRowY 4) std (opt 7 True None)] p))"

definition upper_u :: "ustring \<Rightarrow> ustring" where
  "upper_u = map (\<lambda>u. if 97 \<le> u \<and> u \<le> 122 then u - 32 else u)"

definition kpis :: "compliance_report \<Rightarrow> (ustring \<times> ustring) list" where
  "kpis r =
     (let es = rep_executiveSummary r in
      [((lat ''System Health''), fleetHealthLabel r),
       ((lat ''Threats Blocked''), lat (show_num (ex_totalThreatsMitigated es))),
       ((lat ''Events Analyzed''), lat (toLocaleString_en (ex_totalEventsProcessed es))),
       ((lat ''Peak EPS''), ex_peakEps es),
       ((lat ''Security Alerts''), lat (toLocaleString_en (of_int (ex_totalAlerts es)))),
       ((lat ''Mesh IoC Peers''), lat (show_num (of_int (ex_totalMeshPeers es))))])"

definition draw_kpi :: "rat \<Rightarrow> rat \<Rightarrow> (nat \<times> ustring \<times> ustring) \<Rightarrow> simple_pdf \<Rightarrow> simple_pdf" where
  "draw_kpi kpiX sectionTop k p =
     (case k of (i, label, val) \<Rightarrow>
        let cx = kpiX + of_nat (i mod 2) * 128;
            cy = fsub (fsub sectionTop 18) (of_nat (i div 2) * 34)
        in draw [fillRect cx (fsub cy 26) 118 28 LIGHT, strokeRect cx (fsub cy 26) 118 28 (1 / 2),
                 pdf_text (cx + 5) (fsub cy 10) (upper_u label) (opt 6 True (Some GRAY)),
                 pdf_text (cx + 5) (fsub cy 22) (take 22 val) (opt 9 True None)] p)"

abbreviation kpi_bottom :: "rat \<Rightarrow> rat" where
  "kpi_bottom sectionTop \<equiv> fsub (fsub (fsub sectionTop 18) (2 * 34)) 30"

definition draw_score :: "compliance_report \<Rightarrow> rat \<Rightarrow> simple_pdf \<Rightarrow> simple_pdf" where
  "draw_score r sectionTop p =
     (let m = 44; es = rep_executiveSummary r; rate = passRate r;
          passed = nullish (ex_controlsPassed es) (of_nat (passed_controls (rep_securityControls r)));
          controls = nullish (ex_controlsTotal es) (of_nat (length (rep_securityControls r)));
          barBottom = fsub sectionTop 66
      in draw [pdf_text m sectionTop (lat ''OVERALL COMPLIANCE SCORE'') (opt 8 True (Some GRAY)),
               pdf_text m (fsub sectionTop 36) (lat (show_num rate @ ''%'')) (opt 28 True None),
               pdf_text m (fsub sectionTop 54)
                 (lat (''('' @ show_num passed @ '' of '' @ show_num controls @ '' controls passed)''))
                 (opt 9 False (Some GRAY)),
               fillRect m barBottom 216 8 (fl (85 / 100), fl (85 / 100), fl (85 / 100)),
               fillRect m barBottom (fdiv (fmul 216 rate) 100) 8 BLACK,
               pdf_text (m + 278) sectionTop (lat ''EXECUTIVE SUMMARY'') (opt 9 True (Some GRAY))] p)"

definition drawScoreSection :: "compliance_report \<Rightarrow> simple_pdf \<Rightarrow> simple_pdf" where
  "drawScoreSection r p =
     (let m = 44; es = rep_executiveSummary r;
          p1 = gap 8 (textLine m (lat ''COMPLIANCE STANDARDS'') ((opt 9 True (Some GRAY))\<lparr>to_lineHeight := Some 14\<rparr>) p);
          ((x, chipRowY), p2) = foldl chip_step ((m, pd_y p1), p1) (rep_standards r);
          p3 = gap 12 (setY (fsub (fsub chipRowY 18) 20) p2);
          sectionTop = pd_y p3; kpiX = m + 278;
          leftBottom = fsub (fsub sectionTop 66) 14;
          p4 = fold (draw_kpi kpiX sectionTop) (enumerate 0 (kpis r)) (draw_score r sectionTop p3);
          p5 = gap 6 (setY (fsub (min leftBottom (kpi_bottom sectionTop)) 8) p4);
          siemY = pd_y p5
      in draw [fillRect m (fsub siemY 14) (595 - m * 2) 18 LIGHT,
               pdf_text (m + 8) (fsub siemY 2) (lat ''SIEM Forwarder'') (opt 9 True None),
               pdf_text (m + 110) (fsub siemY 2) (take 72 (u_or (Some (ex_siemStatus es)) (lat ''Active'')))
                 (opt 8 False (Some GRAY)),
               setY (fsub siemY 22), gap 14] p5)"

definition draw_control :: "security_control \<Rightarrow> simple_pdf \<Rightarrow> simple_pdf" where
  "draw_control ctrl p =
     (let m = 44; p1 = ensure 52 p; rowTop = pd_y p1;
          statusColor = (if ctl_status ctrl = PASSED then GREEN else AMBER)
      in draw [fillRect (m + 6) (fsub rowTop 10) 8 8 statusColor,
               pdf_text (m + 20) (fsub rowTop 2) (lat ''['' @ ctl_standard ctrl @ lat ''] '' @ ctl_id ctrl) (opt 9 True None),
               pdf_text (m + 108) (fsub rowTop 2) (take 48 (ctl_name ctrl)) (opt 9 False None),
               pdf_text (595 - m - 52) (fsub rowTop 2) (ctl_status ctrl) (opt 8 True (Some statusColor)),
               setY (fsub rowTop 18),
               textBlock (m + 20) (lat ''Evidence: '' @ ctl_evidence ctrl)
                 ((opt 8 False None)\<lparr>to_maxWidth := Some 470, to_lineHeight := Some 10\<rparr>),
               gap 2,
               textBlock (m + 20) (ctl_detail ctrl)
                 ((opt 7 False (Some GRAY))\<lparr>to_maxWidth := Some 470, to_lineHeight := Some 9\<rparr>),
               gap 6,
               (\<lambda>q. line m (pd_y q) (595 - m) (pd_y q) (1 / 4) q),
               gap 12] p1)"

definition drawControls :: "compliance_report \<Rightarrow> simple_pdf \<Rightarrow> simple_pdf" where
  "drawControls r p =
     (let m = 44 in
      fold draw_control (rep_securityControls r)
        (draw [textLine m (lat ''SECURITY CONTROLS ASSESSMENT'') ((opt 9 True (Some GRAY))\<lparr>to_lineHeight := Some 14\<rparr>),
               gap 4, (\<lambda>q. line m (pd_y q) (595 - m) (pd_y q) (1 / 2) q), gap 12] p))"

abbreviation cols :: "ustring list" where
  "cols \<equiv> [(lat ''Node''), (lat ''Status''), (lat ''EPS''), (lat ''RCE''), (lat ''Tarpit''), (lat ''Alerts''), (lat ''Mesh''), (lat ''Seen'')]"

abbreviation widths :: "rat list" where
  "widths \<equiv> [90, 52, 40, 36, 44, 44, 40, 52]"

text \<open>Cells side by side, each at the left edge of its column.\<close>

fun draw_cells :: "rat \<Rightarrow> rat \<Rightarrow> text_opts \<Rightarrow> (ustring \<times> rat) list \<Rightarrow> simple_pdf \<Rightarrow> simple_pdf" where
  "draw_cells x y opts [] p = p"
| "draw_cells x y opts ((t, w) # cells) p = draw_cells (x + w) y opts cells (pdf_text (x + 4) y t opts p)"

definition node_cells :: "locale_fmt \<Rightarrow> node_detail \<Rightarrow> ustring list" where
  "node_cells fmt n =
     [nd_id n, nd_status n, lat (toFixed 1 (nd_eps n)), lat (show_int (nd_rce_prevented n)),
      lat (show_int (nd_tarpit_active n)), lat (show_int (nd_alerts n)), lat (show_int (nd_mesh_peers n)),
      lf_time fmt (lat (nd_last_seen n))]"

definition draw_node :: "locale_fmt \<Rightarrow> node_detail \<Rightarrow> simple_pdf \<Rightarrow> simple_pdf" where
  "draw_node fmt n p =
     (let m = 44; tableW = sum_list widths; p1 = ensure 16 p; rowY = pd_y p1;
          col = (if nd_status n = lat ''Online'' then BLACK else GRAY)
      in draw [draw_cells m (fsub rowY 2) (opt 7 False (Some col)) (zip (map (take 14) (node_cells fmt n)) widths),
               line m (fsub rowY 12) (m + tableW) (fsub rowY 12) (1 / 4),
               setY (fsub rowY 16)] p1)"

definition drawFleetTable :: "locale_fmt \<Rightarrow> compliance_report \<Rightarrow> simple_pdf \<Rightarrow> simple_pdf" where
  "drawFleetTable fmt r p =
     (let m = 44;
          p1 = draw [ensure 80, textLine m (lat ''FLEET DEPLOYMENT MATRIX'') ((opt 9 True (Some GRAY))\<lparr>to_lineHeight := Some 14\<rparr>),
                     gap 4, (\<lambda>q. line m (pd_y q) (595 - m) (pd_y q) (1 / 2) q), gap 10] p
      in if rep_nodes r = []
         then gap 16 (textBlock m (lat ''No Guardian agents currently reporting to the fleet.'') (opt 9 False (Some GRAY)) p1)
         else let tableW = sum_list widths; headY = pd_y p1; es = rep_executiveSummary r;
                  p2 = draw [fillRect m (fsub headY 14) tableW 16 LIGHT,
                             draw_cells m (fsub headY 2) (opt 7 True (Some GRAY)) (zip cols widths),
                             setY (fsub headY 18)] p1;
                  p3 = gap 4 (fold (draw_node fmt) (rep_nodes r) p2);
                  totalY = pd_y p3
              in draw [fillRect m (fsub totalY 12) tableW 14 (fl (15 / 100), fl (15 / 100), fl (15 / 100)),
                       pdf_text (m + 4) (fsub totalY 2) (lat ''FLEET TOTAL'') (opt 7 True (Some WHITE)),
                       pdf_text (m + 90 + 4) (fsub totalY 2)
                         (lat (show_nat (ex_onlineAgents es) @ ''/'' @ show_nat (ex_totalAgentsActive es)))
                         (opt 7 False (Some WHITE)),
                       pdf_text (m + 90 + 52 + 4) (fsub totalY 2) (ex_peakEps es) (opt 7 False (Some WHITE)),
                       setY (fsub totalY 20), gap 20] p3)"

abbreviation roles :: "ustring list" where
  "roles \<equiv> [(lat ''Security Officer''), (lat ''Fleet Administrator''), (lat ''Compliance Reviewer'')]"

definition draw_role :: "rat \<Rightarrow> nat \<times> ustring \<Rightarrow> simple_pdf \<Rightarrow> simple_pdf" where
  "draw_role sigRowY ir p =
     (let x = 44 + 10 + of_nat (fst ir) * 170 in
      draw [line x (fsub sigRowY 2) (x + 140) (fsub sigRowY 2) (1 / 2),
            pdf_text x (fsub sigRowY 12) (snd ir) (opt 7 False (Some GRAY)),
            pdf_text x (fsub sigRowY 22) (lat ''Date: _______________'') (opt 7 False (Some GRAY))] p)"

definition drawAttestation :: "simple_pdf \<Rightarrow> simple_pdf" where
  "drawAttestation p =
     (let m = 44; p1 = ensure 120 p; boxTop = pd_y p1;
          p2 = draw [textLine (m + 10) (lat ''ATTESTATION & CERTIFICATION'') ((opt 9 True (Some GRAY))\<lparr>to_lineHeight := Some 14\<rparr>),
                     gap 4,
                     textBlock (m + 10) ((lat ''This report was automatically generated by Log Guardian and reflects the security posture '') @
                         (lat ''at generation time. Evidence is derived from live telemetry. For internal audit and authorized personnel only.''))
                       ((opt 8 False (Some GRAY))\<lparr>to_maxWidth := Some 500, to_lineHeight := Some 10\<rparr>),
                     gap 14] p1;
          sigRowY = pd_y p2;
          p3 = draw [fold (draw_role sigRowY) (enumerate 0 roles), setY (fsub sigRowY 34), gap 10,
                     textLine (m + 10) (lat ''CONFIDENTIAL - Do not distribute without authorization.'')
                       ((opt 7 False (Some GRAY))\<lparr>to_lineHeight := Some 10\<rparr>),
                     textLine (m + 10) (lat ''Log Guardian Enterprise Security Platform'')
                       ((opt 7 False (Some GRAY))\<lparr>to_lineHeight := Some 10\<rparr>)] p2;
          boxBottom = fsub (pd_y p3) 6;
          boxHeight = fadd (fsub boxTop boxBottom) 8
      in gap 12 (strokeRect m boxBottom (595 - m * 2) boxHeight 1 p3))"

definition compliance_pdf :: "locale_fmt \<Rightarrow> compliance_report \<Rightarrow> simple_pdf" where
  "compliance_pdf fmt r =
     drawAttestation (drawFleetTable fmt r (drawControls r (drawScoreSection r (drawHeader fmt r new_SimplePdf))))"

definition buildCompliancePdf :: "locale_fmt \<Rightarrow> compliance_report \<Rightarrow> nat list" where
  "buildCompliancePdf fmt r = build (compliance_pdf fmt r)"

subsection \<open>Export\<close>

datatype export_reply = Report_json compliance_report | Report_pdf "nat list" | Bad_format

definition export_GET ::
  "locale_fmt \<Rightarrow> int \<Rightarrow> file_report option \<Rightarrow> request \<Rightarrow> telemetry list option \<Rightarrow> export_reply" where
  "export_GET fmt now repo rq db =
     (let format = toLowerCase (or_default (query rq ''format'') ''json'');
          report = fetchComplianceReportForRequest fmt now repo rq db
      in if format = ''json'' then Report_json report
         else if format = ''pdf'' then Report_pdf (buildCompliancePdf fmt report)
         else Bad_format)"

subsection \<open>Every drawing keeps the pages well formed\<close>

context page_invariant
begin

lemma inv_draw: "inv p \<Longrightarrow> list_all (\<lambda>f. \<forall>q. inv q \<longrightarrow> inv (f q)) fs \<Longrightarrow> inv (draw fs p)"
  unfolding draw_def by (induction fs arbitrary: p) simp_all

lemma inv_drawHeader: "inv p \<Longrightarrow> inv (drawHeader fmt r p)"
  unfolding drawHeader_def Let_def by (auto split: prod.split intro!: inv_draw simp: inv_intros)

lemma inv_chip: "inv (snd st) \<Longrightarrow> inv (snd (chip_step st std))"
  unfolding chip_step_def Let_def by (auto split: prod.split intro!: inv_draw simp: inv_intros)

lemma inv_chips: "inv (snd st) \<Longrightarrow> inv (snd (foldl chip_step st stds))"
  by (induction stds arbitrary: st) (simp_all add: inv_chip)

lemma inv_kpi: "inv p \<Longrightarrow> inv (draw_kpi x y k p)"
  unfolding draw_kpi_def Let_def by (auto split: prod.split intro!: inv_draw simp: inv_intros)

lemma inv_score: "inv p \<Longrightarrow> inv (draw_score r y p)"
  unfolding draw_score_def Let_def by (intro inv_draw) (simp_all add: inv_intros)

lemma inv_drawScoreSection:
  assumes "inv p"
  shows "inv (drawScoreSection r p)"
proof -
  define p1 where "p1 = gap 8 (textLine 44 (lat ''COMPLIANCE STANDARDS'') ((opt 9 True (Some GRAY))\<lparr>to_lineHeight := Some 14\<rparr>) p)"
  obtain x y p2 where p2: "foldl chip_step ((44, pd_y p1), p1) (rep_standards r) = ((x, y), p2)"
    by (metis prod.exhaust)
  have "inv p1" using assms by (simp add: p1_def inv_intros)
  then have "inv p2" using inv_chips [of "((44, pd_y p1), p1)" "rep_standards r"] p2 by simp
  then show ?thesis
    unfolding drawScoreSection_def Let_def p1_def [symmetric] p2 prod.case
    by (intro inv_draw inv_gap inv_setY inv_fold inv_kpi inv_score) (simp_all add: inv_intros)
qed

lemma inv_control: "inv p \<Longrightarrow> inv (draw_control ctrl p)"
  unfolding draw_control_def Let_def by (intro inv_draw inv_ensure) (simp_all add: inv_intros)

lemma inv_drawControls: "inv p \<Longrightarrow> inv (drawControls r p)"
  unfolding drawControls_def Let_def by (intro inv_fold inv_control inv_draw) (simp_all add: inv_intros)

lemma inv_cells: "inv p \<Longrightarrow> inv (draw_cells x y opts cells p)"
  by (induction x y opts cells p rule: draw_cells.induct) (simp_all add: inv_text)

lemma inv_node: "inv p \<Longrightarrow> inv (draw_node fmt n p)"
  unfolding draw_node_def Let_def by (intro inv_draw inv_ensure) (simp_all add: inv_intros inv_cells)

lemma inv_drawFleetTable:
  assumes "inv p"
  shows "inv (drawFleetTable fmt r p)"
proof -
  define p1 where "p1 = draw [ensure 80, textLine 44 (lat ''FLEET DEPLOYMENT MATRIX'') ((opt 9 True (Some GRAY))\<lparr>to_lineHeight := Some 14\<rparr>),
      gap 4, (\<lambda>q. line 44 (pd_y q) (595 - 44) (pd_y q) (1 / 2) q), gap 10] p"
  have "inv p1" using assms unfolding p1_def by (intro inv_draw) (simp_all add: inv_intros)
  then show ?thesis
    unfolding drawFleetTable_def Let_def p1_def [symmetric]
    by (auto simp: inv_intros inv_cells intro!: inv_draw inv_gap inv_fold inv_node)
qed

lemma inv_drawAttestation: "inv p \<Longrightarrow> inv (drawAttestation p)"
  unfolding drawAttestation_def Let_def draw_role_def
  by (intro inv_gap inv_strokeRect inv_draw inv_ensure) (simp_all add: inv_intros inv_fold inv_draw)

end

lemma compliance_pdf_ok: "pdf_ok (compliance_pdf fmt r)"
  unfolding compliance_pdf_def
  by (intro ok.inv_drawAttestation ok.inv_drawFleetTable ok.inv_drawControls ok.inv_drawScoreSection
      ok.inv_drawHeader pdf_ok_new)

lemma header_started: "started (drawHeader fmt r p)"
proof -
  have "started (draw (fillRect x y w h c # fs) p)" if "list_all (\<lambda>f. \<forall>q. started q \<longrightarrow> started (f q)) fs" for x y w h c fs
    using begun.inv_draw [OF _ that, of "fillRect x y w h c p"] by (simp add: draw_def fillRect_def started_emit)
  then show ?thesis
    unfolding drawHeader_def Let_def by (auto split: prod.split simp: begun.inv_intros)
qed

lemma compliance_pdf_started: "started (compliance_pdf fmt r)"
  unfolding compliance_pdf_def
  by (intro begun.inv_drawAttestation begun.inv_drawFleetTable begun.inv_drawControls begun.inv_drawScoreSection header_started)

subsection \<open>The sums\<close>

lemma fleet_sums_fold:
  "sm_online (foldl (sum_agent now) s0 agents) = sm_online s0 + length (filter (agent_is_online now) agents)"
  "sm_rce (foldl (sum_agent now) s0 agents) = sm_rce s0 + sum_list (map tl_rceDetections agents)"
  "sm_tarpit (foldl (sum_agent now) s0 agents) = sm_tarpit s0 + sum_list (map tl_tarpitActive agents)"
  "sm_lines (foldl (sum_agent now) s0 agents) = sm_lines s0 + sum_list (map tl_totalLines agents)"
  "sm_alerts (foldl (sum_agent now) s0 agents) = sm_alerts s0 + sum_list (map tl_alertsTotal agents)"
  "sm_mesh (foldl (sum_agent now) s0 agents) = sm_mesh s0 + sum_list (map tl_meshPeers (filter (agent_is_online now) agents))"
  by (induction agents arbitrary: s0) (simp_all add: sum_agent_def Let_def)

lemma baseControls_passed: "list_all (\<lambda>c. ctl_status c = PASSED) (baseControls fmt s n)" "length (baseControls fmt s n) = 12"
  by (simp_all add: baseControls_def KVKK_CONTROLS_def control_def)

lemma percent_full: "percent 12 12 = 100"
  by (simp add: percent_def js_round_def)

subsection \<open>Properties\<close>

text \<open>C15. No text of a report can draw: whatever the agents, the controls and the report file
call themselves, the PDF of a report consists of pages, at least one, whose every operation is
either a text operation with a string literal that a viewer closes exactly before the operator, or
one line without parentheses.\<close>

theorem report_pdf_inert:
  "\<exists>pages. flush (compliance_pdf fmt r) = map (join [nl]) pages \<and> pages \<noteq> [] \<and> list_all (list_all inert) pages"
  using pdf_ok_pages [OF compliance_pdf_ok, of fmt r] compliance_pdf_started [of fmt r]
  by (auto simp: started_def)

text \<open>C16. The report built from the telemetry: the counts of the summary are the sums over the
rows of the query, mesh peers over the agents seen in the last 15 seconds only; and whatever the
rows are, even when there is no agent at all, all twelve controls have passed and the score is 100.\<close>

theorem report_from_telemetry:
  "let r = buildFromTelemetry fmt now agents; es = rep_executiveSummary r;
       online = filter (\<lambda>a. now - tl_lastSeen a < 15000) agents
   in ex_totalAgentsActive es = length agents \<and> ex_onlineAgents es = length online
      \<and> ex_totalThreatsMitigated es = of_int (\<Sum>a\<leftarrow>agents. tl_rceDetections a + tl_tarpitActive a)
      \<and> ex_totalEventsProcessed es = of_int (\<Sum>a\<leftarrow>agents. tl_totalLines a)
      \<and> ex_totalAlerts es = (\<Sum>a\<leftarrow>agents. tl_alertsTotal a)
      \<and> ex_totalMeshPeers es = (\<Sum>a\<leftarrow>online. tl_meshPeers a)
      \<and> length (rep_securityControls r) = 12 \<and> list_all (\<lambda>c. ctl_status c = PASSED) (rep_securityControls r)
      \<and> ex_passRatePct es = Some 100"
proof -
  have "agent_is_online now = (\<lambda>a. now - tl_lastSeen a < 15000)" by (simp add: agent_is_online_def fun_eq_iff)
  moreover have "passed_controls (baseControls fmt s n) = 12" for s n
    using baseControls_passed [of fmt s n] by (simp add: passed_controls_def list_all_iff)
  ultimately show ?thesis
    by (simp add: buildFromTelemetry_def Let_def fleet_sums_fold sum_list_addf baseControls_passed percent_full)
qed

end
