(* ===== verification/ReportJson.thy ===== *)
theory ReportJson
  imports Pdf
begin

section \<open>Report files and test cards\<close>

text \<open>
  What the test board of \<^verbatim>\<open>lib/validationTests.ts\<close> reads and what it makes of it.  A report is the
  value of its JSON text.  The code casts each report to a declared type whose fields are all optional;
  an accessor below gives a field at its declared type, and nothing when the field is missing, null or of
  another type.  The keys of an object are distinct and in the order JavaScript enumerates them.  Texts are
  lists of UTF-16 code units.
\<close>

subsection \<open>Texts\<close>

text \<open>A text literal in which \<open>{h}\<close> stands for the code unit with the hexadecimal number \<open>h\<close>.\<close>

definition hex_digit :: "char \<Rightarrow> nat" where
  "hex_digit c = (let n = of_char c in if 65 \<le> n then n - 55 else n - 48)"

definition hex_val :: "string \<Rightarrow> nat" where
  "hex_val s = foldl (\<lambda>n c. 16 * n + hex_digit c) 0 s"

function tu :: "string \<Rightarrow> ustring" where
  "tu [] = []"
| "tu (c # s) =
     (if c = CHR ''{''
      then hex_val (takeWhile (\<lambda>d. d \<noteq> CHR ''}'') s) # tu (drop 1 (dropWhile (\<lambda>d. d \<noteq> CHR ''}'') s))
      else of_char c # tu s)"
  by pat_completeness auto

termination
proof (relation "measure length", goal_cases)
  case (2 c s)
  have "length (dropWhile (\<lambda>d. d \<noteq> CHR ''}'') s) \<le> length s" by (rule length_dropWhile_le)
  then show ?case by simp
qed simp_all

declare tu.simps [simp del]

fun u_includes :: "ustring \<Rightarrow> ustring \<Rightarrow> bool" where
  "u_includes [] p = (p = [])"
| "u_includes (c # s) p = (take (length p) (c # s) = p \<or> u_includes s p)"

text \<open>\<open>s.replace(/^https?:\/\//, "")\<close>\<close>

definition strip_scheme :: "ustring \<Rightarrow> ustring" where
  "strip_scheme s =
     (if take 7 s = lat ''http://'' then drop 7 s
      else if take 8 s = lat ''https://'' then drop 8 s else s)"

definition u_lower :: "ustring \<Rightarrow> ustring" where
  "u_lower s = map (\<lambda>c. if 65 \<le> c \<and> c \<le> 90 then c + 32 else c) s"

text \<open>\<open>String(x)\<close> of a number, of a value that may be missing, and \<open>Math.round\<close>.\<close>

definition num_text :: "rat \<Rightarrow> ustring" where
  "num_text x = lat (show_num x)"

definition opt_text :: "('a \<Rightarrow> ustring) \<Rightarrow> 'a option \<Rightarrow> ustring" where
  "opt_text f v = (case v of None \<Rightarrow> lat ''undefined'' | Some x \<Rightarrow> f x)"

definition math_round :: "rat \<Rightarrow> rat" where
  "math_round x = of_int \<lfloor>x + 1 / 2\<rfloor>"

definition num_truthy :: "rat option \<Rightarrow> bool" where
  "num_truthy v = (case v of None \<Rightarrow> False | Some x \<Rightarrow> x \<noteq> 0)"

definition txt_truthy :: "ustring option \<Rightarrow> bool" where
  "txt_truthy v = (case v of None \<Rightarrow> False | Some x \<Rightarrow> x \<noteq> [])"

text \<open>\<open>v || d\<close> of texts.\<close>

definition or_else :: "ustring option \<Rightarrow> ustring \<Rightarrow> ustring" where
  "or_else v d = (if txt_truthy v then the v else d)"

subsection \<open>Reports\<close>

datatype rjson = RNull | RBool bool | RNum rat | RStr ustring | RArr "rjson list" | RObj "(string \<times> rjson) list"

definition fld :: "rjson \<Rightarrow> string \<Rightarrow> rjson option" where
  "fld r k = (case r of RObj fs \<Rightarrow> map_of fs k | _ \<Rightarrow> None)"

definition numf :: "rjson \<Rightarrow> string \<Rightarrow> rat option" where
  "numf r k = (case fld r k of Some (RNum x) \<Rightarrow> Some x | _ \<Rightarrow> None)"

definition txtf :: "rjson \<Rightarrow> string \<Rightarrow> ustring option" where
  "txtf r k = (case fld r k of Some (RStr x) \<Rightarrow> Some x | _ \<Rightarrow> None)"

definition boolf :: "rjson \<Rightarrow> string \<Rightarrow> bool option" where
  "boolf r k = (case fld r k of Some (RBool x) \<Rightarrow> Some x | _ \<Rightarrow> None)"

definition objf :: "rjson \<Rightarrow> string \<Rightarrow> rjson option" where
  "objf r k = (case fld r k of Some (RObj x) \<Rightarrow> Some (RObj x) | _ \<Rightarrow> None)"

definition recf :: "rjson \<Rightarrow> string \<Rightarrow> (string \<times> rjson) list option" where
  "recf r k = (case fld r k of Some (RObj x) \<Rightarrow> Some x | _ \<Rightarrow> None)"

definition objsf :: "rjson \<Rightarrow> string \<Rightarrow> rjson list option" where
  "objsf r k = (case fld r k of Some (RArr x) \<Rightarrow> Some x | _ \<Rightarrow> None)"

definition textsf :: "rjson \<Rightarrow> string \<Rightarrow> ustring list option" where
  "textsf r k =
     (case fld r k of
        Some (RArr x) \<Rightarrow> Some (map (\<lambda>v. case v of RStr s \<Rightarrow> s | _ \<Rightarrow> []) x)
      | _ \<Rightarrow> None)"

subsection \<open>Cards\<close>

datatype test_status = Pass | Fail | Pending | Warn

record test_card =
  vt_id :: ustring
  vt_status :: test_status
  vt_title :: ustring
  vt_purpose :: ustring
  vt_verdict :: ustring
  vt_metrics :: "(ustring \<times> ustring) list"
  vt_date :: "ustring option"
  vt_script :: ustring
  vt_badge :: "ustring option"
  vt_docHref :: "ustring option"
  vt_docLabel :: "ustring option"

definition mk_card ::
  "ustring \<Rightarrow> test_status \<Rightarrow> ustring \<Rightarrow> ustring \<Rightarrow> ustring \<Rightarrow> (ustring \<times> ustring) list \<Rightarrow> ustring option \<Rightarrow> ustring
   \<Rightarrow> test_card" where
  "mk_card i st title purpose verdict metrics date script =
     \<lparr> vt_id = i, vt_status = st, vt_title = title, vt_purpose = purpose, vt_verdict = verdict,
       vt_metrics = metrics, vt_date = date, vt_script = script, vt_badge = None, vt_docHref = None,
       vt_docLabel = None \<rparr>"

text \<open>The text in Turkish when the flag is set, and in English otherwise.\<close>

definition L :: "bool \<Rightarrow> ustring \<Rightarrow> ustring \<Rightarrow> ustring" where
  "L tr t e = (if tr then t else e)"

text \<open>\<open>dt\<close> prints a date in the locale of the server; \<open>None\<close> is an exception.\<close>

definition fmtDate :: "(ustring \<Rightarrow> ustring option) \<Rightarrow> ustring option \<Rightarrow> ustring option" where
  "fmtDate dt d = (if txt_truthy d then Some (nullish (dt (the d)) (the d)) else None)"

definition arm64BinaryVerified :: "ustring option \<Rightarrow> ustring option \<Rightarrow> bool" where
  "arm64BinaryVerified mode f =
     (if \<not> txt_truthy mode \<or> mode = Some (lat ''dry-run'') \<or> mode = Some (lat ''skip'') then False
      else if \<not> txt_truthy f then take 6 (the mode) = lat ''native''
      else u_includes (u_lower (the f)) (lat ''aarch64'') \<or> u_includes (u_lower (the f)) (lat ''arm''))"

text \<open>
  The reports by the name they have in \<open>TestReports\<close>, the source of the soak report, the date
  printer and the language give a list of cards.
\<close>

type_synonym cards =
  "(string \<Rightarrow> rjson option) \<Rightarrow> ustring option \<Rightarrow> (ustring \<Rightarrow> ustring option) \<Rightarrow> bool \<Rightarrow> test_card list"

definition card_key :: "test_card \<Rightarrow> ustring \<times> test_status" where
  "card_key t = (vt_id t, vt_status t)"

lemma card_key_mk [simp]: "card_key (mk_card i st title purpose verdict metrics date script) = (i, st)"
  by (simp add: card_key_def mk_card_def)

lemma card_key_badge [simp]: "card_key (t\<lparr>vt_badge := b\<rparr>) = card_key t"
  by (simp add: card_key_def)

subsection \<open>The board in outline\<close>

text \<open>
  The status a report gives its card, without the texts; \<open>None\<close> when the report gives no card.
  Most cards repeat the verdict of their report.
\<close>

definition passed :: "rjson \<Rightarrow> bool" where
  "passed r = (boolf r ''pass'' = Some True)"

definition mode_is :: "rjson \<Rightarrow> string \<Rightarrow> bool" where
  "mode_is r m = (txtf r ''mode'' = Some (lat m))"

definition gate_st :: "rjson \<Rightarrow> test_status option" where
  "gate_st r = Some (if passed r then Pass else Fail)"

definition warn_st :: "rjson \<Rightarrow> test_status option" where
  "warn_st r = Some (if passed r then Pass else Warn)"

definition mtls_st :: "rjson \<Rightarrow> test_status option" where
  "mtls_st r = (if boolf r ''skipped'' = Some True then None else warn_st r)"

text \<open>A report that passed, but only weakly unless some more holds of it.\<close>

definition full_st :: "(rjson \<Rightarrow> bool) \<Rightarrow> rjson \<Rightarrow> test_status option" where
  "full_st P r = Some (if \<not> passed r then Fail else if P r then Pass else Warn)"

definition ollama_full :: "rjson \<Rightarrow> bool" where
  "ollama_full r = (\<not> mode_is r ''skip'' \<and> boolf r ''ollama_reachable'' = Some True)"

definition market_full :: "rjson \<Rightarrow> bool" where
  "market_full r = (mode_is r ''enterprise-live'' \<longrightarrow> boolf r ''verify_ok'' = Some True)"

definition export_full :: "rjson \<Rightarrow> bool" where
  "export_full r = (\<not> mode_is r ''tier_gate'' \<and> \<not> mode_is r ''skip'')"

definition xdp_full :: "rjson \<Rightarrow> bool" where
  "xdp_full r = (mode_is r ''kernel-xdp'' \<or> mode_is r ''skip'')"

definition arm_full :: "rjson \<Rightarrow> bool" where
  "arm_full r = arm64BinaryVerified (Some (nullish (txtf r ''mode'') (tu ''{2014}''))) (txtf r ''file'')"

definition l7_full :: "rjson \<Rightarrow> bool" where
  "l7_full r = (txtf r ''ipc'' = Some (lat ''ok'') \<and> boolf r ''l7_probe_active'' = Some True)"

definition kind_full :: "rjson \<Rightarrow> bool" where
  "kind_full r =
     (txtf r ''mode'' \<noteq> None
      \<and> list_all (\<lambda>m. \<not> mode_is r m) [''skip'', ''skip-no-kind'', ''skip-no-cluster'', ''skip-no-helm'', ''skip-no-kubectl''])"

definition wasm_st :: "rjson \<Rightarrow> test_status option" where
  "wasm_st r =
     Some (if mode_is r ''native'' \<and> passed r then Pass else if boolf r ''pass'' = Some False then Fail else Warn)"

text \<open>Cards that can pass although their report does not say so.\<close>

definition fp_st :: "rjson \<Rightarrow> test_status option" where
  "fp_st r =
     Some (if nullish (Option.bind (objf r ''benign'') (\<lambda>b. numf b ''fp_rate_pct'')) 0 < nullish (numf r ''target_fp_pct'') 5
           then Pass else Fail)"

definition soak_hours :: "rjson \<Rightarrow> rat" where
  "soak_hours r =
     (if num_truthy (case numf r ''duration_hours'' of None \<Rightarrow> numf r ''duration_sec'' | Some v \<Rightarrow> Some v)
      then fdiv (nullish (numf r ''duration_sec'') 0) 3600 else 0)"

definition soak_st :: "rjson \<Rightarrow> test_status option" where
  "soak_st r =
     (if boolf r ''short_mode'' = Some True then None
      else Some (if boolf r ''pass_laptop_proof'' = Some True
                    \<or> boolf r ''pass_operational'' = Some True \<and> 70 \<le> soak_hours r
                      \<and> nullish (numf r ''real_failures'') (nullish (numf r ''failures'') 0) = 0
                 then Pass else if boolf r ''pass_operational'' = Some True then Warn else Fail))"

definition bench_st :: "rjson \<Rightarrow> test_status option" where
  "bench_st r = Some Pass"

definition latency_st :: "rjson \<Rightarrow> test_status option" where
  "latency_st r =
     (case numf r ''ban_latency_ms'' of
        Some ms \<Rightarrow> Some (if passed r \<or> ms \<le> nullish (numf r ''target_ms'') 75 then Pass else Fail)
      | None \<Rightarrow> if txt_truthy (txtf r ''note'') then Some Pending else None)"

definition pipeline_st :: "rjson \<Rightarrow> test_status option" where
  "pipeline_st r =
     Some (if (txtf r ''ipc'' = Some (lat ''ok'') \<or> txtf r ''ipc'' = Some (lat ''connected''))
              \<and> nullish (Option.bind (objf r ''ban_pipeline'') (\<lambda>b. numf b ''failed'')) 0 = 0
           then Pass else Fail)"

definition fleet_st :: "rjson \<Rightarrow> test_status option" where
  "fleet_st r = Some (if passed r \<or> boolf r ''skipped'' = Some True then Pass else Fail)"

definition demo_st :: "rjson \<Rightarrow> test_status option" where
  "demo_st r =
     Some (if passed r \<or> 0 < nullish (numf r ''bans_applied'') 0 \<and> 0 < nullish (numf r ''active_bans_synced'') 0 then Pass
           else if u_includes (nullish (txtf r ''note'') []) (lat ''CLEANUP'') then Warn else Fail)"

text \<open>A card in outline: its id, the name of its report, and the status the report gives it.\<close>

type_synonym outline = "string \<times> string \<times> (rjson \<Rightarrow> test_status option)"

definition entry_key :: "(string \<Rightarrow> rjson option) \<Rightarrow> outline \<Rightarrow> (ustring \<times> test_status) list" where
  "entry_key rp e =
     (case e of (i, f, g) \<Rightarrow> (case Option.bind (rp f) g of None \<Rightarrow> [] | Some s \<Rightarrow> [(lat i, s)]))"

definition board :: "(string \<Rightarrow> rjson option) \<Rightarrow> outline list \<Rightarrow> (ustring \<times> test_status) list" where
  "board rp es = concat (map (entry_key rp) es)"

lemma board_simps:
  "board rp [] = []" "board rp (e # es) = entry_key rp e @ board rp es"
  by (simp_all add: board_def)

lemma key_option:
  "map card_key (case x of None \<Rightarrow> [] | Some r \<Rightarrow> F r) = (case x of None \<Rightarrow> [] | Some r \<Rightarrow> map card_key (F r))"
  by (cases x) simp_all

lemma key_let: "map card_key (Let v F) = Let v (\<lambda>x. map card_key (F x))"
  by (simp add: Let_def)

lemma key_if: "map card_key (if b then xs else ys) = (if b then map card_key xs else map card_key ys)"
  by simp

lemmas key_push = key_option key_let key_if map_append list.map card_key_mk card_key_badge

lemma case_entry:
  assumes "\<And>r. F r = (case g r of None \<Rightarrow> [] | Some s \<Rightarrow> [(lat i, s)])"
  shows "(case rp f of None \<Rightarrow> [] | Some r \<Rightarrow> F r) = entry_key rp (i, f, g)"
  using assms by (cases "rp f") (simp_all add: entry_key_def)

lemmas st_defs = passed_def mode_is_def gate_st_def warn_st_def mtls_st_def full_st_def ollama_full_def
  market_full_def export_full_def xdp_full_def arm_full_def l7_full_def kind_full_def wasm_st_def fp_st_def
  soak_hours_def soak_st_def bench_st_def latency_st_def pipeline_st_def fleet_st_def demo_st_def

lemma nullish_eq: "d \<noteq> x \<Longrightarrow> nullish v d = x \<longleftrightarrow> v = Some x"
  by (cases v) (simp_all add: nullish_def)

lemma nullish_default: "nullish v d = d \<longleftrightarrow> v = None \<or> v = Some d"
  by (cases v) (simp_all add: nullish_def)

lemma nullish_False: "nullish v False \<longleftrightarrow> v = Some True"
  by (cases v) (simp_all add: nullish_def)

lemma dash_text: "tu ''{2014}'' = [0x2014]"
  by code_simp

lemma lat_units: "u \<in> set (lat s) \<Longrightarrow> u < 256"
proof -
  have "of_char c < (256 :: nat)" for c :: char
    using range_nat_of_char rangeI [of "of_char :: char \<Rightarrow> nat" c] by simp
  then show "u \<in> set (lat s) \<Longrightarrow> u < 256" by (auto simp: lat_def)
qed

lemma lat_neq_dash: "lat s \<noteq> [0x2014]" "[0x2014] \<noteq> lat s"
proof -
  show "lat s \<noteq> [0x2014]" using lat_units [of "0x2014" s] by force
  then show "[0x2014] \<noteq> lat s" by metis
qed

lemma lat_eq_iff: "lat s = lat t \<longleftrightarrow> s = t"
  by (simp add: lat_def inj_map_eq_map inj_on_def)

lemmas st_simps = st_defs dash_text lat_neq_dash lat_eq_iff nullish_eq nullish_default nullish_False

end
