(* ===== verification/TestCardsA.thy ===== *)
theory TestCardsA
  imports ReportJson
begin

section \<open>Validation test cards, first part\<close>

text \<open>
  \<^verbatim>\<open>lib/validationTests.ts\<close>, lines 1093 to 2295 of \<open>evaluateValidationTests\<close>: the cards whose
  reports are read in this stretch, a group of neighbouring blocks per definition.  A block gives no
  card when its report is missing.
\<close>

definition cards_crs_parity :: cards where
  "cards_crs_parity rp src dt tr =
    (case rp ''crs'' of
      None \<Rightarrow> []
    | Some crs \<Rightarrow>
      let recall = nullish (Option.bind (objf crs ''guardian'') (\<lambda>o'. numf o' ''attack_recall_pct'')) 0;
        parity = nullish (numf crs ''parity_pct'') 0;
        pass = (boolf crs ''pass'' = Some True)
      in [mk_card (lat ''crs-parity'') (if pass then Pass else Fail)
        (L tr (tu ''OWASP CRS ile ayn{131} sald{131}r{131} sat{131}rlar{131}nda tespit paritesini {F6}l{E7}{FC}yoruz'')
          (lat ''We measure detection parity against OWASP CRS on the same attack lines''))
        (L tr (tu ''Kural setimizin bilinen sald{131}r{131} {F6}rneklerini ka{E7}{131}rmad{131}{11F}{131}n{131} kan{131}tlar.'')
          (lat ''Proves our rule set does not miss known attack samples.''))
        (if pass then L tr (nullish (map_option num_text (numf crs ''attacks_total'')) (tu ''{2014}'')
          @ tu '' sald{131}r{131} sat{131}r{131}n{131}n tamam{131}nda uyar{131} {FC}retildi; CRS ile %''
          @ lat (toFixed 0 parity) @ lat '' parite.'') (lat ''Alerts on all ''
          @ nullish (map_option num_text (numf crs ''attacks_total'')) (tu ''{2014}'') @ lat '' attack lines; ''
          @ lat (toFixed 0 parity) @ lat ''% parity with CRS.'') else L tr (tu ''Sald{131}r{131} recall %''
          @ lat (toFixed 1 recall) @ tu '' {2014} hedefin alt{131}nda; kural seti g{F6}zden ge{E7}irilmeli.'')
          (lat ''Attack recall '' @ lat (toFixed 1 recall) @ tu ''% {2014} below target; review rule set.''))
        [(L tr (lat ''Recall'') (lat ''Recall''), lat (toFixed 1 recall) @ lat ''%''),
          (L tr (lat ''Parite'') (lat ''Parity''), lat (toFixed 1 parity) @ lat ''%'')]
        (fmtDate dt (txtf crs ''date'')) (lat ''scripts/crs_parity_e2e.sh'')])
    @ (case rp ''realAttack'' of
      None \<Rightarrow> []
    | Some real_v \<Rightarrow>
      let recall = nullish (numf real_v ''attack_recall_pct'') 0;
        target = nullish (numf real_v ''target_recall_pct'') 85;
        pass = (boolf real_v ''pass'' = Some True);
        cats = nullish (recf real_v ''categories'') [];
        failedCats = map (\<lambda>(k, _). lat k) (filter (\<lambda>(_, c). (boolf c ''pass'' = Some False)) cats)
      in [mk_card (lat ''real-attack'') (if pass then Pass else Fail)
        (L tr (tu ''Ger{E7}ek sald{131}r{131} corpus{27}unda (30 kategori: SQLi, RFI, GraphQL, path traversal, JWT alg, BOLA, {2026}) tespit oran{131}n{131} {F6}l{E7}{FC}yoruz'')
          (tu ''We measure detection on a 30-category real attack corpus (SQLi, RFI, GraphQL, path traversal, JWT alg, BOLA, {2026})''))
        (L tr (tu ''CRS d{131}{15F}{131}, g{FC}ncel payload {F6}rneklerinde kural setinin recall{27}unu kan{131}tlar.'')
          (lat ''Proves rule-set recall on current payloads beyond CRS parity alone.''))
        (if pass then L tr (nullish (map_option num_text (numf real_v ''lines_total'')) (tu ''{2014}'')
          @ tu '' sat{131}rda ortalama recall %'' @ lat (toFixed 1 recall) @ tu '' {2014} hedef >=%'' @ num_text target
          @ lat ''.'') (nullish (map_option num_text (numf real_v ''lines_total'')) (tu ''{2014}'') @ lat '' lines at ''
          @ lat (toFixed 1 recall) @ tu ''% average recall {2014} target >='' @ num_text target @ lat ''%.'')
          else L tr (lat ''Recall %'' @ lat (toFixed 1 recall) @ tu '' {2014} hedef >=%'' @ num_text target
          @ tu '' alt{131}nda'' @ (if failedCats \<noteq> [] then (lat '' ('' @ u_join (lat '', '') failedCats @ lat '')'')
          else []) @ lat ''.'') (lat ''Recall '' @ lat (toFixed 1 recall) @ tu ''% {2014} below '' @ num_text target
          @ lat ''% target'' @ (if failedCats \<noteq> [] then (lat '' ('' @ u_join (lat '', '') failedCats @ lat '')'')
          else []) @ lat ''.''))
        [(L tr (lat ''Recall'') (lat ''Recall''), lat (toFixed 1 recall) @ lat ''%''),
          (L tr (lat ''Kategori'') (lat ''Categories''), num_text (of_nat (length (map (\<lambda>(k, _). lat k) cats)))),
          (L tr (tu ''Sat{131}r'') (lat ''Lines''), num_text (nullish (numf real_v ''lines_total'') 0)),
          (L tr (tu ''Uyar{131}'') (lat ''Alerts''), num_text (nullish (numf real_v ''alerts_total'') 0))]
        (fmtDate dt (txtf real_v ''date'')) (lat ''scripts/real_attack_suite.sh'')])
    @ (case rp ''realAttack10k'' of
      None \<Rightarrow> []
    | Some real10k \<Rightarrow>
      let recall = nullish (numf real10k ''attack_recall_pct'') 0;
        target = nullish (numf real10k ''target_recall_pct'') 85;
        pass = (boolf real10k ''pass'' = Some True)
      in [mk_card (lat ''real-attack-10k'') (if pass then Pass else Fail)
        (L tr (tu ''Geni{15F}letilmi{15F} 10K sald{131}r{131} corpus{27}unda recall {F6}l{E7}{FC}yoruz'')
          (lat ''We measure recall on an expanded 10K attack corpus''))
        (L tr (tu ''1K{27}nin {F6}tesinde {F6}l{E7}eklenebilir tespit kan{131}t{131} {2014} 19 kategori, dinamik varyant.'')
          (tu ''Scalable detection proof beyond 1K {2014} 19 categories, dynamic variants.''))
        (if pass then L tr (nullish (map_option num_text (numf real10k ''lines_total'')) (tu ''{2014}'')
          @ tu '' sat{131}rda %'' @ lat (toFixed 1 recall) @ tu '' recall {2014} hedef >=%'' @ num_text target @ lat ''.'')
          (nullish (map_option num_text (numf real10k ''lines_total'')) (tu ''{2014}'') @ lat '' lines at ''
          @ lat (toFixed 1 recall) @ tu ''% recall {2014} target >='' @ num_text target @ lat ''%.'')
          else L tr (lat ''10K recall %'' @ lat (toFixed 1 recall) @ tu '' {2014} scripts/corpus_10k_proof.sh'')
          (lat ''10K recall '' @ lat (toFixed 1 recall) @ tu ''% {2014} scripts/corpus_10k_proof.sh''))
        [(L tr (lat ''Recall'') (lat ''Recall''), lat (toFixed 1 recall) @ lat ''%''),
          (L tr (tu ''Sat{131}r'') (lat ''Lines''), num_text (nullish (numf real10k ''lines_total'') 0))]
        (fmtDate dt (txtf real10k ''date'')) (lat ''scripts/corpus_10k_proof.sh'')])"

definition cards_live_attack :: cards where
  "cards_live_attack rp src dt tr =
    (case rp ''liveAttack'' of
      None \<Rightarrow> []
    | Some liveAtk \<Rightarrow>
      let summ = nullish (objf liveAtk ''summary'') (RObj []);
        sent = nullish (numf summ ''sent_total'') 0;
        refused = nullish (numf summ ''refused_total'') 0;
        pass = (boolf liveAtk ''pass'' = Some True)
      in [mk_card (lat ''live-attack'') (if pass then Pass else Fail)
        (L tr (tu ''Canl{131} nginx :80 sald{131}r{131} harness{27}inde tester + ban kan{131}t{131}n{131} {F6}l{E7}{FC}yoruz'')
          (lat ''We measure live nginx :80 attack harness with tester + ban evidence''))
        (L tr (tu ''SQLi/POST/brute/ddos/slow senaryolar{131}n{131}n ger{E7}ek nginx {FC}zerinde reddedildi{11F}ini kan{131}tlar.'')
          (lat ''Proves SQLi/POST/brute/ddos/slow scenarios are refused on real nginx.''))
        (if pass then L tr (num_text sent @ tu '' istek g{F6}nderildi, '' @ num_text refused @ lat '' reddedildi''
          @ (if boolf summ ''ban_evidence'' = Some True then tu '' {2014} ban kan{131}t{131} var'' else [])
          @ lat ''.'') (num_text sent @ lat '' requests sent, '' @ num_text refused @ lat '' refused''
          @ (if boolf summ ''ban_evidence'' = Some True then tu '' {2014} ban evidence present'' else []) @ lat ''.'')
          else L tr (tu ''Canl{131} harness ba{15F}ar{131}s{131}z veya nginx kapal{131} {2014} scripts/live_attack_harness.sh'')
          (tu ''Live harness failed or nginx down {2014} scripts/live_attack_harness.sh''))
        [(L tr (tu ''G{F6}nderilen'') (lat ''Sent''), num_text sent),
          (L tr (lat ''Reddedilen'') (lat ''Refused''), num_text refused)]
        (fmtDate dt (txtf liveAtk ''generated_at'')) (lat ''scripts/live_attack_harness.sh'')])
    @ (case rp ''owaspCorpus'' of
      None \<Rightarrow> []
    | Some owasp \<Rightarrow>
      let recall = nullish (numf owasp ''attack_recall_pct'') 0;
        pass = (boolf owasp ''pass'' = Some True)
      in [mk_card (lat ''owasp-corpus'') (if pass then Pass else Fail)
        (L tr (tu ''OWASP/CRS tarz{131} test corpus recall'') (lat ''OWASP/CRS-style test corpus recall''))
        (L tr (tu ''OWASP WSTG ve CRS yayg{131}n pattern{27}leriyle ek sald{131}r{131} kapsam{131} do{11F}rular.'')
          (lat ''Validates extra attack coverage with common OWASP WSTG and CRS patterns.''))
        (if pass then L tr (lat ''%'' @ lat (toFixed 1 recall) @ tu '' recall {2014} '' @ num_text
          (nullish (numf owasp ''lines_total'') 0) @ tu '' sat{131}r.'') (lat (toFixed 1 recall) @ tu ''% recall {2014} ''
          @ num_text (nullish (numf owasp ''lines_total'') 0) @ lat '' lines.'')
          else L tr (tu ''OWASP corpus recall d{FC}{15F}{FC}k {2014} scripts/owasp_corpus_proof.sh'')
          (tu ''Low OWASP corpus recall {2014} scripts/owasp_corpus_proof.sh''))
        [(L tr (lat ''Recall'') (lat ''Recall''), lat (toFixed 1 recall) @ lat ''%'')]
        (fmtDate dt (txtf owasp ''date'')) (lat ''scripts/owasp_corpus_proof.sh'')])
    @ (case rp ''trHostingCorpus'' of
      None \<Rightarrow> []
    | Some trHost \<Rightarrow>
      let recall = nullish (numf trHost ''attack_recall_pct'') 0;
        pass = (boolf trHost ''pass'' = Some True);
        custAtk = if ((Option.bind (rp ''customerCorpus'') (\<lambda>o'. boolf o' ''pass'') = Some True) \<and> (Option.bind
          (rp ''customerCorpus'') (\<lambda>o'. recf o' ''categories'') \<noteq> None))
          then (of_nat (length (filter (\<lambda>k. (k \<noteq> lat ''benign'')) (map (\<lambda>(k, _). lat k) (the
          (Option.bind (rp ''customerCorpus'') (\<lambda>o'. recf o' ''categories''))))))) else 0;
        custSuffix = if ((Option.bind (rp ''customerCorpus'') (\<lambda>o'. boolf o' ''pass'') = Some True) \<and> (0 <
          custAtk)) then (L tr (tu '' {B7} customer_corpus %'' @ lat (toFixed 0
          (nullish (Option.bind (rp ''customerCorpus'') (\<lambda>o'. numf o' ''attack_recall_pct'')) 0)) @ lat '' (''
          @ num_text custAtk @ lat '' attack cat)'') (tu '' {B7} customer_corpus '' @ lat (toFixed 0
          (nullish (Option.bind (rp ''customerCorpus'') (\<lambda>o'. numf o' ''attack_recall_pct'')) 0)) @ lat ''% (''
          @ num_text custAtk @ lat '' attack cats)'')) else []
      in [mk_card (lat ''tr-hosting-corpus'') (if pass then Pass else Fail)
        (L tr (tu ''TR hosting tarz{131} corpus recall'') (lat ''TR hosting-style corpus recall''))
        (L tr (tu ''T{FC}rk{E7}e path ve anonymized IP ile hosting senaryosu recall kan{131}t{131}; customer corpus API/JWT/path traversal.'')
          (lat ''Hosting scenario recall proof with Turkish paths, anonymized IPs; customer corpus API/JWT/path traversal.''))
        (if pass then L tr (lat ''%'' @ lat (toFixed 1 recall) @ tu '' recall {2014} '' @ num_text
          (nullish (numf trHost ''lines_total'') 0) @ tu '' sat{131}r'' @ custSuffix @ lat ''.'') (lat (toFixed 1 recall)
          @ tu ''% recall {2014} '' @ num_text (nullish (numf trHost ''lines_total'') 0) @ lat '' lines'' @ custSuffix
          @ lat ''.'') else L tr (tu ''TR hosting corpus FAIL {2014} scripts/tr_hosting_corpus_proof.sh'')
          (lat ''TR hosting corpus FAIL''))
        ([(L tr (lat ''Recall'') (lat ''Recall''), lat (toFixed 1 recall) @ lat ''%'')]
        @ (if (0 < custAtk) then [(L tr (lat ''Customer cat'') (lat ''Customer cats''), num_text custAtk)] else []))
        (fmtDate dt (txtf trHost ''date'')) (lat ''scripts/tr_hosting_corpus_proof.sh'')])
    @ (case rp ''threatIntelSync'' of
      None \<Rightarrow> []
    | Some ti \<Rightarrow>
      let pass = (boolf ti ''pass'' = Some True)
      in [mk_card (lat ''threat-intel-sync'') (if pass then Pass else Fail)
        (L tr (tu ''Threat intel sync h{131}z{131} ve ipset etkisi'') (lat ''Threat intel sync speed and ipset impact''))
        (L tr (tu ''Firehol/GeoIP beslemesinin dakikalar i{E7}inde ipset{27}e yans{131}mas{131}n{131} {F6}l{E7}er.'')
          (lat ''Measures Firehol/GeoIP feed reflection into ipset within minutes.''))
        (if pass then L tr (num_text (nullish (numf ti ''duration_sec'') 0) @ lat ''s sync, ipset_delta='' @ num_text
          (nullish (numf ti ''ioc_lines'') (nullish (numf ti ''ipset_delta'') 0)) @ lat ''.'') (num_text
          (nullish (numf ti ''duration_sec'') 0) @ lat ''s sync, ipset_delta='' @ num_text (nullish (numf ti ''ioc_lines'')
          (nullish (numf ti ''ipset_delta'') 0)) @ lat ''.'')
          else L tr (tu ''Threat intel sync FAIL {2014} scripts/threat_intel_sync_proof.sh'')
          (lat ''Threat intel sync FAIL''))
        [(L tr (tu ''S{FC}re'') (lat ''Duration''), num_text (nullish (numf ti ''duration_sec'') 0) @ lat ''s''),
          (tu ''ipset {394}'', num_text (nullish (numf ti ''ipset_delta'') 0))]
        (fmtDate dt (txtf ti ''date'')) (lat ''scripts/threat_intel_sync_proof.sh'')])"

definition cards_nginx_consult :: cards where
  "cards_nginx_consult rp src dt tr =
    (case rp ''nginxConsult'' of
      None \<Rightarrow> []
    | Some consult \<Rightarrow>
      let tests = nullish (recf consult ''tests'') [];
        union_v = Option.bind (objf (RObj tests) ''sqli_union'') (\<lambda>o'. numf o' ''http_code'');
        or1 = Option.bind (objf (RObj tests) ''sqli_or'') (\<lambda>o'. numf o' ''http_code'');
        benign = Option.bind (objf (RObj tests) ''benign_health'') (\<lambda>o'. numf o' ''http_code'');
        lfi = Option.bind (objf (RObj tests) ''lfi_attack'') (\<lambda>o'. numf o' ''http_code'');
        pass = (boolf consult ''pass'' = Some True)
      in [mk_card (lat ''nginx-consult'') (if pass then Pass else Fail)
        (L tr (tu ''nginx inline consult API (auth_request {F6}ncesi WAF+CRS)'')
          (lat ''nginx inline consult API (WAF+CRS before auth_request)''))
        (L tr (tu ''ModSecurity inline alternatifi: istek nginx{27}e ula{15F}madan consult ile 403/200 karar{131}.'')
          (lat ''ModSecurity inline alternative: 403/200 decision via consult before request reaches upstream.''))
        (if pass then L tr (lat ''union='' @ opt_text num_text union_v @ lat '' or1='' @ opt_text num_text or1
          @ lat '' benign='' @ opt_text num_text benign @ lat '' lfi='' @ opt_text num_text lfi
          @ tu '' {2014} hepsi beklenen kod.'') (lat ''union='' @ opt_text num_text union_v @ lat '' or1=''
          @ opt_text num_text or1 @ lat '' benign='' @ opt_text num_text benign @ lat '' lfi='' @ opt_text num_text lfi
          @ tu '' {2014} all expected codes.'')
          else L tr (tu ''Consult API basarisiz {2014} sudo systemctl restart log-guardian + sync_etc_rules'')
          (tu ''Consult API failed {2014} sudo systemctl restart log-guardian + sync_etc_rules''))
        [(lat ''UNION'', nullish (map_option num_text union_v) (tu ''{2014}'')),
          (lat ''OR 1=1'', nullish (map_option num_text or1) (tu ''{2014}'')),
          (L tr (tu ''Sa{11F}l{131}k'') (lat ''Health''), nullish (map_option num_text benign) (tu ''{2014}'')),
          (lat ''LFI'', nullish (map_option num_text lfi) (tu ''{2014}''))]
        (fmtDate dt (txtf consult ''date'')) (lat ''scripts/nginx_inline_consult_proof.sh'')])
    @ (case rp ''nginxHybrid'' of
      None \<Rightarrow> []
    | Some hybrid \<Rightarrow>
      let pass = (boolf hybrid ''pass'' = Some True);
        sqli = Option.bind (Option.bind (objf hybrid ''checks'') (\<lambda>o'. objf o' ''edge_sqli_blocked'')) (\<lambda>o'.
          numf o' ''http_code'');
        replay = nullish (Option.bind (objf hybrid ''checks'') (\<lambda>o'. numf o' ''log_replay_alerts'')) 0
      in [mk_card (lat ''nginx-hybrid'') (if pass then Pass else Fail)
        (L tr (tu ''nginx hibrit {2014} inline consult + log replay'')
          (tu ''nginx hybrid {2014} inline consult + log replay''))
        (L tr (tu ''ModSec/Fail2ban fark{131}: auth_request WAF + access_log tek zincir kan{131}t{131}.'')
          (lat ''ModSec/Fail2ban gap: auth_request WAF + access_log single-chain proof.''))
        (if pass then L tr (lat ''mode='' @ nullish (txtf hybrid ''mode'') (lat ''inline+log'') @ lat ''; edge_sqli=''
          @ nullish (map_option num_text sqli) (tu ''{2014}'') @ lat ''; replay_alerts='' @ num_text replay @ lat ''.'')
          (lat ''mode='' @ nullish (txtf hybrid ''mode'') (lat ''inline+log'') @ lat ''; edge_sqli=''
          @ nullish (map_option num_text sqli) (tu ''{2014}'') @ lat ''; replay_alerts='' @ num_text replay @ lat ''.'')
          else L tr (tu ''nginx_hybrid_proof FAIL {2014} bash scripts/nginx_hybrid_proof.sh'')
          (tu ''nginx_hybrid_proof FAIL {2014} bash scripts/nginx_hybrid_proof.sh''))
        [(lat ''edge_sqli'', nullish (map_option num_text sqli) (tu ''{2014}'')),
          (lat ''replay'', num_text replay)]
        (fmtDate dt (txtf hybrid ''date'')) (lat ''scripts/nginx_hybrid_proof.sh'')])
    @ (case rp ''banProfileE2e'' of
      None \<Rightarrow> []
    | Some banProf \<Rightarrow>
      let pass = (boolf banProf ''pass'' = Some True);
        nchk = nullish (map_option (\<lambda>xs. of_nat (length xs)) (textsf banProf ''checks'')) 0
      in [mk_card (lat ''ban-profile-e2e'') (if pass then Pass else Fail)
        (L tr (lat ''AUTO_BAN profil + consult cache + threat intel offline'')
          (lat ''AUTO_BAN profile + consult cache + threat intel offline''))
        (L tr (lat ''AUTO_BAN_PROFILE preset, consult cache, threat intel offline fallback.'')
          (lat ''AUTO_BAN_PROFILE preset, consult cache, threat intel offline fallback.''))
        (if pass then L tr (num_text nchk
          @ lat '' statik kontrol PASS (AUTO_BAN_PROFILE, CONSULT_CACHE, GeoIP).'') (num_text nchk
          @ lat '' static checks PASS (AUTO_BAN_PROFILE, CONSULT_CACHE, GeoIP).'') else L tr (lat ''ban_profile_e2e FAIL'')
          (lat ''ban_profile_e2e FAIL''))
        [(L tr (lat ''kontrol'') (lat ''checks''), num_text nchk)]
        (fmtDate dt (txtf banProf ''date'')) (lat ''scripts/ban_profile_e2e.sh'')])
    @ (case rp ''ipv6BanE2e'' of
      None \<Rightarrow> []
    | Some ipv6 \<Rightarrow>
      let pass = (boolf ipv6 ''pass'' = Some True)
      in [mk_card (lat ''ipv6-ban-e2e'') (if pass then Pass else Fail)
        (L tr (tu ''IPv6 ban {2014} ipset v6 + API/CLI'') (tu ''IPv6 ban {2014} ipset v6 + API/CLI''))
        (L tr (tu ''RFC 3849 doc prefix {2014} v4-only rakiplere kar{15F}{131} ipset v6 kan{131}t{131}.'')
          (tu ''RFC 3849 doc prefix {2014} ipset v6 proof vs v4-only rivals.''))
        (if pass then L tr (lat ''via='' @ nullish (txtf ipv6 ''ban_via'') (tu ''{2014}'') @ lat ''; path=''
          @ nullish (txtf ipv6 ''ban_path'') (tu ''{2014}'') @ lat ''; ip='' @ nullish (txtf ipv6 ''test_ip'')
          (tu ''{2014}'') @ lat ''.'') (lat ''via='' @ nullish (txtf ipv6 ''ban_via'') (tu ''{2014}'') @ lat ''; path=''
          @ nullish (txtf ipv6 ''ban_path'') (tu ''{2014}'') @ lat ''; ip='' @ nullish (txtf ipv6 ''test_ip'')
          (tu ''{2014}'') @ lat ''.'') else L tr (tu ''ipv6_ban_e2e FAIL {2014} sudo bash scripts/ipv6_ban_e2e.sh'')
          (tu ''ipv6_ban_e2e FAIL {2014} sudo bash scripts/ipv6_ban_e2e.sh''))
        [(lat ''via'', nullish (txtf ipv6 ''ban_via'') (tu ''{2014}'')),
          (lat ''path'', nullish (txtf ipv6 ''ban_path'') (tu ''{2014}''))]
        (fmtDate dt (txtf ipv6 ''date'')) (lat ''scripts/ipv6_ban_e2e.sh'')])"

definition cards_api_mutation_token_e2e :: cards where
  "cards_api_mutation_token_e2e rp src dt tr =
    (case rp ''apiMutationTokenE2e'' of
      None \<Rightarrow> []
    | Some apiMut \<Rightarrow>
      let pass = (boolf apiMut ''pass'' = Some True);
        skipped = (boolf apiMut ''skipped'' = Some True);
        splitOn = ((boolf apiMut ''split_enabled'' = Some True) \<and> (\<not> skipped))
      in [mk_card (lat ''api-mutation-token-e2e'') (if pass then Pass else Fail)
        (L tr (tu ''API mutation token {2014} read/mutate POST ayr{131}m{131}'')
          (tu ''API mutation token {2014} read/mutate POST split''))
        (L tr (lat ''Enterprise: API_TOKEN (GET) + API_MUTATION_TOKEN (POST ban/unban/consult).'')
          (lat ''Enterprise: API_TOKEN (GET) + API_MUTATION_TOKEN (POST ban/unban/consult).''))
        (if pass then (if splitOn then L tr (lat ''split=ON; read POST 403; mutation POST 200.'')
          (lat ''split=ON; read POST 403; mutation POST 200.'') else L tr (nullish (txtf apiMut ''reason'')
          (lat ''tek token modu (Community)'')) (nullish (txtf apiMut ''reason'') (lat ''single token (Community)'')))
          else L tr (nullish (txtf apiMut ''fail_reason'') (lat ''api_mutation_token_e2e FAIL''))
          (nullish (txtf apiMut ''fail_reason'') (lat ''api_mutation_token_e2e FAIL'')))
        [(lat ''split'', if splitOn then lat ''on'' else (if skipped then lat ''skip'' else lat ''off''))]
        (fmtDate dt (txtf apiMut ''date'')) (lat ''scripts/api_mutation_token_e2e.sh'')])
    @ (case rp ''apiMutationAuditE2e'' of
      None \<Rightarrow> []
    | Some apiMutAudit \<Rightarrow>
      let pass = (boolf apiMutAudit ''pass'' = Some True)
      in [mk_card (lat ''api-mutation-audit-e2e'') (if pass then Pass else Fail)
        (L tr (tu ''API mutation audit {2014} ban/unban jsonl izi'')
          (tu ''API mutation audit {2014} ban/unban jsonl trail''))
        (L tr (tu ''POST /ban sonras{131} /var/lib/log-guardian/api-mutation-audit.jsonl append-only sat{131}r.'')
          (lat ''Append-only line in /var/lib/log-guardian/api-mutation-audit.jsonl after POST /ban.''))
        (if pass then L tr (tu ''audit trail OK {2014} '' @ nullish (txtf apiMutAudit ''audit_path'') (lat ''jsonl'')
          @ lat ''.'') (tu ''audit trail OK {2014} '' @ nullish (txtf apiMutAudit ''audit_path'') (lat ''jsonl'')
          @ lat ''.'') else L tr (nullish (txtf apiMutAudit ''fail_reason'') (lat ''api_mutation_audit_e2e FAIL''))
          (nullish (txtf apiMutAudit ''fail_reason'') (lat ''api_mutation_audit_e2e FAIL'')))
        [(lat ''audit'', if pass then lat ''OK'' else lat ''FAIL'')]
        (fmtDate dt (txtf apiMutAudit ''date'')) (lat ''scripts/api_mutation_audit_e2e.sh'')])
    @ (case rp ''dashboardLoginRlE2e'' of
      None \<Rightarrow> []
    | Some dashLoginRl \<Rightarrow>
      let pass = (boolf dashLoginRl ''pass'' = Some True)
      in [mk_card (lat ''dashboard-login-rl-e2e'') (if pass then Pass else Fail)
        (L tr (tu ''Dashboard login rate limit {2014} brute-force korumas{131}'')
          (tu ''Dashboard login rate limit {2014} brute-force protection''))
        (L tr (tu ''Prod: X-Forwarded-For ile 10 ba{15F}ar{131}s{131}z denemeden sonra HTTP 429.'')
          (lat ''Prod: HTTP 429 after 10 failed attempts (X-Forwarded-For).''))
        (if pass then L tr (num_text (nullish (numf dashLoginRl ''max_attempts'') 10) @ tu '' deneme {2192} 429 (probe ''
          @ nullish (txtf dashLoginRl ''probe_ip'') (tu ''{2014}'') @ lat '').'') (num_text
          (nullish (numf dashLoginRl ''max_attempts'') 10) @ tu '' attempts {2192} 429 (probe ''
          @ nullish (txtf dashLoginRl ''probe_ip'') (tu ''{2014}'') @ lat '').'')
          else L tr (nullish (txtf dashLoginRl ''fail_reason'') (lat ''dashboard_login_rate_limit_e2e FAIL''))
          (nullish (txtf dashLoginRl ''fail_reason'') (lat ''dashboard_login_rate_limit_e2e FAIL'')))
        [(lat ''max'', num_text (nullish (numf dashLoginRl ''max_attempts'') 10))]
        (fmtDate dt (txtf dashLoginRl ''date'')) (lat ''scripts/dashboard_login_rate_limit_e2e.sh'')])
    @ (case rp ''hardeningRollbackGate'' of
      None \<Rightarrow> []
    | Some hardeningRb \<Rightarrow>
      let pass = (boolf hardeningRb ''pass'' = Some True);
        nOk = of_nat (length (filter (\<lambda>c. (boolf c ''ok'' = Some True))
          (nullish (objsf hardeningRb ''checks'') [])));
        nAll = nullish (map_option (\<lambda>xs. of_nat (length xs)) (objsf hardeningRb ''checks'')) 0
      in [mk_card (lat ''hardening-rollback-gate'') (if pass then Pass else Fail)
        (L tr (tu ''Hardening rollback {2014} geri alma haz{131}rl{131}{11F}{131}'')
          (tu ''Hardening rollback {2014} rollback readiness''))
        (L tr (tu ''Internet-facing sertle{15F}tirme {F6}ncesi yedek + demo parola alg{131}s{131} (salt okunur).'')
          (lat ''Pre-hardening backup + demo password detection (read-only).''))
        (if pass then L tr (lat ''kontroller '' @ num_text nOk @ lat ''/'' @ num_text nAll @ lat '' OK.'') (lat ''checks ''
          @ num_text nOk @ lat ''/'' @ num_text nAll @ lat '' OK.'') else L tr (nullish (txtf hardeningRb ''fail_reason'')
          (lat ''hardening_rollback_gate FAIL'')) (nullish (txtf hardeningRb ''fail_reason'')
          (lat ''hardening_rollback_gate FAIL'')))
        [(lat ''checks'', num_text nOk @ lat ''/'' @ num_text nAll)]
        (fmtDate dt (txtf hardeningRb ''date'')) (lat ''scripts/hardening_rollback_gate.sh'')])"

definition cards_dashboard_jwt_idle_gate :: cards where
  "cards_dashboard_jwt_idle_gate rp src dt tr =
    (case rp ''dashboardJwtIdleGate'' of
      None \<Rightarrow> []
    | Some jwtIdle \<Rightarrow>
      let pass = (boolf jwtIdle ''pass'' = Some True);
        mode = nullish (txtf jwtIdle ''mode'') (lat ''?'')
      in [mk_card (lat ''dashboard-jwt-idle-gate'') (if pass then Pass else Fail)
        (L tr (tu ''Dashboard JWT idle {2014} oturum zaman a{15F}{131}m{131}'')
          (tu ''Dashboard JWT idle {2014} session timeout''))
        (L tr (tu ''middleware iat kontrol{FC}; laptop 0dk, internet-facing 480dk {F6}nerilir.'')
          (lat ''middleware iat check; laptop 0m, internet-facing 480m recommended.''))
        (if pass then L tr (lat ''mode='' @ mode @ lat ''; idle='' @ num_text (nullish (numf jwtIdle ''idle_min'') 0)
          @ lat ''dk.'') (lat ''mode='' @ mode @ lat ''; idle='' @ num_text (nullish (numf jwtIdle ''idle_min'') 0)
          @ lat ''m.'') else L tr (nullish (txtf jwtIdle ''fail_reason'') (lat ''dashboard_jwt_idle_gate FAIL''))
          (nullish (txtf jwtIdle ''fail_reason'') (lat ''dashboard_jwt_idle_gate FAIL'')))
        [(lat ''idle_min'', num_text (nullish (numf jwtIdle ''idle_min'') 0))]
        (fmtDate dt (txtf jwtIdle ''date'')) (lat ''scripts/dashboard_jwt_idle_gate.sh'')])
    @ (case rp ''mtlsCertExpiry'' of
      None \<Rightarrow> []
    | Some mtlsExp \<Rightarrow>
      if (boolf mtlsExp ''skipped'' \<noteq> Some True) then (let pass = (boolf mtlsExp ''pass'' = Some True)
      in [mk_card (lat ''mtls-cert-expiry'') (if pass then Pass else Warn)
        (L tr (tu ''mTLS sertifika s{FC}resi {2014} SOAR lab'') (tu ''mTLS certificate expiry {2014} SOAR lab''))
        (L tr (tu ''client/server/ca.crt biti{15F} {2014} rotasyon runbook uyar{131}s{131}.'')
          (tu ''client/server/ca.crt expiry {2014} rotation runbook warning.''))
        (if pass then L tr (lat ''min '' @ nullish (map_option num_text (numf mtlsExp ''min_days_left'')) (tu ''{2014}'')
          @ tu '' g{FC}n (warn<='' @ num_text (nullish (numf mtlsExp ''warn_days'') 14) @ lat '').'') (lat ''min ''
          @ nullish (map_option num_text (numf mtlsExp ''min_days_left'')) (tu ''{2014}'') @ lat '' days (warn<=''
          @ num_text (nullish (numf mtlsExp ''warn_days'') 14) @ lat '').'')
          else L tr (tu ''yak{131}n biti{15F} {2014} min '' @ nullish (map_option num_text (numf mtlsExp ''min_days_left''))
          (lat ''?'') @ tu '' g{FC}n'') (tu ''expiring soon {2014} min ''
          @ nullish (map_option num_text (numf mtlsExp ''min_days_left'')) (lat ''?'') @ lat '' days''))
        [(lat ''min_days'', nullish (map_option num_text (numf mtlsExp ''min_days_left'')) (tu ''{2014}''))]
        (fmtDate dt (txtf mtlsExp ''date'')) (lat ''scripts/mtls_cert_expiry_check.sh'')]) else [])
    @ (case rp ''banApiMtls'' of
      None \<Rightarrow> []
    | Some banMtls \<Rightarrow>
      let pass = (boolf banMtls ''pass'' = Some True);
        skipped = (boolf banMtls ''skipped'' = Some True);
        mtlsOn = ((boolf banMtls ''mtls_verify'' = Some True) \<and> (\<not> skipped));
        strictOn = (Option.bind (rp ''caddyMtlsStatus'') (\<lambda>o'. boolf o' ''mtls_strict'') = Some True)
      in [mk_card (lat ''ban-api-mtls'') (if pass then Pass else Fail)
        (L tr (tu ''Ban API mTLS {2014} edge client cert + mutation token'')
          (tu ''Ban API mTLS {2014} edge client cert + mutation token''))
        (L tr (lat ''Enterprise: nginx mTLS terminate + internal mutation token inject.'')
          (lat ''Enterprise: nginx mTLS terminate + internal mutation token inject.''))
        (if pass then (if mtlsOn then L tr (lat ''read POST 403; mutation OK; mTLS edge verify.'')
          (lat ''read POST 403; mutation OK; mTLS edge verify.'') else L tr (nullish (txtf banMtls ''reason'')
          (lat ''mutation token only (nginx skip)'')) (nullish (txtf banMtls ''reason'')
          (lat ''mutation token only (nginx skip)''))) else L tr (nullish (txtf banMtls ''fail_reason'')
          (lat ''ban_api_mtls_e2e FAIL'')) (nullish (txtf banMtls ''fail_reason'') (lat ''ban_api_mtls_e2e FAIL'')))
        [(lat ''mtls'', if mtlsOn then lat ''on'' else (if skipped then lat ''skip'' else lat ''off'')),
          (lat ''read_post'', if boolf banMtls ''read_token_post_reject'' = Some True then lat ''403'' else tu ''{2014}''),
          (lat ''caddy'', if boolf banMtls ''caddy_mtls_verify'' = Some True then lat ''on''
            else (if boolf banMtls ''caddy_skipped'' = Some False then lat ''off'' else lat ''skip'')),
          (lat ''strict'', if strictOn then lat ''on'' else lat ''off'')]
        (fmtDate dt (txtf banMtls ''date'')) (lat ''scripts/ban_api_mtls_e2e.sh'')])"

definition cards_enterprise_soar_gate :: cards where
  "cards_enterprise_soar_gate rp src dt tr =
    (case rp ''enterpriseSoarGate'' of
      None \<Rightarrow> []
    | Some soarGate \<Rightarrow>
      let pass = (boolf soarGate ''pass'' = Some True);
        mode = nullish (txtf soarGate ''mode'') (lat ''community'');
        soarOn = (boolf soarGate ''soar_enabled'' = Some True)
      in [mk_card (lat ''enterprise-soar-gate'') (if pass then Pass else Fail)
        (L tr (tu ''Enterprise SOAR gate {2014} Caddy :9443 mTLS + strict'')
          (tu ''Enterprise SOAR gate {2014} Caddy :9443 mTLS + strict''))
        (L tr (tu ''Operat{F6}r: enable/disable SOAR API {2014} split token, Caddy mTLS, loopback strict.'')
          (tu ''Operator gate: enable/disable SOAR API {2014} split token, Caddy mTLS, loopback strict.''))
        (if pass then L tr (lat ''mode='' @ mode @ lat ''; SOAR '' @ (if soarOn then lat ''on'' else lat ''off'')
          @ lat ''; strict='' @ (if boolf soarGate ''mtls_strict'' = Some True then lat ''on'' else lat ''off'')
          @ lat ''.'') (lat ''mode='' @ mode @ lat ''; SOAR '' @ (if soarOn then lat ''on'' else lat ''off'')
          @ lat ''; strict='' @ (if boolf soarGate ''mtls_strict'' = Some True then lat ''on'' else lat ''off'')
          @ lat ''.'') else L tr (nullish (txtf soarGate ''fail_reason'') (lat ''enterprise_soar_gate FAIL''))
          (nullish (txtf soarGate ''fail_reason'') (lat ''enterprise_soar_gate FAIL'')))
        [(lat ''mode'', mode),
          (lat ''soar'', if soarOn then lat ''on'' else lat ''off''),
          (lat ''strict'', if boolf soarGate ''mtls_strict'' = Some True then lat ''on'' else lat ''off''),
          (lat ''caddy'', if boolf soarGate ''caddy_mtls_ok'' = Some True then lat ''OK'' else (if soarOn then lat ''FAIL''
            else tu ''{2014}'')),
          (lat ''ban_smoke'', if boolf soarGate ''dashboard_ban_ok'' = Some True then lat ''OK'' else lat ''FAIL'')]
        (fmtDate dt (txtf soarGate ''date'')) (lat ''scripts/enterprise_soar_gate.sh'')])
    @ (case rp ''ja3Cluster'' of
      None \<Rightarrow> []
    | Some ja3 \<Rightarrow>
      let recall = nullish (numf ja3 ''recall_pct'') 0;
        target = nullish (numf ja3 ''target_recall_pct'') 85;
        pass = (boolf ja3 ''pass'' = Some True)
      in [mk_card (lat ''ja3-cluster'') (if pass then Pass else Fail)
        (L tr (tu ''Da{11F}{131}t{131}k sald{131}r{131}da (ayn{131} UA, farkl{131} IP) cluster recall {F6}l{E7}{FC}yoruz'')
          (lat ''We measure cluster recall on distributed attacks (same UA, different IPs)''))
        (L tr (tu ''IP ba{15F}{131}na ban{27}{131}n {F6}tesinde scanner UA + {E7}oklu IP senaryosunda tespit oran{131}n{131} kan{131}tlar.'')
          (lat ''Proves detection beyond per-IP ban on scanner UA + multi-IP scenarios.''))
        (let live = objf ja3 ''live''; liveBit = if ((Option.bind live (\<lambda>o'. boolf o' ''enabled'') = Some True)
          \<and> (Option.bind live (\<lambda>o'. boolf o' ''tls_ready'') = Some True))
          then (L tr (tu '' {2014} TLS :443 canl{131} (ja3_sent=''
          @ (if Option.bind (Option.bind live (\<lambda>o'. objf o' ''ja3_test'')) (\<lambda>o'. boolf o' ''sent'') = Some
          True then lat ''evet'' else tu ''hay{131}r'') @ lat '', delta_c2='' @ num_text
          (nullish (Option.bind (Option.bind live (\<lambda>o'. objf o' ''ja3_test'')) (\<lambda>o'. numf o'
          ''metrics_delta_c2'')) 0) @ lat '').'') (tu '' {2014} live TLS :443 (ja3_sent=''
          @ (if Option.bind (Option.bind live (\<lambda>o'. objf o' ''ja3_test'')) (\<lambda>o'. boolf o' ''sent'') = Some
          True then lat ''yes'' else lat ''no'') @ lat '', delta_c2='' @ num_text
          (nullish (Option.bind (Option.bind live (\<lambda>o'. objf o' ''ja3_test'')) (\<lambda>o'. numf o'
          ''metrics_delta_c2'')) 0) @ lat '').'')) else [] in if pass
          then (L tr (nullish (map_option num_text (numf ja3 ''unique_ips'')) (tu ''{2014}'')
          @ tu '' farkl{131} IP, recall %'' @ lat (toFixed 1 recall) @ tu '' {2014} hedef >=%'' @ num_text target
          @ lat ''.'' @ liveBit) (nullish (map_option num_text (numf ja3 ''unique_ips'')) (tu ''{2014}'')
          @ lat '' unique IPs at '' @ lat (toFixed 1 recall) @ tu ''% recall {2014} target >='' @ num_text target
          @ lat ''%.'' @ liveBit)) else (L tr (lat ''Recall %'' @ lat (toFixed 1 recall) @ tu '' {2014} hedef >=%''
          @ num_text target @ tu '' alt{131}nda.'') (lat ''Recall '' @ lat (toFixed 1 recall) @ tu ''% {2014} below ''
          @ num_text target @ lat ''% target.'')))
        ([(L tr (lat ''Recall'') (lat ''Recall''), lat (toFixed 1 recall) @ lat ''%''),
          (lat ''IP'', num_text (nullish (numf ja3 ''unique_ips'') 0)),
          (L tr (lat ''UA'') (lat ''UA''), nullish (txtf ja3 ''same_ua'') (tu ''{2014}''))]
        @ (if (Option.bind (objf ja3 ''live'') (\<lambda>o'. boolf o' ''enabled'') = Some True)
          then [(lat ''TLS'', if Option.bind (objf ja3 ''live'') (\<lambda>o'. boolf o' ''tls_ready'') = Some True
          then (if tr then tu ''a{E7}{131}k'' else lat ''up'') else (if tr then tu ''kapal{131}'' else lat ''down''))]
          else []))
        (fmtDate dt (txtf ja3 ''date'')) (lat ''scripts/ja3_cluster_proof.sh'')])
    @ (case rp ''ja3ClusterBanLive'' of
      None \<Rightarrow> []
    | Some ja3Live \<Rightarrow>
      let delta = nullish (numf ja3Live ''ban_pipeline_delta'') 0;
        pass = (boolf ja3Live ''pass'' = Some True)
      in [mk_card (lat ''ja3-cluster-ban-live'') (if pass then Pass else Fail)
        (L tr (tu ''Canl{131} nginx log {2192} JA3/UA cluster {2192} ban_pipeline kan{131}t{131}'')
          (tu ''Live nginx log {2192} JA3/UA cluster {2192} ban_pipeline proof''))
        (L tr (tu ''Da{11F}{131}t{131}k sald{131}r{131}da ayn{131} scanner UA ile gelen IP{27}lerin canl{131} ingest sonras{131} ban hatt{131}na girdi{11F}ini {F6}l{E7}er.'')
          (lat ''Measures that same-scanner-UA distributed IPs enter the ban pipeline after live ingest.''))
        (if pass then L tr (nullish (txtf ja3Live ''mode'') (lat ''live'') @ tu '' {2014} ban_pipeline +'' @ num_text delta
          @ lat '', blok '' @ nullish (txtf ja3Live ''ip_block'') (tu ''{2014}'')
          @ (if boolf ja3Live ''ja3_cluster_flush_this_run'' = Some True then tu '' {2014} cluster flush'' else [])
          @ lat ''.'') (nullish (txtf ja3Live ''mode'') (lat ''live'') @ tu '' {2014} ban_pipeline +'' @ num_text delta
          @ lat '', block '' @ nullish (txtf ja3Live ''ip_block'') (tu ''{2014}'')
          @ (if boolf ja3Live ''ja3_cluster_flush_this_run'' = Some True then tu '' {2014} cluster flush'' else [])
          @ lat ''.'') else L tr (tu ''Canl{131} cluster ban ge{E7}medi {2014} delta='' @ num_text delta
          @ lat ''. sudo bash scripts/ja3_cluster_ban_live.sh'') (tu ''Live cluster ban failed {2014} delta=''
          @ num_text delta @ lat ''. sudo bash scripts/ja3_cluster_ban_live.sh''))
        [(tu ''{394} ban'', num_text delta),
          (L tr (lat ''Mod'') (lat ''Mode''), nullish (txtf ja3Live ''mode'') (tu ''{2014}'')),
          (lat ''flush'', if boolf ja3Live ''ja3_cluster_flush_this_run'' = Some True then (if tr then lat ''evet''
            else lat ''yes'') else (if tr then tu ''hay{131}r'' else lat ''no''))]
        (fmtDate dt (txtf ja3Live ''date'')) (lat ''scripts/ja3_cluster_ban_live.sh'')])"

definition cards_fp_cluster_trust :: cards where
  "cards_fp_cluster_trust rp src dt tr =
    (case rp ''fpClusterTrust'' of
      None \<Rightarrow> []
    | Some fpCluster \<Rightarrow>
      let pass = (boolf fpCluster ''pass'' = Some True)
      in [mk_card (lat ''fp-cluster-trust'') (if pass then Pass else Fail)
        (L tr (tu ''FP learn {2014} g{FC}venilir IP cluster ban d{131}{15F}{131}nda m{131}?'')
          (tu ''FP learn {2014} are trusted IPs excluded from cluster ban?''))
        (L tr (tu ''{D6}{11F}renilmi{15F} g{FC}venilir IP{27}nin JA3/UA cluster flush listesine girmemesini kan{131}tlar (tekil SQLi WAF ayr{131}).'')
          (lat ''Proves learned trusted IPs are not included in JA3/UA cluster flush (per-IP SQLi WAF is separate).''))
        (if pass then L tr (nullish (txtf fpCluster ''trusted_ip'') (tu ''{2014}'') @ tu '' cluster ban almad{131}; flush=''
          @ (if boolf fpCluster ''ja3_cluster_flush'' = Some True then lat ''evet'' else tu ''hay{131}r'') @ lat ''.'')
          (nullish (txtf fpCluster ''trusted_ip'') (tu ''{2014}'') @ lat '' not cluster-banned; flush=''
          @ (if boolf fpCluster ''ja3_cluster_flush'' = Some True then lat ''yes'' else lat ''no'') @ lat ''.'')
          else L tr (tu ''G{FC}venilir IP cluster ban yedi {2014} FP_TRUST veya cluster e{15F}i{11F}i kontrol edin.'')
          (tu ''Trusted IP received cluster ban {2014} check FP_TRUST or cluster thresholds.''))
        [(L tr (tu ''G{FC}venilir IP'') (lat ''Trusted IP''), nullish (txtf fpCluster ''trusted_ip'') (tu ''{2014}'')),
          (lat ''cluster ban'', if boolf fpCluster ''trusted_cluster_banned'' = Some True then (if tr then lat ''evet''
            else lat ''yes'') else (if tr then tu ''hay{131}r'' else lat ''no'')),
          (lat ''flush'', if boolf fpCluster ''ja3_cluster_flush'' = Some True then (if tr then lat ''evet''
            else lat ''yes'') else (if tr then tu ''hay{131}r'' else lat ''no''))]
        (fmtDate dt (txtf fpCluster ''date'')) (lat ''scripts/fp_cluster_trust_e2e.sh'')])
    @ (case rp ''lineageLive'' of
      None \<Rightarrow> []
    | Some lineageLive \<Rightarrow>
      let pass = (boolf lineageLive ''pass'' = Some True);
        types_v = u_join (tu '' {B7} '') (nullish (textsf lineageLive ''event_types'') []);
        risk = nullish (numf lineageLive ''chain_risk'') (nullish (numf lineageLive ''max_risk'') 0)
      in [mk_card (lat ''lineage-live'') (if pass then Pass else Fail)
        (L tr (tu ''eBPF lineage {2014} openat {B7} execve {B7} connect zinciri'')
          (tu ''eBPF lineage {2014} openat {B7} execve {B7} connect chain''))
        (L tr (tu ''Daemon attack_tree.json format{131}nda canl{131} olay zincirini do{11F}rular; demo dosyas{131} {FC}retim yolunun {F6}n{FC}ne ge{E7}mez.'')
          (lat ''Validates live event chain in daemon attack_tree.json format; demo file does not override production path.''))
        (if pass then L tr (nullish (txtf lineageLive ''comm'') (lat ''proc'') @ lat '' risk '' @ lat (toFixed 1 risk)
          @ tu '' {2014} '' @ num_text (nullish (numf lineageLive ''event_count'') 0) @ lat '' olay ('' @ types_v
          @ lat ''); kaynak='' @ nullish (txtf lineageLive ''resolver_source'') (lat ''daemon_file'') @ lat ''.'')
          (nullish (txtf lineageLive ''comm'') (lat ''proc'') @ lat '' risk '' @ lat (toFixed 1 risk) @ tu '' {2014} ''
          @ num_text (nullish (numf lineageLive ''event_count'') 0) @ lat '' events ('' @ types_v @ lat ''); source=''
          @ nullish (txtf lineageLive ''resolver_source'') (lat ''daemon_file'') @ lat ''.'')
          else L tr (tu ''Lineage zinciri ge{E7}medi {2014} bash scripts/lineage_live_e2e.sh'')
          (tu ''Lineage chain failed {2014} bash scripts/lineage_live_e2e.sh''))
        [(L tr (lat ''Risk'') (lat ''Risk''), lat (toFixed 1 risk)),
          (L tr (lat ''Olay'') (lat ''Events''), num_text (nullish (numf lineageLive ''event_count'') 0)),
          (L tr (tu ''A{11F}a{E7}'') (lat ''Trees''), num_text (nullish (numf lineageLive ''active_trees'') 0)),
          (L tr (lat ''Kaynak'') (lat ''Source''), nullish (txtf lineageLive ''resolver_source'') (tu ''{2014}''))]
        (fmtDate dt (txtf lineageLive ''date'')) (lat ''scripts/lineage_live_e2e.sh'')])
    @ (case rp ''fp'' of
      None \<Rightarrow> []
    | Some fp \<Rightarrow>
      let rate = nullish (Option.bind (objf fp ''benign'') (\<lambda>o'. numf o' ''fp_rate_pct'')) 0;
        target = nullish (numf fp ''target_fp_pct'') 5;
        lines_v = nullish (Option.bind (objf fp ''benign'') (\<lambda>o'. numf o' ''lines'')) 0;
        pass = (rate < target)
      in [mk_card (lat ''fp-rate'') (if pass then Pass else Fail)
        (L tr (tu ''Temiz (benign) trafikte yanl{131}{15F} alarm oran{131}n{131} say{131}yoruz'')
          (lat ''We count false-positive rate on clean (benign) traffic''))
        (L tr (tu ''Ger{E7}ek kullan{131}c{131} trafi{11F}ini gereksiz yere engellemedi{11F}imizi g{F6}sterir.'')
          (lat ''Shows we do not block legitimate user traffic unnecessarily.''))
        (if pass then L tr (num_text lines_v @ tu '' benign sat{131}rda %'' @ lat (toFixed 2 rate)
          @ tu '' yanl{131}{15F} alarm {2014} hedef <%'' @ num_text target @ tu '' alt{131}nda.'') (num_text lines_v
          @ lat '' benign lines at '' @ lat (toFixed 2 rate) @ tu ''% FP {2014} under '' @ num_text target
          @ lat ''% target.'') else L tr (tu ''Yanl{131}{15F} alarm %'' @ lat (toFixed 2 rate) @ tu '' {2014} hedef <%''
          @ num_text target @ tu '' a{15F}{131}ld{131}; e{15F}ik veya kurallar ayarlanmal{131}.'') (lat ''False positive ''
          @ lat (toFixed 2 rate) @ tu ''% {2014} exceeds '' @ num_text target
          @ lat ''% target; tune thresholds or rules.''))
        [(L tr (tu ''FP oran{131}'') (lat ''FP rate''), lat (toFixed 2 rate) @ lat ''%''),
          (L tr (tu ''Benign sat{131}r'') (lat ''Benign lines''), num_text lines_v)]
        (fmtDate dt (txtf fp ''date'')) (lat ''scripts/fp_benign_test.sh'')])"

definition cards_soak_short_gate :: cards where
  "cards_soak_short_gate rp src dt tr =
    (case rp ''soakShort'' of
      None \<Rightarrow> []
    | Some soakShort \<Rightarrow>
      let pass = (boolf soakShort ''pass'' = Some True);
        sec = nullish (numf soakShort ''duration_sec'') 300;
        min_v = math_round (fdiv sec 60)
      in [mk_card (lat ''soak-short-gate'') (if pass then Pass else Fail)
        (L tr (tu ''5 dakikal{131}k stabilite kap{131}s{131} (VPS gerekmez)'')
          (lat ''5-minute stability gate (no VPS required)''))
        (L tr (tu ''Daemon ve analiz{F6}r{FC}n k{131}sa s{FC}reli prod benzeri y{FC}kte ayakta kald{131}{11F}{131}n{131} do{11F}rular.'')
          (lat ''Confirms daemon and analyzer stay up during a short production-like window.''))
        (if pass then L tr (num_text min_v @ lat '' dk soak: '' @ num_text (nullish (numf soakShort ''samples'') 0)
          @ tu '' {F6}rnek, '' @ num_text (nullish (numf soakShort ''failures'') 0)
          @ tu '' hata {2014} PASS.'') (num_text min_v @ lat ''m soak: '' @ num_text
          (nullish (numf soakShort ''samples'') 0) @ lat '' samples, '' @ num_text (nullish (numf soakShort ''failures'') 0)
          @ tu '' failures {2014} PASS.'') else L tr (num_text (nullish (numf soakShort ''failures'') 0)
          @ tu '' ba{15F}ar{131}s{131}z {F6}rnek {2014} sa{11F}l{131}k veya metrik eri{15F}imi koptu.'') (num_text
          (nullish (numf soakShort ''failures'') 0) @ tu '' failed samples {2014} health or metrics access lost.''))
        [(L tr (tu ''S{FC}re'') (lat ''Duration''), num_text min_v @ lat '' dk''),
          (L tr (lat ''Max RSS'') (lat ''Max RSS''), if num_truthy (numf soakShort ''max_rss_kb'')
            then (lat (toFixed 0 (fdiv (the (numf soakShort ''max_rss_kb'')) 1024)) @ lat '' MB'') else tu ''{2014}'')]
        (fmtDate dt (case (txtf soakShort ''ended'') of None \<Rightarrow> (txtf soakShort ''started'') | Some v
          \<Rightarrow> Some v)) (lat ''scripts/soak_short_proof.sh'')])
    @ (case rp ''soak'' of
      None \<Rightarrow> []
    | Some soak \<Rightarrow>
      if (\<not> (boolf soak ''short_mode'' = Some True))
        then (let hours = if (num_truthy (case (numf soak ''duration_hours'') of None \<Rightarrow> (numf soak
        ''duration_sec'') | Some v \<Rightarrow> Some v)) then (fdiv (nullish (numf soak ''duration_sec'') 0) 3600) else 0;
        passOperational = (nullish (boolf soak ''pass_operational'') False);
        realFailures = numf soak ''real_failures'';
        artifacts = numf soak ''measurement_artifacts'';
        passProd = ((boolf soak ''pass_laptop_proof'' = Some True) \<or> ((passOperational \<and> (70 \<le> hours)) \<and>
          (nullish realFailures (nullish (numf soak ''failures'') 0) = 0)));
        fpRate = Option.bind (Option.bind (rp ''fp'') (\<lambda>o'. objf o' ''benign'')) (\<lambda>o'. numf o'
          ''fp_rate_pct'');
        fpPct = if (fpRate \<noteq> None) then Some (if (the fpRate < 1) then (lat (toFixed 2 (the fpRate)))
          else (lat (toFixed 1 (the fpRate)))) else None;
        rssMb = if (num_truthy (numf soak ''max_rss_kb''))
          then (lat (toFixed 0 (fdiv (the (numf soak ''max_rss_kb'')) 1024)) @ lat '' MB'') else tu ''{2014}'';
        sampleN = nullish (numf soak ''samples'') 0;
        failN = nullish realFailures (nullish (numf soak ''failures'') 0);
        artN = nullish artifacts 0
      in [mk_card (lat ''soak-stability'') (if passProd then Pass else (if passOperational then Warn else Fail))
        (L tr (if fpPct \<noteq> None then (lat ''72 saat VPS/VM soak + benign FP %'' @ the fpPct)
          else tu ''72 saat VPS/VM soak {2014} prod stabilite'') (if fpPct \<noteq> None then (lat ''72h VPS/VM soak + ''
          @ the fpPct @ lat ''% benign FP'') else tu ''72h VPS/VM soak {2014} prod stability''))
        (L tr (tu ''Servisler ~72 saat ayakta kald{131} m{131}? (VM/VPS systemd soak {2014} 864 {F6}rnek, 300s aral{131}k.)'')
          (tu ''Did services stay up for ~72h? (VM/VPS systemd soak {2014} 864 samples, 300s interval.)''))
        (if passProd then L tr (lat (toFixed 1 hours) @ tu '' saat soak ge{E7}ti: '' @ num_text sampleN @ tu '' {F6}rnek, ''
          @ num_text failN @ tu '' hata {2014} servisler ayakta, max RSS '' @ rssMb @ (if fpPct \<noteq> None
          then (lat '', benign FP %'' @ the fpPct) else []) @ lat ''.'') (lat (toFixed 1 hours) @ lat ''h soak passed: ''
          @ num_text sampleN @ lat '' samples, '' @ num_text failN @ tu '' failures {2014} services up, max RSS '' @ rssMb
          @ (if fpPct \<noteq> None then (lat '', benign FP '' @ the fpPct @ lat ''%'') else []) @ lat ''.'')
          else (if passOperational then L tr (lat (toFixed 1 hours)
          @ tu '' saat operasyonel ge{E7}ti ama 72h kan{131}t kap{131}s{131} eksik (<70h).'') (lat (toFixed 1 hours)
          @ lat ''h operational pass but 72h proof gate incomplete (<70h).'') else L tr (num_text failN
          @ tu '' ba{15F}ar{131}s{131}z {F6}rnek {2014} servis d{FC}{15F}m{FC}{15F} olabilir.'') (num_text failN
          @ tu '' failed samples {2014} possible service outage.'')))
        ([(L tr (tu ''S{FC}re'') (lat ''Duration''), lat (toFixed 1 hours) @ lat ''h''),
          (L tr (tu ''{D6}rnek'') (lat ''Samples''), num_text sampleN),
          (L tr (lat ''Hata'') (lat ''Failures''), num_text failN),
          (L tr (lat ''Max RSS'') (lat ''Max RSS''), rssMb)]
        @ (if (0 < artN) then [(L tr (tu ''{D6}l{E7}{FC}m artefakt{131}'') (lat ''Meas. artifacts''), num_text artN)]
          else [])
        @ (if (fpPct \<noteq> None) then [(L tr (lat ''Benign FP'') (lat ''Benign FP''), the fpPct @ lat ''%'')] else [])
        @ (if (src = Some (lat ''vps-remote'')) then [(L tr (lat ''Kaynak'')
          (lat ''Source''), nullish (Option.bind (rp ''vpsRemote'') (\<lambda>o'. txtf o' ''host'')) (lat ''VPS SSH''))]
        @ (if (txt_truthy (Option.bind (rp ''vpsRemote'') (\<lambda>o'. txtf o' ''xdp_mode'')))
          then [(lat ''XDP'', the (Option.bind (rp ''vpsRemote'') (\<lambda>o'. txtf o' ''xdp_mode'')))] else [])
          else (if (src = Some (lat ''laptop'')) then [(L tr (lat ''Kaynak'') (lat ''Source''), L tr (lat ''laptop'')
          (lat ''laptop''))] else [])))
        (fmtDate dt (case (txtf soak ''ended'') of None \<Rightarrow> (txtf soak ''started'') | Some v \<Rightarrow> Some
          v)) (lat ''scripts/soak_recompute_report.sh'')]) else [])"

definition cards_tenant_isolation :: cards where
  "cards_tenant_isolation rp src dt tr =
    (case rp ''isolation'' of
      None \<Rightarrow> []
    | Some iso_v \<Rightarrow>
      let pass = (boolf iso_v ''pass'' = Some True)
      in [mk_card (lat ''tenant-isolation'') (if pass then Pass else Fail)
        (L tr (tu ''Multi-tenant ortamda kirac{131} verilerinin birbirinden izole oldu{11F}unu kontrol ediyoruz'')
          (lat ''We verify tenant data stays isolated in multi-tenant deployments''))
        (L tr (tu ''Her m{FC}{15F}terinin ban, audit ve FP verisinin ayr{131} tutuldu{11F}unu kan{131}tlar.'')
          (tu ''Proves each customer{27}s ban, audit, and FP data is kept separate.''))
        (if pass then L tr (tu ''Kirac{131} {AB}''
          @ nullish (Option.bind (objf iso_v ''tenant'') (\<lambda>o'. txtf o' ''id'')) (tu ''{2014}'') @ tu ''{BB}: ''
          @ opt_text num_text (numf iso_v ''checks_passed'') @ lat ''/'' @ opt_text num_text (numf iso_v ''checks_total'')
          @ tu '' izolasyon kontrol{FC} ge{E7}ti.'') (tu ''Tenant {AB}''
          @ nullish (Option.bind (objf iso_v ''tenant'') (\<lambda>o'. txtf o' ''id'')) (tu ''{2014}'') @ tu ''{BB}: ''
          @ opt_text num_text (numf iso_v ''checks_passed'') @ lat ''/'' @ opt_text num_text (numf iso_v ''checks_total'')
          @ lat '' isolation checks passed.'') else L tr (tu ''{130}zolasyon eksik {2014} ''
          @ opt_text num_text (numf iso_v ''checks_passed'') @ lat ''/'' @ opt_text num_text (numf iso_v ''checks_total'')
          @ tu '' kontrol ge{E7}ti.'') (tu ''Isolation gap {2014} only '' @ opt_text num_text (numf iso_v ''checks_passed'')
          @ lat ''/'' @ opt_text num_text (numf iso_v ''checks_total'') @ lat '' checks passed.''))
        [(L tr (lat ''Kontroller'') (lat ''Checks''), num_text (nullish (numf iso_v ''checks_passed'') 0) @ lat ''/''
          @ num_text (nullish (numf iso_v ''checks_total'') 0))]
        (fmtDate dt (txtf iso_v ''generated_at'')) (lat ''scripts/tenant_isolation_test.sh'')])
    @ (case rp ''bench'' of
      None \<Rightarrow> []
    | Some bench \<Rightarrow>
      let gEps = nullish (Option.bind (objf bench ''log_guardian'') (\<lambda>o'. numf o' ''eps'')) 0;
        mEps = nullish (Option.bind (objf bench ''modsecurity'') (\<lambda>o'. numf o' ''eps'')) 0;
        gLat = nullish (Option.bind (objf bench ''log_guardian'') (\<lambda>o'. numf o' ''latency_us_per_line'')) 0
      in [mk_card (lat ''bench-eps'') Pass
        (L tr (tu ''Ayn{131} log corpus {FC}zerinde i{15F}leme h{131}z{131}n{131} {F6}l{E7}{FC}lebilir {15F}ekilde kar{15F}{131}la{15F}t{131}r{131}yoruz'')
          (lat ''We compare processing speed on the same log corpus with measurable numbers''))
        (L tr (tu ''Tek ge{E7}i{15F} log{2192}WAF mimarisinin throughput{27}unu {15F}effaf raporlar; CRS regex replay ile ayn{131} sat{131}rlar.'')
          (tu ''Transparent throughput report for log{2192}WAF pipeline; same lines vs CRS regex replay.''))
        (L tr (lat ''Guardian '' @ num_text gEps @ tu '' EPS (tek ge{E7}i{15F}, ''
          @ nullish (map_option num_text (numf bench ''lines'')) (tu ''{2014}'') @ tu '' sat{131}r); CRS replay ''
          @ num_text mEps @ tu '' EPS {2014} farkl{131} mimari, ayn{131} corpus.'') (lat ''Guardian '' @ num_text gEps
          @ lat '' EPS (single pass, '' @ nullish (map_option num_text (numf bench ''lines'')) (tu ''{2014}'')
          @ lat '' lines); CRS replay '' @ num_text mEps @ tu '' EPS {2014} different architecture, same corpus.''))
        [(lat ''Guardian EPS'', num_text gEps),
          (lat ''CRS replay EPS'', num_text mEps),
          (L tr (tu ''Sat{131}r gecikmesi'') (lat ''Per-line latency''), lat (toFixed 2 (fdiv gLat 1000)) @ lat '' ms'')]
        (fmtDate dt (txtf bench ''date'')) (lat ''scripts/competitive_suite.sh'')])
    @ (case rp ''ban'' of
      None \<Rightarrow> []
    | Some ban \<Rightarrow>
      if (numf ban ''ban_latency_ms'' \<noteq> None) then (let ms = numf ban ''ban_latency_ms'';
        target = nullish (numf ban ''target_ms'') 75;
        prodTarget = nullish (numf ban ''prod_target_ms'') 50;
        pass = ((boolf ban ''pass'' = Some True) \<or> (the ms \<le> target));
        prodOk = (the ms \<le> prodTarget)
      in [mk_card (lat ''ban-latency'') (if pass then Pass else Fail)
        (L tr (tu ''Tehdit tespitinden kernel ban{27}a kadar ge{E7}en s{FC}reyi {F6}l{E7}{FC}yoruz'')
          (lat ''We measure time from threat detection to kernel ban''))
        (L tr (tu ''Ban{27}{131}n saniyeler de{11F}il milisaniyeler i{E7}inde devreye girdi{11F}ini g{F6}sterir.'')
          (lat ''Shows bans engage in milliseconds, not seconds.''))
        (if pass then L tr (lat ''Medyan ban gecikmesi '' @ lat (toFixed 1 (the ms)) @ tu '' ms {2014} hedef <''
          @ num_text target @ lat '' ms'' @ (if boolf ban ''ipset_confirmed'' = Some True
          then tu '', ipset do{11F}ruland{131}'' else []) @ (if prodOk then [] else (lat '' (prod hedef <''
          @ num_text prodTarget @ tu '' ms {2014} VPS{27}te {F6}l{E7}{FC}lecek)'')) @ lat ''.'')
          (lat ''Median ban latency '' @ lat (toFixed 1 (the ms)) @ tu '' ms {2014} under '' @ num_text target
          @ lat '' ms target'' @ (if boolf ban ''ipset_confirmed'' = Some True then lat '', ipset confirmed'' else [])
          @ (if prodOk then [] else (lat '' (prod target <'' @ num_text prodTarget @ tu '' ms {2014} measure on VPS)''))
          @ lat ''.'') else L tr (lat ''Ban gecikmesi '' @ lat (toFixed 1 (the ms)) @ tu '' ms {2014} hedef <''
          @ num_text target @ tu '' ms a{15F}{131}ld{131}.'') (lat ''Ban latency '' @ lat (toFixed 1 (the ms))
          @ tu '' ms {2014} exceeds '' @ num_text target @ lat '' ms target.''))
        ([(L tr (lat ''Medyan'') (lat ''Median''), lat (toFixed 1 (the ms)) @ lat '' ms'')]
        @ (if (numf ban ''p90_ms'' \<noteq> None) then [(lat ''P90'', lat (toFixed 1 (the (numf ban ''p90_ms'')))
          @ lat '' ms'')] else []))
        (fmtDate dt (txtf ban ''date'')) (lat ''scripts/bench_ban_latency.sh'')]) else if (txt_truthy (txtf ban ''note''))
          then [mk_card (lat ''ban-latency'') Pending
        (L tr (tu ''Tehdit tespitinden kernel ban{27}a kadar ge{E7}en s{FC}reyi {F6}l{E7}{FC}yoruz'')
          (lat ''We measure time from threat detection to kernel ban''))
        (L tr (tu ''Ban{27}{131}n saniyeler de{11F}il milisaniyeler i{E7}inde devreye girdi{11F}ini g{F6}sterir.'')
          (lat ''Shows bans engage in milliseconds, not seconds.''))
        (L tr (tu ''Hen{FC}z {E7}al{131}{15F}t{131}r{131}lmad{131} {2014} root ile bench script gerekli.'')
          (tu ''Not run yet {2014} bench script requires root.''))
        []
        None (lat ''scripts/bench_ban_latency.sh'')] else [])"

subsection \<open>The cards in outline\<close>

definition out_crs_parity :: "outline list" where
  "out_crs_parity =
     [(''crs-parity'', ''crs'', gate_st),
      (''real-attack'', ''realAttack'', gate_st),
      (''real-attack-10k'', ''realAttack10k'', gate_st)]"

lemma cards_crs_parity_key: "map card_key (cards_crs_parity rp src dt tr) = board rp out_crs_parity"
  unfolding cards_crs_parity_def out_crs_parity_def key_push board_simps append_Nil2
  by (intro arg_cong2 [where f = append] case_entry)
    (simp_all only: Let_def, simp_all add: st_simps split: option.split)

definition out_live_attack :: "outline list" where
  "out_live_attack =
     [(''live-attack'', ''liveAttack'', gate_st),
      (''owasp-corpus'', ''owaspCorpus'', gate_st),
      (''tr-hosting-corpus'', ''trHostingCorpus'', gate_st),
      (''threat-intel-sync'', ''threatIntelSync'', gate_st)]"

lemma cards_live_attack_key: "map card_key (cards_live_attack rp src dt tr) = board rp out_live_attack"
  unfolding cards_live_attack_def out_live_attack_def key_push board_simps append_Nil2
  by (intro arg_cong2 [where f = append] case_entry)
    (simp_all only: Let_def, simp_all add: st_simps split: option.split)

definition out_nginx_consult :: "outline list" where
  "out_nginx_consult =
     [(''nginx-consult'', ''nginxConsult'', gate_st),
      (''nginx-hybrid'', ''nginxHybrid'', gate_st),
      (''ban-profile-e2e'', ''banProfileE2e'', gate_st),
      (''ipv6-ban-e2e'', ''ipv6BanE2e'', gate_st)]"

lemma cards_nginx_consult_key: "map card_key (cards_nginx_consult rp src dt tr) = board rp out_nginx_consult"
  unfolding cards_nginx_consult_def out_nginx_consult_def key_push board_simps append_Nil2
  by (intro arg_cong2 [where f = append] case_entry)
    (simp_all only: Let_def, simp_all add: st_simps split: option.split)

definition out_api_mutation_token_e2e :: "outline list" where
  "out_api_mutation_token_e2e =
     [(''api-mutation-token-e2e'', ''apiMutationTokenE2e'', gate_st),
      (''api-mutation-audit-e2e'', ''apiMutationAuditE2e'', gate_st),
      (''dashboard-login-rl-e2e'', ''dashboardLoginRlE2e'', gate_st),
      (''hardening-rollback-gate'', ''hardeningRollbackGate'', gate_st)]"

lemma cards_api_mutation_token_e2e_key: "map card_key (cards_api_mutation_token_e2e rp src dt tr) = board rp out_api_mutation_token_e2e"
  unfolding cards_api_mutation_token_e2e_def out_api_mutation_token_e2e_def key_push board_simps append_Nil2
  by (intro arg_cong2 [where f = append] case_entry)
    (simp_all only: Let_def, simp_all add: st_simps split: option.split)

definition out_dashboard_jwt_idle_gate :: "outline list" where
  "out_dashboard_jwt_idle_gate =
     [(''dashboard-jwt-idle-gate'', ''dashboardJwtIdleGate'', gate_st),
      (''mtls-cert-expiry'', ''mtlsCertExpiry'', mtls_st),
      (''ban-api-mtls'', ''banApiMtls'', gate_st)]"

lemma cards_dashboard_jwt_idle_gate_key: "map card_key (cards_dashboard_jwt_idle_gate rp src dt tr) = board rp out_dashboard_jwt_idle_gate"
  unfolding cards_dashboard_jwt_idle_gate_def out_dashboard_jwt_idle_gate_def key_push board_simps append_Nil2
  by (intro arg_cong2 [where f = append] case_entry)
    (simp_all only: Let_def, simp_all add: st_simps split: option.split)

definition out_enterprise_soar_gate :: "outline list" where
  "out_enterprise_soar_gate =
     [(''enterprise-soar-gate'', ''enterpriseSoarGate'', gate_st),
      (''ja3-cluster'', ''ja3Cluster'', gate_st),
      (''ja3-cluster-ban-live'', ''ja3ClusterBanLive'', gate_st)]"

lemma cards_enterprise_soar_gate_key: "map card_key (cards_enterprise_soar_gate rp src dt tr) = board rp out_enterprise_soar_gate"
  unfolding cards_enterprise_soar_gate_def out_enterprise_soar_gate_def key_push board_simps append_Nil2
  by (intro arg_cong2 [where f = append] case_entry)
    (simp_all only: Let_def, simp_all add: st_simps split: option.split)

definition out_fp_cluster_trust :: "outline list" where
  "out_fp_cluster_trust =
     [(''fp-cluster-trust'', ''fpClusterTrust'', gate_st),
      (''lineage-live'', ''lineageLive'', gate_st),
      (''fp-rate'', ''fp'', fp_st)]"

lemma cards_fp_cluster_trust_key: "map card_key (cards_fp_cluster_trust rp src dt tr) = board rp out_fp_cluster_trust"
  unfolding cards_fp_cluster_trust_def out_fp_cluster_trust_def key_push board_simps append_Nil2
  by (intro arg_cong2 [where f = append] case_entry)
    (simp_all only: Let_def, simp_all add: st_simps split: option.split)

definition out_soak_short_gate :: "outline list" where
  "out_soak_short_gate =
     [(''soak-short-gate'', ''soakShort'', gate_st),
      (''soak-stability'', ''soak'', soak_st)]"

lemma cards_soak_short_gate_key: "map card_key (cards_soak_short_gate rp src dt tr) = board rp out_soak_short_gate"
  unfolding cards_soak_short_gate_def out_soak_short_gate_def key_push board_simps append_Nil2
  by (intro arg_cong2 [where f = append] case_entry)
    (simp_all only: Let_def, simp_all add: st_simps split: option.split)

definition out_tenant_isolation :: "outline list" where
  "out_tenant_isolation =
     [(''tenant-isolation'', ''isolation'', gate_st),
      (''bench-eps'', ''bench'', bench_st),
      (''ban-latency'', ''ban'', latency_st)]"

lemma cards_tenant_isolation_key: "map card_key (cards_tenant_isolation rp src dt tr) = board rp out_tenant_isolation"
  unfolding cards_tenant_isolation_def out_tenant_isolation_def key_push board_simps append_Nil2
  by (intro arg_cong2 [where f = append] case_entry)
    (simp_all only: Let_def, simp_all add: st_simps split: option.split)

end
