(* ===== verification/TestCardsB.thy ===== *)
theory TestCardsB
  imports ReportJson
begin

section \<open>Validation test cards, second part\<close>

text \<open>
  \<^verbatim>\<open>lib/validationTests.ts\<close>, lines 2297 to 3443 of \<open>evaluateValidationTests\<close>: the cards whose
  reports are read in this stretch, a group of neighbouring blocks per definition.  A block gives no
  card when its report is missing.
\<close>

definition cards_live_pipeline :: cards where
  "cards_live_pipeline rp src dt tr =
    (case rp ''live'' of
      None \<Rightarrow> []
    | Some live \<Rightarrow>
      let bp = objf live ''ban_pipeline'';
        ipcOk = ((txtf live ''ipc'' = Some (lat ''ok'')) \<or> (txtf live ''ipc'' = Some (lat ''connected'')));
        pass = (ipcOk \<and> (nullish (Option.bind bp (\<lambda>o'. numf o' ''failed'')) 0 = 0))
      in [mk_card (lat ''live-pipeline'') (if pass then Pass else (if True then Fail else Pending))
        (L tr (tu ''Canl{131} ortamda ban hatt{131}n{131}n (IPC {2192} XDP/ipset) {E7}al{131}{15F}t{131}{11F}{131}n{131} do{11F}ruluyoruz'')
          (tu ''We verify the live ban pipeline (IPC {2192} XDP/ipset) is operational''))
        (L tr (tu ''Log analiz{F6}r{FC} ile kernel katman{131}n{131}n ger{E7}ekten konu{15F}tu{11F}unu kan{131}tlar.'')
          (lat ''Proves log analyzer and kernel layer are actually connected.''))
        (if pass then L tr (lat ''IPC '' @ nullish (txtf live ''ipc'') (tu ''{2014}'') @ lat ''; '' @ num_text
          (nullish (Option.bind bp (\<lambda>o'. numf o' ''ipc'')) 0) @ lat '' IPC ban, '' @ num_text
          (nullish (Option.bind bp (\<lambda>o'. numf o' ''xdp'')) 0) @ lat '' XDP, '' @ num_text
          (nullish (Option.bind bp (\<lambda>o'. numf o' ''ipset'')) 0) @ tu '' ipset {2014} hata yok.'') (lat ''IPC ''
          @ nullish (txtf live ''ipc'') (tu ''{2014}'') @ lat ''; '' @ num_text
          (nullish (Option.bind bp (\<lambda>o'. numf o' ''ipc'')) 0) @ lat '' IPC bans, '' @ num_text
          (nullish (Option.bind bp (\<lambda>o'. numf o' ''xdp'')) 0) @ lat '' XDP, '' @ num_text
          (nullish (Option.bind bp (\<lambda>o'. numf o' ''ipset'')) 0) @ tu '' ipset {2014} no failures.'')
          else L tr (tu ''Ban hatt{131}nda sorun {2014} IPC: '' @ nullish (txtf live ''ipc'') (lat ''?'')
          @ tu '', ba{15F}ar{131}s{131}z: ''
          @ nullish (map_option num_text (Option.bind bp (\<lambda>o'. numf o' ''failed''))) (lat ''?'') @ lat ''.'')
          (tu ''Ban pipeline issue {2014} IPC: '' @ nullish (txtf live ''ipc'') (lat ''?'') @ lat '', failed: ''
          @ nullish (map_option num_text (Option.bind bp (\<lambda>o'. numf o' ''failed''))) (lat ''?'') @ lat ''.''))
        [(lat ''EPS'', if Option.bind (objf live ''metrics'') (\<lambda>o'. numf o' ''eps'') \<noteq> None
          then opt_text num_text (Option.bind (objf live ''metrics'') (\<lambda>o'. numf o' ''eps'')) else tu ''{2014}''),
          (lat ''XDP'', if Option.bind (objf live ''daemon'') (\<lambda>o'. boolf o' ''xdp_active'') = Some True
            then lat ''ON'' else lat ''OFF'')]
        (fmtDate dt (txtf live ''generated_at'')) (lat ''scripts/competitive_suite.sh'')])
    @ (case rp ''webhookRoute'' of
      None \<Rightarrow> []
    | Some whRoute \<Rightarrow>
      let pass = (boolf whRoute ''pass'' = Some True)
      in [mk_card (lat ''webhook-route-proof'') (if pass then Pass else Fail)
        (L tr (tu ''Telegram route + batch {2014} #waf/#ban y{F6}nlendirme'')
          (tu ''Telegram route + batch {2014} #waf/#ban routing''))
        (L tr (tu ''WARN{2192}DM, CRIT/ban{2192}kanal ve opsiyonel batch {F6}zetinin do{11F}ru hedefe gitti{11F}ini kan{131}tlar.'')
          (tu ''Proves WARN{2192}DM, CRIT/ban{2192}channel and optional batch summary routing.''))
        (if pass then L tr (lat ''Mod '' @ nullish (txtf whRoute ''mode'') (tu ''{2014}'') @ lat ''; route ''
          @ (if boolf whRoute ''route_enabled'' = Some True then lat ''ON'' else lat ''OFF'') @ lat '', batch '' @ num_text
          (nullish (numf whRoute ''batch_sec'') 0) @ lat ''s''
          @ (if Option.bind (objf whRoute ''prod_e2e'') (\<lambda>o'. boolf o' ''ok'') = Some True
          then tu '' {2014} prod E2E OK'' else []) @ lat ''.'') (lat ''Mode '' @ nullish (txtf whRoute ''mode'')
          (tu ''{2014}'') @ lat ''; route '' @ (if boolf whRoute ''route_enabled'' = Some True then lat ''ON''
          else lat ''OFF'') @ lat '', batch '' @ num_text (nullish (numf whRoute ''batch_sec'') 0) @ lat ''s''
          @ (if Option.bind (objf whRoute ''prod_e2e'') (\<lambda>o'. boolf o' ''ok'') = Some True
          then tu '' {2014} prod E2E OK'' else []) @ lat ''.'') else L tr (or_else (txtf whRoute ''fail_reason'')
          (lat ''bash scripts/webhook_route_proof.sh'')) (or_else (txtf whRoute ''fail_reason'')
          (lat ''bash scripts/webhook_route_proof.sh'')))
        [(lat ''mode'', nullish (txtf whRoute ''mode'') (tu ''{2014}'')),
          (lat ''route'', if boolf whRoute ''route_enabled'' = Some True then lat ''ON'' else lat ''OFF''),
          (lat ''batch'', num_text (nullish (numf whRoute ''batch_sec'') 0)),
          (lat ''prod'', if Option.bind (objf whRoute ''prod_e2e'') (\<lambda>o'. boolf o' ''skipped'') = Some True
            then lat ''skip'' else (if Option.bind (objf whRoute ''prod_e2e'') (\<lambda>o'. boolf o' ''ok'') = Some True
            then lat ''OK'' else tu ''{2014}''))]
        (fmtDate dt (txtf whRoute ''date'')) (lat ''scripts/webhook_route_proof.sh'')])
    @ (case rp ''webhookTelegramLive'' of
      None \<Rightarrow> []
    | Some tgLive \<Rightarrow>
      let pass = (boolf tgLive ''pass'' = Some True)
      in [mk_card (lat ''webhook-telegram-live'') (if pass then Pass else Fail)
        (L tr (tu ''Telegram prod {2014} canl{131} alert/ban/trap/batch'')
          (tu ''Telegram prod {2014} live alert/ban/trap/batch''))
        (L tr (tu ''Ger{E7}ek bot token ile CRIT/WARN route + batch {F6}zetinin Telegram{2019}a gitti{11F}ini kan{131}tlar.'')
          (lat ''Proves real bot token delivers CRIT/WARN route + batch summary to Telegram.''))
        (if pass then L tr (lat ''mod '' @ nullish (txtf tgLive ''mode'') (lat ''prod'') @ lat ''; route ''
          @ (if boolf tgLive ''route'' = Some True then lat ''ON'' else lat ''OFF'') @ lat '', batch '' @ num_text
          (nullish (numf tgLive ''batch_sec'') 0) @ tu ''s {2014} '' @ u_join (lat '', '')
          (nullish (textsf tgLive ''kinds'') []) @ lat ''.'') (lat ''mode '' @ nullish (txtf tgLive ''mode'') (lat ''prod'')
          @ lat ''; route '' @ (if boolf tgLive ''route'' = Some True then lat ''ON'' else lat ''OFF'') @ lat '', batch ''
          @ num_text (nullish (numf tgLive ''batch_sec'') 0) @ tu ''s {2014} '' @ u_join (lat '', '')
          (nullish (textsf tgLive ''kinds'') []) @ lat ''.'')
          else L tr (lat ''sudo bash scripts/webhook_install_prod.sh --test-all'')
          (lat ''sudo bash scripts/webhook_install_prod.sh --test-all''))
        [(lat ''route'', if boolf tgLive ''route'' = Some True then lat ''ON'' else lat ''OFF''),
          (lat ''batch'', num_text (nullish (numf tgLive ''batch_sec'') 0)),
          (lat ''kinds'', if num_truthy (map_option (\<lambda>xs. of_nat (length xs)) (textsf tgLive ''kinds''))
            then u_join (lat '','') (the (textsf tgLive ''kinds'')) else tu ''{2014}'')]
        (fmtDate dt (txtf tgLive ''date'')) (lat ''scripts/webhook_install_prod.sh --test-all'')])"

definition cards_webhook_telegram_ack_live :: cards where
  "cards_webhook_telegram_ack_live rp src dt tr =
    (case rp ''webhookTelegramAckLive'' of
      None \<Rightarrow> []
    | Some tgAck \<Rightarrow>
      let pass = (boolf tgAck ''pass'' = Some True)
      in [mk_card (lat ''webhook-telegram-ack-live'') (if pass then Pass else Fail)
        (L tr (tu ''Telegram G{F6}rd{FC}m {2014} DB ack sayac{131} (24h)'') (tu ''Telegram Ack {2014} DB counter (24h)''))
        (L tr (tu ''Inline G{F6}rd{FC}m onay{131}n{131}n events.db telegram_acks tablosuna yaz{131}ld{131}{11F}{131}n{131} ve guardian-status/metrics sayac{131}n{131} art{131}rd{131}{11F}{131}n{131} kan{131}tlar.'')
          (lat ''Proves inline Ack writes to events.db telegram_acks and bumps guardian-status/metrics counters.''))
        (if pass then L tr (lat ''ack '' @ num_text (nullish (numf tgAck ''ack_before'') 0) @ tu ''{2192}'' @ num_text
          (nullish (numf tgAck ''ack_after'') 0) @ lat ''; unacked '' @ num_text (nullish (numf tgAck ''unacked_before'') 0)
          @ tu ''{2192}'' @ num_text (nullish (numf tgAck ''unacked_after'') 0) @ lat '' (key ''
          @ nullish (txtf tgAck ''ack_key'') (nullish (txtf tgAck ''test_ip'') (tu ''{2014}'')) @ lat '').'') (lat ''ack ''
          @ num_text (nullish (numf tgAck ''ack_before'') 0) @ tu ''{2192}'' @ num_text
          (nullish (numf tgAck ''ack_after'') 0) @ lat ''; unacked '' @ num_text (nullish (numf tgAck ''unacked_before'') 0)
          @ tu ''{2192}'' @ num_text (nullish (numf tgAck ''unacked_after'') 0) @ lat '' (key ''
          @ nullish (txtf tgAck ''ack_key'') (nullish (txtf tgAck ''test_ip'') (tu ''{2014}'')) @ lat '').'')
          else L tr (nullish (txtf tgAck ''fail_reason'') (lat ''bash scripts/webhook_ack_e2e.sh''))
          (nullish (txtf tgAck ''fail_reason'') (lat ''bash scripts/webhook_ack_e2e.sh'')))
        [(lat ''ack'', num_text (nullish (numf tgAck ''ack_before'') 0) @ tu ''{2192}'' @ num_text
          (nullish (numf tgAck ''ack_after'') 0)),
          (lat ''unacked'', num_text (nullish (numf tgAck ''unacked_before'') 0) @ tu ''{2192}'' @ num_text
            (nullish (numf tgAck ''unacked_after'') 0)),
          (lat ''prom'', if numf tgAck ''metrics_ack_24h'' \<noteq> None
            then opt_text num_text (numf tgAck ''metrics_ack_24h'') else tu ''{2014}'')]
        (fmtDate dt (txtf tgAck ''date'')) (lat ''scripts/webhook_ack_e2e.sh'')])
    @ (case rp ''telegramOperatorUndoE2e'' of
      None \<Rightarrow> []
    | Some tgUndo \<Rightarrow>
      let pass = (boolf tgUndo ''pass'' = Some True)
      in [mk_card (lat ''telegram-operator-undo-e2e'') (if pass then Pass else Fail)
        (L tr (tu ''Telegram operat{F6}r undo {2014} SIGUSR2 (WL/Sessiz)'')
          (tu ''Telegram operator undo {2014} SIGUSR2 (WL/mute)''))
        (L tr (tu ''WL / Sessiz / Unban yanl{131}{15F} t{131}klamalar{131}n{131} poll kesmeden geri al{131}r; journal [TELEGRAM_UNDO] kan{131}t{131}.'')
          (lat ''Reverts mistaken WL / mute / unban without interrupting poll; journal [TELEGRAM_UNDO] proof.''))
        (if pass then L tr (tu ''SIGUSR2 {B7} '' @ nullish (txtf tgUndo ''mode'') (lat ''sigusr2'') @ tu '' {B7} IP ''
          @ nullish (txtf tgUndo ''ip'') (tu ''{2014}'') @ lat ''.'') (tu ''SIGUSR2 {B7} '' @ nullish (txtf tgUndo ''mode'')
          (lat ''sigusr2'') @ tu '' {B7} IP '' @ nullish (txtf tgUndo ''ip'') (tu ''{2014}'') @ lat ''.'')
          else L tr (nullish (txtf tgUndo ''fail_reason'') (lat ''bash scripts/telegram_operator_undo_e2e.sh''))
          (nullish (txtf tgUndo ''fail_reason'') (lat ''bash scripts/telegram_operator_undo_e2e.sh'')))
        [(lat ''mode'', nullish (txtf tgUndo ''mode'') (tu ''{2014}'')),
          (lat ''ip'', nullish (txtf tgUndo ''ip'') (tu ''{2014}'')),
          (lat ''pass'', if pass then lat ''OK'' else lat ''FAIL'')]
        (fmtDate dt (txtf tgUndo ''date'')) (lat ''scripts/telegram_operator_undo_e2e.sh'')])
    @ (case rp ''telegramSocGate'' of
      None \<Rightarrow> []
    | Some tgSoc \<Rightarrow>
      let pass = (boolf tgSoc ''pass'' = Some True)
      in [mk_card (lat ''telegram-soc-gate'') (if pass then Pass else Fail)
        (L tr (tu ''Telegram SOC {2014} timeline + harita + webhook'')
          (tu ''Telegram SOC {2014} timeline + map + webhook''))
        (L tr (tu ''{DC}{E7} operat{F6}r y{FC}zeyinin ayn{131} anda canl{131} kan{131}t {FC}retti{11F}ini do{11F}rular: SOC timeline, attack map, Webhook panel.'')
          (lat ''Proves three operator surfaces emit live evidence together: SOC timeline, attack map, webhook panel.''))
        (if pass then L tr (lat ''SOC '' @ num_text (nullish (numf tgSoc ''soc_entries'') 0) @ lat '' (ack '' @ num_text
          (nullish (numf tgSoc ''soc_ack'') 0) @ tu '') {B7} harita '' @ num_text (nullish (numf tgSoc ''map_markers'') 0)
          @ tu '' {B7} bans ack '' @ num_text (nullish (numf tgSoc ''bans_acks'') 0) @ tu '' {B7} webhook ''
          @ (if boolf tgSoc ''prod_e2e_ok'' = Some True then lat ''prod'' else [])
          @ (if boolf tgSoc ''undo_e2e_ok'' = Some True then lat '' undo'' else []) @ lat ''.'') (lat ''SOC '' @ num_text
          (nullish (numf tgSoc ''soc_entries'') 0) @ lat '' (ack '' @ num_text (nullish (numf tgSoc ''soc_ack'') 0)
          @ tu '') {B7} map '' @ num_text (nullish (numf tgSoc ''map_markers'') 0) @ tu '' {B7} bans ack '' @ num_text
          (nullish (numf tgSoc ''bans_acks'') 0) @ tu '' {B7} webhook '' @ (if boolf tgSoc ''prod_e2e_ok'' = Some True
          then lat ''prod'' else []) @ (if boolf tgSoc ''undo_e2e_ok'' = Some True then lat '' undo'' else []) @ lat ''.'')
          else L tr (nullish (txtf tgSoc ''fail_reason'') (lat ''bash scripts/telegram_soc_gate.sh''))
          (nullish (txtf tgSoc ''fail_reason'') (lat ''bash scripts/telegram_soc_gate.sh'')))
        [(lat ''soc'', num_text (nullish (numf tgSoc ''soc_entries'') 0)),
          (lat ''map'', num_text (nullish (numf tgSoc ''map_markers'') 0)),
          (lat ''bans'', num_text (nullish (numf tgSoc ''bans_acks'') 0)),
          (lat ''webhook'', if (boolf tgSoc ''prod_e2e_ok'' = Some True) \<or> (boolf tgSoc ''undo_e2e_ok'' = Some True)
            then lat ''OK'' else tu ''{2014}'')]
        (fmtDate dt (txtf tgSoc ''date'')) (lat ''scripts/telegram_soc_gate.sh'')])"

definition cards_bans_telegram_ops :: cards where
  "cards_bans_telegram_ops rp src dt tr =
    (case rp ''bansTelegramOps'' of
      None \<Rightarrow> []
    | Some bansTg \<Rightarrow>
      let pass = (boolf bansTg ''pass'' = Some True)
      in [mk_card (lat ''bans-telegram-ops'') (if pass then Pass else Fail)
        (L tr (tu ''Bans + Telegram ack {2014} operat{F6}r paneli API'')
          (tu ''Bans + Telegram ack {2014} operator panel API''))
        (L tr (tu ''/api/telegram-acks ve /bans?search= ile operat{F6}r panelinin canl{131} veri ald{131}{11F}{131}n{131} kan{131}tlar.'')
          (lat ''Proves operator panel gets live data via /api/telegram-acks and /bans?search=.''))
        (if pass then L tr (lat ''IP '' @ nullish (txtf bansTg ''test_ip'') (tu ''{2014}'') @ tu '' {B7} ack ''
          @ (if boolf bansTg ''test_ip_ack'' = Some True then lat ''evet'' else tu ''hay{131}r'')
          @ (if txt_truthy (txtf bansTg ''test_ip_operator'') then (lat '' (''
          @ opt_text id (txtf bansTg ''test_ip_operator'') @ lat '')'') else []) @ tu '' {B7} ban arama ''
          @ (if boolf bansTg ''test_ip_banned'' = Some True then lat ''hit'' else lat ''yok'') @ lat ''.'') (lat ''IP ''
          @ nullish (txtf bansTg ''test_ip'') (tu ''{2014}'') @ tu '' {B7} ack ''
          @ (if boolf bansTg ''test_ip_ack'' = Some True then lat ''yes'' else lat ''no'')
          @ (if txt_truthy (txtf bansTg ''test_ip_operator'') then (lat '' (''
          @ opt_text id (txtf bansTg ''test_ip_operator'') @ lat '')'') else []) @ tu '' {B7} ban search ''
          @ (if boolf bansTg ''test_ip_banned'' = Some True then lat ''hit'' else lat ''miss'') @ lat ''.'')
          else L tr (nullish (txtf bansTg ''fail_reason'') (lat ''bash scripts/bans_telegram_ops_e2e.sh''))
          (nullish (txtf bansTg ''fail_reason'') (lat ''bash scripts/bans_telegram_ops_e2e.sh'')))
        [(lat ''acks'', num_text (nullish (numf bansTg ''acks_count'') 0)),
          (lat ''ban'', if boolf bansTg ''test_ip_banned'' = Some True then lat ''hit'' else tu ''{2014}''),
          (lat ''operator'', nullish (txtf bansTg ''test_ip_operator'') (tu ''{2014}''))]
        (fmtDate dt (txtf bansTg ''date'')) (lat ''scripts/bans_telegram_ops_e2e.sh'')])
    @ (case rp ''edgeProtectionGate'' of
      None \<Rightarrow> []
    | Some edgeGate \<Rightarrow>
      let pass = (boolf edgeGate ''pass'' = Some True);
        nginxOk = ((boolf edgeGate ''nginx_log_format'' = Some True) \<or> (boolf edgeGate ''nginx_snippets'' = Some True))
      in [mk_card (lat ''edge-protection-gate'') (if pass then Pass else Fail)
        (L tr (tu ''Edge koruma {2014} nginx + XDP/ipset + threat intel'')
          (tu ''Edge protection {2014} nginx + XDP/ipset + threat intel''))
        (L tr (tu ''CDN {F6}ncesi origin katman{131}: nginx log format{131}, ipset/XDP ban yolu ve threat-intel {F6}zet DB.'')
          (lat ''Pre-CDN origin layer: nginx log format, ipset/XDP ban path, and threat-intel summary DB.''))
        (if pass then L tr (lat ''IPC '' @ nullish (txtf edgeGate ''ipc'') (tu ''{2014}'') @ tu '' {B7} ''
          @ nullish (txtf edgeGate ''xdp_mode'') (tu ''{2014}'') @ tu '' {B7} nginx '' @ (if nginxOk then lat ''OK''
          else tu ''{2014}'') @ tu '' {B7} ipset '' @ num_text (nullish (numf edgeGate ''ipset_entries'') 0)
          @ tu '' {B7} WL '' @ num_text (nullish (numf edgeGate ''whitelist_count'') 0) @ lat ''.'') (lat ''IPC ''
          @ nullish (txtf edgeGate ''ipc'') (tu ''{2014}'') @ tu '' {B7} '' @ nullish (txtf edgeGate ''xdp_mode'')
          (tu ''{2014}'') @ tu '' {B7} nginx '' @ (if nginxOk then lat ''OK'' else tu ''{2014}'') @ tu '' {B7} ipset ''
          @ num_text (nullish (numf edgeGate ''ipset_entries'') 0) @ tu '' {B7} WL '' @ num_text
          (nullish (numf edgeGate ''whitelist_count'') 0) @ lat ''.'') else L tr (nullish (txtf edgeGate ''fail_reason'')
          (lat ''bash scripts/edge_protection_gate.sh'')) (nullish (txtf edgeGate ''fail_reason'')
          (lat ''bash scripts/edge_protection_gate.sh'')))
        [(lat ''ipc'', nullish (txtf edgeGate ''ipc'') (tu ''{2014}'')),
          (lat ''xdp'', nullish (txtf edgeGate ''xdp_mode'') (tu ''{2014}'')),
          (lat ''ipset'', num_text (nullish (numf edgeGate ''ipset_entries'') 0))]
        (fmtDate dt (txtf edgeGate ''date'')) (lat ''scripts/edge_protection_gate.sh'')])
    @ (case rp ''intelBanDb'' of
      None \<Rightarrow> []
    | Some intelDb \<Rightarrow>
      let pass = (boolf intelDb ''pass'' = Some True);
        legacy = nullish (numf intelDb ''intel_legacy_rows'') 0;
        total_v = nullish (numf intelDb ''ban_events_total'') 0;
        ttl = nullish (numf intelDb ''intel_ban_db_ttl_days'') 7
      in [mk_card (lat ''intel-ban-db'') (if pass then Pass else Warn)
        (L tr (tu ''INTEL_BAN_DB {2014} ban_events boyut + TTL'') (tu ''INTEL_BAN_DB {2014} ban_events size + TTL''))
        (L tr (tu ''SQLite ban_events {15F}i{15F}me kontrol{FC} {2014} ban mant{131}{11F}{131}na dokunmaz; Grafana lg-ban-db-size.'')
          (tu ''SQLite ban_events bloat check {2014} does not change ban logic; Grafana lg-ban-db-size.''))
        (if pass then L tr (lat ''ban_events '' @ num_text total_v @ lat ''; legacy '' @ num_text legacy @ lat ''; stale ''
          @ num_text (nullish (numf intelDb ''stale_rows'') 0) @ lat ''; TTL '' @ num_text ttl @ lat ''g.'')
          (lat ''ban_events '' @ num_text total_v @ lat ''; legacy '' @ num_text legacy @ lat ''; stale '' @ num_text
          (nullish (numf intelDb ''stale_rows'') 0) @ lat ''; TTL '' @ num_text ttl @ lat ''d.'')
          else L tr (u_join (lat ''; '') (nullish (textsf intelDb ''notes'') [(nullish (txtf intelDb ''fail_reason'')
          (lat ''intel_ban_db''))])) (u_join (lat ''; '')
          (nullish (textsf intelDb ''notes'') [(nullish (txtf intelDb ''fail_reason'') (lat ''intel_ban_db''))])))
        [(lat ''rows'', num_text total_v),
          (lat ''legacy'', num_text legacy),
          (lat ''TTL'', num_text ttl @ lat ''d'')]
        (fmtDate dt (txtf intelDb ''date'')) (lat ''scripts/intel_ban_db_ops_check.sh'')])"

definition cards_grafana_parity_gate :: cards where
  "cards_grafana_parity_gate rp src dt tr =
    (case rp ''grafanaParityGate'' of
      None \<Rightarrow> []
    | Some grafanaParity \<Rightarrow>
      let pass = (boolf grafanaParity ''pass'' = Some True)
      in [mk_card (lat ''grafana-parity-gate'') (if pass then Pass else Fail)
        (L tr (tu ''Grafana parity {2014} dashboard mini panel {2194} JSON'')
          (tu ''Grafana parity {2014} dashboard mini panels {2194} JSON''))
        (L tr (tu ''grafanaPanels.ts metrikleri grafana-dashboard.json ile ayn{131} k{FC}mede mi do{11F}rular.'')
          (lat ''Verifies grafanaPanels.ts metrics match grafana-dashboard.json.''))
        (if pass then L tr (lat ''Panel '' @ num_text (nullish (numf grafanaParity ''panel_metrics'') 0)
          @ tu '' {B7} dashboard '' @ num_text (nullish (numf grafanaParity ''dashboard_metrics'') 0)
          @ tu '' metrik e{15F}le{15F}ti.'') (lat ''Panel '' @ num_text (nullish (numf grafanaParity ''panel_metrics'') 0)
          @ tu '' {B7} dashboard '' @ num_text (nullish (numf grafanaParity ''dashboard_metrics'') 0)
          @ lat '' metrics matched.'') else L tr (nullish (txtf grafanaParity ''fail_reason'')
          (lat ''bash scripts/grafana_parity_gate.sh'')) (nullish (txtf grafanaParity ''fail_reason'')
          (lat ''bash scripts/grafana_parity_gate.sh'')))
        [(lat ''panel'', num_text (nullish (numf grafanaParity ''panel_metrics'') 0)),
          (lat ''dash'', num_text (nullish (numf grafanaParity ''dashboard_metrics'') 0))]
        (fmtDate dt (txtf grafanaParity ''date'')) (lat ''scripts/grafana_parity_gate.sh'')])
    @ (case rp ''websitePreviewGate'' of
      None \<Rightarrow> []
    | Some webPreview \<Rightarrow>
      let pass = (boolf webPreview ''pass'' = Some True)
      in [mk_card (lat ''website-preview-gate'') (if pass then Pass else Fail)
        (L tr (tu ''Site preview {2014} landing test parity'') (tu ''Site preview {2014} landing test parity''))
        (L tr (tu ''landing/lib/tests.ts ile competitive-proof parity (yerel test-kart) do{11F}rular.'')
          (lat ''Verifies landing/lib/tests.ts parity with competitive-proof (local test cards).''))
        (if pass then L tr (lat ''Site '' @ (if numf webPreview ''site_fail'' = Some 0 then num_text
          (nullish (numf webPreview ''site_tests'') 0) else num_text (nullish (numf webPreview ''site_pass'') 0))
          @ lat ''/'' @ num_text (nullish (numf webPreview ''expected_tests'') 0) @ tu '' parity {B7} grafana ''
          @ (if boolf webPreview ''has_grafana_parity'' = Some True then lat ''evet'' else tu ''hay{131}r'')
          @ tu '' {B7} edge '' @ (if boolf webPreview ''has_edge_gate'' = Some True then lat ''evet'' else tu ''hay{131}r'')
          @ lat ''.'') (lat ''Site '' @ (if numf webPreview ''site_fail'' = Some 0 then num_text
          (nullish (numf webPreview ''site_tests'') 0) else num_text (nullish (numf webPreview ''site_pass'') 0))
          @ lat ''/'' @ num_text (nullish (numf webPreview ''expected_tests'') 0) @ tu '' parity {B7} grafana ''
          @ (if boolf webPreview ''has_grafana_parity'' = Some True then lat ''yes'' else lat ''no'') @ tu '' {B7} edge ''
          @ (if boolf webPreview ''has_edge_gate'' = Some True then lat ''yes'' else lat ''no'') @ lat ''.'')
          else L tr (nullish (txtf webPreview ''fail_reason'') (lat ''bash scripts/website_preview_gate.sh''))
          (nullish (txtf webPreview ''fail_reason'') (lat ''bash scripts/website_preview_gate.sh'')))
        [(lat ''site'', num_text (nullish (numf webPreview ''site_tests'') 0)),
          (lat ''proof'', num_text (nullish (numf webPreview ''expected_tests'') 0))]
        (fmtDate dt (txtf webPreview ''date'')) (lat ''scripts/website_preview_gate.sh'')])
    @ (case rp ''enterpriseEscalationGate'' of
      None \<Rightarrow> []
    | Some escGate \<Rightarrow>
      let pass = (boolf escGate ''pass'' = Some True)
      in [mk_card (lat ''enterprise-escalation-gate'') (if pass then Pass else Fail)
        (L tr (tu ''Enterprise escalation {2014} operat{F6}r playbook'')
          (tu ''Enterprise escalation {2014} operator playbook''))
        (L tr (tu ''P1{2013}P4 runbook + Telegram/edge operat{F6}r kap{131}lar{131}n{131}n canl{131} ge{E7}ti{11F}ini do{11F}rular.'')
          (tu ''Verifies P1{2013}P4 runbook and live Telegram/edge operator gates.''))
        (if pass then L tr (lat ''Dok '' @ num_text (nullish (numf escGate ''doc_sections'') 0)
          @ tu '' b{F6}l{FC}m {B7} canl{131} kap{131} '' @ num_text (nullish (numf escGate ''live_gates_ok'') 0) @ lat ''/''
          @ num_text (nullish (numf escGate ''live_gates_total'') 0) @ lat ''.'') (lat ''Doc '' @ num_text
          (nullish (numf escGate ''doc_sections'') 0) @ tu '' sections {B7} live gates '' @ num_text
          (nullish (numf escGate ''live_gates_ok'') 0) @ lat ''/'' @ num_text
          (nullish (numf escGate ''live_gates_total'') 0) @ lat ''.'') else L tr (nullish (txtf escGate ''fail_reason'')
          (lat ''bash scripts/enterprise_escalation_gate.sh'')) (nullish (txtf escGate ''fail_reason'')
          (lat ''bash scripts/enterprise_escalation_gate.sh'')))
        [(lat ''doc'', num_text (nullish (numf escGate ''doc_sections'') 0)),
          (lat ''gates'', num_text (nullish (numf escGate ''live_gates_ok'') 0) @ lat ''/'' @ num_text
            (nullish (numf escGate ''live_gates_total'') 0))]
        (fmtDate dt (txtf escGate ''date'')) (lat ''scripts/enterprise_escalation_gate.sh'')])
    @ (case rp ''vmHostPrepGate'' of
      None \<Rightarrow> []
    | Some vmPrep \<Rightarrow>
      let pass = (boolf vmPrep ''pass'' = Some True)
      in [mk_card (lat ''vm-host-prep-gate'') (if pass then Pass else Fail)
        (L tr (tu ''VM host prep {2014} sync {F6}ncesi kan{131}t'') (tu ''VM host prep {2014} pre-sync evidence''))
        (L tr (tu ''Laptop HOST{27}ta vm_sync {F6}ncesi post_install + 64 test kan{131}t{131}n{131} do{11F}rular.'')
          (lat ''Verifies post_install + 64-test proof on laptop HOST before vm_sync.''))
        (if pass then L tr (lat ''ctx '' @ nullish (txtf vmPrep ''context'') (tu ''{2014}'') @ tu '' {B7} proof ''
          @ num_text (nullish (numf vmPrep ''proof_pass'') 0) @ lat ''/'' @ num_text
          (nullish (numf vmPrep ''proof_tests'') 0) @ tu '' {B7} post_install FAIL='' @ num_text
          (nullish (numf vmPrep ''post_install_fail'') 0) @ lat ''.'') (lat ''ctx '' @ nullish (txtf vmPrep ''context'')
          (tu ''{2014}'') @ tu '' {B7} proof '' @ num_text (nullish (numf vmPrep ''proof_pass'') 0) @ lat ''/'' @ num_text
          (nullish (numf vmPrep ''proof_tests'') 0) @ tu '' {B7} post_install FAIL='' @ num_text
          (nullish (numf vmPrep ''post_install_fail'') 0) @ lat ''.'') else L tr (nullish (txtf vmPrep ''fail_reason'')
          (lat ''bash scripts/vm_host_prep_gate.sh'')) (nullish (txtf vmPrep ''fail_reason'')
          (lat ''bash scripts/vm_host_prep_gate.sh'')))
        [(lat ''proof'', num_text (nullish (numf vmPrep ''proof_pass'') 0) @ lat ''/'' @ num_text
          (nullish (numf vmPrep ''proof_tests'') 0)),
          (lat ''ctx'', nullish (txtf vmPrep ''context'') (tu ''{2014}''))]
        (fmtDate dt (txtf vmPrep ''date'')) (lat ''scripts/vm_host_prep_gate.sh'')])"

definition cards_docs_consistency_gate :: cards where
  "cards_docs_consistency_gate rp src dt tr =
    (case rp ''docsConsistencyGate'' of
      None \<Rightarrow> []
    | Some docsCons \<Rightarrow>
      let pass = (boolf docsCons ''pass'' = Some True)
      in [mk_card (lat ''docs-consistency-gate'') (if pass then Pass else Fail)
        (L tr (tu ''Docs consistency {2014} 64 test + HOSTING {A7}8b'')
          (tu ''Docs consistency {2014} 64 test + HOSTING {A7}8b''))
        (L tr (tu ''Dok{FC}man vitrin tutarl{131}l{131}{11F}{131}: 64 test say{131}s{131}, Telegram cross-link, script matrisi.'')
          (lat ''Doc vitrine consistency: 64-test count, Telegram cross-link, script matrix.''))
        (if pass then L tr (lat ''checks OK='' @ num_text (nullish (numf docsCons ''checks_ok'') 0) @ tu '' {B7} proof ''
          @ num_text (nullish (numf docsCons ''proof_pass'') 0) @ lat ''/'' @ num_text
          (nullish (numf docsCons ''proof_tests'') 0) @ tu '' {B7} {A7}8b='' @ (if boolf docsCons ''hosting_8b'' = Some True
          then lat ''evet'' else tu ''hay{131}r'') @ lat ''.'') (lat ''checks OK='' @ num_text
          (nullish (numf docsCons ''checks_ok'') 0) @ tu '' {B7} proof '' @ num_text
          (nullish (numf docsCons ''proof_pass'') 0) @ lat ''/'' @ num_text (nullish (numf docsCons ''proof_tests'') 0)
          @ tu '' {B7} {A7}8b='' @ (if boolf docsCons ''hosting_8b'' = Some True then lat ''yes'' else lat ''no'')
          @ lat ''.'') else L tr (nullish (txtf docsCons ''fail_reason'') (lat ''bash scripts/docs_consistency_gate.sh''))
          (nullish (txtf docsCons ''fail_reason'') (lat ''bash scripts/docs_consistency_gate.sh'')))
        [(lat ''checks'', num_text (nullish (numf docsCons ''checks_ok'') 0)),
          (lat ''proof'', num_text (nullish (numf docsCons ''proof_pass'') 0) @ lat ''/'' @ num_text
            (nullish (numf docsCons ''proof_tests'') 0))]
        (fmtDate dt (txtf docsCons ''date'')) (lat ''scripts/docs_consistency_gate.sh'')])
    @ (case rp ''vmFleetGate'' of
      None \<Rightarrow> []
    | Some vmFleet \<Rightarrow>
      let skipped = (boolf vmFleet ''skipped'' = Some True);
        pass = ((boolf vmFleet ''pass'' = Some True) \<or> skipped);
        vmLabel = if skipped then lat ''skip'' else (nullish (txtf vmFleet ''vm_status'') (tu ''{2014}''))
      in [mk_card (lat ''vm-fleet-gate'') (if pass then Pass else Fail)
        (L tr (tu ''VM fleet keepalive {2014} host + node-vm-02'') (tu ''VM fleet keepalive {2014} host + node-vm-02''))
        (L tr (tu ''LAPTOP_OPS filo dok{FC}mantasyonu ve iki d{FC}{11F}{FC}m{FC}n /fleet {FC}zerinde Online oldu{11F}unu do{11F}rular.'')
          (lat ''Verifies LAPTOP_OPS fleet docs and both nodes Online on /fleet.''))
        (if pass then L tr (if skipped then (tu ''Rutin laptop (SKIP_FLEET) {2014} ''
          @ nullish (txtf vmFleet ''host_agent'') (lat ''host'') @ lat ''='' @ nullish (txtf vmFleet ''host_status'')
          (tu ''{2014}'') @ tu '' {B7} tam filo: WITH_FLEET=1.'') else (nullish (txtf vmFleet ''host_agent'') (lat ''host'')
          @ lat ''='' @ nullish (txtf vmFleet ''host_status'') (tu ''{2014}'') @ tu '' {B7} ''
          @ nullish (txtf vmFleet ''vm_agent'') (lat ''vm'') @ lat ''='' @ nullish (txtf vmFleet ''vm_status'')
          (tu ''{2014}'') @ tu '' {B7} online='' @ num_text (nullish (numf vmFleet ''online_count'') 0) @ lat ''.''))
          (if skipped then (tu ''Laptop routine (SKIP_FLEET) {2014} '' @ nullish (txtf vmFleet ''host_agent'')
          (lat ''host'') @ lat ''='' @ nullish (txtf vmFleet ''host_status'') (tu ''{2014}'')
          @ tu '' {B7} full fleet: WITH_FLEET=1.'') else (nullish (txtf vmFleet ''host_agent'') (lat ''host'') @ lat ''=''
          @ nullish (txtf vmFleet ''host_status'') (tu ''{2014}'') @ tu '' {B7} '' @ nullish (txtf vmFleet ''vm_agent'')
          (lat ''vm'') @ lat ''='' @ nullish (txtf vmFleet ''vm_status'') (tu ''{2014}'') @ tu '' {B7} online='' @ num_text
          (nullish (numf vmFleet ''online_count'') 0) @ lat ''.'')) else L tr (nullish (txtf vmFleet ''fail_reason'')
          (lat ''bash scripts/vm_fleet_gate.sh'')) (nullish (txtf vmFleet ''fail_reason'')
          (lat ''bash scripts/vm_fleet_gate.sh'')))
        [(lat ''host'', nullish (txtf vmFleet ''host_status'') (tu ''{2014}'')),
          (lat ''vm'', vmLabel)]
        (fmtDate dt (txtf vmFleet ''date'')) (lat ''scripts/vm_fleet_gate.sh'')])
    @ (case rp ''laptopExcellenceGate'' of
      None \<Rightarrow> []
    | Some laptopExc \<Rightarrow>
      let pass = (boolf laptopExc ''pass'' = Some True)
      in [mk_card (lat ''laptop-excellence-gate'') (if pass then Pass else Fail)
        (L tr (tu ''Laptop excellence {2014} demo haz{131}rl{131}k kap{131}s{131}'')
          (tu ''Laptop excellence {2014} demo readiness gate''))
        (L tr (tu ''Servis, :8443, filo, kan{131}t zincirini tek kap{131}da {F6}zetler (VPS gerekmez).'')
          (lat ''Summarizes services, :8443, fleet, and proof chain in one gate (no VPS).''))
        (if pass then L tr (lat ''OK='' @ num_text (nullish (numf laptopExc ''ok'') 0) @ lat '' WARN='' @ num_text
          (nullish (numf laptopExc ''warn'') 0) @ tu '' {B7} proof '' @ num_text (nullish (numf laptopExc ''proof_pass'') 0)
          @ lat ''/'' @ num_text (nullish (numf laptopExc ''proof_tests'') 0) @ lat ''.'') (lat ''OK='' @ num_text
          (nullish (numf laptopExc ''ok'') 0) @ lat '' WARN='' @ num_text (nullish (numf laptopExc ''warn'') 0)
          @ tu '' {B7} proof '' @ num_text (nullish (numf laptopExc ''proof_pass'') 0) @ lat ''/'' @ num_text
          (nullish (numf laptopExc ''proof_tests'') 0) @ lat ''.'') else L tr (lat ''FAIL='' @ num_text
          (nullish (numf laptopExc ''fail'') 0) @ tu '' {2014} bash scripts/laptop_excellence_gate.sh'') (lat ''FAIL=''
          @ num_text (nullish (numf laptopExc ''fail'') 0) @ tu '' {2014} bash scripts/laptop_excellence_gate.sh''))
        [(lat ''OK'', num_text (nullish (numf laptopExc ''ok'') 0)),
          (lat ''FAIL'', num_text (nullish (numf laptopExc ''fail'') 0))]
        (fmtDate dt (txtf laptopExc ''date'')) (lat ''scripts/laptop_excellence_gate.sh'')])
    @ (case rp ''websiteLiveGate'' of
      None \<Rightarrow> []
    | Some liveSite \<Rightarrow>
      let pass = (boolf liveSite ''pass'' = Some True)
      in [mk_card (lat ''website-live-gate'') (if pass then Pass else Fail)
        (L tr (tu ''Website live {2014} canl{131} site /tests parity'')
          (tu ''Website live {2014} production /tests parity''))
        (L tr (tu ''ceniklinuxlogguardian.org {FC}zerinde SRI + test kart say{131}s{131} competitive-proof ile uyumlu mu.'')
          (lat ''Production domain SRI + test card count matches competitive-proof.''))
        (if pass then L tr (nullish (txtf liveSite ''domain'') (tu ''{2014}'') @ tu '' {B7} '' @ num_text
          (nullish (numf liveSite ''live_cards'') 0) @ lat ''/'' @ num_text (nullish (numf liveSite ''expected_tests'') 0)
          @ tu '' kart {B7} CSS='' @ (if boolf liveSite ''css_ok'' = Some True then lat ''evet'' else tu ''hay{131}r'')
          @ lat ''.'') (nullish (txtf liveSite ''domain'') (tu ''{2014}'') @ tu '' {B7} '' @ num_text
          (nullish (numf liveSite ''live_cards'') 0) @ lat ''/'' @ num_text (nullish (numf liveSite ''expected_tests'') 0)
          @ tu '' cards {B7} CSS='' @ (if boolf liveSite ''css_ok'' = Some True then lat ''yes'' else lat ''no'')
          @ lat ''.'') else L tr (nullish (txtf liveSite ''fail_reason'') (lat ''bash scripts/website_live_gate.sh''))
          (nullish (txtf liveSite ''fail_reason'') (lat ''bash scripts/website_live_gate.sh'')))
        [(lat ''live'', num_text (nullish (numf liveSite ''live_cards'') 0) @ lat ''/'' @ num_text
          (nullish (numf liveSite ''expected_tests'') 0)),
          (lat ''domain'', take 20 (nullish (txtf liveSite ''domain'') (tu ''{2014}'')))]
        (fmtDate dt (txtf liveSite ''date'')) (lat ''scripts/website_live_gate.sh'')])"

definition cards_release_ready_gate :: cards where
  "cards_release_ready_gate rp src dt tr =
    (case rp ''releaseReadyGate'' of
      None \<Rightarrow> []
    | Some releaseReady \<Rightarrow>
      let pass = (boolf releaseReady ''pass'' = Some True);
        arts = objf releaseReady ''artifacts'';
        artOk = (((Option.bind arts (\<lambda>o'. boolf o' ''competitive_proof_pdf'') = Some True) \<and> (Option.bind arts
          (\<lambda>o'. boolf o' ''data_room_zip'') = Some True)) \<and> (Option.bind arts (\<lambda>o'. boolf o'
          ''release_pack_zip'') = Some True))
      in [mk_card (lat ''release-ready-gate'') (if pass then Pass else Fail)
        (L tr (tu ''Release ready {2014} GitHub {F6}ncesi zincir kap{131}s{131}'')
          (tu ''Release ready {2014} pre-GitHub release chain gate''))
        (L tr (tu ''ZIP/PDF artefakt, docs tutarl{131}l{131}{11F}{131}, canl{131} site ve filo {2014} tek kap{131}da.'')
          (tu ''ZIP/PDF artifacts, docs consistency, live site and fleet {2014} one gate.''))
        (if pass then L tr (lat ''release='' @ (if boolf releaseReady ''release_ready_ok'' = Some True then lat ''evet''
          else tu ''hay{131}r'') @ tu '' {B7} docs='' @ (if boolf releaseReady ''docs_consistency_ok'' = Some True
          then lat ''evet'' else tu ''hay{131}r'') @ tu '' {B7} proof '' @ num_text
          (nullish (numf releaseReady ''proof_pass'') 0) @ lat ''/'' @ num_text
          (nullish (numf releaseReady ''proof_tests'') 0) @ lat ''.'') (lat ''release=''
          @ (if boolf releaseReady ''release_ready_ok'' = Some True then lat ''yes'' else lat ''no'') @ tu '' {B7} docs=''
          @ (if boolf releaseReady ''docs_consistency_ok'' = Some True then lat ''yes'' else lat ''no'')
          @ tu '' {B7} proof '' @ num_text (nullish (numf releaseReady ''proof_pass'') 0) @ lat ''/'' @ num_text
          (nullish (numf releaseReady ''proof_tests'') 0) @ lat ''.'')
          else L tr (nullish (txtf releaseReady ''fail_reason'') (lat ''bash scripts/release_ready_gate.sh''))
          (nullish (txtf releaseReady ''fail_reason'') (lat ''bash scripts/release_ready_gate.sh'')))
        [(lat ''artefakt'', if artOk then lat ''3/3'' else lat ''eksik''),
          (lat ''proof'', num_text (nullish (numf releaseReady ''proof_pass'') 0) @ lat ''/'' @ num_text
            (nullish (numf releaseReady ''proof_tests'') 0))]
        (fmtDate dt (txtf releaseReady ''date'')) (lat ''scripts/release_ready_gate.sh'')])
    @ (case rp ''demoRehearsalGate'' of
      None \<Rightarrow> []
    | Some demoGate \<Rightarrow>
      let pass = (boolf demoGate ''pass'' = Some True)
      in [mk_card (lat ''demo-rehearsal-gate'') (if pass then Pass else Fail)
        (L tr (tu ''Demo rehearsal {2014} 08:00 sunum kap{131}s{131}'')
          (tu ''Demo rehearsal {2014} presentation readiness gate''))
        (L tr (tu ''demo_3min + :8443/tests + kan{131}t PDF + canl{131} site {2014} tek kap{131}da sunum haz{131}rl{131}{11F}{131}.'')
          (tu ''demo_3min + :8443/tests + proof PDF + live site {2014} one presentation gate.''))
        (if pass then L tr (lat ''demo_3min='' @ (if boolf demoGate ''demo_3min_ok'' = Some True then lat ''evet''
          else tu ''hay{131}r'') @ tu '' {B7} dash='' @ (if boolf demoGate ''dashboard_ok'' = Some True then lat ''evet''
          else tu ''hay{131}r'') @ tu '' {B7} proof '' @ num_text (nullish (numf demoGate ''proof_pass'') 0) @ lat ''/''
          @ num_text (nullish (numf demoGate ''proof_tests'') 0) @ lat ''.'') (lat ''demo_3min=''
          @ (if boolf demoGate ''demo_3min_ok'' = Some True then lat ''yes'' else lat ''no'') @ tu '' {B7} dash=''
          @ (if boolf demoGate ''dashboard_ok'' = Some True then lat ''yes'' else lat ''no'') @ tu '' {B7} proof ''
          @ num_text (nullish (numf demoGate ''proof_pass'') 0) @ lat ''/'' @ num_text
          (nullish (numf demoGate ''proof_tests'') 0) @ lat ''.'') else L tr (nullish (txtf demoGate ''fail_reason'')
          (lat ''bash scripts/demo_rehearsal_gate.sh'')) (nullish (txtf demoGate ''fail_reason'')
          (lat ''bash scripts/demo_rehearsal_gate.sh'')))
        [(lat ''PDF'', if boolf demoGate ''pdf_ok'' = Some True then lat ''evet'' else tu ''hay{131}r''),
          (lat ''live'', if boolf demoGate ''website_live_ok'' = Some True then lat ''evet''
            else (if boolf demoGate ''website_live_skipped'' = Some True then lat ''skip'' else tu ''hay{131}r''))]
        (fmtDate dt (txtf demoGate ''date'')) (lat ''scripts/demo_rehearsal_gate.sh'')])
    @ (case rp ''presentationShipGate'' of
      None \<Rightarrow> []
    | Some shipGate \<Rightarrow>
      let pass = (boolf shipGate ''pass'' = Some True)
      in [mk_card (lat ''presentation-ship-gate'') (if pass then Pass else Fail)
        (L tr (tu ''Presentation ship {2014} sunum + GitHub zinciri'')
          (tu ''Presentation ship {2014} demo + release chain''))
        (L tr (tu ''demo_rehearsal + release_ready {2014} tek komutta sunum ve ship haz{131}rl{131}{11F}{131}.'')
          (tu ''demo_rehearsal + release_ready {2014} one-command presentation and ship readiness.''))
        (if pass then L tr (lat ''demo='' @ (if boolf shipGate ''demo_rehearsal_ok'' = Some True then lat ''evet''
          else tu ''hay{131}r'') @ tu '' {B7} release='' @ (if boolf shipGate ''release_ready_ok'' = Some True
          then lat ''evet'' else tu ''hay{131}r'') @ tu '' {B7} artefakt '' @ nullish (txtf shipGate ''artifacts_count'')
          (tu ''{2014}'') @ tu '' {B7} proof '' @ num_text (nullish (numf shipGate ''proof_pass'') 0) @ lat ''/'' @ num_text
          (nullish (numf shipGate ''proof_tests'') 0) @ lat ''.'') (lat ''demo=''
          @ (if boolf shipGate ''demo_rehearsal_ok'' = Some True then lat ''yes'' else lat ''no'') @ tu '' {B7} release=''
          @ (if boolf shipGate ''release_ready_ok'' = Some True then lat ''yes'' else lat ''no'') @ tu '' {B7} artefakt ''
          @ nullish (txtf shipGate ''artifacts_count'') (tu ''{2014}'') @ tu '' {B7} proof '' @ num_text
          (nullish (numf shipGate ''proof_pass'') 0) @ lat ''/'' @ num_text (nullish (numf shipGate ''proof_tests'') 0)
          @ lat ''.'') else L tr (nullish (txtf shipGate ''fail_reason'') (lat ''bash scripts/presentation_ship_gate.sh''))
          (nullish (txtf shipGate ''fail_reason'') (lat ''bash scripts/presentation_ship_gate.sh'')))
        [(lat ''artefakt'', nullish (txtf shipGate ''artifacts_count'') (tu ''{2014}'')),
          (lat ''proof'', num_text (nullish (numf shipGate ''proof_pass'') 0) @ lat ''/'' @ num_text
            (nullish (numf shipGate ''proof_tests'') 0))]
        (fmtDate dt (txtf shipGate ''date'')) (lat ''scripts/presentation_ship_gate.sh'')])"

definition cards_demo_video_gate :: cards where
  "cards_demo_video_gate rp src dt tr =
    (case rp ''demoVideoGate'' of
      None \<Rightarrow> []
    | Some videoGate \<Rightarrow>
      let pass = (boolf videoGate ''pass'' = Some True);
        siemVal = if (boolf videoGate ''siem_skipped'' = Some True) then lat ''skip''
          else (if (boolf videoGate ''siem_export_ok'' = Some True) then lat ''evet'' else tu ''hay{131}r'');
        siemValEn = if (boolf videoGate ''siem_skipped'' = Some True) then lat ''skip''
          else (if (boolf videoGate ''siem_export_ok'' = Some True) then lat ''yes'' else lat ''no'')
      in [mk_card (lat ''demo-video-gate'') (if pass then Pass else Fail)
        (L tr (tu ''Demo video {2014} 04:00 kay{131}t haz{131}rl{131}k kap{131}s{131}'')
          (tu ''Demo video {2014} 04:00 recording readiness gate''))
        (L tr (tu ''demo_video + SIEM + PDF + presentation_ship {2014} interaktif kay{131}t {F6}ncesi otomatik do{11F}rulama.'')
          (tu ''demo_video + SIEM + PDF + presentation_ship {2014} automated pre-recording checks.''))
        (if pass then L tr (lat ''PDF='' @ (if boolf videoGate ''pdf_ok'' = Some True then lat ''evet''
          else tu ''hay{131}r'') @ tu '' {B7} ship='' @ (if boolf videoGate ''presentation_ship_ok'' = Some True
          then lat ''evet'' else tu ''hay{131}r'') @ tu '' {B7} SIEM='' @ siemVal @ tu '' {B7} SOC=''
          @ (if boolf videoGate ''telegram_soc_ok'' = Some True then lat ''evet'' else tu ''hay{131}r'') @ lat ''.'')
          (lat ''PDF='' @ (if boolf videoGate ''pdf_ok'' = Some True then lat ''yes'' else lat ''no'') @ tu '' {B7} ship=''
          @ (if boolf videoGate ''presentation_ship_ok'' = Some True then lat ''yes'' else lat ''no'') @ tu '' {B7} SIEM=''
          @ siemValEn @ tu '' {B7} SOC='' @ (if boolf videoGate ''telegram_soc_ok'' = Some True then lat ''yes''
          else lat ''no'') @ lat ''.'') else L tr (nullish (txtf videoGate ''fail_reason'')
          (lat ''bash scripts/demo_video_gate.sh'')) (nullish (txtf videoGate ''fail_reason'')
          (lat ''bash scripts/demo_video_gate.sh'')))
        [(lat ''SIEM'', siemVal),
          (lat ''PDF'', if boolf videoGate ''pdf_ok'' = Some True then lat ''evet'' else tu ''hay{131}r'')]
        (fmtDate dt (txtf videoGate ''date'')) (lat ''scripts/demo_video_gate.sh'')])
    @ (case rp ''githubShipGate'' of
      None \<Rightarrow> []
    | Some githubShip \<Rightarrow>
      let pass = (boolf githubShip ''pass'' = Some True);
        closureVal = if (boolf githubShip ''security_closure_skipped'' = Some True) then lat ''skip''
          else (if (boolf githubShip ''security_closure_ok'' = Some True) then lat ''evet'' else tu ''hay{131}r'');
        closureValEn = if (boolf githubShip ''security_closure_skipped'' = Some True) then lat ''skip''
          else (if (boolf githubShip ''security_closure_ok'' = Some True) then lat ''yes'' else lat ''no'')
      in [mk_card (lat ''github-ship-gate'') (if pass then Pass else Fail)
        (L tr (tu ''GitHub ship {2014} push {F6}ncesi tam kap{131}'') (tu ''GitHub ship {2014} full pre-push gate''))
        (L tr (tu ''presentation_ship + security_closure + secret scan {2014} git push haz{131}rl{131}{11F}{131}.'')
          (tu ''presentation_ship + security_closure + secret scan {2014} git push readiness.''))
        (if pass then L tr (lat ''ship='' @ (if boolf githubShip ''presentation_ship_ok'' = Some True then lat ''evet''
          else tu ''hay{131}r'') @ tu '' {B7} closure='' @ closureVal @ tu '' {B7} secret=''
          @ (if boolf githubShip ''secret_scan_ok'' = Some True then lat ''evet'' else tu ''hay{131}r'')
          @ tu '' {B7} proof '' @ num_text (nullish (numf githubShip ''proof_pass'') 0) @ lat ''/'' @ num_text
          (nullish (numf githubShip ''proof_tests'') 0) @ lat ''.'') (lat ''ship=''
          @ (if boolf githubShip ''presentation_ship_ok'' = Some True then lat ''yes'' else lat ''no'')
          @ tu '' {B7} closure='' @ closureValEn @ tu '' {B7} secret=''
          @ (if boolf githubShip ''secret_scan_ok'' = Some True then lat ''yes'' else lat ''no'') @ tu '' {B7} proof ''
          @ num_text (nullish (numf githubShip ''proof_pass'') 0) @ lat ''/'' @ num_text
          (nullish (numf githubShip ''proof_tests'') 0) @ lat ''.'') else L tr (nullish (txtf githubShip ''fail_reason'')
          (lat ''bash scripts/github_ship_gate.sh'')) (nullish (txtf githubShip ''fail_reason'')
          (lat ''bash scripts/github_ship_gate.sh'')))
        [(lat ''closure'', closureVal),
          (lat ''proof'', num_text (nullish (numf githubShip ''proof_pass'') 0) @ lat ''/'' @ num_text
            (nullish (numf githubShip ''proof_tests'') 0))]
        (fmtDate dt (txtf githubShip ''date'')) (lat ''scripts/github_ship_gate.sh'')])
    @ (case rp ''laptopCoreGate'' of
      None \<Rightarrow> []
    | Some laptopCore \<Rightarrow>
      let pass = (boolf laptopCore ''pass'' = Some True);
        edgeVal = if (boolf laptopCore ''edge_skipped'' = Some True) then lat ''skip''
          else (if (boolf laptopCore ''edge_protection_ok'' = Some True) then lat ''evet'' else tu ''hay{131}r'');
        edgeValEn = if (boolf laptopCore ''edge_skipped'' = Some True) then lat ''skip''
          else (if (boolf laptopCore ''edge_protection_ok'' = Some True) then lat ''yes'' else lat ''no'')
      in [mk_card (lat ''laptop-core-gate'') (if pass then Pass else Fail)
        (L tr (tu ''Laptop Core {2014} edge + SOC + ban operat{F6}r{FC}'')
          (tu ''Laptop Core {2014} edge + SOC + ban operator''))
        (L tr (tu ''Core vaadi: nginx{2192}WAF{2192}ban {2014} edge koruma, Telegram SOC ve ban API tek kap{131}da.'')
          (tu ''Core promise: nginx{2192}WAF{2192}ban {2014} edge, Telegram SOC and ban API in one gate.''))
        (if pass then L tr (lat ''edge='' @ edgeVal @ tu '' {B7} soc=''
          @ (if boolf laptopCore ''telegram_soc_ok'' = Some True then lat ''evet'' else tu ''hay{131}r'')
          @ tu '' {B7} ban='' @ (if boolf laptopCore ''ban_ops_ok'' = Some True then lat ''evet'' else tu ''hay{131}r'')
          @ tu '' {B7} xdp='' @ nullish (txtf laptopCore ''xdp_mode'') (tu ''{2014}'') @ lat ''.'') (lat ''edge=''
          @ edgeValEn @ tu '' {B7} soc='' @ (if boolf laptopCore ''telegram_soc_ok'' = Some True then lat ''yes''
          else lat ''no'') @ tu '' {B7} ban='' @ (if boolf laptopCore ''ban_ops_ok'' = Some True then lat ''yes''
          else lat ''no'') @ tu '' {B7} xdp='' @ nullish (txtf laptopCore ''xdp_mode'') (tu ''{2014}'') @ lat ''.'')
          else L tr (nullish (txtf laptopCore ''fail_reason'') (lat ''bash scripts/laptop_core_gate.sh''))
          (nullish (txtf laptopCore ''fail_reason'') (lat ''bash scripts/laptop_core_gate.sh'')))
        [(lat ''xdp'', nullish (txtf laptopCore ''xdp_mode'') (tu ''{2014}'')),
          (lat ''proof'', num_text (nullish (numf laptopCore ''proof_pass'') 0) @ lat ''/'' @ num_text
            (nullish (numf laptopCore ''proof_tests'') 0))]
        (fmtDate dt (txtf laptopCore ''date'')) (lat ''scripts/laptop_core_gate.sh'')])"

definition cards_morning_operator_gate :: cards where
  "cards_morning_operator_gate rp src dt tr =
    (case rp ''morningOperatorGate'' of
      None \<Rightarrow> []
    | Some morningOp \<Rightarrow>
      let pass = (boolf morningOp ''pass'' = Some True);
        coreMode = if (boolf morningOp ''laptop_core_refreshed'' = Some True) then (L tr (lat ''yenilendi'')
          (lat ''refreshed'')) else (L tr (lat ''rapor'') (lat ''report''))
      in [mk_card (lat ''morning-operator-gate'') (if pass then Pass else Fail)
        (L tr (tu ''Morning operator {2014} sabah haz{131}rl{131}k (h{131}zl{131})'')
          (tu ''Morning operator {2014} fast morning readiness''))
        (L tr (tu ''Rapor {F6}ncelikli sabah kap{131}s{131} {2014} demo_3min ko{15F}maz, mevcut gate{27}leri bozmaz.'')
          (tu ''Report-first morning gate {2014} no demo_3min, non-destructive.''))
        (if pass then L tr (lat ''core='' @ (if boolf morningOp ''laptop_core_ok'' = Some True then lat ''evet''
          else tu ''hay{131}r'') @ lat ''('' @ coreMode @ tu '') {B7} ship=''
          @ (if boolf morningOp ''presentation_ship_ok'' = Some True then lat ''evet'' else tu ''hay{131}r'')
          @ tu '' {B7} proof '' @ num_text (nullish (numf morningOp ''proof_pass'') 0) @ lat ''/'' @ num_text
          (nullish (numf morningOp ''proof_tests'') 0) @ lat ''.'') (lat ''core=''
          @ (if boolf morningOp ''laptop_core_ok'' = Some True then lat ''yes'' else lat ''no'') @ lat ''('' @ coreMode
          @ tu '') {B7} ship='' @ (if boolf morningOp ''presentation_ship_ok'' = Some True then lat ''yes'' else lat ''no'')
          @ tu '' {B7} proof '' @ num_text (nullish (numf morningOp ''proof_pass'') 0) @ lat ''/'' @ num_text
          (nullish (numf morningOp ''proof_tests'') 0) @ lat ''.'') else L tr (nullish (txtf morningOp ''fail_reason'')
          (lat ''bash scripts/morning_operator_gate.sh'')) (nullish (txtf morningOp ''fail_reason'')
          (lat ''bash scripts/morning_operator_gate.sh'')))
        [(lat ''core'', coreMode),
          (lat ''proof'', num_text (nullish (numf morningOp ''proof_pass'') 0) @ lat ''/'' @ num_text
            (nullish (numf morningOp ''proof_tests'') 0))]
        (fmtDate dt (txtf morningOp ''date'')) (lat ''scripts/morning_operator_gate.sh'')])
    @ (case rp ''dashboardBanApi'' of
      None \<Rightarrow> []
    | Some dashBan \<Rightarrow>
      let pass = (boolf dashBan ''pass'' = Some True)
      in [mk_card (lat ''dashboard-ban-api'') (if pass then Pass else Fail)
        (L tr (tu ''Dashboard ban/unban {2014} API + Docker relay (18090)'')
          (tu ''Dashboard ban/unban {2014} API + Docker relay (18090)''))
        (L tr (tu ''Operat{F6}r{FC}n /bans sayfas{131}ndan kernel ban ve engel kald{131}rma yolunun canl{131} {E7}al{131}{15F}t{131}{11F}{131}n{131} kan{131}tlar.'')
          (lat ''Proves operators can ban and unban from /bans via the live kernel path.''))
        (if pass then L tr (lat ''Host ''
          @ (if Option.bind (objf dashBan ''host_api'') (\<lambda>o'. boolf o' ''ok'') = Some True then lat ''OK''
          else tu ''{2014}'') @ lat '', relay ''
          @ (if Option.bind (objf dashBan ''relay_api'') (\<lambda>o'. boolf o' ''ok'') = Some True then lat ''OK''
          else tu ''{2014}'') @ lat '', Docker ''
          @ (if Option.bind (objf dashBan ''docker_api'') (\<lambda>o'. boolf o' ''ok'') = Some True then lat ''OK''
          else lat ''skip'') @ tu '' {2014} '' @ nullish (txtf dashBan ''test_ip'') (tu ''{2014}'') @ lat ''.'')
          (lat ''Host '' @ (if Option.bind (objf dashBan ''host_api'') (\<lambda>o'. boolf o' ''ok'') = Some True
          then lat ''OK'' else tu ''{2014}'') @ lat '', relay ''
          @ (if Option.bind (objf dashBan ''relay_api'') (\<lambda>o'. boolf o' ''ok'') = Some True then lat ''OK''
          else tu ''{2014}'') @ lat '', Docker ''
          @ (if Option.bind (objf dashBan ''docker_api'') (\<lambda>o'. boolf o' ''ok'') = Some True then lat ''OK''
          else lat ''skip'') @ tu '' {2014} '' @ nullish (txtf dashBan ''test_ip'') (tu ''{2014}'') @ lat ''.'')
          else L tr (or_else (txtf dashBan ''fail_reason'')
          (tu ''Smoke ba{15F}ar{131}s{131}z {2014} bash scripts/dashboard_ban_smoke.sh'')) (or_else (txtf dashBan
          ''fail_reason'') (tu ''Smoke failed {2014} bash scripts/dashboard_ban_smoke.sh'')))
        [(lat ''host'', if Option.bind (objf dashBan ''host_api'') (\<lambda>o'. boolf o' ''ok'') = Some True
          then lat ''OK'' else lat ''FAIL''),
          (lat ''relay'', if Option.bind (objf dashBan ''relay_api'') (\<lambda>o'. boolf o' ''ok'') = Some True
            then lat ''OK'' else lat ''FAIL''),
          (lat ''docker'', if Option.bind (objf dashBan ''docker_api'') (\<lambda>o'. boolf o' ''ok'') = Some True
            then lat ''OK'' else (if Option.bind (objf dashBan ''docker_api'') (\<lambda>o'. boolf o' ''ok'') = Some False
            then lat ''FAIL'' else tu ''{2014}'')),
          (lat ''path'', or_else (txtf dashBan ''ban_path'') (tu ''{2014}'')),
          (lat ''soar'', if Option.bind (rp ''caddyMtlsStatus'') (\<lambda>o'. boolf o' ''enabled'') = Some True
            then lat ''on'' else lat ''off''),
          (lat ''strict'', if Option.bind (rp ''caddyMtlsStatus'') (\<lambda>o'. boolf o' ''mtls_strict'') = Some True
            then lat ''on'' else lat ''off'')]
        (fmtDate dt (txtf dashBan ''date'')) (lat ''scripts/dashboard_ban_smoke.sh'')])
    @ (case rp ''dashboardLiveDemo'' of
      None \<Rightarrow> []
    | Some liveDemo \<Rightarrow>
      let cleanedUp = (u_includes (nullish (txtf liveDemo ''note'') []) (lat ''CLEANUP''));
        applied = nullish (numf liveDemo ''bans_applied'') 0;
        synced = nullish (numf liveDemo ''active_bans_synced'') 0;
        pass = ((boolf liveDemo ''pass'' = Some True) \<or> ((0 < applied) \<and> (0 < synced)))
      in [mk_card (lat ''dashboard-live-demo'') (if pass then Pass else (if cleanedUp then Warn else Fail))
        (L tr (tu ''Dashboard Live demo {2014} harita + /bans ipset'')
          (tu ''Dashboard live demo {2014} map + /bans ipset''))
        (L tr (tu ''Operat{F6}r sunumunda 4 ger{E7}ek kernel ban {2192} harita LIVE + /bans unban (proof yerine).'')
          (tu ''Operator demo: 4 real kernel bans {2192} LIVE map + /bans unban (not proof preview).''))
        (if pass then L tr (num_text applied @ tu '' ban uyguland{131}, '' @ num_text synced @ tu '' sync {2014} ''
          @ nullish (txtf liveDemo ''api'') (lat ''8090'') @ tu ''. CLEANUP=1 ile geri al{131}n{131}r.'') (num_text applied
          @ lat '' bans applied, '' @ num_text synced @ tu '' synced {2014} '' @ nullish (txtf liveDemo ''api'')
          (lat ''8090'') @ lat ''. Revert with CLEANUP=1.'') else (if cleanedUp
          then L tr (tu ''CLEANUP sonras{131} proof modu {2014} bash scripts/dashboard_live_demo.sh ile tekrar live.'')
          (tu ''After CLEANUP in proof mode {2014} re-run bash scripts/dashboard_live_demo.sh for live.'')
          else L tr (tu ''Ban/sync ba{15F}ar{131}s{131}z {2014} applied '' @ num_text applied @ lat '', failed '' @ num_text
          (nullish (numf liveDemo ''bans_failed'') 0) @ lat ''.'') (tu ''Ban/sync failed {2014} applied ''
          @ num_text applied @ lat '', failed '' @ num_text (nullish (numf liveDemo ''bans_failed'') 0) @ lat ''.'')))
        [(lat ''applied'', num_text applied),
          (lat ''synced'', num_text synced),
          (lat ''api'', nullish (map_option strip_scheme (txtf liveDemo ''api'')) (tu ''{2014}'')),
          (lat ''IPs'', if num_truthy (map_option (\<lambda>xs. of_nat (length xs)) (textsf liveDemo ''ips''))
            then u_join (lat '', '') (take 4 (the (textsf liveDemo ''ips''))) else tu ''{2014}'')]
        (fmtDate dt (txtf liveDemo ''date'')) (lat ''scripts/dashboard_live_demo.sh'')])"

definition cards_attack_map :: cards where
  "cards_attack_map rp src dt tr =
    (case rp ''attackMap'' of
      None \<Rightarrow> []
    | Some attackMap \<Rightarrow>
      let pass = (boolf attackMap ''pass'' = Some True)
      in [mk_card (lat ''attack-map'') (if pass then Pass else Fail)
        (L tr (tu ''Attack map {2014} geo marker + canl{131} ban'') (tu ''Attack map {2014} geo markers + live bans''))
        (L tr (tu ''Ana sayfa k{FC}re haritas{131}nda /api/attack-geo ile ban IP konumlar{131}n{131} kan{131}tlar.'')
          (lat ''Proves banned IP locations on the home globe via /api/attack-geo.''))
        (if pass then L tr (num_text (nullish (numf attackMap ''markers'') 0) @ lat '' marker, kaynak=''
          @ nullish (txtf attackMap ''data_source'') (tu ''{2014}'') @ lat ''; ack='' @ num_text
          (nullish (numf attackMap ''ack_markers'') 0) @ lat '' ban='' @ num_text
          (nullish (numf attackMap ''ban_markers'') 0) @ lat ''.'') (num_text (nullish (numf attackMap ''markers'') 0)
          @ lat '' markers, source='' @ nullish (txtf attackMap ''data_source'') (tu ''{2014}'') @ lat ''; ack='' @ num_text
          (nullish (numf attackMap ''ack_markers'') 0) @ lat '' ban='' @ num_text
          (nullish (numf attackMap ''ban_markers'') 0) @ lat ''.'') else L tr (nullish (txtf attackMap ''fail_reason'')
          (lat ''bash scripts/attack_map_e2e.sh'')) (nullish (txtf attackMap ''fail_reason'')
          (lat ''bash scripts/attack_map_e2e.sh'')))
        [(lat ''markers'', num_text (nullish (numf attackMap ''markers'') 0)),
          (lat ''ack'', num_text (nullish (numf attackMap ''ack_markers'') 0)),
          (lat ''ban'', num_text (nullish (numf attackMap ''ban_markers'') 0))]
        (fmtDate dt (txtf attackMap ''date'')) (lat ''scripts/attack_map_e2e.sh'')])
    @ (case rp ''siemExport'' of
      None \<Rightarrow> []
    | Some siem \<Rightarrow>
      let pass = (boolf siem ''pass'' = Some True)
      in [mk_card (lat ''siem-export'') (if pass then Pass else Fail)
        (L tr (tu ''SIEM forwarder {2014} alert + ban JSON (:5044)'')
          (tu ''SIEM forwarder {2014} alert + ban JSON (:5044)''))
        (L tr (tu ''Splunk/Elastic/Vector hedeflerine event_type JSON ak{131}{15F}{131}n{131} kan{131}tlar.'')
          (lat ''Proves event_type JSON stream to Splunk/Elastic/Vector targets.''))
        (if pass then L tr (lat ''alert '' @ (if boolf siem ''alert_seen'' = Some True then lat ''yes'' else lat ''no'')
          @ lat '', ban '' @ (if boolf siem ''ban_seen'' = Some True then lat ''yes'' else lat ''no'') @ lat '', port ''
          @ num_text (nullish (numf siem ''port'') 5044) @ lat ''.'') (lat ''alert ''
          @ (if boolf siem ''alert_seen'' = Some True then lat ''yes'' else lat ''no'') @ lat '', ban ''
          @ (if boolf siem ''ban_seen'' = Some True then lat ''yes'' else lat ''no'') @ lat '', port '' @ num_text
          (nullish (numf siem ''port'') 5044) @ lat ''.'') else L tr (lat ''siem_export_e2e FAIL'')
          (lat ''siem_export_e2e FAIL''))
        [(lat ''alert'', if boolf siem ''alert_seen'' = Some True then lat ''yes'' else lat ''no''),
          (lat ''ban'', if boolf siem ''ban_seen'' = Some True then lat ''yes'' else lat ''no''),
          (lat ''port'', num_text (nullish (numf siem ''port'') 5044))]
        (fmtDate dt (txtf siem ''date'')) (lat ''scripts/siem_export_e2e.sh'')])
    @ (case rp ''wasm'' of
      None \<Rightarrow> []
    | Some wasm \<Rightarrow>
      let nativeOk = ((txtf wasm ''mode'' = Some (lat ''native'')) \<and> (boolf wasm ''pass'' = Some True))
      in [mk_card (lat ''wasm-native'') (if nativeOk then Pass else (if (boolf wasm ''pass'' = Some False) then Fail
        else Warn))
        (L tr (tu ''Wasm native {2014} block-sqli plugin smoke'') (tu ''Wasm native {2014} block-sqli plugin smoke''))
        (L tr (tu ''Wasmtime C API ile derlenmi{15F} plugin{27}in SQLi logunda alert {FC}retti{11F}ini kan{131}tlar.'')
          (lat ''Proves compiled Wasmtime plugin alerts on SQLi in log replay.''))
        (if nativeOk then L tr (lat ''mode '' @ opt_text id (txtf wasm ''mode'') @ lat ''; '' @ num_text
          (nullish (numf wasm ''plugins_native'') 0) @ lat '' native plugin, '' @ num_text
          (nullish (numf wasm ''alerts_on_sqli'') 0) @ lat '' alert, '' @ num_text (nullish (numf wasm ''plugin_bytes'') 0)
          @ lat '' B.'') (lat ''mode '' @ opt_text id (txtf wasm ''mode'') @ lat ''; '' @ num_text
          (nullish (numf wasm ''plugins_native'') 0) @ lat '' native plugins, '' @ num_text
          (nullish (numf wasm ''alerts_on_sqli'') 0) @ lat '' alerts, '' @ num_text (nullish (numf wasm ''plugin_bytes'') 0)
          @ lat '' B.'') else L tr (tu ''Wasm stub veya gate FAIL {2014} bash scripts/wasm_gate.sh'')
          (tu ''Wasm stub or gate FAIL {2014} bash scripts/wasm_gate.sh''))
        [(lat ''mode'', nullish (txtf wasm ''mode'') (tu ''{2014}'')),
          (lat ''plugins'', num_text (nullish (numf wasm ''plugins_native'') 0)),
          (lat ''alerts'', num_text (nullish (numf wasm ''alerts_on_sqli'') 0)),
          (lat ''bytes'', num_text (nullish (numf wasm ''plugin_bytes'') 0))]
        None (lat ''scripts/wasm_gate.sh'')])"

subsection \<open>The cards in outline\<close>

definition out_live_pipeline :: "outline list" where
  "out_live_pipeline =
     [(''live-pipeline'', ''live'', pipeline_st),
      (''webhook-route-proof'', ''webhookRoute'', gate_st),
      (''webhook-telegram-live'', ''webhookTelegramLive'', gate_st)]"

lemma cards_live_pipeline_key: "map card_key (cards_live_pipeline rp src dt tr) = board rp out_live_pipeline"
  unfolding cards_live_pipeline_def out_live_pipeline_def key_push board_simps append_Nil2
  by (intro arg_cong2 [where f = append] case_entry)
    (simp_all only: Let_def, simp_all add: st_simps split: option.split)

definition out_webhook_telegram_ack_live :: "outline list" where
  "out_webhook_telegram_ack_live =
     [(''webhook-telegram-ack-live'', ''webhookTelegramAckLive'', gate_st),
      (''telegram-operator-undo-e2e'', ''telegramOperatorUndoE2e'', gate_st),
      (''telegram-soc-gate'', ''telegramSocGate'', gate_st)]"

lemma cards_webhook_telegram_ack_live_key: "map card_key (cards_webhook_telegram_ack_live rp src dt tr) = board rp out_webhook_telegram_ack_live"
  unfolding cards_webhook_telegram_ack_live_def out_webhook_telegram_ack_live_def key_push board_simps append_Nil2
  by (intro arg_cong2 [where f = append] case_entry)
    (simp_all only: Let_def, simp_all add: st_simps split: option.split)

definition out_bans_telegram_ops :: "outline list" where
  "out_bans_telegram_ops =
     [(''bans-telegram-ops'', ''bansTelegramOps'', gate_st),
      (''edge-protection-gate'', ''edgeProtectionGate'', gate_st),
      (''intel-ban-db'', ''intelBanDb'', warn_st)]"

lemma cards_bans_telegram_ops_key: "map card_key (cards_bans_telegram_ops rp src dt tr) = board rp out_bans_telegram_ops"
  unfolding cards_bans_telegram_ops_def out_bans_telegram_ops_def key_push board_simps append_Nil2
  by (intro arg_cong2 [where f = append] case_entry)
    (simp_all only: Let_def, simp_all add: st_simps split: option.split)

definition out_grafana_parity_gate :: "outline list" where
  "out_grafana_parity_gate =
     [(''grafana-parity-gate'', ''grafanaParityGate'', gate_st),
      (''website-preview-gate'', ''websitePreviewGate'', gate_st),
      (''enterprise-escalation-gate'', ''enterpriseEscalationGate'', gate_st),
      (''vm-host-prep-gate'', ''vmHostPrepGate'', gate_st)]"

lemma cards_grafana_parity_gate_key: "map card_key (cards_grafana_parity_gate rp src dt tr) = board rp out_grafana_parity_gate"
  unfolding cards_grafana_parity_gate_def out_grafana_parity_gate_def key_push board_simps append_Nil2
  by (intro arg_cong2 [where f = append] case_entry)
    (simp_all only: Let_def, simp_all add: st_simps split: option.split)

definition out_docs_consistency_gate :: "outline list" where
  "out_docs_consistency_gate =
     [(''docs-consistency-gate'', ''docsConsistencyGate'', gate_st),
      (''vm-fleet-gate'', ''vmFleetGate'', fleet_st),
      (''laptop-excellence-gate'', ''laptopExcellenceGate'', gate_st),
      (''website-live-gate'', ''websiteLiveGate'', gate_st)]"

lemma cards_docs_consistency_gate_key: "map card_key (cards_docs_consistency_gate rp src dt tr) = board rp out_docs_consistency_gate"
  unfolding cards_docs_consistency_gate_def out_docs_consistency_gate_def key_push board_simps append_Nil2
  by (intro arg_cong2 [where f = append] case_entry)
    (simp_all only: Let_def, simp_all add: st_simps split: option.split)

definition out_release_ready_gate :: "outline list" where
  "out_release_ready_gate =
     [(''release-ready-gate'', ''releaseReadyGate'', gate_st),
      (''demo-rehearsal-gate'', ''demoRehearsalGate'', gate_st),
      (''presentation-ship-gate'', ''presentationShipGate'', gate_st)]"

lemma cards_release_ready_gate_key: "map card_key (cards_release_ready_gate rp src dt tr) = board rp out_release_ready_gate"
  unfolding cards_release_ready_gate_def out_release_ready_gate_def key_push board_simps append_Nil2
  by (intro arg_cong2 [where f = append] case_entry)
    (simp_all only: Let_def, simp_all add: st_simps split: option.split)

definition out_demo_video_gate :: "outline list" where
  "out_demo_video_gate =
     [(''demo-video-gate'', ''demoVideoGate'', gate_st),
      (''github-ship-gate'', ''githubShipGate'', gate_st),
      (''laptop-core-gate'', ''laptopCoreGate'', gate_st)]"

lemma cards_demo_video_gate_key: "map card_key (cards_demo_video_gate rp src dt tr) = board rp out_demo_video_gate"
  unfolding cards_demo_video_gate_def out_demo_video_gate_def key_push board_simps append_Nil2
  by (intro arg_cong2 [where f = append] case_entry)
    (simp_all only: Let_def, simp_all add: st_simps split: option.split)

definition out_morning_operator_gate :: "outline list" where
  "out_morning_operator_gate =
     [(''morning-operator-gate'', ''morningOperatorGate'', gate_st),
      (''dashboard-ban-api'', ''dashboardBanApi'', gate_st),
      (''dashboard-live-demo'', ''dashboardLiveDemo'', demo_st)]"

lemma cards_morning_operator_gate_key: "map card_key (cards_morning_operator_gate rp src dt tr) = board rp out_morning_operator_gate"
  unfolding cards_morning_operator_gate_def out_morning_operator_gate_def key_push board_simps append_Nil2
  by (intro arg_cong2 [where f = append] case_entry)
    (simp_all only: Let_def, simp_all add: st_simps split: option.split)

definition out_attack_map :: "outline list" where
  "out_attack_map =
     [(''attack-map'', ''attackMap'', gate_st),
      (''siem-export'', ''siemExport'', gate_st),
      (''wasm-native'', ''wasm'', wasm_st)]"

lemma cards_attack_map_key: "map card_key (cards_attack_map rp src dt tr) = board rp out_attack_map"
  unfolding cards_attack_map_def out_attack_map_def key_push board_simps append_Nil2
  by (intro arg_cong2 [where f = append] case_entry)
    (simp_all only: Let_def, simp_all add: st_simps split: option.split)

end
