(* ===== verification/TestCardsC.thy ===== *)
theory TestCardsC
  imports ReportJson
begin

section \<open>Validation test cards, third part\<close>

text \<open>
  \<^verbatim>\<open>lib/validationTests.ts\<close>, lines 3445 to 4254 of \<open>evaluateValidationTests\<close>: the cards whose
  reports are read in this stretch, a group of neighbouring blocks per definition.  A block gives no
  card when its report is missing.
\<close>

definition cards_fleet_multi_node :: cards where
  "cards_fleet_multi_node rp src dt tr =
    (case rp ''fleetMultiNode'' of
      None \<Rightarrow> []
    | Some fleetMulti \<Rightarrow>
      let pass = (boolf fleetMulti ''pass'' = Some True);
        fleetMode = txtf fleetMulti ''mode'';
        modeHint = if (fleetMode = Some (lat ''multi-host'')) then (L tr (lat '' (VM+host)'') (lat '' (VM+host)''))
          else (if (fleetMode = Some (lat ''laptop-simulated'')) then (L tr (lat '' (laptop sim)'') (lat '' (laptop sim)''))
          else [])
      in [mk_card (lat ''fleet-multi-node'') (if pass then Pass else Fail)
        (L tr (tu ''Fleet multi-node {2014} 2+ agent + dispatch'') (tu ''Fleet multi-node {2014} 2+ agents + dispatch''))
        (L tr (tu ''2+ telemetry agent ve /fleet/dispatch hedefli komut yolunu kan{131}tlar.'')
          (lat ''Proves 2+ telemetry agents and targeted /fleet/dispatch routing.''))
        (if pass then L tr (num_text (nullish (numf fleetMulti ''agent_count'') 0) @ lat '' agent, '' @ num_text
          (nullish (numf fleetMulti ''online_count'') 0) @ tu '' online; dispatch{2192}''
          @ nullish (txtf fleetMulti ''dispatch_target'') (tu ''{2014}'') @ modeHint @ lat ''.'') (num_text
          (nullish (numf fleetMulti ''agent_count'') 0) @ lat '' agents, '' @ num_text
          (nullish (numf fleetMulti ''online_count'') 0) @ tu '' online; dispatch{2192}''
          @ nullish (txtf fleetMulti ''dispatch_target'') (tu ''{2014}'') @ modeHint @ lat ''.'')
          else L tr (nullish (txtf fleetMulti ''fail_reason'') (lat ''bash scripts/fleet_multi_node_e2e.sh''))
          (nullish (txtf fleetMulti ''fail_reason'') (lat ''bash scripts/fleet_multi_node_e2e.sh'')))
        ([(L tr (lat ''agent'') (lat ''agents''), num_text (nullish (numf fleetMulti ''agent_count'') 0)),
          (lat ''online'', num_text (nullish (numf fleetMulti ''online_count'') 0)),
          (lat ''target'', nullish (txtf fleetMulti ''dispatch_target'') (tu ''{2014}''))]
        @ (if (txt_truthy fleetMode) then [(lat ''mode'', the fleetMode)] else [])
        @ (if (boolf fleetMulti ''command_hmac'' = Some True) then [(lat ''HMAC'', lat ''OK'')] else []))
        (fmtDate dt (txtf fleetMulti ''date'')) (lat ''scripts/fleet_multi_node_e2e.sh'')])
    @ (case rp ''fleetOfflineGate'' of
      None \<Rightarrow> []
    | Some fleetOffline \<Rightarrow>
      let pass = (boolf fleetOffline ''pass'' = Some True)
      in [mk_card (lat ''fleet-offline-gate'') (if pass then Pass else Fail)
        (L tr (tu ''Fleet offline gate {2014} heartbeat rapor tazeli{11F}i'')
          (tu ''Fleet offline gate {2014} heartbeat report freshness''))
        (L tr (tu ''Filo agent raporunun bayat olmad{131}{11F}{131}n{131} ve en az bir agent online oldu{11F}unu do{11F}rular.'')
          (lat ''Verifies fleet agent report freshness and at least one agent online.''))
        (if pass then L tr (num_text (nullish (numf fleetOffline ''online'') 0) @ lat ''/'' @ num_text
          (nullish (numf fleetOffline ''total'') 0) @ lat '' online; mode='' @ nullish (txtf fleetOffline ''mode'')
          (tu ''{2014}'') @ lat ''; max '' @ num_text (nullish (numf fleetOffline ''max_age_min'') 15)
          @ lat ''m.'') (num_text (nullish (numf fleetOffline ''online'') 0) @ lat ''/'' @ num_text
          (nullish (numf fleetOffline ''total'') 0) @ lat '' online; mode='' @ nullish (txtf fleetOffline ''mode'')
          (tu ''{2014}'') @ lat ''; max '' @ num_text (nullish (numf fleetOffline ''max_age_min'') 15) @ lat ''m.'')
          else L tr (nullish (txtf fleetOffline ''reason'') (lat ''bash scripts/fleet_offline_gate.sh''))
          (nullish (txtf fleetOffline ''reason'') (lat ''bash scripts/fleet_offline_gate.sh'')))
        [(lat ''online'', num_text (nullish (numf fleetOffline ''online'') 0)),
          (lat ''total'', num_text (nullish (numf fleetOffline ''total'') 0)),
          (lat ''mode'', nullish (txtf fleetOffline ''mode'') (tu ''{2014}'')),
          (lat ''max_age_m'', num_text (nullish (numf fleetOffline ''max_age_min'') 15))]
        (fmtDate dt (txtf fleetOffline ''date'')) (lat ''scripts/fleet_offline_gate.sh'')])
    @ (case rp ''grafanaProvision'' of
      None \<Rightarrow> []
    | Some grafanaProv \<Rightarrow>
      let pass = (boolf grafanaProv ''pass'' = Some True)
      in [mk_card (lat ''grafana-alerts'') (if pass then Pass else Fail)
        (L tr (tu ''Grafana {2014} dashboard $tenant + alert kurallar{131}'')
          (tu ''Grafana {2014} dashboard $tenant + alert rules''))
        (L tr (tu ''Prometheus tenant de{11F}i{15F}keni ve Grafana alert provisioning kan{131}t{131}.'')
          (lat ''Proves Prometheus tenant variable and Grafana alert provisioning.''))
        (if pass then L tr (lat ''uid '' @ nullish (txtf grafanaProv ''dashboard_uid'') (lat ''log-guardian-01'')
          @ lat ''; '' @ num_text (nullish (numf grafanaProv ''alert_rules'') 0) @ lat '' alert ('' @ num_text
          (nullish (numf grafanaProv ''alert_rules_with_tenant'') 0) @ lat '' tenant_id).'') (lat ''uid ''
          @ nullish (txtf grafanaProv ''dashboard_uid'') (lat ''log-guardian-01'') @ lat ''; '' @ num_text
          (nullish (numf grafanaProv ''alert_rules'') 0) @ lat '' alerts ('' @ num_text
          (nullish (numf grafanaProv ''alert_rules_with_tenant'') 0) @ lat '' tenant_id).'')
          else L tr (nullish (txtf grafanaProv ''fail_reason'') (lat ''bash scripts/grafana_alert_gate.sh''))
          (nullish (txtf grafanaProv ''fail_reason'') (lat ''bash scripts/grafana_alert_gate.sh'')))
        [(lat ''dashboard'', nullish (txtf grafanaProv ''dashboard_uid'') (tu ''{2014}'')),
          (lat ''alerts'', num_text (nullish (numf grafanaProv ''alert_rules'') 0)),
          (lat ''tenant'', if boolf grafanaProv ''tenant_variable'' = Some True then lat ''yes'' else lat ''no'')]
        (fmtDate dt (txtf grafanaProv ''date'')) (lat ''scripts/grafana_alert_gate.sh'')])"

definition cards_copilot_ollama :: cards where
  "cards_copilot_ollama rp src dt tr =
    (case rp ''copilotOllama'' of
      None \<Rightarrow> []
    | Some copilotOllama \<Rightarrow>
      let pass = (boolf copilotOllama ''pass'' = Some True);
        ollama = (boolf copilotOllama ''ollama_reachable'' = Some True);
        skipped = (txtf copilotOllama ''mode'' = Some (lat ''skip''));
        status = (if (\<not> pass) then Fail else (if skipped then Warn else (if ollama then Pass else Warn)))
      in [mk_card (lat ''copilot-ollama'') status
        (L tr (tu ''Copilot {2014} Ollama opsiyonel + fallback'') (tu ''Copilot {2014} optional Ollama + fallback''))
        (L tr (tu ''Copilot LLM (Ollama) iste{11F}e ba{11F}l{131}; yoksa kural tabanl{131} fallback yan{131}t verir.'')
          (lat ''Copilot LLM (Ollama) is optional; rule-based fallback when absent.''))
        (if pass then L tr (lat ''ollama='' @ (if ollama then lat ''evet'' else tu ''hay{131}r'') @ lat ''; kaynak=''
          @ nullish (txtf copilotOllama ''reply_source'') (tu ''{2014}'') @ lat ''.'') (lat ''ollama='' @ (if ollama
          then lat ''yes'' else lat ''no'') @ lat ''; source='' @ nullish (txtf copilotOllama ''reply_source'')
          (tu ''{2014}'') @ lat ''.'') else L tr (nullish (txtf copilotOllama ''reason'')
          (lat ''bash scripts/copilot_ollama_e2e.sh'')) (nullish (txtf copilotOllama ''reason'')
          (lat ''bash scripts/copilot_ollama_e2e.sh'')))
        [(lat ''ollama'', if ollama then lat ''yes'' else lat ''no''),
          (L tr (lat ''kaynak'') (lat ''source''), nullish (txtf copilotOllama ''reply_source'') (tu ''{2014}''))]
        (fmtDate dt (txtf copilotOllama ''date'')) (lat ''scripts/copilot_ollama_e2e.sh'')])
    @ (case rp ''marketplaceSignedApi'' of
      None \<Rightarrow> []
    | Some mktApi \<Rightarrow>
      let pass = (boolf mktApi ''pass'' = Some True);
        mode = nullish (txtf mktApi ''mode'') (tu ''{2014}'');
        status = (if (\<not> pass) then Fail
          else (if ((mode = lat ''enterprise-live'') \<and> (\<not> (boolf mktApi ''verify_ok'' = Some True))) then Warn
          else Pass))
      in [mk_card (lat ''marketplace-signed-api'') status
        (L tr (tu ''Marketplace {2014} imzali API (Enterprise tier)'')
          (tu ''Marketplace {2014} signed API (Enterprise tier)''))
        (L tr (tu ''Enterprise /api/marketplace/signed {2014} imza dogrulama; Pro/Community 403.'')
          (tu ''Enterprise /api/marketplace/signed {2014} signature verify; Pro/Community get 403.''))
        (if pass then L tr (lat ''mode='' @ mode @ lat ''; tier='' @ nullish (txtf mktApi ''tier'') (tu ''{2014}'')
          @ lat ''; imzali='' @ num_text (nullish (numf mktApi ''packages_signed'') 0) @ lat ''.'') (lat ''mode='' @ mode
          @ lat ''; tier='' @ nullish (txtf mktApi ''tier'') (tu ''{2014}'') @ lat ''; signed='' @ num_text
          (nullish (numf mktApi ''packages_signed'') 0) @ lat ''.'') else L tr (lat ''marketplace_signed_api FAIL'')
          (lat ''marketplace_signed_api FAIL''))
        [(lat ''mode'', mode),
          (lat ''tier'', nullish (txtf mktApi ''tier'') (tu ''{2014}''))]
        (fmtDate dt (txtf mktApi ''date'')) (lat ''scripts/marketplace_signed_api_e2e.sh'')])
    @ (case rp ''complianceExport'' of
      None \<Rightarrow> []
    | Some complianceExport \<Rightarrow>
      let pass = (boolf complianceExport ''pass'' = Some True);
        mode = nullish (txtf complianceExport ''mode'') (tu ''{2014}'');
        status = (if (\<not> pass) then Fail
          else (if (((mode = lat ''pro-live'') \<and> (boolf complianceExport ''pdf_ok'' = Some True)) \<and> (boolf
          complianceExport ''json_ok'' = Some True)) then Pass
          else (if ((mode = lat ''tier_gate'') \<or> (mode = lat ''skip'')) then Warn else Pass)))
      in [mk_card (lat ''compliance-export'') status
        (L tr (tu ''Compliance {2014} JSON/PDF export (Pro tier)'') (tu ''Compliance {2014} JSON/PDF export (Pro tier)''))
        (L tr (tu ''/api/reports/export {2014} Pro tier PDF; Community 403.'')
          (tu ''/api/reports/export {2014} Pro tier PDF; Community gets 403.''))
        (if pass then L tr (lat ''mode='' @ mode @ lat ''; tier='' @ nullish (txtf complianceExport ''tier'')
          (tu ''{2014}'') @ lat ''; kontrol='' @ num_text (nullish (numf complianceExport ''controls'') 0) @ lat ''; pdf=''
          @ (if boolf complianceExport ''pdf_ok'' = Some True then lat ''OK'' else tu ''{2014}'') @ lat ''.'')
          (lat ''mode='' @ mode @ lat ''; tier='' @ nullish (txtf complianceExport ''tier'') (tu ''{2014}'')
          @ lat ''; controls='' @ num_text (nullish (numf complianceExport ''controls'') 0) @ lat ''; pdf=''
          @ (if boolf complianceExport ''pdf_ok'' = Some True then lat ''OK'' else tu ''{2014}'') @ lat ''.'')
          else L tr (lat ''compliance_export FAIL'') (lat ''compliance_export FAIL''))
        [(lat ''mode'', mode),
          (lat ''tier'', nullish (txtf complianceExport ''tier'') (tu ''{2014}''))]
        (fmtDate dt (txtf complianceExport ''date'')) (lat ''scripts/compliance_export_e2e.sh'')])"

definition cards_vps_xdp_kernel :: cards where
  "cards_vps_xdp_kernel rp src dt tr =
    (case rp ''vpsXdp'' of
      None \<Rightarrow> []
    | Some vpsXdp \<Rightarrow>
      let ok = (boolf vpsXdp ''pass'' = Some True);
        mode = nullish (txtf vpsXdp ''mode'') (lat ''unknown'');
        status = (if (ok \<and> ((mode = lat ''kernel-xdp'') \<or> (mode = lat ''skip''))) then Pass else (if ok then Warn
          else Fail))
      in [mk_card (lat ''vps-xdp-kernel'') status
        (L tr (tu ''VPS XDP {2014} kernel-xdp (laptop: ipset-fallback)'')
          (tu ''VPS XDP {2014} kernel-xdp (laptop: ipset-fallback)''))
        (L tr (tu ''Ger{E7}ek NIC/VPS{27}te eBPF XDP; laptop/VM{27}de ipset-fallback bilin{E7}li.'')
          (lat ''eBPF XDP on real NIC/VPS; laptop/VM ipset-fallback is expected.''))
        (if ok then L tr (if mode = lat ''skip'' then (lat ''xdp_mode='' @ nullish (txtf vpsXdp ''xdp_mode'')
          (tu ''{2014}'') @ tu ''; laptop/VM {2014} VPS kaniti atlandi (beklenen).'') else (lat ''xdp_mode=''
          @ nullish (txtf vpsXdp ''xdp_mode'') (tu ''{2014}'') @ lat ''; iface='' @ nullish (txtf vpsXdp ''iface'')
          (tu ''{2014}'') @ lat ''.'')) (if mode = lat ''skip'' then (lat ''xdp_mode='' @ nullish (txtf vpsXdp ''xdp_mode'')
          (tu ''{2014}'') @ tu ''; laptop/VM {2014} VPS proof skipped (expected).'') else (lat ''xdp_mode=''
          @ nullish (txtf vpsXdp ''xdp_mode'') (tu ''{2014}'') @ lat ''; iface='' @ nullish (txtf vpsXdp ''iface'')
          (tu ''{2014}'') @ lat ''.'')) else L tr (lat ''vps_xdp_proof FAIL ('' @ num_text
          (nullish (numf vpsXdp ''fail_count'') 0) @ lat '').'') (lat ''vps_xdp_proof FAIL ('' @ num_text
          (nullish (numf vpsXdp ''fail_count'') 0) @ lat '').''))
        [(lat ''mode'', nullish (txtf vpsXdp ''xdp_mode'') (tu ''{2014}'')),
          (lat ''iface'', nullish (txtf vpsXdp ''iface'') (tu ''{2014}''))]
        (fmtDate dt (txtf vpsXdp ''date'')) (lat ''scripts/vps_xdp_proof.sh'')])
    @ (case rp ''arm64Build'' of
      None \<Rightarrow> []
    | Some arm64 \<Rightarrow>
      let ok = (boolf arm64 ''pass'' = Some True);
        mode = nullish (txtf arm64 ''mode'') (tu ''{2014}'');
        verified = (arm64BinaryVerified (Some mode) (txtf arm64 ''file''));
        status = (if (\<not> ok) then Fail else (if verified then Pass else Warn))
      in [mk_card (lat ''arm64-build'') status
        (L tr (tu ''ARM64 build {2014} cross / dry-run'') (tu ''ARM64 build {2014} cross / dry-run''))
        (L tr (tu ''aarch64 hedef derleme matrisi; laptop{27}ta dry-run WARN kabul.'')
          (lat ''aarch64 build matrix; dry-run WARN on laptop is OK.''))
        (if ok then L tr (lat ''mode='' @ mode @ lat ''; host='' @ nullish (txtf arm64 ''host_arch'') (tu ''{2014}'')
          @ tu '' {2192} '' @ nullish (txtf arm64 ''target_arch'') (lat ''aarch64'') @ lat ''.'') (lat ''mode='' @ mode
          @ lat ''; host='' @ nullish (txtf arm64 ''host_arch'') (tu ''{2014}'') @ tu '' {2192} ''
          @ nullish (txtf arm64 ''target_arch'') (lat ''aarch64'') @ lat ''.'') else L tr (lat ''build_arm64 FAIL'')
          (lat ''build_arm64 FAIL''))
        [(lat ''mode'', mode),
          (L tr (lat ''host'') (lat ''host''), nullish (txtf arm64 ''host_arch'') (tu ''{2014}''))]
        (fmtDate dt (txtf arm64 ''date'')) (lat ''scripts/build_arm64.sh'')])
    @ (case rp ''prodStack'' of
      None \<Rightarrow> []
    | Some prodStack \<Rightarrow>
      let ok = (boolf prodStack ''pass'' = Some True)
      in [mk_card (lat ''prod-stack-e2e'') (if ok then Pass else Fail)
        (L tr (tu ''Prod stack {2014} Wasm native + lineage + L7'') (tu ''Prod stack {2014} Wasm native + lineage + L7''))
        (L tr (tu ''Stub{2192}prod zinciri: native Wasm plugin, canli lineage, L7 probe.'')
          (tu ''Stub{2192}prod chain: native Wasm plugin, live lineage, L7 probe.''))
        (if ok then L tr (lat ''wasm='' @ nullish (txtf prodStack ''wasm_mode'') (tu ''{2014}'') @ lat ''; lineage=''
          @ nullish (map_option num_text (numf prodStack ''lineage_risk'')) (tu ''{2014}'') @ lat ''; L7=''
          @ (if boolf prodStack ''l7_probe_active'' = Some True then lat ''aktif'' else lat ''kapali'') @ lat ''; ipc=''
          @ nullish (txtf prodStack ''ipc'') (tu ''{2014}'') @ lat ''.'') (lat ''wasm=''
          @ nullish (txtf prodStack ''wasm_mode'') (tu ''{2014}'') @ lat ''; lineage=''
          @ nullish (map_option num_text (numf prodStack ''lineage_risk'')) (tu ''{2014}'') @ lat ''; L7=''
          @ (if boolf prodStack ''l7_probe_active'' = Some True then lat ''active'' else lat ''off'') @ lat ''; ipc=''
          @ nullish (txtf prodStack ''ipc'') (tu ''{2014}'') @ lat ''.'') else L tr (lat ''prod_stack_e2e FAIL'')
          (lat ''prod_stack_e2e FAIL''))
        [(lat ''wasm'', nullish (txtf prodStack ''wasm_mode'') (tu ''{2014}'')),
          (lat ''L7'', if boolf prodStack ''l7_probe_active'' = Some True then lat ''yes'' else lat ''no''),
          (lat ''xdp'', nullish (txtf prodStack ''xdp_mode'') (tu ''{2014}''))]
        (fmtDate dt (txtf prodStack ''date'')) (lat ''scripts/prod_stack_e2e.sh'')])
    @ (case rp ''phase100Fast'' of
      None \<Rightarrow> []
    | Some phase100Fast \<Rightarrow>
      let ok = (boolf phase100Fast ''pass'' = Some True)
      in [mk_card (lat ''phase100-fast-gate'') (if ok then Pass else Fail)
        (L tr (tu ''Faz 0{2013}6 hizli kapisi'') (tu ''Phase 0{2013}6 fast gate''))
        (L tr (tu ''PHASE100_FAST=1 {2014} bench/soak kisaltilmis regresyon paketi.'')
          (tu ''PHASE100_FAST=1 {2014} shortened bench/soak regression bundle.''))
        (if ok then L tr (lat ''mode='' @ nullish (txtf phase100Fast ''mode'') (lat ''fast'') @ lat ''; faz=''
          @ nullish (txtf phase100Fast ''phases'') (lat ''0-6'') @ lat ''.'') (lat ''mode=''
          @ nullish (txtf phase100Fast ''mode'') (lat ''fast'') @ lat ''; phases='' @ nullish (txtf phase100Fast ''phases'')
          (lat ''0-6'') @ lat ''.'') else L tr (lat ''phase100_fast_gate FAIL'') (lat ''phase100_fast_gate FAIL''))
        [(lat ''mode'', nullish (txtf phase100Fast ''mode'') (lat ''fast'')),
          (L tr (lat ''faz'') (lat ''phases''), nullish (txtf phase100Fast ''phases'') (lat ''0-6''))]
        (fmtDate dt (txtf phase100Fast ''date'')) (lat ''scripts/phase100_fast_gate.sh'')])"

definition cards_honeypot_feed :: cards where
  "cards_honeypot_feed rp src dt tr =
    (case rp ''honeypotFeed'' of
      None \<Rightarrow> []
    | Some honeypot \<Rightarrow>
      let pass = (boolf honeypot ''pass'' = Some True)
      in [mk_card (lat ''honeypot-feed'') (if pass then Pass else Fail)
        (L tr (tu ''Honeypot / deception {2014} trap metrikleri'') (tu ''Honeypot / deception {2014} trap metrics''))
        (L tr (tu ''trap_watcher + tarpit deception hatt{131}n{131}n Prometheus saya{E7}lar{131}n{131} kan{131}tlar.'')
          (lat ''Proves trap_watcher + tarpit deception path via Prometheus counters.''))
        (if pass then L tr (lat ''mod '' @ nullish (txtf honeypot ''mode'') (tu ''{2014}'') @ lat ''; honey='' @ num_text
          (nullish (numf honeypot ''honey_traps_total'') 0) @ lat '', lfi='' @ num_text
          (nullish (numf honeypot ''lfi_traps_total'') 0) @ lat '', c2='' @ num_text
          (nullish (numf honeypot ''c2_traps_total'') 0) @ lat ''.'') (lat ''mode '' @ nullish (txtf honeypot ''mode'')
          (tu ''{2014}'') @ lat ''; honey='' @ num_text (nullish (numf honeypot ''honey_traps_total'') 0) @ lat '', lfi=''
          @ num_text (nullish (numf honeypot ''lfi_traps_total'') 0) @ lat '', c2='' @ num_text
          (nullish (numf honeypot ''c2_traps_total'') 0) @ lat ''.'') else L tr (lat ''honeypot_feed_e2e FAIL'')
          (lat ''honeypot_feed_e2e FAIL''))
        [(L tr (lat ''mod'') (lat ''mode''), nullish (txtf honeypot ''mode'') (tu ''{2014}'')),
          (lat ''honey'', num_text (nullish (numf honeypot ''honey_traps_total'') 0)),
          (lat ''lfi'', num_text (nullish (numf honeypot ''lfi_traps_total'') 0)),
          (lat ''c2'', num_text (nullish (numf honeypot ''c2_traps_total'') 0))]
        (fmtDate dt (txtf honeypot ''date'')) (lat ''scripts/honeypot_feed_e2e.sh'')])
    @ (case rp ''l7ProbeProd'' of
      None \<Rightarrow> []
    | Some l7Probe \<Rightarrow>
      let pass = (boolf l7Probe ''pass'' = Some True);
        live = ((txtf l7Probe ''ipc'' = Some (lat ''ok'')) \<and> (boolf l7Probe ''l7_probe_active'' = Some True));
        status = (if (pass \<and> live) then Pass else (if pass then Warn else Fail))
      in [mk_card (lat ''l7-probe-prod'') status
        (L tr (tu ''L7 eBPF HTTP probe {2014} prod haz{131}rl{131}k'') (tu ''L7 eBPF HTTP probe {2014} prod readiness''))
        (L tr (tu ''Daemon IPC + http_l7_probe.o ile L7 telemetry ve execve lineage kan{131}t{131}.'')
          (lat ''Proves daemon IPC + http_l7_probe.o L7 telemetry and execve lineage.''))
        (if pass then (if live then L tr (lat ''IPC ok; l7_probe ON; hits='' @ num_text
          (nullish (numf l7Probe ''l7_http_hits'') 0) @ lat ''; xdp='' @ nullish (txtf l7Probe ''xdp_mode'') (tu ''{2014}'')
          @ lat ''.'') (lat ''IPC ok; l7_probe ON; hits='' @ num_text (nullish (numf l7Probe ''l7_http_hits'') 0)
          @ lat ''; xdp='' @ nullish (txtf l7Probe ''xdp_mode'') (tu ''{2014}'') @ lat ''.'') else L tr (lat ''mod ''
          @ nullish (txtf l7Probe ''mode'') (tu ''{2014}'') @ lat ''; IPC='' @ nullish (txtf l7Probe ''ipc'')
          (tu ''{2014}'') @ lat ''; probe '' @ (if boolf l7Probe ''l7_probe_active'' = Some True then lat ''ON''
          else lat ''OFF'') @ lat '' (laptop/VPS NIC beklenir).'') (lat ''mode '' @ nullish (txtf l7Probe ''mode'')
          (tu ''{2014}'') @ lat ''; IPC='' @ nullish (txtf l7Probe ''ipc'') (tu ''{2014}'') @ lat ''; probe ''
          @ (if boolf l7Probe ''l7_probe_active'' = Some True then lat ''ON'' else lat ''OFF'')
          @ lat '' (laptop/VPS NIC expected).'')) else L tr (lat ''l7_probe_prod_e2e FAIL'')
          (lat ''l7_probe_prod_e2e FAIL''))
        [(lat ''IPC'', nullish (txtf l7Probe ''ipc'') (tu ''{2014}'')),
          (lat ''l7_probe'', if boolf l7Probe ''l7_probe_active'' = Some True then lat ''ON'' else lat ''OFF''),
          (lat ''hits'', num_text (nullish (numf l7Probe ''l7_http_hits'') 0)),
          (lat ''xdp'', nullish (txtf l7Probe ''xdp_mode'') (tu ''{2014}''))]
        (fmtDate dt (txtf l7Probe ''date'')) (lat ''scripts/l7_probe_prod_e2e.sh'')])
    @ (case rp ''crowdsecBouncer'' of
      None \<Rightarrow> []
    | Some crowdsec \<Rightarrow>
      let pass = (boolf crowdsec ''pass'' = Some True)
      in [(mk_card (lat ''crowdsec-bouncer'') (if pass then Pass else Fail)
        (L tr (tu ''CrowdSec LAPI {2192} log-guardian ban API'') (tu ''CrowdSec LAPI {2192} log-guardian ban API''))
        (L tr (tu ''Da{11F}{131}t{131}k IP / botnet kararlar{131}n{131}n kernel ban hatt{131}na aktar{131}lmas{131}n{131} kan{131}tlar.'')
          (lat ''Proves distributed IP/botnet decisions reach the kernel ban path.''))
        (if pass then L tr (lat ''mod '' @ nullish (txtf crowdsec ''mode'') (tu ''{2014}'') @ lat ''; '' @ num_text
          (nullish (numf crowdsec ''decisions_synced'') 0) @ lat '' karar; ban API ''
          @ (if boolf crowdsec ''live_api_ok'' = Some True then lat ''OK'' else lat ''dry-run'') @ lat ''; LAPI ''
          @ (if boolf crowdsec ''live_lapi_ok'' = Some True then lat ''OK'' else lat ''dry-run'') @ lat ''.'')
          (lat ''mode '' @ nullish (txtf crowdsec ''mode'') (tu ''{2014}'') @ lat ''; '' @ num_text
          (nullish (numf crowdsec ''decisions_synced'') 0) @ lat '' decisions; ban API ''
          @ (if boolf crowdsec ''live_api_ok'' = Some True then lat ''OK'' else lat ''dry-run'') @ lat ''; LAPI ''
          @ (if boolf crowdsec ''live_lapi_ok'' = Some True then lat ''OK'' else lat ''dry-run'') @ lat ''.'')
          else L tr (lat ''crowdsec_bouncer_e2e FAIL'') (lat ''crowdsec_bouncer_e2e FAIL''))
        [(L tr (lat ''mod'') (lat ''mode''), nullish (txtf crowdsec ''mode'') (tu ''{2014}'')),
          (L tr (lat ''karar'') (lat ''decisions''), num_text (nullish (numf crowdsec ''decisions_synced'') 0)),
          (lat ''ban API'', if boolf crowdsec ''live_api_ok'' = Some True then lat ''OK'' else lat ''dry-run''),
          (lat ''LAPI'', if boolf crowdsec ''live_lapi_ok'' = Some True then lat ''OK'' else lat ''dry-run'')]
        (fmtDate dt (txtf crowdsec ''date'')) (lat ''scripts/crowdsec_bouncer_e2e.sh''))\<lparr>vt_badge := Some
          (L tr (tu ''tamamlay{131}c{131}'') (lat ''complementary''))\<rparr>])"

definition cards_taxii_feed :: cards where
  "cards_taxii_feed rp src dt tr =
    (case rp ''taxiiFeed'' of
      None \<Rightarrow> []
    | Some taxii \<Rightarrow>
      let pass = (boolf taxii ''pass'' = Some True)
      in [mk_card (lat ''taxii-feed'') (if pass then Pass else Fail)
        (L tr (tu ''TAXII/STIX IOC {2192} ban API (confidence gate)'')
          (tu ''TAXII/STIX IOC {2192} ban API (confidence gate)''))
        (L tr (tu ''STIX 2.1 g{F6}stergelerini confidence e{15F}i{11F}i ile s{FC}zer; d{FC}{15F}{FC}k g{FC}ven IOC{27}leri banlamaz.'')
          (lat ''Filters STIX 2.1 indicators by confidence; skips low-trust IOCs from ban path.''))
        (if pass then L tr (nullish (txtf taxii ''mode'') (lat ''dry-run'') @ lat ''; '' @ num_text
          (nullish (numf taxii ''iocs_synced'') 0) @ tu '' IOC ({2265}'' @ num_text
          (nullish (numf taxii ''min_confidence'') 70) @ lat ''); atlanan='' @ num_text
          (nullish (numf taxii ''skipped_low_confidence'') 0) @ lat ''.'') (nullish (txtf taxii ''mode'') (lat ''dry-run'')
          @ lat ''; '' @ num_text (nullish (numf taxii ''iocs_synced'') 0) @ tu '' IOC ({2265}'' @ num_text
          (nullish (numf taxii ''min_confidence'') 70) @ lat ''); skipped='' @ num_text
          (nullish (numf taxii ''skipped_low_confidence'') 0) @ lat ''.'') else L tr (lat ''taxii_feed_e2e FAIL'')
          (lat ''taxii_feed_e2e FAIL''))
        [(L tr (lat ''mod'') (lat ''mode''), nullish (txtf taxii ''mode'') (lat ''dry-run'')),
          (lat ''IOC'', num_text (nullish (numf taxii ''iocs_synced'') 0)),
          (L tr (lat ''min conf'') (lat ''min conf''), num_text (nullish (numf taxii ''min_confidence'') 70)),
          (L tr (lat ''atlanan'') (lat ''skipped''), num_text (nullish (numf taxii ''skipped_low_confidence'') 0))]
        (fmtDate dt (txtf taxii ''date'')) (lat ''scripts/taxii_feed_e2e.sh'')])
    @ (case rp ''parserFuzz'' of
      None \<Rightarrow> []
    | Some parserFuzz \<Rightarrow>
      let pass = (boolf parserFuzz ''pass'' = Some True)
      in [mk_card (lat ''parser-fuzz'') (if pass then Pass else Fail)
        (L tr (tu ''Parser fuzz {2014} malformed corpus + mutasyon'')
          (tu ''Parser fuzz {2014} malformed corpus + mutation''))
        (L tr (tu ''Deterministik bozuk log sat{131}rlar{131}nda crash/UB yok; nginx/auth parse g{FC}venilirli{11F}i.'')
          (lat ''No crash/UB on deterministic malformed log lines; nginx/auth parse reliability.''))
        (if pass then L tr (num_text (nullish (numf parserFuzz ''parse_runs'') 0) @ lat '' parse; corpus='' @ num_text
          (nullish (numf parserFuzz ''corpus_lines'') 0) @ lat ''; mutasyon='' @ num_text
          (nullish (numf parserFuzz ''mutations'') 0) @ lat ''.'') (num_text (nullish (numf parserFuzz ''parse_runs'') 0)
          @ lat '' parses; corpus='' @ num_text (nullish (numf parserFuzz ''corpus_lines'') 0) @ lat ''; mutations=''
          @ num_text (nullish (numf parserFuzz ''mutations'') 0) @ lat ''.'') else L tr (lat ''parser_fuzz_e2e FAIL'')
          (lat ''parser_fuzz_e2e FAIL''))
        [(L tr (tu ''{E7}al{131}{15F}t{131}rma'') (lat ''runs''), num_text (nullish (numf parserFuzz ''parse_runs'') 0)),
          (lat ''corpus'', num_text (nullish (numf parserFuzz ''corpus_lines'') 0)),
          (L tr (lat ''mutasyon'') (lat ''mutations''), num_text (nullish (numf parserFuzz ''mutations'') 0))]
        (fmtDate dt (txtf parserFuzz ''date'')) (lat ''scripts/parser_fuzz_e2e.sh'')])
    @ (case rp ''banPolicyAudit'' of
      None \<Rightarrow> []
    | Some banAudit \<Rightarrow>
      let pass = (boolf banAudit ''pass'' = Some True)
      in [mk_card (lat ''ban-policy-audit'') (if pass then Pass else Fail)
        (L tr (lat ''Ban policy audit + OPENAPI_STRICT'') (lat ''Ban policy audit + OPENAPI_STRICT''))
        (L tr (tu ''Ban/unban karar izi JSONL + {15F}ema; prod API {15F}ema do{11F}rulamas{131} a{E7}{131}k.'')
          (lat ''Ban/unban decision trail JSONL + schema; prod API schema validation on.''))
        (if pass then L tr (lat ''karar='' @ nullish (txtf banAudit ''last_decision'') (tu ''{2014}'') @ lat ''; risk=''
          @ nullish (map_option num_text (numf banAudit ''last_risk'')) (tu ''{2014}'') @ lat ''; OPENAPI_STRICT=''
          @ (if boolf banAudit ''openapi_strict_checked'' = Some True then lat ''1'' else lat ''0'') @ lat ''.'')
          (lat ''decision='' @ nullish (txtf banAudit ''last_decision'') (tu ''{2014}'') @ lat ''; risk=''
          @ nullish (map_option num_text (numf banAudit ''last_risk'')) (tu ''{2014}'') @ lat ''; OPENAPI_STRICT=''
          @ (if boolf banAudit ''openapi_strict_checked'' = Some True then lat ''1'' else lat ''0'') @ lat ''.'')
          else L tr (lat ''ban_policy_audit_e2e FAIL'') (lat ''ban_policy_audit_e2e FAIL''))
        [(L tr (tu ''sat{131}r'') (lat ''lines''), num_text (nullish (numf banAudit ''audit_lines'') 0)),
          (L tr (lat ''karar'') (lat ''decision''), nullish (txtf banAudit ''last_decision'') (tu ''{2014}'')),
          (lat ''OPENAPI_STRICT'', if boolf banAudit ''openapi_strict_checked'' = Some True then lat ''1'' else lat ''0'')]
        (fmtDate dt (txtf banAudit ''date'')) (lat ''scripts/ban_policy_audit_e2e.sh'')])
    @ (case rp ''distRiskProof'' of
      None \<Rightarrow> []
    | Some distRisk \<Rightarrow>
      let pass = (boolf distRisk ''pass'' = Some True)
      in [mk_card (lat ''dist-risk-proof'') (if pass then Pass else Fail)
        (L tr (tu ''DIST_RISK {2014} da{11F}{131}t{131}k sald{131}r{131} skoru kan{131}t{131}'')
          (tu ''DIST_RISK {2014} distributed attack score proof''))
        (L tr (tu ''/24 + UA fingerprint korelasyonu ban risk bonusu; kapal{131}/a{E7}{131}k replay delta {2265}10.'')
          (tu ''/24 + UA fingerprint correlation ban risk bonus; off/on replay delta {2265}10.''))
        (if pass then L tr (lat ''risk off='' @ nullish (map_option num_text (numf distRisk ''risk_off'')) (tu ''{2014}'')
          @ lat '' on='' @ nullish (map_option num_text (numf distRisk ''risk_on'')) (tu ''{2014}'') @ lat ''; delta=''
          @ nullish (map_option num_text (numf distRisk ''delta'')) (tu ''{2014}'') @ lat ''.'') (lat ''risk off=''
          @ nullish (map_option num_text (numf distRisk ''risk_off'')) (tu ''{2014}'') @ lat '' on=''
          @ nullish (map_option num_text (numf distRisk ''risk_on'')) (tu ''{2014}'') @ lat ''; delta=''
          @ nullish (map_option num_text (numf distRisk ''delta'')) (tu ''{2014}'') @ lat ''.'')
          else L tr (lat ''dist_risk_proof_e2e FAIL'') (lat ''dist_risk_proof_e2e FAIL''))
        [(L tr (lat ''delta'') (lat ''delta''), nullish (map_option num_text (numf distRisk ''delta'')) (tu ''{2014}'')),
          (L tr (tu ''kapal{131}'') (lat ''off''), nullish (map_option num_text (numf distRisk ''risk_off''))
            (tu ''{2014}'')),
          (L tr (tu ''a{E7}{131}k'') (lat ''on''), nullish (map_option num_text (numf distRisk ''risk_on''))
            (tu ''{2014}''))]
        (fmtDate dt (txtf distRisk ''date'')) (lat ''scripts/dist_risk_proof_e2e.sh'')])"

definition cards_lineage_incident :: cards where
  "cards_lineage_incident rp src dt tr =
    (case rp ''lineageIncident'' of
      None \<Rightarrow> []
    | Some lineageInc \<Rightarrow>
      let pass = (boolf lineageInc ''pass'' = Some True)
      in [mk_card (lat ''lineage-incident'') (if pass then Pass else Fail)
        (L tr (tu ''Lineage {2192} incident otomatik (tek senaryo)'')
          (tu ''Lineage {2192} auto incident (single scenario)''))
        (L tr (tu ''LOG_SQLI + EBPF_EXECVE sinyallerinden INC-* korelasyonu; tek otomatik incident kan{131}t{131}.'')
          (lat ''INC-* correlation from LOG_SQLI + EBPF_EXECVE signals; single auto-incident proof.''))
        (if pass then L tr (nullish (txtf lineageInc ''incident_id'') (tu ''{2014}'') @ lat ''; aktif='' @ num_text
          (nullish (numf lineageInc ''active_incidents'') 0) @ lat ''; sinyal='' @ or_else (Some (u_join (lat ''+'')
          (nullish (textsf lineageInc ''signals'') []))) (tu ''{2014}'') @ lat ''.'')
          (nullish (txtf lineageInc ''incident_id'') (tu ''{2014}'') @ lat ''; active='' @ num_text
          (nullish (numf lineageInc ''active_incidents'') 0) @ lat ''; signals='' @ or_else (Some (u_join (lat ''+'')
          (nullish (textsf lineageInc ''signals'') []))) (tu ''{2014}'') @ lat ''.'')
          else L tr (lat ''lineage_incident_e2e FAIL'') (lat ''lineage_incident_e2e FAIL''))
        [(lat ''INC'', nullish (txtf lineageInc ''incident_id'') (tu ''{2014}'')),
          (lat ''IP'', nullish (txtf lineageInc ''ip'') (tu ''{2014}'')),
          (L tr (lat ''aktif'') (lat ''active''), num_text (nullish (numf lineageInc ''active_incidents'') 0))]
        (fmtDate dt (txtf lineageInc ''date'')) (lat ''scripts/lineage_incident_e2e.sh'')])
    @ (case rp ''k8sAdmission'' of
      None \<Rightarrow> []
    | Some k8sAdm \<Rightarrow>
      let mode = nullish (txtf k8sAdm ''mode'') (lat ''standalone'');
        ok = (boolf k8sAdm ''pass'' = Some True);
        status = (if (\<not> ok) then Fail else (if (mode = lat ''skip'') then Warn else Pass))
      in [mk_card (lat ''k8s-admission'') status
        (L tr (tu ''K8s admission webhook {2014} deny label + allow'')
          (tu ''K8s admission webhook {2014} deny label + allow''))
        (L tr (lat ''Operator admission: security.log-guardian.io/deny pod reddi.'')
          (lat ''Operator admission rejects pods with deny security label.''))
        (if ok then L tr (lat ''mode='' @ mode @ lat ''; deny label='' @ nullish (txtf k8sAdm ''deny_label'')
          (tu ''{2014}'') @ lat ''.'') (lat ''mode='' @ mode @ lat ''; deny label='' @ nullish (txtf k8sAdm ''deny_label'')
          (tu ''{2014}'') @ lat ''.'') else L tr (lat ''k8s_admission_test FAIL'') (lat ''k8s_admission_test FAIL''))
        [(lat ''mode'', mode)]
        (fmtDate dt (txtf k8sAdm ''date'')) (nullish (txtf k8sAdm ''script'') (lat ''scripts/k8s_admission_test.sh''))])
    @ (case rp ''k8sKind'' of
      None \<Rightarrow> []
    | Some k8sKind \<Rightarrow>
      let mode = nullish (txtf k8sKind ''mode'') (lat ''skip'');
        ok = (boolf k8sKind ''pass'' = Some True);
        skipModes = [lat ''skip'', lat ''skip-no-kind'', lat ''skip-no-cluster'', lat ''skip-no-helm'',
          lat ''skip-no-kubectl''];
        status = (if (\<not> ok) then Fail else (if (mode \<in> set skipModes) then Warn else Pass))
      in [mk_card (lat ''k8s-kind-e2e'') status
        (L tr (tu ''K8s kind cluster {2014} helm dry-run / live'') (tu ''K8s kind cluster {2014} helm dry-run / live''))
        (L tr (tu ''Opsiyonel Pro: kind + helm/log-guardian canl{131} veya dry-run kan{131}t{131}.'')
          (lat ''Optional Pro: kind cluster + helm chart live or dry-run proof.''))
        (if ok then L tr (lat ''cluster='' @ nullish (txtf k8sKind ''cluster'') (tu ''{2014}'') @ lat ''; mode='' @ mode
          @ lat ''.'') (lat ''cluster='' @ nullish (txtf k8sKind ''cluster'') (tu ''{2014}'') @ lat ''; mode='' @ mode
          @ lat ''.'') else L tr (lat ''k8s_kind_e2e FAIL'') (lat ''k8s_kind_e2e FAIL''))
        [(lat ''mode'', mode),
          (L tr (lat ''cluster'') (lat ''cluster''), nullish (txtf k8sKind ''cluster'') (tu ''{2014}''))]
        (fmtDate dt (txtf k8sKind ''date'')) (nullish (txtf k8sKind ''script'') (lat ''scripts/k8s_kind_e2e.sh''))])
    @ (case rp ''meshEtcdDocker'' of
      None \<Rightarrow> []
    | Some meshDocker \<Rightarrow>
      let mode = nullish (txtf meshDocker ''mode'') (lat ''skip'');
        ok = (boolf meshDocker ''pass'' = Some True);
        status = (if (\<not> ok) then Fail else (if (mode = lat ''docker-live'') then Pass else Warn))
      in [mk_card (lat ''mesh-etcd-docker'') status
        (L tr (tu ''Mesh etcd {2014} Docker smoke'') (tu ''Mesh etcd {2014} Docker smoke''))
        (L tr (lat ''etcd mesh backend docker-compose smoke (opsiyonel filo).'')
          (lat ''etcd mesh backend docker-compose smoke (optional fleet).''))
        (L tr (lat ''mode='' @ mode @ lat ''.'') (lat ''mode='' @ mode @ lat ''.''))
        [(lat ''mode'', mode)]
        (fmtDate dt (txtf meshDocker ''date'')) (nullish (txtf meshDocker ''script'')
          (lat ''scripts/mesh_etcd_docker_smoke.sh''))])"

definition cards_mesh_etcd_live :: cards where
  "cards_mesh_etcd_live rp src dt tr =
    (case rp ''meshEtcdLive'' of
      None \<Rightarrow> []
    | Some meshLive \<Rightarrow>
      let ok = (boolf meshLive ''pass'' = Some True);
        mode = nullish (txtf meshLive ''mode'') (tu ''{2014}'')
      in [mk_card (lat ''mesh-etcd-live'') (if ok then Pass else Fail)
        (L tr (tu ''Mesh etcd {2014} canl{131} PUT/GET'') (tu ''Mesh etcd {2014} live PUT/GET''))
        (L tr (tu ''Docker etcd v3 round-trip; filo politika anahtar{131} yazma/okuma kan{131}t{131}.'')
          (lat ''Docker etcd v3 round-trip; fleet policy key read/write proof.''))
        (if ok then L tr (lat ''mode='' @ mode @ lat ''; key='' @ nullish (txtf meshLive ''policy_key'') (tu ''{2014}'')
          @ lat ''; round_trip='' @ (if boolf meshLive ''round_trip'' = Some True then lat ''1'' else lat ''0'')
          @ lat ''.'') (lat ''mode='' @ mode @ lat ''; key='' @ nullish (txtf meshLive ''policy_key'') (tu ''{2014}'')
          @ lat ''; round_trip='' @ (if boolf meshLive ''round_trip'' = Some True then lat ''1'' else lat ''0'')
          @ lat ''.'') else L tr (lat ''mesh_etcd_live_e2e FAIL'') (lat ''mesh_etcd_live_e2e FAIL''))
        [(lat ''mode'', mode),
          (lat ''endpoint'', nullish (txtf meshLive ''endpoint'') (tu ''{2014}''))]
        (fmtDate dt (txtf meshLive ''date'')) (nullish (txtf meshLive ''script'')
          (lat ''scripts/mesh_etcd_live_e2e.sh''))])"

subsection \<open>The cards in outline\<close>

definition out_fleet_multi_node :: "outline list" where
  "out_fleet_multi_node =
     [(''fleet-multi-node'', ''fleetMultiNode'', gate_st),
      (''fleet-offline-gate'', ''fleetOfflineGate'', gate_st),
      (''grafana-alerts'', ''grafanaProvision'', gate_st)]"

lemma cards_fleet_multi_node_key: "map card_key (cards_fleet_multi_node rp src dt tr) = board rp out_fleet_multi_node"
  unfolding cards_fleet_multi_node_def out_fleet_multi_node_def key_push board_simps append_Nil2
  by (intro arg_cong2 [where f = append] case_entry)
    (simp_all only: Let_def, simp_all add: st_simps split: option.split)

definition out_copilot_ollama :: "outline list" where
  "out_copilot_ollama =
     [(''copilot-ollama'', ''copilotOllama'', full_st ollama_full),
      (''marketplace-signed-api'', ''marketplaceSignedApi'', full_st market_full),
      (''compliance-export'', ''complianceExport'', full_st export_full)]"

lemma cards_copilot_ollama_key: "map card_key (cards_copilot_ollama rp src dt tr) = board rp out_copilot_ollama"
  unfolding cards_copilot_ollama_def out_copilot_ollama_def key_push board_simps append_Nil2
  by (intro arg_cong2 [where f = append] case_entry)
    (simp_all only: Let_def, simp_all add: st_simps split: option.split)

definition out_vps_xdp_kernel :: "outline list" where
  "out_vps_xdp_kernel =
     [(''vps-xdp-kernel'', ''vpsXdp'', full_st xdp_full),
      (''arm64-build'', ''arm64Build'', full_st arm_full),
      (''prod-stack-e2e'', ''prodStack'', gate_st),
      (''phase100-fast-gate'', ''phase100Fast'', gate_st)]"

lemma cards_vps_xdp_kernel_key: "map card_key (cards_vps_xdp_kernel rp src dt tr) = board rp out_vps_xdp_kernel"
  unfolding cards_vps_xdp_kernel_def out_vps_xdp_kernel_def key_push board_simps append_Nil2
  by (intro arg_cong2 [where f = append] case_entry)
    (simp_all only: Let_def, simp_all add: st_simps split: option.split)

definition out_honeypot_feed :: "outline list" where
  "out_honeypot_feed =
     [(''honeypot-feed'', ''honeypotFeed'', gate_st),
      (''l7-probe-prod'', ''l7ProbeProd'', full_st l7_full),
      (''crowdsec-bouncer'', ''crowdsecBouncer'', gate_st)]"

lemma cards_honeypot_feed_key: "map card_key (cards_honeypot_feed rp src dt tr) = board rp out_honeypot_feed"
  unfolding cards_honeypot_feed_def out_honeypot_feed_def key_push board_simps append_Nil2
  by (intro arg_cong2 [where f = append] case_entry)
    (simp_all only: Let_def, simp_all add: st_simps split: option.split)

definition out_taxii_feed :: "outline list" where
  "out_taxii_feed =
     [(''taxii-feed'', ''taxiiFeed'', gate_st),
      (''parser-fuzz'', ''parserFuzz'', gate_st),
      (''ban-policy-audit'', ''banPolicyAudit'', gate_st),
      (''dist-risk-proof'', ''distRiskProof'', gate_st)]"

lemma cards_taxii_feed_key: "map card_key (cards_taxii_feed rp src dt tr) = board rp out_taxii_feed"
  unfolding cards_taxii_feed_def out_taxii_feed_def key_push board_simps append_Nil2
  by (intro arg_cong2 [where f = append] case_entry)
    (simp_all only: Let_def, simp_all add: st_simps split: option.split)

definition out_lineage_incident :: "outline list" where
  "out_lineage_incident =
     [(''lineage-incident'', ''lineageIncident'', gate_st),
      (''k8s-admission'', ''k8sAdmission'', full_st (\<lambda>r. \<not> mode_is r ''skip'')),
      (''k8s-kind-e2e'', ''k8sKind'', full_st kind_full),
      (''mesh-etcd-docker'', ''meshEtcdDocker'', full_st (\<lambda>r. mode_is r ''docker-live''))]"

lemma cards_lineage_incident_key: "map card_key (cards_lineage_incident rp src dt tr) = board rp out_lineage_incident"
  unfolding cards_lineage_incident_def out_lineage_incident_def key_push board_simps append_Nil2
  by (intro arg_cong2 [where f = append] case_entry)
    (simp_all only: Let_def, simp_all add: st_simps split: option.split)

definition out_mesh_etcd_live :: "outline list" where
  "out_mesh_etcd_live =
     [(''mesh-etcd-live'', ''meshEtcdLive'', gate_st)]"

lemma cards_mesh_etcd_live_key: "map card_key (cards_mesh_etcd_live rp src dt tr) = board rp out_mesh_etcd_live"
  unfolding cards_mesh_etcd_live_def out_mesh_etcd_live_def key_push board_simps append_Nil2
  by (intro arg_cong2 [where f = append] case_entry)
    (simp_all only: Let_def, simp_all add: st_simps split: option.split)

end
