(* ===== verification/TestBoard.thy ===== *)
theory TestBoard
  imports TestCardsA TestCardsB TestCardsC Registry "HOL-Library.Multiset"
begin

section \<open>The test board\<close>

text \<open>
  The rest of \<^verbatim>\<open>lib/validationTests.ts\<close>, \<^verbatim>\<open>lib/gateTestDocs.ts\<close> and
  \<^verbatim>\<open>app/api/tests/route.ts\<close>: the order of the cards, their alignment with the list of the proof
  file, the links to the documentation and the handler.  Reading and parsing a file is one argument
  (\<open>None\<close> when either fails), and so are the printing of dates and the collation: \<open>ck\<close> places a
    text in
  the order of \<open>localeCompare\<close>.
\<close>

subsection \<open>All cards in display order\<close>

definition u_lookup :: "(string \<times> 'a) list \<Rightarrow> ustring \<Rightarrow> 'a option" where
  "u_lookup xs u = map_of (map (\<lambda>(k, v). (lat k, v)) xs) u"

definition TEST_DISPLAY_ORDER :: "(string \<times> rat) list" where
  "TEST_DISPLAY_ORDER =
     [(''post-install-verify'', 1),
      (''local-security-audit'', 2),
      (''api-fail-closed'', 3),
      (''auth-log-ingest'', 4),
      (''journald-ingest'', 5),
      (''helm-install-smoke'', fl (52 / 10)),
      (''k8s-admission'', fl (53 / 10)),
      (''k8s-kind-e2e'', fl (54 / 10)),
      (''mesh-etcd-docker'', fl (55 / 10)),
      (''mesh-etcd-live'', fl (555 / 100)),
      (''siem-export'', 6),
      (''honeypot-feed'', fl (65 / 10)),
      (''crowdsec-bouncer'', 7),
      (''taxii-feed'', fl (72 / 10)),
      (''parser-fuzz'', fl (725 / 100)),
      (''ban-policy-audit'', fl (727 / 100)),
      (''lineage-incident'', fl (728 / 100)),
      (''l7-probe-prod'', fl (75 / 10)),
      (''wasm-native'', 8),
      (''attack-map'', 8),
      (''fleet-multi-node'', 9),
      (''fleet-offline-gate'', fl (92 / 10)),
      (''grafana-alerts'', 10),
      (''copilot-ollama'', 11),
      (''marketplace-signed-api'', 12),
      (''compliance-export'', 13),
      (''vps-xdp-kernel'', 14),
      (''arm64-build'', 15),
      (''prod-stack-e2e'', 16),
      (''phase100-fast-gate'', 17),
      (''vm-demo-gate'', 18),
      (''soak-stability'', 19)]"

definition display_order :: "ustring \<Rightarrow> rat" where
  "display_order i = nullish (u_lookup TEST_DISPLAY_ORDER i) 50"

text \<open>The sort is stable: by collation first, then by the display order.\<close>

definition evaluateValidationTests :: "(ustring \<Rightarrow> 'k :: linorder) \<Rightarrow> cards" where
  "evaluateValidationTests ck rp src dt tr =
     sort_key (\<lambda>t. display_order (vt_id t)) (sort_key (\<lambda>t. ck (vt_id t))
      (cards_crs_parity rp src dt tr
      @ cards_live_attack rp src dt tr
      @ cards_nginx_consult rp src dt tr
      @ cards_api_mutation_token_e2e rp src dt tr
      @ cards_dashboard_jwt_idle_gate rp src dt tr
      @ cards_enterprise_soar_gate rp src dt tr
      @ cards_fp_cluster_trust rp src dt tr
      @ cards_soak_short_gate rp src dt tr
      @ cards_tenant_isolation rp src dt tr
      @ cards_live_pipeline rp src dt tr
      @ cards_webhook_telegram_ack_live rp src dt tr
      @ cards_bans_telegram_ops rp src dt tr
      @ cards_grafana_parity_gate rp src dt tr
      @ cards_docs_consistency_gate rp src dt tr
      @ cards_release_ready_gate rp src dt tr
      @ cards_demo_video_gate rp src dt tr
      @ cards_morning_operator_gate rp src dt tr
      @ cards_attack_map rp src dt tr
      @ cards_fleet_multi_node rp src dt tr
      @ cards_copilot_ollama rp src dt tr
      @ cards_vps_xdp_kernel rp src dt tr
      @ cards_honeypot_feed rp src dt tr
      @ cards_taxii_feed rp src dt tr
      @ cards_lineage_incident rp src dt tr
      @ cards_mesh_etcd_live rp src dt tr))"

subsection \<open>Alignment with the proof file\<close>

text \<open>A status outside the four declared ones counts as missing.\<close>

definition status_of :: "ustring \<Rightarrow> test_status option" where
  "status_of s =
     u_lookup [(''pass'', Pass), (''fail'', Fail), (''warn'', Warn), (''pending'', test_status.Pending)] s"

definition metric_of :: "rjson \<Rightarrow> ustring \<times> ustring" where
  "metric_of m = (nullish (txtf m ''label'') [], nullish (txtf m ''value'') [])"

definition proof_id :: "rjson \<Rightarrow> ustring" where
  "proof_id c = nullish (txtf c ''id'') []"

definition proofCardToResult :: "bool \<Rightarrow> rjson \<Rightarrow> test_card" where
  "proofCardToResult tr c =
     (let s = (\<lambda>k. txtf c k); first = (\<lambda>a b. nullish a (nullish b [])) in
      \<lparr> vt_id = proof_id c,
        vt_status = nullish (Option.bind (s ''status'') status_of) test_status.Pending,
        vt_title = L tr (first (s ''title'') (s ''id'')) (first (s ''titleEn'') (s ''title'')),
        vt_purpose = L tr (nullish (s ''purpose'') []) (first (s ''purposeEn'') (s ''purpose'')),
        vt_verdict = L tr (nullish (s ''verdict'') []) (first (s ''verdictEn'') (s ''verdict'')),
        vt_metrics = map metric_of (nullish (objsf c ''metrics'') []),
        vt_date = s ''date'', vt_script = nullish (s ''script'') [],
        vt_badge = (if txt_truthy (s ''badge'')
                    then Some (L tr (the (s ''badge'')) (nullish (s ''badgeEn'') (the (s ''badge'')))) else None),
        vt_docHref = None, vt_docLabel = None \<rparr>)"

text \<open>\<open>new Map(...)\<close> keeps the last card of an id.\<close>

definition by_id :: "test_card list \<Rightarrow> ustring \<Rightarrow> test_card option" where
  "by_id ts i = map_of (rev (map (\<lambda>t. (vt_id t, t)) ts)) i"

definition alignTestsToProof :: "test_card list \<Rightarrow> rjson list \<Rightarrow> bool \<Rightarrow> test_card list"
    where
  "alignTestsToProof evaluated proofTests tr =
     filter (\<lambda>t. vt_id t \<noteq> [])
       (map (\<lambda>c. nullish (by_id evaluated (proof_id c)) (proofCardToResult tr c)) proofTests)"

subsection \<open>Links to the documentation\<close>

definition REPO_DOCS :: string where
  "REPO_DOCS = ''https://github.com/kurtulusutkucenik/Linux-Log-Guardian/blob/main/docs''"

definition GATE_TEST_DOCS :: "(string \<times> string \<times> ustring \<times> ustring) list" where
  "GATE_TEST_DOCS =
     [(''morning-operator-gate'', ''/LAPTOP_OPS.md#gate-deep-linkleri'', tu ''LAPTOP_OPS {2014} sabah gate'', tu ''LAPTOP_OPS {2014} morning gate''),
      (''laptop-core-gate'', ''/LAPTOP_OPS.md#gate-deep-linkleri'', tu ''LAPTOP_OPS {2014} laptop core'', tu ''LAPTOP_OPS {2014} laptop core''),
      (''edge-protection-gate'', ''/EDGE_PROTECTION.md'', lat ''EDGE_PROTECTION'', lat ''EDGE_PROTECTION''),
      (''intel-ban-db'', ''/EDGE_PROTECTION.md'', tu ''EDGE_PROTECTION {2014} ban DB TTL'', tu ''EDGE_PROTECTION {2014} ban DB TTL''),
      (''telegram-soc-gate'', ''/HOSTING_RUNBOOK_TR.md'', tu ''HOSTING_RUNBOOK {2014} Telegram SOC'', tu ''HOSTING_RUNBOOK {2014} Telegram SOC''),
      (''webhook-route-proof'', ''/WEBHOOK_SETUP.md'', tu ''WEBHOOK_SETUP {2014} queue / route'', tu ''WEBHOOK_SETUP {2014} queue / route''),
      (''webhook-telegram-live'', ''/WEBHOOK_SETUP.md'', lat ''WEBHOOK_SETUP'', lat ''WEBHOOK_SETUP''),
      (''webhook-telegram-ack-live'', ''/WEBHOOK_SETUP.md'', lat ''WEBHOOK_SETUP'', lat ''WEBHOOK_SETUP''),
      (''bans-telegram-ops'', ''/HOSTING_RUNBOOK_TR.md'', tu ''HOSTING_RUNBOOK {2014} /bans Telegram'', tu ''HOSTING_RUNBOOK {2014} /bans Telegram''),
      (''nginx-hybrid'', ''/EDGE_PROTECTION.md'', tu ''EDGE_PROTECTION {2014} nginx hybrid'', tu ''EDGE_PROTECTION {2014} nginx hybrid''),
      (''ipv6-ban-e2e'', ''/VPS_SETUP.md'', tu ''VPS_SETUP {2014} IPv6 ban'', tu ''VPS_SETUP {2014} IPv6 ban''),
      (''api-mutation-token-e2e'', ''/BAN_API_MTLS_DESIGN.md'', tu ''BAN_API {2014} mutation token split'', tu ''BAN_API {2014} mutation token split''),
      (''dashboard-login-rl-e2e'', ''/SECURITY_PROFILES.md'', tu ''SECURITY_PROFILES {2014} login rate limit'', tu ''SECURITY_PROFILES {2014} login rate limit''),
      (''hardening-rollback-gate'', ''/HARDENING_ROLLBACK.md'', tu ''HARDENING_ROLLBACK {2014} geri alma'', tu ''HARDENING_ROLLBACK {2014} rollback''),
      (''dashboard-jwt-idle-gate'', ''/INTERNET_FACING_SECURITY_CHAIN.md'', tu ''JWT idle {2014} oturum zaman a{15F}{131}m{131}'', tu ''JWT idle {2014} session timeout''),
      (''mtls-cert-expiry'', ''/MTLS_ROTATION_RUNBOOK.md'', tu ''MTLS_ROTATION {2014} sertifika s{FC}resi'', tu ''MTLS_ROTATION {2014} cert expiry''),
      (''ban-api-mtls'', ''/BAN_API_MTLS_DESIGN.md'', tu ''BAN_API {2014} mTLS edge lab'', tu ''BAN_API {2014} mTLS edge lab''),
      (''enterprise-soar-gate'', ''/BAN_API_MTLS_DESIGN.md'', tu ''BAN_API {2014} Enterprise SOAR operat{F6}r'', tu ''BAN_API {2014} Enterprise SOAR operator''),
      (''crowdsec-bouncer'', ''/CROWDSEC_INTEGRATION.md'', lat ''CROWDSEC_INTEGRATION'', lat ''CROWDSEC_INTEGRATION''),
      (''website-preview-gate'', ''/LAPTOP_OPS.md#gate-deep-linkleri'', tu ''LAPTOP_OPS {2014} site preview'', tu ''LAPTOP_OPS {2014} site preview''),
      (''website-live-gate'', ''/WEBSITE_DEPLOY.md'', lat ''WEBSITE_DEPLOY'', lat ''WEBSITE_DEPLOY''),
      (''presentation-ship-gate'', ''/LAPTOP_OPS.md#gate-deep-linkleri'', tu ''LAPTOP_OPS {2014} sunum gate'', tu ''LAPTOP_OPS {2014} presentation gate''),
      (''enterprise-escalation-gate'', ''/ENTERPRISE_ESCALATION.md'', lat ''ENTERPRISE_ESCALATION'', lat ''ENTERPRISE_ESCALATION''),
      (''vm-fleet-gate'', ''/ENTERPRISE_SUPPORT.md'', tu ''ENTERPRISE_SUPPORT {2014} filo'', tu ''ENTERPRISE_SUPPORT {2014} fleet''),
      (''fleet-multi-node'', ''/ENTERPRISE_SUPPORT.md'', tu ''ENTERPRISE_SUPPORT {2014} filo e2e'', tu ''ENTERPRISE_SUPPORT {2014} fleet e2e''),
      (''fleet-offline-gate'', ''/FLEET_ONLINE.md'', tu ''FLEET_ONLINE {2014} offline gate'', tu ''FLEET_ONLINE {2014} offline gate''),
      (''laptop-excellence-gate'', ''/LAPTOP_OPS.md'', lat ''LAPTOP_OPS'', lat ''LAPTOP_OPS''),
      (''release-ready-gate'', ''/LAPTOP_OPS.md'', tu ''LAPTOP_OPS {2014} release'', tu ''LAPTOP_OPS {2014} release''),
      (''github-ship-gate'', ''/LAPTOP_OPS.md'', tu ''LAPTOP_OPS {2014} GitHub ship'', tu ''LAPTOP_OPS {2014} GitHub ship''),
      (''grafana-parity-gate'', ''/GRAFANA_SETUP.md'', lat ''GRAFANA_SETUP'', lat ''GRAFANA_SETUP''),
      (''demo-rehearsal-gate'', ''/LAPTOP_OPS.md'', tu ''LAPTOP_OPS {2014} demo prova'', tu ''LAPTOP_OPS {2014} demo rehearsal'')]"

definition enrichGateTestDocs :: "test_card list \<Rightarrow> bool \<Rightarrow> test_card list" where
  "enrichGateTestDocs ts tr =
     map (\<lambda>t. case u_lookup GATE_TEST_DOCS (vt_id t) of
                None \<Rightarrow> t
              | Some (href, labelTr, labelEn) \<Rightarrow>
                  t\<lparr>vt_docHref := Some (lat (REPO_DOCS @ href)), vt_docLabel := Some (if tr then labelTr else
    labelEn)\<rparr>) ts"

subsection \<open>The handler\<close>

text \<open>A value that an \<open>if\<close> of the code takes for missing.\<close>

definition rfalsy :: "rjson \<Rightarrow> bool" where
  "rfalsy v = (v \<in> {RNull, RBool False, RNum 0, RStr []})"

definition report_paths :: "env \<Rightarrow> string \<Rightarrow> string \<Rightarrow> string list" where
  "report_paths env cwd name =
     (if truthy (env ''BENCH_DATA_DIR'') then [path_join (the (env ''BENCH_DATA_DIR'')) name] else [])
     @ [path_join ''/data/lg'' name, path_join cwd name, path_join cwd (''../'' @ name)]"

definition read_report :: "(string \<Rightarrow> rjson option) \<Rightarrow> env \<Rightarrow> string \<Rightarrow> string
    \<Rightarrow> rjson option" where
  "read_report disk env cwd name =
     (case List.map_filter disk (report_paths env cwd name) of
        [] \<Rightarrow> None
      | v # _ \<Rightarrow> if rfalsy v then None else Some v)"

definition soak_step ::
  "(string \<Rightarrow> rjson option) \<Rightarrow> (rjson \<times> string \<times> rat) option \<Rightarrow> string
    \<times> string \<Rightarrow> (rjson \<times> string \<times> rat) option" where
  "soak_step rd best f =
     (case rd (fst f) of
        None \<Rightarrow> best
      | Some data \<Rightarrow>
          let sec = nullish (numf data ''duration_sec'') 0 in
          (case best of
             None \<Rightarrow> Some (data, snd f, sec)
           | Some (_, _, s) \<Rightarrow> if s < sec then Some (data, snd f, sec) else best))"

definition readBestSoak :: "(string \<Rightarrow> rjson option) \<Rightarrow> (rjson \<times> string) option" where
  "readBestSoak rd =
     map_option (\<lambda>(data, source, _). (data, source))
       (foldl (soak_step rd) None
          [(''vps-soak-report.json'', ''vps-remote''), (''soak-report.json'', ''laptop''), (''soak-report.short.json'', ''short'')])"

definition REPORT_FILES :: "(string \<times> string) list" where
  "REPORT_FILES =
     [(''opsGates'', ''ops-gate-report.json''),
      (''crs'', ''crs-parity-report.json''),
      (''fp'', ''fp-report.json''),
      (''realAttack'', ''real-attack-report.json''),
      (''realAttack10k'', ''real-attack-report-10k.json''),
      (''liveAttack'', ''live-attack-report.json''),
      (''ja3Cluster'', ''ja3-cluster-report.json''),
      (''ja3ClusterBanLive'', ''ja3-cluster-ban-live.json''),
      (''fpClusterTrust'', ''fp-cluster-trust-report.json''),
      (''lineageLive'', ''lineage-live-report.json''),
      (''nginxConsult'', ''nginx-inline-consult-report.json''),
      (''nginxHybrid'', ''nginx-hybrid-report.json''),
      (''banProfileE2e'', ''ban-profile-e2e-report.json''),
      (''ipv6BanE2e'', ''ipv6-ban-e2e-report.json''),
      (''apiMutationTokenE2e'', ''api-mutation-token-e2e-report.json''),
      (''apiMutationAuditE2e'', ''api-mutation-audit-e2e-report.json''),
      (''dashboardLoginRlE2e'', ''dashboard-login-rl-e2e-report.json''),
      (''hardeningRollbackGate'', ''hardening-rollback-gate-report.json''),
      (''dashboardJwtIdleGate'', ''dashboard-jwt-idle-gate-report.json''),
      (''mtlsCertExpiry'', ''mtls-cert-expiry-report.json''),
      (''banApiMtls'', ''ban-api-mtls-report.json''),
      (''caddyMtlsStatus'', ''caddy-mtls-status.json''),
      (''enterpriseSoarGate'', ''enterprise-soar-gate-report.json''),
      (''owaspCorpus'', ''owasp-corpus-report.json''),
      (''trHostingCorpus'', ''tr-hosting-corpus-report.json''),
      (''customerCorpus'', ''customer-corpus-report.json''),
      (''threatIntelSync'', ''threat-intel-sync-report.json''),
      (''soakShort'', ''soak-report.short.json''),
      (''vpsRemote'', ''vps-remote-status-report.json''),
      (''isolation'', ''tenant-isolation-report.json''),
      (''bench'', ''bench-vs-modsec.json''),
      (''ban'', ''bench-ban-latency.json''),
      (''live'', ''guardian-status.json''),
      (''dashboardBanApi'', ''dashboard-ban-api-report.json''),
      (''dashboardLiveDemo'', ''dashboard-live-demo.json''),
      (''attackMap'', ''attack-map-report.json''),
      (''webhookRoute'', ''webhook-route-proof-report.json''),
      (''webhookTelegramLive'', ''webhook-telegram-live-report.json''),
      (''webhookTelegramAckLive'', ''webhook-telegram-ack-live-report.json''),
      (''telegramOperatorUndoE2e'', ''telegram-operator-undo-e2e-report.json''),
      (''telegramSocGate'', ''telegram-soc-gate-report.json''),
      (''bansTelegramOps'', ''bans-telegram-ops-report.json''),
      (''edgeProtectionGate'', ''edge-protection-gate-report.json''),
      (''intelBanDb'', ''intel-ban-db-report.json''),
      (''grafanaParityGate'', ''grafana-parity-gate-report.json''),
      (''websitePreviewGate'', ''website-preview-gate-report.json''),
      (''enterpriseEscalationGate'', ''enterprise-escalation-gate-report.json''),
      (''vmHostPrepGate'', ''vm-host-prep-gate-report.json''),
      (''docsConsistencyGate'', ''docs-consistency-gate-report.json''),
      (''vmFleetGate'', ''vm-fleet-gate-report.json''),
      (''laptopExcellenceGate'', ''laptop-excellence-gate-report.json''),
      (''websiteLiveGate'', ''website-live-gate-report.json''),
      (''releaseReadyGate'', ''release-ready-gate-report.json''),
      (''demoRehearsalGate'', ''demo-rehearsal-gate-report.json''),
      (''presentationShipGate'', ''presentation-ship-gate-report.json''),
      (''demoVideoGate'', ''demo-video-gate-report.json''),
      (''githubShipGate'', ''github-ship-gate-report.json''),
      (''laptopCoreGate'', ''laptop-core-gate-report.json''),
      (''morningOperatorGate'', ''morning-operator-gate-report.json''),
      (''authLog'', ''auth-log-report.json''),
      (''siemExport'', ''siem-export-report.json''),
      (''honeypotFeed'', ''honeypot-feed-report.json''),
      (''l7ProbeProd'', ''l7-probe-prod-report.json''),
      (''crowdsecBouncer'', ''crowdsec-bouncer-report.json''),
      (''taxiiFeed'', ''taxii-feed-report.json''),
      (''parserFuzz'', ''parser-fuzz-report.json''),
      (''banPolicyAudit'', ''ban-policy-audit-report.json''),
      (''distRiskProof'', ''dist-risk-proof-report.json''),
      (''lineageIncident'', ''lineage-incident-report.json''),
      (''wasm'', ''wasm-status.json''),
      (''fleetMultiNode'', ''fleet-multi-node-report.json''),
      (''fleetOfflineGate'', ''fleet-offline-gate-report.json''),
      (''grafanaProvision'', ''grafana-provision-report.json''),
      (''copilotOllama'', ''copilot-ollama-report.json''),
      (''marketplaceSignedApi'', ''marketplace-signed-api-report.json''),
      (''complianceExport'', ''compliance-export-report.json''),
      (''vpsXdp'', ''vps-xdp-report.json''),
      (''arm64Build'', ''arm64-build-report.json''),
      (''prodStack'', ''prod-stack-e2e-report.json''),
      (''phase100Fast'', ''phase100-fast-gate-report.json''),
      (''k8sAdmission'', ''k8s-admission-report.json''),
      (''k8sKind'', ''k8s-kind-e2e-report.json''),
      (''meshEtcdDocker'', ''mesh-etcd-docker-report.json''),
      (''meshEtcdLive'', ''mesh-etcd-live-report.json'')]"

definition reports :: "(string \<Rightarrow> rjson option) \<Rightarrow> string \<Rightarrow> rjson option" where
  "reports rd f =
     (if f = ''soak'' then map_option fst (readBestSoak rd) else Option.bind (map_of REPORT_FILES f) rd)"

definition proof_tests :: "rjson option \<Rightarrow> rjson list option" where
  "proof_tests raw = Option.bind raw (\<lambda>r. objsf r ''validationTests'')"

record vps_soak =
  vk_hours :: rat
  vk_samples :: rat
  vk_failures :: rat
  vk_host :: "ustring option"
  vk_hostname :: "ustring option"
  vk_xdp_mode :: "ustring option"

definition vpsSoakRemote :: "(string \<Rightarrow> rjson option) \<Rightarrow> ustring option \<Rightarrow> vps_soak
    option" where
  "vpsSoakRemote rp src =
     (case rp ''soak'' of
        Some soak \<Rightarrow>
          if src = Some (lat ''vps-remote'') \<and> boolf soak ''pass'' = Some True
          then let remote = (\<lambda>k. Option.bind (rp ''vpsRemote'') (\<lambda>o'. txtf o' k)) in
            Some \<lparr> vk_hours = nullish (numf soak ''duration_hours'') 72, vk_samples = nullish (numf soak ''samples'') 0,
                   vk_failures = nullish (numf soak ''failures'') 0, vk_host = remote ''host'',
                   vk_hostname = remote ''hostname'', vk_xdp_mode = remote ''xdp_mode'' \<rparr>
          else None
      | None \<Rightarrow> None)"

text \<open>\<open>proof_pass\<close>, \<open>proof_tests\<close> and \<open>proof_freshness_ok\<close> of the morning
    banner.\<close>

definition morningOperatorBanner :: "(string \<Rightarrow> rjson option) \<Rightarrow> (rat option \<times> rat option
    \<times> bool) option" where
  "morningOperatorBanner rp =
     (case rp ''morningOperatorGate'' of
        Some m \<Rightarrow>
          if boolf m ''pass'' = Some True
          then Some (numf m ''proof_pass'', numf m ''proof_tests'', boolf m ''proof_freshness_ok'' = Some True) else None
      | None \<Rightarrow> None)"

text \<open>\<open>lines_delta\<close>, \<open>peak_eps\<close> and \<open>derived_eps\<close> of the smoke test.\<close>

definition epsSmokeBanner :: "rjson option \<Rightarrow> (rat option \<times> rat option \<times> rat option) option" where
  "epsSmokeBanner raw =
     (case raw of
        Some e \<Rightarrow>
          if boolf e ''pass'' = Some True \<and> 1 \<le> nullish (numf e ''lines_delta'') 0
             \<and> (0 < nullish (numf e ''peak_eps'') 0 \<or> 1 / 2 < nullish (numf e ''derived_eps'') 0)
          then Some (numf e ''lines_delta'', numf e ''peak_eps'', numf e ''derived_eps'') else None
      | None \<Rightarrow> None)"

record tests_reply =
  ty_available :: bool
  ty_tests :: "test_card list"
  ty_total :: nat
  ty_passed :: nat
  ty_failed :: nat
  ty_warned :: nat
  ty_pending :: nat
  ty_proof_expected :: "nat option"
  ty_proof_test_ids :: "ustring list option"
  ty_parity_ok :: bool
  ty_vps_soak_remote :: "vps_soak option"
  ty_morning_operator_banner :: "(rat option \<times> rat option \<times> bool) option"
  ty_eps_smoke_banner :: "(rat option \<times> rat option \<times> rat option) option"
  ty_hint :: "string option"

definition with_status :: "test_status \<Rightarrow> test_card list \<Rightarrow> nat" where
  "with_status s ts = length (filter (\<lambda>t. vt_status t = s) ts)"

text \<open>A card of the proof file that is null fails the request.\<close>

definition tests_GET ::
  "(ustring \<Rightarrow> 'k :: linorder) \<Rightarrow> (ustring \<Rightarrow> ustring option) \<Rightarrow> (string
    \<Rightarrow> rjson option) \<Rightarrow> env \<Rightarrow> string \<Rightarrow> request
   \<Rightarrow> tests_reply option" where
  "tests_GET ck dt disk env cwd rq =
     (let tr = (query rq ''locale'' \<noteq> Some ''en'');
          rd = read_report disk env cwd;
          src = map_option (\<lambda>b. lat (snd b)) (readBestSoak rd);
          evaluated = evaluateValidationTests ck (reports rd) src dt tr;
          proofTests = proof_tests (rd ''competitive-proof.json'');
          proofExpected = map_option length proofTests;
          aligned = (case proofTests of
                       None \<Rightarrow> evaluated
                     | Some ps \<Rightarrow> if ps \<noteq> [] then alignTestsToProof evaluated ps tr else evaluated);
          tests = enrichGateTestDocs aligned tr
      in if RNull \<in> set (nullish proofTests []) then None
         else Some \<lparr> ty_available = (0 < length tests), ty_tests = tests, ty_total = length tests,
                ty_passed = with_status Pass tests, ty_failed = with_status Fail tests,
                ty_warned = with_status Warn tests, ty_pending = with_status test_status.Pending tests,
                ty_proof_expected = proofExpected,
                ty_proof_test_ids = map_option (\<lambda>ps. filter (\<lambda>i. i \<noteq> []) (map proof_id ps))
    proofTests,
                ty_parity_ok = (proofExpected = None \<or> proofExpected = Some (length tests)),
                ty_vps_soak_remote = vpsSoakRemote (reports rd) src,
                ty_morning_operator_banner = morningOperatorBanner (reports rd),
                ty_eps_smoke_banner = epsSmokeBanner (rd ''webhook-eps-smoke-report.json''),
                ty_hint = (if tests = [] then Some ''Run: STABILITY=1 bash scripts/full_proof_pack.sh'' else None) \<rparr>)"

subsection \<open>The board in outline\<close>

definition OUTLINE :: "outline list" where
  "OUTLINE =
      out_crs_parity
      @ out_live_attack
      @ out_nginx_consult
      @ out_api_mutation_token_e2e
      @ out_dashboard_jwt_idle_gate
      @ out_enterprise_soar_gate
      @ out_fp_cluster_trust
      @ out_soak_short_gate
      @ out_tenant_isolation
      @ out_live_pipeline
      @ out_webhook_telegram_ack_live
      @ out_bans_telegram_ops
      @ out_grafana_parity_gate
      @ out_docs_consistency_gate
      @ out_release_ready_gate
      @ out_demo_video_gate
      @ out_morning_operator_gate
      @ out_attack_map
      @ out_fleet_multi_node
      @ out_copilot_ollama
      @ out_vps_xdp_kernel
      @ out_honeypot_feed
      @ out_taxii_feed
      @ out_lineage_incident
      @ out_mesh_etcd_live"

lemmas out_defs = out_crs_parity_def out_live_attack_def out_nginx_consult_def out_api_mutation_token_e2e_def
    out_dashboard_jwt_idle_gate_def out_enterprise_soar_gate_def out_fp_cluster_trust_def out_soak_short_gate_def
    out_tenant_isolation_def out_live_pipeline_def out_webhook_telegram_ack_live_def out_bans_telegram_ops_def
    out_grafana_parity_gate_def out_docs_consistency_gate_def out_release_ready_gate_def out_demo_video_gate_def
    out_morning_operator_gate_def out_attack_map_def out_fleet_multi_node_def out_copilot_ollama_def out_vps_xdp_kernel_def
    out_honeypot_feed_def out_taxii_feed_def out_lineage_incident_def out_mesh_etcd_live_def

text \<open>The cards that can pass although their report does not say that it passed.\<close>

definition OWN_VERDICT :: "string list" where
  "OWN_VERDICT =
     [''fp-rate'', ''soak-stability'', ''bench-eps'', ''ban-latency'', ''live-pipeline'', ''vm-fleet-gate'', ''dashboard-live-demo'']"

lemma OUTLINE_ids: "distinct (map fst OUTLINE)" "[] \<notin> set (map fst OUTLINE)"
proof -
  show "distinct (map fst OUTLINE)" unfolding OUTLINE_def out_defs by code_simp
  show "[] \<notin> set (map fst OUTLINE)" unfolding OUTLINE_def out_defs by simp
qed

lemma gate_kinds: "gate_st r = Some Pass \<Longrightarrow> passed r" "warn_st r = Some Pass \<Longrightarrow> passed r"
  "mtls_st r = Some Pass \<Longrightarrow> passed r" "full_st P r = Some Pass \<Longrightarrow> passed r" "wasm_st r = Some
    Pass \<Longrightarrow> passed r"
  by (auto simp: gate_st_def warn_st_def mtls_st_def full_st_def wasm_st_def split: if_splits)

lemma OUTLINE_pass: "\<forall>(i, f, g) \<in> set OUTLINE. \<forall>r. g r = Some Pass \<longrightarrow> passed r \<or> i
    \<in> set OWN_VERDICT"
  unfolding OUTLINE_def out_defs by (simp add: gate_kinds OWN_VERDICT_def)

lemma board_append: "board rp (xs @ ys) = board rp xs @ board rp ys"
  by (simp add: board_def)

lemma entry_key_mem: "(u, s) \<in> set (entry_key rp (i, f, g)) \<longleftrightarrow> u = lat i \<and> Option.bind (rp f) g
    = Some s"
  by (auto simp: entry_key_def split: option.split)

lemma board_mem: "(u, s) \<in> set (board rp es) \<longleftrightarrow> (\<exists>(i, f, g) \<in> set es. u = lat i \<and>
    Option.bind (rp f) g = Some s)"
  by (force simp: board_def entry_key_mem)

lemma board_ids: "distinct (map fst es) \<Longrightarrow> distinct (map fst (board rp es))"
proof (induction es)
  case (Cons e es)
  obtain i f g where e: "e = (i, f, g)" by (cases e)
  have "lat i \<notin> fst ` set (board rp es)"
    using Cons.prems by (force simp: e board_mem lat_eq_iff)
  then show ?case
    using Cons by (cases "Option.bind (rp f) g") (simp_all add: e board_simps entry_key_def)
qed (simp add: board_simps)

text \<open>Sorting commutes with a projection its key factors through.\<close>

lemma sort_key_proj: "map f (sort_key (\<lambda>x. k (f x)) xs) = sort_key k (map f xs)"
proof (induction xs)
  case (Cons x xs)
  have "map f (insort_key (\<lambda>x. k (f x)) x ys) = insort_key k (f x) (map f ys)" for ys
    by (induction ys) simp_all
  then show ?case using Cons by simp
qed simp

lemmas cards_keys = cards_crs_parity_key cards_live_attack_key cards_nginx_consult_key cards_api_mutation_token_e2e_key
    cards_dashboard_jwt_idle_gate_key cards_enterprise_soar_gate_key cards_fp_cluster_trust_key cards_soak_short_gate_key
    cards_tenant_isolation_key cards_live_pipeline_key cards_webhook_telegram_ack_live_key cards_bans_telegram_ops_key
    cards_grafana_parity_gate_key cards_docs_consistency_gate_key cards_release_ready_gate_key cards_demo_video_gate_key
    cards_morning_operator_gate_key cards_attack_map_key cards_fleet_multi_node_key cards_copilot_ollama_key
    cards_vps_xdp_kernel_key cards_honeypot_feed_key cards_taxii_feed_key cards_lineage_incident_key
    cards_mesh_etcd_live_key

lemma evaluate_key:
  "map card_key (evaluateValidationTests ck rp src dt tr)
     = sort_key (\<lambda>c. display_order (fst c)) (sort_key (\<lambda>c. ck (fst c)) (board rp OUTLINE))"
proof -
  have id: "vt_id t = fst (card_key t)" for t by (simp add: card_key_def)
  show ?thesis
    unfolding evaluateValidationTests_def id sort_key_proj [of card_key "\<lambda>c. display_order (fst c)"]
      sort_key_proj [of card_key "\<lambda>c. ck (fst c)"] OUTLINE_def map_append board_append cards_keys
    by (rule refl)
qed

lemma evaluate_ids:
  "map vt_id (evaluateValidationTests ck rp src dt tr) = map fst (map card_key (evaluateValidationTests ck rp src dt tr))"
  by (simp add: card_key_def)

lemma evaluate_distinct: "distinct (map vt_id (evaluateValidationTests ck rp src dt tr))"
proof -
  have "mset (map fst (map card_key (evaluateValidationTests ck rp src dt tr))) = mset (map fst (board rp OUTLINE))"
    unfolding evaluate_key by (simp only: mset_map mset_sort)
  then show ?thesis
    using board_ids [OF OUTLINE_ids(1), of rp] unfolding evaluate_ids by (metis mset_eq_imp_distinct_iff)
qed

lemma evaluate_mem:
  assumes "t \<in> set (evaluateValidationTests ck rp src dt tr)"
  obtains i f g r where "(i, f, g) \<in> set OUTLINE" "vt_id t = lat i" "rp f = Some r" "g r = Some (vt_status t)"
proof -
  have "card_key t \<in> set (board rp OUTLINE)"
    using assms imageI [of t "set (evaluateValidationTests ck rp src dt tr)" card_key]
    by (simp only: set_map [symmetric] evaluate_key set_sort)
  then show thesis using that by (auto simp: card_key_def board_mem bind_eq_Some_conv)
qed

subsection \<open>Properties\<close>

text \<open>C23. The test board implements its outline: whatever texts the cards carry, in either language, their
ids and verdicts are those of the table that gives each report its card, in the display order; no two cards
share an id; and a card is green only when its report was read and says that it passed, except for seven
cards that judge their report themselves.\<close>

theorem test_board_refines:
  "map (\<lambda>t. (vt_id t, vt_status t)) (evaluateValidationTests ck rp src dt tr)
     = sort_key (\<lambda>c. display_order (fst c)) (sort_key (\<lambda>c. ck (fst c)) (board rp OUTLINE))
   \<and> distinct (map vt_id (evaluateValidationTests ck rp src dt tr))
   \<and> {t \<in> set (evaluateValidationTests ck rp src dt tr). vt_status t = Pass}
       \<subseteq> {t. \<exists>i f g r. (i, f, g) \<in> set OUTLINE \<and> vt_id t = lat i \<and> rp f = Some r \<and>
    (passed r \<or> i \<in> set OWN_VERDICT)}"
proof (intro conjI)
  show "map (\<lambda>t. (vt_id t, vt_status t)) (evaluateValidationTests ck rp src dt tr)
     = sort_key (\<lambda>c. display_order (fst c)) (sort_key (\<lambda>c. ck (fst c)) (board rp OUTLINE))"
    using evaluate_key [of ck rp src dt tr] by (simp only: card_key_def [abs_def])
  show "{t \<in> set (evaluateValidationTests ck rp src dt tr). vt_status t = Pass}
       \<subseteq> {t. \<exists>i f g r. (i, f, g) \<in> set OUTLINE \<and> vt_id t = lat i \<and> rp f = Some r \<and>
    (passed r \<or> i \<in> set OWN_VERDICT)}"
    using OUTLINE_pass by (fastforce elim!: evaluate_mem)
qed (rule evaluate_distinct)

lemma enrich_same: "map vt_id (enrichGateTestDocs ts tr) = map vt_id ts" "length (enrichGateTestDocs ts tr) = length ts"
  "enrichGateTestDocs ts tr = [] \<longleftrightarrow> ts = []" "map card_key (enrichGateTestDocs ts tr) = map card_key ts"
  by (auto simp: enrichGateTestDocs_def card_key_def split: option.split)

lemma with_status_sum: "with_status Pass ts + with_status Fail ts + with_status Warn ts + with_status test_status.Pending
    ts = length ts"
proof (induction ts)
  case (Cons t ts)
  then show ?case by (cases "vt_status t") (simp_all add: with_status_def)
qed (simp add: with_status_def)

lemma by_id_id: "by_id ts i = Some t \<Longrightarrow> vt_id t = i \<and> t \<in> set ts"
  by (auto simp: by_id_def dest!: map_of_SomeD)

lemma by_id_distinct: "distinct (map vt_id ts) \<Longrightarrow> t \<in> set ts \<Longrightarrow> by_id ts (vt_id t) = Some
    t"
  unfolding by_id_def by (rule map_of_is_SomeI) (auto simp: rev_map [symmetric] comp_def)

lemma aligned_id: "vt_id (nullish (by_id ts (proof_id c)) (proofCardToResult tr c)) = proof_id c"
  using by_id_id [of ts "proof_id c"] by (cases "by_id ts (proof_id c)") (auto simp: proofCardToResult_def Let_def)

lemma align_ids: "map vt_id (alignTestsToProof ts ps tr) = filter (\<lambda>i. i \<noteq> []) (map proof_id ps)"
  unfolding alignTestsToProof_def by (induction ps) (simp_all add: aligned_id)

lemma align_keys:
  "map card_key (alignTestsToProof ts ps tr)
     = map (\<lambda>c. card_key (nullish (by_id ts (proof_id c)) (proofCardToResult tr c))) (filter (\<lambda>c. proof_id
    c \<noteq> []) ps)"
  unfolding alignTestsToProof_def by (induction ps) (simp_all add: aligned_id)

lemma align_length: "length ps = length (alignTestsToProof ts ps tr) \<longleftrightarrow> list_all (\<lambda>c. proof_id c
    \<noteq> []) ps"
proof -
  have "length (alignTestsToProof ts ps tr) = length (filter (\<lambda>c. proof_id c \<noteq> []) ps)"
    using arg_cong [OF align_keys, where f = length] by simp
  moreover have "length (filter P xs) = length xs \<longleftrightarrow> list_all P xs" for P and xs :: "rjson list"
    by (metis filter_id_conv length_filter_less less_irrefl list_all_iff)
  ultimately show ?thesis by (metis (no_types))
qed


text \<open>A soak report that gives its hours but not its seconds counts as no time at all.\<close>

lemma soak_hours_needs_seconds: "numf r ''duration_sec'' = None \<Longrightarrow> soak_hours r = 0"
  by (cases "numf r ''duration_hours''") (simp_all add: soak_hours_def num_truthy_def)

end
