(* ===== verification/Copilot.thy ===== *)
theory Copilot
  imports Fleet
begin

section \<open>The copilot: model connection and remediation actions\<close>

text \<open>
  \<^verbatim>\<open>lib/ollama.ts\<close>, the model and mode choice of \<^verbatim>\<open>lib/copilotQuality.ts\<close> and
  \<^verbatim>\<open>app/api/copilot/action/route.ts\<close>. The response stream is the list of its decoded
  pieces; JSON parsing, the HMAC and the ban service are arguments.
\<close>

subsection \<open>Choice of model and mode\<close>

definition pickCopilotModel :: "env \<Rightarrow> string option \<Rightarrow> string" where
  "pickCopilotModel env availableHint =
     (let m = or_default (js_or (env ''COPILOT_MODEL'') (js_or (env ''OLLAMA_MODEL'') availableHint)) ''llama3.2:3b''
      in if truthy (env ''COPILOT_MODEL'') then m
         else if str_includes m ''llama3.2:3b'' then or_default (env ''COPILOT_MODEL_TR'') ''qwen2.5-coder:7b''
         else m)"

definition shouldPreferStructuredReply :: "env \<Rightarrow> string \<Rightarrow> bool" where
  "shouldPreferStructuredReply env locale =
     (if env ''COPILOT_FORCE_LLM'' = Some ''1'' then False
      else if locale = ''tr'' then env ''COPILOT_STRUCTURED_TR'' \<noteq> Some ''0''
      else if locale = ''ru'' then env ''COPILOT_STRUCTURED_RU'' \<noteq> Some ''0''
      else False)"

record ollama_config =
  oc_baseUrl :: string
  oc_model :: string

definition trimSlash :: "string \<Rightarrow> string" where
  "trimSlash url = rev (dropWhile (\<lambda>c. c = CHR ''/'') (rev url))"

definition resolveCopilotOllamaConfig :: "env \<Rightarrow> ollama_config" where
  "resolveCopilotOllamaConfig env =
     (let defaultUrl = (if env ''NODE_ENV'' = Some ''production'' then ''http://host.docker.internal:11434''
                        else ''http://127.0.0.1:11434'')
      in \<lparr> oc_baseUrl = trimSlash (or_default (env ''COPILOT_OLLAMA_URL'') defaultUrl),
           oc_model = pickCopilotModel env None \<rparr>)"

record ollama_status =
  os_provider :: string
  os_model :: string
  os_baseUrl :: string
  os_optional :: bool
  os_hint :: string

definition copilotOllamaStatus :: "env \<Rightarrow> ollama_status" where
  "copilotOllamaStatus env =
     (let cfg = resolveCopilotOllamaConfig env in
      \<lparr> os_provider = ''ollama'', os_model = oc_model cfg, os_baseUrl = oc_baseUrl cfg, os_optional = True,
        os_hint = ''Yerel Ollama bagliysa dogal dil; degilse filo verisine dayali akilli ozet.'' \<rparr>)"

text \<open>Whether the answer is ok, or no answer.\<close>

definition checkOllamaReachable :: "(string \<Rightarrow> bool option) \<Rightarrow> env \<Rightarrow> ollama_config option \<Rightarrow> bool" where
  "checkOllamaReachable fetch env config =
     (fetch (oc_baseUrl (nullish config (resolveCopilotOllamaConfig env)) @ ''/api/tags'') = Some True)"

subsection \<open>The response stream\<close>

definition mergeOllamaChunk :: "string \<Rightarrow> string \<Rightarrow> string" where
  "mergeOllamaChunk previous chunk =
     (if chunk = [] then previous
      else if previous = [] then chunk
      else if startsWith chunk previous then chunk
      else if endsWith previous chunk then previous
      else previous @ chunk)"

definition ollama_line :: "(string \<Rightarrow> json option) \<Rightarrow> string \<Rightarrow> string \<Rightarrow> string" where
  "ollama_line parse full line =
     (let trimmed = trim line in
      if trimmed = [] then full
      else case parse trimmed of
             None \<Rightarrow> full
           | Some data \<Rightarrow>
               let part = nullish (json_str (json_get (json_get (Some data) ''message'') ''content'')) [] in
               if part \<noteq> [] then mergeOllamaChunk full part else full)"

definition newline :: char where "newline = CHR 0x0A"

definition ollama_read :: "(string \<Rightarrow> json option) \<Rightarrow> string \<times> string \<Rightarrow> string \<Rightarrow> string \<times> string" where
  "ollama_read parse s value =
     (case s of (buffer, full) \<Rightarrow>
        let lines = splitOn newline (buffer @ value)
        in (last lines, foldl (ollama_line parse) full (butlast lines)))"

datatype ollama_response = Not_ok string | No_body | Body "string list"

fun collectOllamaChat :: "(string \<Rightarrow> json option) \<Rightarrow> ollama_response \<Rightarrow> string + string" where
  "collectOllamaChat parse (Not_ok text) = Inl text"
| "collectOllamaChat parse No_body = Inl ''Empty Ollama response body''"
| "collectOllamaChat parse (Body pieces) =
     (case foldl (ollama_read parse) ([], []) pieces of
        (buffer, full) \<Rightarrow>
          Inr (trim (if trim buffer \<noteq> [] then ollama_line parse full (trim buffer) else full)))"

text \<open>
  The loop itself: each \<open>reader.read()\<close> gives the next decoded piece, the end of the body, or
  throws, as it does when the abort signal of the request fires. A body that never ends keeps
  the loop running, which is the value \<open>None\<close>.
\<close>

datatype ollama_chunk = Chunk string | Done | Thrown string

partial_function (option) ollama_loop ::
  "(string \<Rightarrow> json option) \<Rightarrow> (nat \<Rightarrow> ollama_chunk) \<Rightarrow> nat \<Rightarrow> string \<times> string
   \<Rightarrow> (string + string \<times> string) option" where
  "ollama_loop parse reader n s =
     (case reader n of
        Done \<Rightarrow> Some (Inr s)
      | Thrown e \<Rightarrow> Some (Inl e)
      | Chunk v \<Rightarrow> ollama_loop parse reader (Suc n) (ollama_read parse s v))"

definition collect_stream :: "(string \<Rightarrow> json option) \<Rightarrow> (nat \<Rightarrow> ollama_chunk) \<Rightarrow> (string + string) option" where
  "collect_stream parse reader =
     (case ollama_loop parse reader 0 ([], []) of
        None \<Rightarrow> None
      | Some (Inl e) \<Rightarrow> Some (Inl e)
      | Some (Inr (buffer, full)) \<Rightarrow>
          Some (Inr (trim (if trim buffer \<noteq> [] then ollama_line parse full (trim buffer) else full))))"

text \<open>The reader that delivers some pieces and then ends, or throws.\<close>

definition delivers :: "string list \<Rightarrow> string option \<Rightarrow> nat \<Rightarrow> ollama_chunk" where
  "delivers pieces e n =
     (if n < length pieces then Chunk (pieces ! n) else case e of None \<Rightarrow> Done | Some x \<Rightarrow> Thrown x)"

record copilot_chat =
  cc_content :: string
  cc_provider :: string
  cc_model :: string

definition collectCopilotChat ::
  "(string \<Rightarrow> json option) \<Rightarrow> (string \<Rightarrow> string \<Rightarrow> ollama_response) \<Rightarrow> env \<Rightarrow> ollama_config option
   \<Rightarrow> string + copilot_chat" where
  "collectCopilotChat parse post env config =
     (let cfg = nullish config (resolveCopilotOllamaConfig env) in
      case collectOllamaChat parse (post (oc_baseUrl cfg @ ''/api/chat'') (oc_model cfg)) of
        Inl e \<Rightarrow> Inl e
      | Inr content \<Rightarrow> Inr \<lparr> cc_content = content, cc_provider = ''ollama'', cc_model = oc_model cfg \<rparr>)"

subsection \<open>Remediation actions\<close>

definition ADMIN_ACTIONS :: "string list" where
  "ADMIN_ACTIONS = [''BAN_IP'', ''PUSH_WAF_RULE'', ''PUSH_THREAT_FEED'', ''PUSH_SCHEMA'', ''PUSH_WASM_PLUGIN'']"

definition LISTED_ACTIONS :: "string list" where
  "LISTED_ACTIONS =
     [''BAN_IP'', ''UNBAN_IP'', ''PUSH_WAF_RULE'', ''PUSH_THREAT_FEED'', ''PUSH_CONFIG'', ''PUSH_SCHEMA'',
      ''PUSH_WASM_PLUGIN'', ''UPDATE_THRESHOLD'']"

text \<open>A template slot: \<open>undefined\<close> prints as such.\<close>

definition slot :: "json option \<Rightarrow> string" where
  "slot v = (case v of None \<Rightarrow> ''undefined'' | Some w \<Rightarrow> js_String w)"

text \<open>The switch over the action type; \<open>None\<close> is its default branch.\<close>

definition action_payload :: "json option \<Rightarrow> (string \<Rightarrow> json option) \<Rightarrow> string option" where
  "action_payload ty p =
     (if ty = Some (JStr ''BAN_IP'') \<or> ty = Some (JStr ''UNBAN_IP'') then Some (String_or (p ''ip'') [])
      else if ty = Some (JStr ''PUSH_WAF_RULE'') then Some (''SET '' @ slot (p ''key'') @ '' '' @ slot (p ''value''))
      else if ty = Some (JStr ''PUSH_THREAT_FEED'') then Some (String_or (p ''ips'') [])
      else if ty = Some (JStr ''UPDATE_THRESHOLD'') then Some (''SET '' @ slot (p ''metric'') @ '' '' @ slot (p ''value''))
      else if ty = Some (JStr ''PUSH_CONFIG'') then Some (String_or (p ''config'') [])
      else if ty = Some (JStr ''PUSH_SCHEMA'') then Some (String_or (p ''schemaPath'') [])
      else if ty = Some (JStr ''PUSH_WASM_PLUGIN'') then Some (String_or (p ''pluginPath'') [])
      else None)"

record action_reply =
  ar_commandId :: string
  ar_action :: string
  ar_payload :: string
  ar_target :: string
  ar_reason :: "json option"
  ar_executedNow :: bool
  ar_executionError :: "string option"
  ar_message :: string
  ar_enqueuedAt :: int

definition action_ban :: "fleet_deps \<Rightarrow> env \<Rightarrow> json \<Rightarrow> json option \<Rightarrow> string \<Rightarrow> string \<Rightarrow> ban_result option" where
  "action_ban d env action executeNow ty payload =
     (if json_truthy executeNow \<and> (ty = ''BAN_IP'' \<or> ty = ''UNBAN_IP'')
      then Some (fst (executeGuardianBan (fx_exec d) env payload
             (if ty = ''UNBAN_IP'' then Unban_action else Ban_action)
             (or_default (json_str (json_get (Some action) ''reason'')) ''copilot-ban'')))
      else None)"

definition action_done :: "fleet_deps \<Rightarrow> env \<Rightarrow> int \<Rightarrow> json \<Rightarrow> json \<Rightarrow> string \<Rightarrow> string \<Rightarrow> agent_command \<Rightarrow> action_reply" where
  "action_done d env now body action ty payload command =
     (let target = json_get (Some body) ''targetAgentId'';
          targetDesc = (if json_truthy target then ''Agent '' @ js_String (the target)
                        else ''T'' @ [CHR 0xFC] @ ''m filo'');
          ban = action_ban d env action (json_get (Some body) ''executeNow'') ty payload;
          executedNow = (case ban of Some b \<Rightarrow> gr_ok b | None \<Rightarrow> False)
      in \<lparr> ar_commandId = ac_id command, ar_action = ty, ar_payload = payload, ar_target = targetDesc,
           ar_reason = json_get (Some action) ''reason'', ar_executedNow = executedNow,
           ar_executionError = (case ban of Some b \<Rightarrow> if gr_ok b then None else Some (gr_message b) | None \<Rightarrow> None),
           ar_message =
             (if executedNow then ''(U+2705) '' @ ty @ '' uygulandi: '' @ payload @ '' (filo kuyrugu + aninda ban)''
              else ''(U+2705) Komut kuyru(U+011F)a al(U+0131)nd(U+0131): '' @ ty @ '' (U+2192) '' @ targetDesc),
           ar_enqueuedAt = now \<rparr>)"

definition action_POST ::
  "fleet_deps \<Rightarrow> env \<Rightarrow> string \<Rightarrow> int \<Rightarrow> request \<Rightarrow> fleet_db \<Rightarrow> (response + action_reply) \<times> fleet_db" where
  "action_POST d env newId now rq db =
     (let tenantId = or_default (header rq ''x-user-tenant'') [];
          userRole = or_default (header rq ''x-user-role'') [] in
      if tenantId = [] then (Inl (error_reply 401 ''Unauthorized''), db)
      else case object_body rq of
        None \<Rightarrow> (Inl (error_reply 500 ''Internal Server Error''), db)
      | Some body \<Rightarrow>
        let action = json_get (Some body) ''action''; ty = json_get action ''action'' in
        if \<not> json_truthy ty then (Inl (error_reply 400 ''action.action required''), db)
        else if userRole \<noteq> ''admin'' \<and> ty \<in> (Some \<circ> JStr) ` set ADMIN_ACTIONS
        then (Inl (error_reply 403 ''Admin role required for remediation actions''), db)
        else if ty \<in> (Some \<circ> JStr) ` set LISTED_ACTIONS
                \<and> (json_get action ''params'' = None \<or> json_get action ''params'' = Some JNull)
        then (Inl (error_reply 500 ''Internal Server Error''), db)
        else case action_payload ty (json_get (json_get action ''params'')) of
          None \<Rightarrow> (Inl (error_reply 400 ''Unknown action type''), db)
        | Some payload \<Rightarrow>
          if payload = [] then (Inl (error_reply 400 ''Empty payload for action''), db)
          else case Option.bind
                 (create_data (Some tenantId) (json_get (Some body) ''targetAgentId'') ty (Some (JStr payload)))
                 (\<lambda>data. createSignedFleetCommand (fx_hmac d) env newId now data db) of
            None \<Rightarrow> (Inl (error_reply 500 ''Internal Server Error''), db)
          | Some (command, db') \<Rightarrow>
              (Inr (action_done d env now body (the action) (the (json_str ty)) payload command), db'))"

text \<open>\<open>parseInt(s)\<close> without a radix also reads hexadecimal.\<close>

definition hex_digit :: "char \<Rightarrow> nat option" where
  "hex_digit c = indexOf (lower_char c) ''0123456789abcdef''"

definition parseInt_auto :: "string \<Rightarrow> int option" where
  "parseInt_auto s =
     (let t = dropWhile js_ws s;
          u = (if t \<noteq> [] \<and> hd t \<in> set ''+-'' then tl t else t);
          ds = takeWhile (\<lambda>c. hex_digit c \<noteq> None) (drop 2 u);
          v = int (foldl (\<lambda>n c. 16 * n + the (hex_digit c)) 0 ds)
      in if startsWith u ''0x'' \<or> startsWith u ''0X''
         then (if ds = [] then None else Some (if t \<noteq> [] \<and> hd t = CHR ''-'' then - v else v))
         else parseInt s)"

text \<open>\<open>take: n\<close> with a negative \<open>n\<close> takes from the end; \<open>NaN\<close> throws.\<close>

definition prisma_take :: "int \<Rightarrow> 'a list \<Rightarrow> 'a list" where
  "prisma_take n xs = (if 0 \<le> n then take (nat n) xs else drop (length xs - nat (- n)) xs)"

definition action_GET :: "request \<Rightarrow> fleet_db \<Rightarrow> (agent_command list \<times> nat) option" where
  "action_GET rq db =
     map_option (\<lambda>limit.
         let commands = prisma_take limit (sort_key (\<lambda>c. - ac_createdAt c)
               (filter (\<lambda>c. ac_tenantId c = or_default (header rq ''x-user-tenant'') []
                          \<and> ac_commandType c \<in> set LISTED_ACTIONS) (fd_commands db)))
         in (commands, length commands))
       (parseInt_auto (or_default (query rq ''limit'') ''20''))"

subsection \<open>Reassembly of the stream\<close>

lemma splitOn_split:
  "splitOn c (x @ y) = butlast (splitOn c x) @ splitOn c (last (splitOn c x) @ y)"
proof (induction x)
  case (Cons a x)
  obtain w ws where w: "splitOn c x = w # ws" by (cases "splitOn c x") auto
  show ?case using Cons w by (cases ws) (auto split: list.splits)
qed simp

lemma ollama_line_trim: "trim line \<noteq> [] \<Longrightarrow> ollama_line parse full (trim line) = ollama_line parse full line"
  by (simp add: ollama_line_def)

lemma ollama_line_blank: "trim line = [] \<Longrightarrow> ollama_line parse full line = full"
  by (simp add: ollama_line_def)

lemma ollama_read_fold:
  "newline \<notin> set buffer \<Longrightarrow>
   foldl (ollama_read parse) (buffer, full) pieces
     = (last (splitOn newline (buffer @ concat pieces)),
        foldl (ollama_line parse) full (butlast (splitOn newline (buffer @ concat pieces))))"
proof (induction pieces arbitrary: buffer full)
  case Nil
  then show ?case by (simp add: splitOn_id)
next
  case (Cons v vs)
  let ?l = "splitOn newline (buffer @ v)"
  have nl: "newline \<notin> set (last ?l)" by (rule splitOn_notin [of _ _ "buffer @ v"]) (rule last_in_set, simp)
  have "splitOn newline (buffer @ v @ concat vs) = butlast ?l @ splitOn newline (last ?l @ concat vs)"
    using splitOn_split [of newline "buffer @ v" "concat vs"] by simp
  moreover have "ollama_read parse (buffer, full) v = (last ?l, foldl (ollama_line parse) full (butlast ?l))"
    by (simp add: ollama_read_def Let_def)
  ultimately show ?case
    by (simp add: Cons.IH [OF nl] butlast_append)
qed

lemma collect_lines:
  "collectOllamaChat parse (Body pieces)
     = Inr (trim (foldl (ollama_line parse) [] (splitOn newline (concat pieces))))"
proof -
  let ?l = "splitOn newline (concat pieces)"
  have "foldl (ollama_line parse) [] ?l
      = ollama_line parse (foldl (ollama_line parse) [] (butlast ?l)) (last ?l)"
    by (subst append_butlast_last_id [symmetric, of "?l"]) (simp_all del: append_butlast_last_id)
  then show ?thesis
    using ollama_read_fold [of "[]" parse "[]" pieces] ollama_line_trim ollama_line_blank by simp
qed

lemma ollama_loop_stops:
  assumes "ollama_loop parse reader n s = Some y"
  shows "\<exists>k. \<forall>v. reader k \<noteq> Chunk v"
proof (rule ollama_loop.raw_induct [OF _ assms])
  fix loop parse reader n s and y :: "string + string \<times> string"
  assume ih: "\<And>parse reader n s y. loop parse reader n s = Some y \<Longrightarrow> \<exists>k. \<forall>v. reader k \<noteq> Chunk v"
    and body: "(case reader n of Chunk v \<Rightarrow> loop parse reader (Suc n) (ollama_read parse s v)
        | Done \<Rightarrow> Some (Inr s) | Thrown e \<Rightarrow> Some (Inl e)) = Some y"
  show "\<exists>k. \<forall>v. reader k \<noteq> Chunk v"
  proof (cases "reader n")
    case (Chunk v)
    then show ?thesis using ih body by simp
  qed (auto intro: exI [of _ n])
qed

lemma ollama_loop_returns:
  assumes "\<And>v. reader (n + k) \<noteq> Chunk v"
  shows "\<exists>y. ollama_loop parse reader n s = Some y"
  using assms
proof (induction k arbitrary: n s)
  case 0
  then show ?case by (cases "reader n") (auto simp: ollama_loop.simps [of _ _ n])
next
  case (Suc k)
  have "\<exists>y. ollama_loop parse reader (Suc n) s' = Some y" for s' using Suc.IH [of "Suc n"] Suc.prems by simp
  then show ?case by (cases "reader n") (auto simp: ollama_loop.simps [of _ _ n])
qed

lemma ollama_loop_delivers:
  "n \<le> length pieces \<Longrightarrow>
   ollama_loop parse (delivers pieces e) n s
     = Some (case e of None \<Rightarrow> Inr (foldl (ollama_read parse) s (drop n pieces)) | Some x \<Rightarrow> Inl x)"
proof (induction "length pieces - n" arbitrary: n s)
  case 0
  then show ?case by (cases e) (simp_all add: ollama_loop.simps [of _ _ n] delivers_def)
next
  case (Suc k)
  then have n: "n < length pieces" by simp
  then have "drop n pieces = pieces ! n # drop (Suc n) pieces" by (rule Cons_nth_drop_Suc [symmetric])
  then show ?case
    using Suc.hyps(1) [of "Suc n"] Suc.hyps(2) n by (simp add: ollama_loop.simps [of _ _ n] delivers_def split: option.split)
qed

subsection \<open>Properties\<close>

text \<open>C20. Reassembly of the model's answer does not depend on how the network cuts the
stream: two deliveries of the same text give the same answer, namely the one of reading
the text line by line; lines that are blank or no JSON contribute nothing, and a refused
or empty response is an error.\<close>

theorem ollama_chunking:
  "collectOllamaChat parse (Body pieces) = collectOllamaChat parse (Body [concat pieces])
   \<and> collectOllamaChat parse (Body pieces)
       = Inr (trim (foldl (ollama_line parse) [] (splitOn newline (concat pieces))))
   \<and> collectOllamaChat parse (Not_ok text) = Inl text
   \<and> collectOllamaChat parse No_body = Inl ''Empty Ollama response body''"
  by (simp only: collect_lines) simp

text \<open>C21. The loop that reads the model's answer returns exactly when the body ends or a read
throws, as the abort signal makes it after twelve seconds; a body that ends after some pieces
gives the answer reassembled from them, and a read that throws gives that error, whatever was
read before it.\<close>

theorem ollama_loop_terminates:
  "((\<exists>y. collect_stream parse reader = Some y) \<longleftrightarrow> (\<exists>k. \<forall>v. reader k \<noteq> Chunk v))
   \<and> collect_stream parse (delivers pieces None) = Some (collectOllamaChat parse (Body pieces))
   \<and> collect_stream parse (delivers pieces (Some e)) = Some (Inl e)"
proof -
  have "(\<exists>y. collect_stream parse reader = Some y) \<longleftrightarrow> (\<exists>y. ollama_loop parse reader 0 ([], []) = Some y)"
    by (cases "ollama_loop parse reader 0 ([], [])") (auto simp: collect_stream_def split: sum.split)
  then have "(\<exists>y. collect_stream parse reader = Some y) \<longleftrightarrow> (\<exists>k. \<forall>v. reader k \<noteq> Chunk v)"
    using ollama_loop_stops ollama_loop_returns [of reader 0, unfolded add_0] by blast
  moreover have "collect_stream parse (delivers pieces None) = Some (collectOllamaChat parse (Body pieces))"
    by (simp add: collect_stream_def ollama_loop_delivers split: prod.split)
  ultimately show ?thesis by (simp add: collect_stream_def ollama_loop_delivers)
qed

text \<open>A piece that repeats the end of what came before is taken for a repetition and dropped.\<close>

lemma merge_drops_repetition: "previous \<noteq> [] \<Longrightarrow> chunk \<noteq> [] \<Longrightarrow> previous = u @ chunk \<Longrightarrow>
    \<not> startsWith chunk previous \<Longrightarrow> mergeOllamaChunk previous chunk = previous"
  by (simp add: mergeOllamaChunk_def endsWith_iff)

lemma merge_loses_laughter: "mergeOllamaChunk ''haha'' ''ha'' = ''haha''"
  by (simp add: mergeOllamaChunk_def endsWith_def)

lemma action_payload_listed: "action_payload ty p = Some payload \<Longrightarrow> ty \<in> (Some \<circ> JStr) ` set LISTED_ACTIONS"
  by (auto simp: action_payload_def LISTED_ACTIONS_def split: if_splits)

lemma action_POST_Inr:
  assumes "action_POST d env newId now rq db = (Inr r, db')"
  obtains body ty payload data c where "header rq ''x-user-tenant'' = Some (ac_tenantId c)"
    "ty \<in> set LISTED_ACTIONS" "or_default (header rq ''x-user-role'') [] = ''admin'' \<or> ty \<notin> set ADMIN_ACTIONS"
    "create_data (Some (ac_tenantId c)) (json_get (Some body) ''targetAgentId'') (Some (JStr ty)) (Some (JStr payload)) = Some data"
    "createSignedFleetCommand (fx_hmac d) env newId now data db = Some (c, db')" "payload \<noteq> []"
    "ar_action r = ty" "ar_payload r = payload"
proof -
  let ?t = "or_default (header rq ''x-user-tenant'') []"
  have t: "?t \<noteq> []" using assms by (auto simp: action_POST_def Let_def)
  then have tenant: "header rq ''x-user-tenant'' = Some ?t"
    by (auto simp: or_default_def split: option.splits if_splits)
  obtain body where body: "object_body rq = Some body"
    using assms t by (cases "object_body rq") (auto simp: action_POST_def Let_def)
  let ?a = "json_get (Some body) ''action''"
  let ?ty = "json_get ?a ''action''"
  obtain payload where p: "action_payload ?ty (json_get (json_get ?a ''params'')) = Some payload"
    and ne: "payload \<noteq> []"
    and adm: "\<not> (or_default (header rq ''x-user-role'') [] \<noteq> ''admin'' \<and> ?ty \<in> (Some \<circ> JStr) ` set ADMIN_ACTIONS)"
    using assms t body
    by (auto simp: action_POST_def Let_def split: if_splits option.splits)
  from action_payload_listed [OF p] obtain ty where ty: "?ty = Some (JStr ty)" "ty \<in> set LISTED_ACTIONS" by auto
  have no403: "\<not> (or_default (header rq ''x-user-role'') [] \<noteq> ''admin'' \<and> ty \<in> set ADMIN_ACTIONS)"
    using adm ty by auto
  obtain data c where c: "create_data (Some ?t) (json_get (Some body) ''targetAgentId'') (Some (JStr ty)) (Some (JStr payload)) = Some data"
      "createSignedFleetCommand (fx_hmac d) env newId now data db = Some (c, db')"
      "r = action_done d env now body (the ?a) ty payload c"
    using assms t body p ne ty no403
    by (auto simp: action_POST_def Let_def bind_eq_Some_conv split: if_splits option.splits)
  have "ac_tenantId c = ?t"
    using c(1,2) by (auto simp: create_data_def createSignedFleetCommand_def new_command_def Let_def
        split: option.splits if_splits json.splits)
  then show thesis
    using that [of c ty body payload data] tenant ty(2) no403 c ne by (auto simp: action_done_def Let_def)
qed

lemma created_fields:
  assumes "create_data (Some t) a (Some (JStr ty)) (Some (JStr p)) = Some data"
    "createSignedFleetCommand hmac env newId now data db = Some (c, db')"
  shows "ac_commandType c = ty" "ac_payload c = p"
  using assms
  by (auto simp: create_data_def createSignedFleetCommand_def new_command_def Let_def
      split: option.splits if_splits json.splits)

lemma action_POST_Inl:
  "action_POST d env newId now rq db = (Inl r, db') \<Longrightarrow> db' = db \<and> rs_status r \<in> {400, 401, 403, 500}"
  by (auto simp: action_POST_def Let_def split: if_splits option.splits)

text \<open>C18. A remediation request either is refused and changes nothing, or it appends
exactly one pending command, of the type and payload it reports, for the user's own tenant;
a user who is no administrator gets no further than lifting a ban, pushing a configuration
or changing a threshold.\<close>

theorem copilot_action_guarded:
  assumes "action_POST d env newId now rq db = (res, db')" "newId \<notin> ac_id ` set (fd_commands db)"
  shows "(case res of
      Inl r \<Rightarrow> db' = db \<and> rs_status r \<in> {400, 401, 403, 500}
    | Inr r \<Rightarrow> (\<exists>c. fd_commands db' = fd_commands db @ [c] \<and> ac_status c = Pending
          \<and> header rq ''x-user-tenant'' = Some (ac_tenantId c)
          \<and> ac_commandType c = ar_action r \<and> ac_payload c = ar_payload r \<and> ac_payload c \<noteq> []
          \<and> (header rq ''x-user-role'' = Some ''admin''
             \<or> ar_action r \<in> {''UNBAN_IP'', ''PUSH_CONFIG'', ''UPDATE_THRESHOLD''})))"
proof (cases res)
  case (Inl r)
  then show ?thesis using action_POST_Inl assms(1) by simp
next
  case (Inr r)
  then have r: "action_POST d env newId now rq db = (Inr r, db')" using assms(1) by simp
  obtain body ty payload data c where c: "header rq ''x-user-tenant'' = Some (ac_tenantId c)"
    "ty \<in> set LISTED_ACTIONS" "or_default (header rq ''x-user-role'') [] = ''admin'' \<or> ty \<notin> set ADMIN_ACTIONS"
    "create_data (Some (ac_tenantId c)) (json_get (Some body) ''targetAgentId'') (Some (JStr ty)) (Some (JStr payload)) = Some data"
    "createSignedFleetCommand (fx_hmac d) env newId now data db = Some (c, db')" "payload \<noteq> []"
    "ar_action r = ty" "ar_payload r = payload"
    by (rule action_POST_Inr [OF r])
  have "or_default (header rq ''x-user-role'') [] = ''admin'' \<Longrightarrow> header rq ''x-user-role'' = Some ''admin''"
    by (auto simp: or_default_def split: option.splits if_splits)
  moreover have "ty \<notin> set ADMIN_ACTIONS \<Longrightarrow> ty \<in> {''UNBAN_IP'', ''PUSH_CONFIG'', ''UPDATE_THRESHOLD''}"
    using c(2) by (auto simp: LISTED_ACTIONS_def ADMIN_ACTIONS_def)
  ultimately have "header rq ''x-user-role'' = Some ''admin'' \<or> ty \<in> {''UNBAN_IP'', ''PUSH_CONFIG'', ''UPDATE_THRESHOLD''}"
    using c(3) by blast
  then show ?thesis
    using Inr c created_rows [OF c(5) assms(2)] created_fields [OF c(4,5)]
    by (simp del: insert_iff)
qed

subsection \<open>A worked example\<close>

definition a_request :: request where
  "a_request = q_post\<lparr>rq_body := Some (JObj [(''action'',
     JObj [(''action'', JStr ''PUSH_CONFIG''), (''params'', JObj [(''config'', JStr ''x'')])])])\<rparr>"

lemma a_header: "header a_request = header q_post"
  by (rule ext) (simp add: a_request_def header_def)

lemma a_queued: "\<exists>r db'. action_POST q_deps q_env ''c9'' 5 a_request q_db = (Inr r, db') \<and> ar_action r = ''PUSH_CONFIG''"
proof -
  have b: "object_body a_request = Some (JObj [(''action'',
     JObj [(''action'', JStr ''PUSH_CONFIG''), (''params'', JObj [(''config'', JStr ''x'')])])])"
    by (simp add: object_body_def a_request_def)
  have "createSignedFleetCommand (fx_hmac q_deps) q_env ''c9'' 5 (''t1'', None, ''PUSH_CONFIG'', ''x'') q_db \<noteq> None"
    by (simp add: createSignedFleetCommand_def q_db_def Let_def split: option.splits)
  then obtain c db' where "createSignedFleetCommand (fx_hmac q_deps) q_env ''c9'' 5 (''t1'', None, ''PUSH_CONFIG'', ''x'') q_db
      = Some (c, db')" by auto
  then show ?thesis
    by (simp add: action_POST_def a_header q_header or_default_def b json_get_def Let_def ADMIN_ACTIONS_def
        LISTED_ACTIONS_def action_payload_def String_or_def create_data_def action_done_def image_iff)
qed

theorem copilot_action_guarded_witness:
  "\<exists>r db' c. action_POST q_deps q_env ''c9'' 5 a_request q_db = (Inr r, db')
     \<and> fd_commands db' = [q_command, c] \<and> ac_tenantId c = ''t1''"
proof -
  obtain r db' where r: "action_POST q_deps q_env ''c9'' 5 a_request q_db = (Inr r, db')" using a_queued by blast
  have "''c9'' \<notin> ac_id ` set (fd_commands q_db)" by (simp add: q_db_def q_command_def)
  from copilot_action_guarded [OF r this] r show ?thesis by (auto simp: a_header q_header q_db_def)
qed

end
