(* ===== verification/CopilotChat.thy ===== *)
theory CopilotChat
  imports Copilot Telemetry Pdf
begin

section \<open>The copilot: scope, canned replies and the chat handler\<close>

text \<open>
  \<^verbatim>\<open>lib/copilotScope.ts\<close>, \<^verbatim>\<open>lib/copilotFallback.ts\<close>, \<^verbatim>\<open>lib/copilotRag.ts\<close>, the quality
  test of \<^verbatim>\<open>lib/copilotQuality.ts\<close>, the language detection of \<^verbatim>\<open>lib/i18n.ts\<close> and both handlers of
  \<^verbatim>\<open>app/api/copilot/route.ts\<close>.

  Texts are lists of UTF-16 code units.  The Unicode case tables are an argument: \<open>un_lower\<close> is
  \<open>toLowerCase\<close> and \<open>un_fold\<close> the canonical form of a code unit that a case-insensitive pattern
  compares.  The attack trees of an agent are taken with the types the code declares for them.
  Beside its reply the chat handler returns the prompt and the message it sent to the language model, if it sent any.
\<close>

subsection \<open>Patterns\<close>

record unicode =
  un_lower :: "ustring \<Rightarrow> ustring"
  un_fold :: "nat \<Rightarrow> nat"

datatype item = Lit nat | One "nat \<Rightarrow> bool" | Opt "nat \<Rightarrow> bool"

text \<open>A pattern at the beginning of a text, and anywhere in it.\<close>

fun pat_at :: "(nat \<Rightarrow> nat) \<Rightarrow> item list \<Rightarrow> ustring \<Rightarrow> bool" where
  "pat_at up [] s = True"
| "pat_at up (Lit u # p) s = (case s of [] \<Rightarrow> False | v # t \<Rightarrow> up u = up v \<and> pat_at up p t)"
| "pat_at up (One P # p) s = (case s of [] \<Rightarrow> False | v # t \<Rightarrow> P v \<and> pat_at up p t)"
| "pat_at up (Opt P # p) s = (pat_at up p s \<or> (case s of [] \<Rightarrow> False | v # t \<Rightarrow> P v \<and> pat_at up p t))"

fun pat_in :: "(nat \<Rightarrow> nat) \<Rightarrow> item list \<Rightarrow> ustring \<Rightarrow> bool" where
  "pat_in up p [] = pat_at up p []"
| "pat_in up p (v # s) = (pat_at up p (v # s) \<or> pat_in up p s)"

abbreviation lits :: "ustring \<Rightarrow> item list" where "lits \<equiv> map Lit"

definition any_of :: "(nat \<Rightarrow> nat) \<Rightarrow> item list list \<Rightarrow> ustring \<Rightarrow> bool" where
  "any_of up ps s = list_ex (\<lambda>p. pat_in up p s) ps"

definition not_eol :: "nat \<Rightarrow> bool" where
  "not_eol u = (u \<notin> {10, 13, 0x2028, 0x2029})"

definition u_trim :: "ustring \<Rightarrow> ustring" where
  "u_trim s = rev (dropWhile u_ws (rev (dropWhile u_ws s)))"

text \<open>The lines of a reply, and those without the empty ones.\<close>

definition u_lines :: "ustring list \<Rightarrow> ustring" where
  "u_lines xs = u_join [10] xs"

definition some_lines :: "ustring list \<Rightarrow> ustring" where
  "some_lines xs = u_lines (filter (\<lambda>x. x \<noteq> []) xs)"

subsection \<open>Scope\<close>

definition LG_TOPIC :: "item list list" where
  "LG_TOPIC =
     [lits (lat ''log'') @ [Opt (\<lambda>u. u_ws u \<or> u = 0x2D)] @ lits (lat ''guardian''), lits (lat ''attack'') @ [Opt not_eol] @
       lits (lat ''tree''),
      lits (lat ''iso'') @ [Opt not_eol] @ lits (lat ''270''), lits (lat ''ip'') @ [One (\<lambda>u. u_ws u \<or> u = 0x2F)]]
     @ map lits [(lat ''guardian''), (lat ''tehdit''), (lat ''threat''), (lat ''rce''), (lat ''execve''), (lat ''ban''), (lat ''engelle''), (lat ''filo''), (lat ''fleet''), (lat ''agent''), (lat ''alarm''), (lat ''eps''),
         (lat ''siem''), (lat ''ebpf''), (lat ''xdp''), (lat ''waf''), (lat ''saldiri''), (lat ''uyumluluk''), (lat ''compliance''), (lat ''kvkk''), (lat ''pci''), (lat ''soc2''), (lat ''dashboard''), (lat ''daemon''),
         (lat ''telemetri''), (lat ''telemetry''), (lat ''olay''), (lat ''incident''), (lat ''mesh''), (lat ''tarpit''), (lat ''reports''), (lat ''copilot''), (lat ''node-''), (lat ''guard''), (lat ''audit''),
         (lat ''ihlal''), (lat ''koruma''), (lat ''guvenlik''), (lat ''security''), (lat ''mitre''), (lat ''lineage''), (lat ''pod kill''), (lat ''banned''), (lat ''shell'')]"

definition OFF_TOPIC :: "ustring list" where
  "OFF_TOPIC =
     [(lat ''hava durumu''), (lat ''hava nasil''), (lat ''hava nolur''), (lat ''yarin hava''), (lat ''bugun hava''), (lat ''bug'' @ [0xFC] @
       lat ''n hava''), (lat ''yemek tarif''), (lat ''film oner''),
      (lat ''dizi oner''), (lat ''futbol''), (lat ''basketbol''), (lat ''siyaset''), (lat ''secim''), (lat ''bitcoin''), (lat ''kripto fiyat''), (lat ''borsa''), (lat ''hisse''), (lat ''python ogren''),
      (lat ''javascript ogren''), (lat ''kod yaz''), (lat ''siir yaz''), (lat ''hikaye yaz''), (lat ''felsefe''), (lat ''psikoloji''), (lat ''iliski''), (lat ''ask ''), (lat ''evlilik''),
      (lat ''tanisma''), (lat ''flort''), (lat ''oyun oner''), (lat ''minecraft''), (lat ''fortnite''), (lat ''gpt nedir''), (lat ''chatgpt''), (lat ''openai nedir''), (lat ''kim kazandi''), (lat ''mac skor'')]"

definition GREETING :: "(nat \<Rightarrow> nat) \<Rightarrow> ustring \<Rightarrow> bool" where
  "GREETING up s =
     list_ex (\<lambda>g. pat_at up (lits g) s \<and> list_all (\<lambda>u. u_ws u \<or> u \<in> {0x21, 0x2E, 0x3F}) (drop (length g) s))
       [(lat ''merhaba''), (lat ''selam''), (lat ''hey''), (lat ''hi''), (lat ''hello''), (lat ''g'' @ [0xFC] @ lat ''nayd'' @ [0x131] @
         lat ''n''), (lat ''gunaydin''), (lat ''iyi g'' @ [0xFC] @ lat ''nler'')]"

definition isGreetingMessage :: "unicode \<Rightarrow> ustring \<Rightarrow> bool" where
  "isGreetingMessage uc message = GREETING (un_fold uc) (u_trim message)"

definition isLogGuardianTopic :: "unicode \<Rightarrow> ustring \<Rightarrow> bool" where
  "isLogGuardianTopic uc message =
     (let t = u_trim message in
      if t = [] then False
      else if GREETING (un_fold uc) t then True
      else if any_of (un_fold uc) (map lits OFF_TOPIC) t then False
      else any_of (un_fold uc) LG_TOPIC t)"

definition logGuardianScopeRule :: "string \<Rightarrow> ustring" where
  "logGuardianScopeRule locale =
     (if locale = ''tr'' then (lat ''KAPSAM KURALI (ZORUNLU):'' @ [0xA] @ lat ''- Sen yalnizca Log Guardian platformunun guvenlik asistanisin.'' @
       [0xA] @ lat ''- Sadece su konularda konus: filo/agent telemetrisi, tehdit ozeti, RCE/execve, IP ban (BAN_IP), attack tree, SIEM, eBPF/XDP/WAF, uyumluluk raporlari (SOC2/PCI/KVKK), dashboard sayfalari (/fleet, /reports, /attack-tree, /copilot).'' @ [0xA] @ lat ''- Log Guardian disi sorulara (hava, yemek, genel sohbet, baska yazilimlar) yanit verme; nazikce kapsam disi oldugunu soyle ve LG ornek sorulari oner.'')
      else if locale = ''de'' then (lat ''GULTIGKEITSBEREICH: Nur Log Guardian '' @ [0x2014] @
        lat '' Flotte, Bedrohungen, RCE, Compliance. Keine Off-Topic-Antworten.'')
      else if locale = ''fr'' then (lat ''PERIMETRE: Uniquement Log Guardian '' @ [0x2014] @
        lat '' flotte, menaces, RCE, conformite. Refusez les sujets hors scope.'')
      else if locale = ''ru'' then ([0x41E, 0x411, 0x41B, 0x410, 0x421, 0x422, 0x42C] @ lat '' ('' @
        [0x41E, 0x411, 0x42F, 0x417, 0x410, 0x422, 0x415, 0x41B, 0x42C, 0x41D, 0x41E] @ lat ''):'' @ [0xA] @ lat ''- '' @ [0x412, 0x44B] @
          lat '' '' @ [0x442, 0x43E, 0x43B, 0x44C, 0x43A, 0x43E] @ lat '' '' @ [0x430, 0x441, 0x441, 0x438, 0x441, 0x442, 0x435, 0x43D, 0x442] @
            lat '' '' @ [0x431, 0x435, 0x437, 0x43E, 0x43F, 0x430, 0x441, 0x43D, 0x43E, 0x441, 0x442, 0x438] @ lat '' Log Guardian.'' @ [0xA] @
              lat ''- '' @ [0x422, 0x435, 0x43C, 0x44B] @ lat '': '' @ [0x442, 0x435, 0x43B, 0x435, 0x43C, 0x435, 0x442, 0x440, 0x438, 0x44F] @
                lat '' '' @ [0x444, 0x43B, 0x43E, 0x442, 0x430] @ lat '', '' @ [0x443, 0x433, 0x440, 0x43E, 0x437, 0x44B] @
                  lat '', RCE, BAN_IP, attack tree, SIEM, eBPF/XDP/WAF, '' @ [0x43E, 0x442, 0x447, 0x451, 0x442, 0x44B] @ lat '' '' @
                    [0x441, 0x43E, 0x43E, 0x442, 0x432, 0x435, 0x442, 0x441, 0x442, 0x432, 0x438, 0x44F] @ lat '', '' @
                      [0x441, 0x442, 0x440, 0x430, 0x43D, 0x438, 0x446, 0x44B] @ lat '' dashboard.'' @ [0xA] @ lat ''- '' @ [0x41D, 0x430] @
                        lat '' '' @ [0x432, 0x43E, 0x43F, 0x440, 0x43E, 0x441, 0x44B] @ lat '' '' @ [0x432, 0x43D, 0x435] @ lat '' Log Guardian '' @
                          [0x43E, 0x442, 0x432, 0x435, 0x447, 0x430, 0x439, 0x442, 0x435] @ lat '' '' @
                            [0x43E, 0x442, 0x43A, 0x430, 0x437, 0x43E, 0x43C] @ lat '' '' @ [0x438] @ lat '' '' @
                              [0x43F, 0x440, 0x435, 0x434, 0x43B, 0x43E, 0x436, 0x438, 0x442, 0x435] @ lat '' '' @
                                [0x43F, 0x440, 0x438, 0x43C, 0x435, 0x440, 0x44B] @ lat '' '' @
                                  [0x437, 0x430, 0x43F, 0x440, 0x43E, 0x441, 0x43E, 0x432] @ lat '' '' @ [0x43F, 0x43E] @ lat '' LG.'')
      else (lat ''SCOPE RULE (MANDATORY):'' @ [0xA] @ lat ''- You are ONLY the Log Guardian security assistant.'' @ [0xA] @
        lat ''- Discuss: fleet telemetry, threats, RCE, BAN_IP, attack tree, SIEM, eBPF, compliance reports, dashboard pages.'' @ [0xA] @
          lat ''- Refuse off-topic questions; redirect to Log Guardian capabilities.''))"

definition offTopicReply :: "string \<Rightarrow> ustring" where
  "offTopicReply locale =
     (if locale = ''tr'' then u_lines
        [(lat ''Log Guardian Asistani''), [],
         (lat ''Bu konuda yardimci olamam '' @ [0x2014] @ lat '' yalnizca Log Guardian guvenlik platformu hakkinda konusabilirim.''), [],
         (lat ''Yardimci olabilecegim konular:''), ([0x2022] @ lat '' Filo / agent telemetrisi ve tehdit ozeti''),
         ([0x2022] @ lat '' RCE ve execve engelleme analizi''), ([0x2022] @ lat '' IP engelleme (BAN_IP) onerisi''), ([0x2022] @
           lat '' Attack tree ve SIEM olaylari''),
         ([0x2022] @ lat '' Uyumluluk raporu (/reports)''), [],
         (lat ''Ornek: '' @ [0x22] @ lat ''Mevcut tehdit ozetini cikar'' @ [0x22] @ lat '' veya '' @ [0x22] @ lat ''RCE analizi yap'' @ [0x22])]
      else if locale = ''de'' then u_lines
        [(lat ''Log Guardian Assistent''), [], (lat ''Ich beantworte nur Fragen zu Log Guardian (Flotte, Bedrohungen, Compliance).'')]
      else if locale = ''fr'' then u_lines
        [(lat ''Assistant Log Guardian''), [], (lat ''Je ne reponds qu'' @ [0x27] @ lat ''aux sujets Log Guardian (flotte, menaces, conformite).'')]
      else if locale = ''ru'' then u_lines
        [([0x410, 0x441, 0x441, 0x438, 0x441, 0x442, 0x435, 0x43D, 0x442] @ lat '' Log Guardian''), [],
         ([0x42F] @ lat '' '' @ [0x43F, 0x43E, 0x43C, 0x43E, 0x433, 0x430, 0x44E] @ lat '' '' @ [0x442, 0x43E, 0x43B, 0x44C, 0x43A, 0x43E] @
           lat '' '' @ [0x43F, 0x43E] @ lat '' '' @ [0x43F, 0x43B, 0x430, 0x442, 0x444, 0x43E, 0x440, 0x43C, 0x435] @ lat '' Log Guardian '' @
             [0x2014] @ lat '' '' @ [0x444, 0x43B, 0x43E, 0x442] @ lat '', '' @ [0x443, 0x433, 0x440, 0x43E, 0x437, 0x44B] @ lat '', RCE, '' @
               [0x431, 0x430, 0x43D, 0x44B] @ lat '', '' @ [0x441, 0x43E, 0x43E, 0x442, 0x432, 0x435, 0x442, 0x441, 0x442, 0x432, 0x438, 0x435] @
                 lat ''.''), [],
         (([0x41F, 0x440, 0x438, 0x43C, 0x435, 0x440, 0x44B] @ lat '': '') @ [0xAB] @ ([0x421, 0x432, 0x43E, 0x434, 0x43A, 0x430] @ lat '' '' @
           [0x443, 0x433, 0x440, 0x43E, 0x437]) @ [0xBB] @ (lat '' '' @ [0x438, 0x43B, 0x438] @ lat '' '') @ [0xAB] @
             ([0x410, 0x43D, 0x430, 0x43B, 0x438, 0x437] @ lat '' RCE'') @ [0xBB])]
      else u_lines
        [(lat ''Log Guardian Assistant''), [],
         (lat ''I can only help with the Log Guardian security platform '' @ [0x2014] @
           lat '' fleet telemetry, threats, RCE, bans, compliance, and dashboard features.''),
         [], (lat ''Try: '' @ [0x22] @ lat ''Summarize current threats'' @ [0x22] @ lat '' or '' @ [0x22] @ lat ''RCE analysis'' @ [0x22])])"

definition greetingReply :: "string \<Rightarrow> ustring" where
  "greetingReply locale =
     (if locale = ''tr'' then u_lines
        [(lat ''Log Guardian Guvenlik Asistani''), [],
         (lat ''Merhaba. Filo telemetrinize erisebilirim; yalnizca Log Guardian kapsaminda yardimci olurum.''), [],
         (lat ''Ornek sorular:''), ([0x2022] @ lat '' Mevcut tehdit ozetini cikar''), ([0x2022] @ lat '' RCE analizi yap''), ([0x2022] @
           lat '' Yonetici ozeti olustur''),
         ([0x2022] @ lat '' Uyumluluk raporu hakkinda bilgi ver'')]
      else if locale = ''de'' then (lat ''Log Guardian Sicherheitsassistent '' @ [0x2014] @ lat '' Fragen zu Flotte, Bedrohungen, Compliance.'')
      else if locale = ''fr'' then (lat ''Assistant securite Log Guardian '' @ [0x2014] @ lat '' flotte, menaces, conformite.'')
      else if locale = ''ru'' then u_lines
        [([0x410, 0x441, 0x441, 0x438, 0x441, 0x442, 0x435, 0x43D, 0x442] @ lat '' '' @
          [0x431, 0x435, 0x437, 0x43E, 0x43F, 0x430, 0x441, 0x43D, 0x43E, 0x441, 0x442, 0x438] @ lat '' Log Guardian''), [],
         ([0x417, 0x434, 0x440, 0x430, 0x432, 0x441, 0x442, 0x432, 0x443, 0x439, 0x442, 0x435] @ lat ''. '' @
           [0x414, 0x43E, 0x441, 0x442, 0x443, 0x43F, 0x43D, 0x430] @ lat '' '' @
             [0x442, 0x435, 0x43B, 0x435, 0x43C, 0x435, 0x442, 0x440, 0x438, 0x44F] @ lat '' '' @ [0x444, 0x43B, 0x43E, 0x442, 0x430] @ lat ''; '' @
               [0x43E, 0x442, 0x432, 0x435, 0x447, 0x430, 0x44E] @ lat '' '' @ [0x442, 0x43E, 0x43B, 0x44C, 0x43A, 0x43E] @ lat '' '' @
                 [0x43F, 0x43E] @ lat '' Log Guardian.''), [],
         ([0x41F, 0x440, 0x438, 0x43C, 0x435, 0x440, 0x44B] @ lat '': '' @ [0x441, 0x432, 0x43E, 0x434, 0x43A, 0x430] @ lat '' '' @
           [0x443, 0x433, 0x440, 0x43E, 0x437] @ lat '', '' @ [0x430, 0x43D, 0x430, 0x43B, 0x438, 0x437] @ lat '' RCE, '' @
             [0x438, 0x441, 0x43F, 0x43E, 0x43B, 0x43D, 0x438, 0x442, 0x435, 0x43B, 0x44C, 0x43D, 0x430, 0x44F] @ lat '' '' @
               [0x441, 0x432, 0x43E, 0x434, 0x43A, 0x430] @ lat '', '' @
                 [0x441, 0x43E, 0x43E, 0x442, 0x432, 0x435, 0x442, 0x441, 0x442, 0x432, 0x438, 0x435] @ lat ''.'')]
      else u_lines
        [(lat ''Log Guardian Security Assistant''), [],
         (lat ''Hello. I have access to your fleet telemetry and only answer Log Guardian security topics.''), [],
         (lat ''Try: threat summary, RCE analysis, executive summary, or compliance info.'')])"

subsection \<open>Language detection\<close>

text \<open>\<open>\b(w1|w2|...)\b\<close>: a listed word between two word boundaries, where only the letters,
  digits and underscore of ASCII make up words.\<close>

definition word_unit :: "nat \<Rightarrow> bool" where
  "word_unit u = (48 \<le> u \<and> u \<le> 57 \<or> 65 \<le> u \<and> u \<le> 90 \<or> u = 95 \<or> 97 \<le> u \<and> u \<le> 122)"

definition boundary :: "nat option \<Rightarrow> nat option \<Rightarrow> bool" where
  "boundary a b = (list_ex word_unit (case a of None \<Rightarrow> [] | Some u \<Rightarrow> [u]) \<noteq> list_ex word_unit (case b of None \<Rightarrow> [] | Some u \<Rightarrow> [u]))"

definition first_unit :: "ustring \<Rightarrow> nat option" where
  "first_unit s = (case s of [] \<Rightarrow> None | u # _ \<Rightarrow> Some u)"

fun bounded_word :: "(nat \<Rightarrow> nat) \<Rightarrow> ustring list \<Rightarrow> nat option \<Rightarrow> ustring \<Rightarrow> bool" where
  "bounded_word up ws prev s =
     (list_ex (\<lambda>w. w \<noteq> [] \<and> pat_at up (lits w) s \<and> boundary prev (first_unit s)
          \<and> boundary (Some (s ! (length w - 1))) (first_unit (drop (length w) s))) ws
      \<or> (case s of [] \<Rightarrow> False | u # t \<Rightarrow> bounded_word up ws (Some u) t))"

declare bounded_word.simps [simp del]

definition TR_CHARS :: ustring where "TR_CHARS = [0x11F, 0xFC, 0x15F, 0xF6, 0xE7, 0x131, 0x130, 0x11E, 0xDC, 0x15E, 0xD6, 0xC7]"
definition TR_WORDS :: "ustring list" where
  "TR_WORDS = [(lat ''ve''), (lat ''bir''), (lat ''i'' @ [0xE7] @ lat ''in''), (lat ''olan''), (lat ''nedir''), (lat ''nas'' @ [0x131] @
    lat ''l''), (lat ''tehdit''), (lat ''ban''), ([0xF6] @ lat ''zet''), (lat ''sistem''), (lat ''g'' @ [0xFC] @
      lat ''venlik''), (lat ''merhaba''), (lat ''evet''), (lat ''hay'' @ [0x131] @ lat ''r'')]"
definition RU_WORDS :: "ustring list" where
  "RU_WORDS = [[0x438], [0x438, 0x43B, 0x438], [0x447, 0x442, 0x43E], [0x43A, 0x430, 0x43A], [0x443, 0x433, 0x440, 0x43E, 0x437], [0x431, 0x430, 0x43D], [0x441, 0x438, 0x441, 0x442, 0x435, 0x43C], [0x431, 0x435, 0x437, 0x43E, 0x43F, 0x430, 0x441], [0x43F, 0x440, 0x438, 0x432, 0x435, 0x442], [0x434, 0x430], [0x43D, 0x435, 0x442], [0x444, 0x43B, 0x43E, 0x442], [0x430, 0x433, 0x435, 0x43D, 0x442], [0x43E, 0x442, 0x447, 0x435, 0x442], [0x43E, 0x442, 0x447, 0x451, 0x442], (lat ''ip''), [0x431, 0x43B, 0x43E, 0x43A]]"

definition detectTextLocale :: "unicode \<Rightarrow> ustring \<Rightarrow> string" where
  "detectTextLocale uc text =
     (let s = u_trim text;
          has = (\<lambda>cs. list_ex (\<lambda>u. u \<in> set cs) s);
          between = (\<lambda>a b. list_ex (\<lambda>u. a \<le> u \<and> u \<le> b) s);
          lower = un_lower uc s
      in if s = [] then ''en''
         else if has TR_CHARS then ''tr''
         else if between 0x600 0x6FF then ''ar''
         else if between 0x4E00 0x9FFF then ''zh''
         else if between 0x3040 0x30FF then ''ja''
         else if between 0xAC00 0xD7AF then ''ko''
         else if between 0x400 0x4FF then ''ru''
         else if has [0xE4, 0xF6, 0xFC, 0xDF, 0xC4, 0xD6, 0xDC] then ''de''
         else if has [0xE0, 0xE2, 0xE7, 0xE9, 0xE8, 0xEA, 0xEB, 0xEE, 0xEF, 0xF4, 0xF9, 0xFB, 0xFC, 0x153, 0xE6, 0xC0, 0xC2, 0xC7, 0xC9, 0xC8, 0xCA, 0xCB, 0xCE, 0xCF, 0xD4, 0xD9, 0xDB, 0xDC, 0x152, 0xC6] then ''fr''
         else if bounded_word (un_fold uc) TR_WORDS None lower then ''tr''
         else if bounded_word (un_fold uc) RU_WORDS None lower then ''ru''
         else ''en'')"

definition localeName :: "string \<Rightarrow> string" where
  "localeName locale =
     nullish (map_of [(''tr'', ''Turkce''), (''en'', ''English''), (''de'', ''Deutsch''), (''fr'', ''Francais''), (''ru'', ''Russkij''),
       (''es'', ''Espanol''), (''pt'', ''Portugues''), (''it'', ''Italiano''), (''pl'', ''Polski''), (''nl'', ''Nederlands''),
       (''ar'', ''Arabic''), (''zh'', ''Chinese''), (''ja'', ''Japanese''), (''ko'', ''Korean'')] locale) ''undefined''"

definition localeInstruction :: "string \<Rightarrow> ustring" where
  "localeInstruction locale =
     (if locale = ''ru'' then ([0x42F, 0x417, 0x42B, 0x41A] @ lat '' '' @ [0x41E, 0x422, 0x412, 0x415, 0x422, 0x410] @ lat '': '' @
       [0x41F, 0x438, 0x448, 0x438, 0x442, 0x435] @ lat '' '' @ [0x442, 0x43E, 0x43B, 0x44C, 0x43A, 0x43E] @ lat '' '' @ [0x43D, 0x430] @ lat '' '' @
         [0x440, 0x443, 0x441, 0x441, 0x43A, 0x43E, 0x43C] @ lat ''. '' @ [0x418, 0x441, 0x43A, 0x43B, 0x44E, 0x447, 0x435, 0x43D, 0x438, 0x44F] @
           lat '': RCE, EPS, SIEM, IP, BAN_IP. '' @ [0x422, 0x43E, 0x43D] @ lat '' '' @
             [0x43F, 0x440, 0x43E, 0x444, 0x435, 0x441, 0x441, 0x438, 0x43E, 0x43D, 0x430, 0x43B, 0x44C, 0x43D, 0x43E, 0x433, 0x43E] @ lat '' SOC.'')
      else if locale \<in> {''ar'', ''zh'', ''ja'', ''ko''} then
        (lat ''RESPONSE LANGUAGE: Write only in '') @ lat (localeName locale) @
          (lat ''. Exceptions: RCE, EPS, SIEM, IP, BAN_IP. Professional SOC tone.'')
      else (lat ''YANIT DILI: Yalnizca '') @ lat (localeName locale)
        @ (lat '' yaz. Ingilizce kelime kullanma (RCE, EPS, SIEM, IP, BAN_IP istisna). Profesyonel SOC ussu.''))"

subsection \<open>Quality of an answer\<close>

fun word_tokens :: "ustring \<Rightarrow> ustring \<Rightarrow> ustring list" where
  "word_tokens cur [] = (if cur = [] then [] else [cur])"
| "word_tokens cur (u # s) =
     (if word_unit u then word_tokens (cur @ [u]) s
      else if cur = [] then word_tokens [] s else cur # word_tokens [] s)"

definition ENGLISH :: "ustring list" where
  "ENGLISH = [(lat ''successful''), (lat ''unavailable''), (lat ''detailed''), (lat ''available''), (lat ''data''), (lat ''obtain''), (lat ''normal''), (lat ''activity''), (lat ''risk''), (lat ''agent''), (lat ''alert''), (lat ''tree'')]"

definition isCopilotReplyLowQuality :: "unicode \<Rightarrow> ustring \<Rightarrow> string \<Rightarrow> bool" where
  "isCopilotReplyLowQuality uc content locale =
     (let t = u_trim content; up = un_fold uc;
          englishHits = length (filter (\<lambda>w. list_ex (\<lambda>e. map up e = map up w) ENGLISH) (word_tokens [] t));
          words = split_ws t;
          letter = (\<lambda>u. 65 \<le> u \<and> u \<le> 90 \<or> 97 \<le> u \<and> u \<le> 122);
          latinOnly = length (filter (\<lambda>w. list_all letter w \<and> 3 < length w) words)
      in if length t < 40 then True
         else if locale \<noteq> ''tr'' then False
         else if 2 \<le> englishHits then True
         else if list_ex (\<lambda>u. list_ex (\<lambda>v. up v = up u) [0xE0, 0xE1, 0xE2, 0xE3, 0xE4, 0xE5, 0xE8, 0xE9, 0xEA, 0xEB, 0xEC, 0xED, 0xEE, 0xEF, 0xF2, 0xF3, 0xF4, 0xF5, 0xF9, 0xFA, 0xFB, 0xFC]) t then True
         else if any_of up [lits (lat ''egr'') @ [One (\<lambda>u. up u = up 0x65 \<or> up u = up 0xE9)], lits (lat ''epsyon''), lits (lat ''gardyan agent''),
                   lits (lat ''ransomware egr'')] t then True
         else 1 / 4 < fdiv (of_nat latinOnly) (of_nat (length words)))"

definition turkishSocPrompt :: ustring where
  "turkishSocPrompt = (lat ''KRITIK KURALLAR (Log Guardian Turkce asistani):'' @ [0xA] @
    lat ''- Yalnizca Log Guardian platformu hakkinda konus (filo, tehdit, RCE, ban, uyumluluk, dashboard).'' @ [0xA] @
      lat ''- Log Guardian disi konulara yanit verme.'' @ [0xA] @
        lat ''- Yalnizca duzgun Turkce yaz. Ingilizce kelime KULLANMA (RCE, EPS, SIEM, IP, BAN_IP haric).'' @ [0xA] @
          lat ''- Verilen rakamlari degistirme, uydurma.'' @ [0xA] @ lat ''- 4-6 cumle veya madde; net, profesyonel, kisa.'')"

subsection \<open>Canned replies\<close>

record fallback_agent =
  fa_agentId :: ustring
  fa_eps :: rat
  fa_rceDetections :: int
  fa_tarpitActive :: int
  fa_alertsTotal :: int
  fa_incidentsActive :: int
  fa_incidentsCorrelated :: int
  fa_status :: ustring

record fallback_context =
  fc_fleetSummary :: ustring
  fc_lineageSummary :: ustring
  fc_agents :: "fallback_agent list"
  fc_topRisk :: rat
  fc_bannedIps :: "ustring list"

datatype intent = Threat_summary | Rce | Executive | Ban_intent | Compliance_intent | General

definition detectIntent :: "unicode \<Rightarrow> ustring \<Rightarrow> intent" where
  "detectIntent uc message =
     (let m = un_lower uc message; has = (\<lambda>ps. any_of id (map lits ps) m) in
      if has [(lat ''tehdit''), (lat ''threat''), (lat ''ozet''), ([0xF6] @
        lat ''zet''), (lat ''summarize''), (lat ''landscape''), (lat ''bedrohung''), (lat ''menace''), (lat ''paysage''), [0x443, 0x433, 0x440, 0x43E, 0x437], [0x441, 0x432, 0x43E, 0x434, 0x43A], [0x43E, 0x431, 0x437, 0x43E, 0x440]]
      then Threat_summary
      else if has [(lat ''rce''), (lat ''execve''), (lat ''shell spawn''), (lat ''komut calistir''), (lat ''komut '' @ [0xE7] @ lat ''al'' @
        [0x131, 0x15F] @ lat ''t'' @ [0x131] @ lat ''r'')] then Rce
      else if has [(lat ''yonetici''), (lat ''y'' @ [0xF6] @ lat ''netici''), (lat ''executive''), (lat ''management''), (lat ''bugunku olay''), (lat ''bug'' @ [0xFC] @ lat ''nk'' @ [0xFC] @ lat '' olay''), (lat ''bugunun olay''), (lat ''today'' @ [0x27] @ lat ''s events''),
                (lat ''heute''), (lat ''aujourd''), [0x440, 0x443, 0x43A, 0x43E, 0x432, 0x43E, 0x434], [0x438, 0x441, 0x43F, 0x43E, 0x43B, 0x43D, 0x438, 0x442]] then Executive
      else if has [(lat ''ban''), (lat ''engelle''), (lat ''block ip''), (lat ''sperr''), (lat ''bloquer''), [0x431, 0x43B, 0x43E, 0x43A], [0x437, 0x430, 0x431, 0x43B, 0x43E, 0x43A]] then Ban_intent
      else if has [(lat ''uyumluluk''), (lat ''compliance''), (lat ''kvkk''), (lat ''pci''), (lat ''soc2''), (lat ''iso''), [0x441, 0x43E, 0x43E, 0x442, 0x432, 0x435, 0x442, 0x441, 0x442, 0x432], [0x43A, 0x43E, 0x43C, 0x43F, 0x43B, 0x430, 0x435, 0x43D, 0x441]] then Compliance_intent
      else General)"

record aggregated =
  ag_eps :: rat
  ag_alerts :: int
  ag_rce :: int
  ag_tarpit :: int
  ag_incActive :: int
  ag_incCorr :: int

definition aggregate :: "fallback_agent list \<Rightarrow> aggregated" where
  "aggregate agents =
     \<lparr> ag_eps = foldl (\<lambda>s a. fadd s (fa_eps a)) 0 agents, ag_alerts = sum_list (map fa_alertsTotal agents),
       ag_rce = sum_list (map fa_rceDetections agents), ag_tarpit = sum_list (map fa_tarpitActive agents),
       ag_incActive = sum_list (map fa_incidentsActive agents),
       ag_incCorr = sum_list (map fa_incidentsCorrelated agents) \<rparr>"

abbreviation si :: "int \<Rightarrow> ustring" where "si n \<equiv> lat (show_int n)"
abbreviation sn :: "nat \<Rightarrow> ustring" where "sn n \<equiv> lat (show_nat n)"
abbreviation fix1 :: "rat \<Rightarrow> ustring" where "fix1 x \<equiv> lat (toFixed 1 x)"

definition agentDetailLines :: "fallback_agent list \<Rightarrow> string \<Rightarrow> ustring list" where
  "agentDetailLines agents locale =
     (if agents = []
      then (if locale = ''tr'' then [(lat ''Kayitli agent bulunmuyor.'')] else if locale = ''ru'' then [([0x41D, 0x435, 0x442] @ lat '' '' @
        [0x437, 0x430, 0x440, 0x435, 0x433, 0x438, 0x441, 0x442, 0x440, 0x438, 0x440, 0x43E, 0x432, 0x430, 0x43D, 0x43D, 0x44B, 0x445] @ lat '' '' @
          [0x430, 0x433, 0x435, 0x43D, 0x442, 0x43E, 0x432] @ lat ''.'')]
            else [(lat ''No registered agents.'')])
      else map (\<lambda>a. ([0x2022] @ lat '' '') @ fa_agentId a @ (lat '' ('') @ fa_status a @ (lat ''): '') @ si (fa_alertsTotal a)
             @ (if locale = ''tr'' then (lat '' alarm, '') else if locale = ''ru'' then (lat '' '' @ [0x43E, 0x43F, 0x43E, 0x432, 0x435, 0x449] @
               lat ''., '') else (lat '' alerts, ''))
             @ si (fa_rceDetections a)
             @ (if locale = ''tr'' then (lat '' RCE engeli, EPS '') else if locale = ''ru'' then (lat '' RCE '' @ [0x431, 0x43B, 0x43E, 0x43A] @
               lat ''., EPS '') else (lat '' RCE blocks, EPS ''))
             @ fix1 (fa_eps a)) (take 8 agents))"

definition online_agents :: "unicode \<Rightarrow> fallback_agent list \<Rightarrow> nat" where
  "online_agents uc agents = length (filter (\<lambda>a. un_lower uc (fa_status a) = (lat ''online'')) agents)"

definition threatSummary :: "unicode \<Rightarrow> string \<Rightarrow> fallback_context \<Rightarrow> ustring" where
  "threatSummary uc locale ctx =
     (let agents = fc_agents ctx; g = aggregate agents; n = length agents; online = online_agents uc agents;
          dark = (online = 0 \<and> 0 < n)
      in if locale = ''tr'' then
           u_lines ([(lat ''Tehdit Ozeti''), [],
             (if dark then (lat ''Filo kayitlarinda '') @ sn n @
               (lat '' agent var ancak hicbiri su an online degil. Asagidaki rakamlar son senkronize telemetriden geliyor; canli akis icin agent/daemon servislerini kontrol edin.'')
              else (lat ''Filo '') @ sn n @ (lat '' agent ile izleniyor; '') @ sn online @ (lat '' tanesi online.'')), [], (lat ''Durum:'')]
             @ map (\<lambda>b. ([0x2022] @ lat '' '') @ b) (filter (\<lambda>b. b \<noteq> [])
                 [si (ag_alerts g) @ (lat '' guvenlik alarmi''),
                  (if 0 < ag_incActive g then si (ag_incActive g) @ (lat '' aktif olay'') else []),
                  (if 0 < ag_incCorr g then si (ag_incCorr g) @ (lat '' korelasyon'') else []),
                  (if 0 < ag_rce g then si (ag_rce g) @ (lat '' RCE girisimi engellendi'') else (lat ''RCE engeli kaydi yok'')),
                  si (ag_tarpit g) @ (lat '' aktif tarpit''), (lat ''birlesik EPS '') @ fix1 (ag_eps g)])
             @ [[], (lat ''Agent detayi:'')] @ agentDetailLines agents locale
             @ [[], (case find (\<lambda>a. 0 < fa_rceDetections a) agents of
                  Some a \<Rightarrow> (lat ''Dikkat: '') @ fa_agentId a @
                    (lat '' uzerinde RCE engeli var. Attack tree ve kaynak IP incelemesi yapin; tekrar eden kaynak icin BAN_IP onerilir.'')
                | None \<Rightarrow> if 0 < ag_alerts g then (lat ''Alarmlar mevcut '' @ [0x2014] @
                  lat '' /attack-tree ve SIEM loglariyla capraz dogrulama yapin.'')
                    else (lat ''Kritik tehdit sinyali dusuk; filo baglantisi kurulunca telemetriyi yenileyin.''))])
         else if locale = ''ru'' then
           some_lines ([([0x421, 0x432, 0x43E, 0x434, 0x43A, 0x430] @ lat '' '' @ [0x43F, 0x43E] @ lat '' '' @
             [0x443, 0x433, 0x440, 0x43E, 0x437, 0x430, 0x43C]), [],
             (if dark then ([0x412, 0x441, 0x435] @ lat '' '') @ sn n @ (lat '' '' @ [0x430, 0x433, 0x435, 0x43D, 0x442, 0x43E, 0x432] @
               lat '' offline '' @ [0x2014] @ lat '' '' @ [0x446, 0x438, 0x444, 0x440, 0x44B] @ lat '' '' @ [0x438, 0x437] @ lat '' '' @
                 [0x43F, 0x43E, 0x441, 0x43B, 0x435, 0x434, 0x43D, 0x435, 0x439] @ lat '' '' @
                   [0x441, 0x438, 0x43D, 0x445, 0x440, 0x43E, 0x43D, 0x438, 0x437, 0x430, 0x446, 0x438, 0x438] @ lat ''.'')
              else sn online @ (lat ''/'') @ sn n @ (lat '' '' @ [0x430, 0x433, 0x435, 0x43D, 0x442, 0x43E, 0x432] @ lat '' online.'')), [],
             ([0x2022] @ lat '' '') @ si (ag_alerts g) @ (lat '' '' @ [0x43E, 0x43F, 0x43E, 0x432, 0x435, 0x449, 0x435, 0x43D, 0x438, 0x439] @
               lat '', '') @ si (ag_rce g) @ (lat '' '' @ [0x431, 0x43B, 0x43E, 0x43A, 0x438, 0x440, 0x43E, 0x432, 0x43E, 0x43A] @ lat '' RCE, '' @
                 [0x441, 0x443, 0x43C, 0x43C, 0x430, 0x440, 0x43D, 0x44B, 0x439] @ lat '' EPS '') @ fix1 (ag_eps g),
             (if 0 < ag_incActive g then ([0x2022] @ lat '' '') @ si (ag_incActive g) @ (lat '' '' @
               [0x430, 0x43A, 0x442, 0x438, 0x432, 0x43D, 0x44B, 0x445] @ lat '' '' @
                 [0x438, 0x43D, 0x446, 0x438, 0x434, 0x435, 0x43D, 0x442, 0x43E, 0x432] @ lat '', '') @ si (ag_incCorr g) @ (lat '' '' @
                   [0x43A, 0x43E, 0x440, 0x440, 0x435, 0x43B, 0x44F, 0x446, 0x438, 0x439]) else []), []]
             @ agentDetailLines agents locale
             @ [[], (if 0 < ag_rce g then ([0x41F, 0x440, 0x43E, 0x432, 0x435, 0x440, 0x44C, 0x442, 0x435] @ lat '' attack tree '' @ [0x43D, 0x430] @
               lat '' '' @ [0x443, 0x437, 0x43B, 0x435] @ lat ''; '' @ [0x43F, 0x440, 0x438] @ lat '' '' @
                 [0x43F, 0x43E, 0x432, 0x442, 0x43E, 0x440, 0x435, 0x43D, 0x438, 0x438] @ lat '' '' @
                   [0x438, 0x441, 0x442, 0x43E, 0x447, 0x43D, 0x438, 0x43A, 0x430] @ lat '' '' @ [0x2014] @ lat '' BAN_IP.'')
                     else ([0x421, 0x432, 0x435, 0x440, 0x44C, 0x442, 0x435] @ lat '' '' @
                       [0x43E, 0x43F, 0x43E, 0x432, 0x435, 0x449, 0x435, 0x43D, 0x438, 0x44F] @ lat '' '' @ [0x432] @ lat '' /attack-tree '' @
                         [0x438] @ lat '' '' @ [0x43B, 0x43E, 0x433, 0x430, 0x445] @ lat '' SIEM.''))])
         else
           some_lines ([(lat ''Threat Summary''), [],
             (if dark then (lat ''All '') @ sn n @ (lat '' agents are offline '' @ [0x2014] @ lat '' figures below are from the last sync.'')
              else sn online @ (lat ''/'') @ sn n @ (lat '' agents online.'')), [],
             ([0x2022] @ lat '' '') @ si (ag_alerts g) @ (lat '' alerts, '') @ si (ag_rce g) @ (lat '' RCE blocks, combined EPS '') @ fix1 (ag_eps g),
             (if 0 < ag_incActive g then ([0x2022] @ lat '' '') @ si (ag_incActive g) @ (lat '' active incidents, '') @ si (ag_incCorr g) @
               (lat '' correlated'') else []), []]
             @ agentDetailLines agents locale
             @ [[], (if 0 < ag_rce g then (lat ''Review attack tree on the affected node; consider BAN_IP if the source repeats.'')
                     else (lat ''Cross-check alerts in /attack-tree and SIEM logs.''))]))"

definition rceAnalysis :: "string \<Rightarrow> fallback_context \<Rightarrow> ustring" where
  "rceAnalysis locale ctx =
     (let agents = fc_agents ctx; withRce = filter (\<lambda>a. 0 < fa_rceDetections a) agents; rce = ag_rce (aggregate agents)
      in if locale = ''tr'' then
           (if rce = 0 then u_lines
              [(lat ''RCE Analizi''), [], (lat ''Mevcut telemetride engellenmis RCE/execve olayi gorunmuyor.''),
               (lat ''Agent offline ise yeni olay gelmemis olabilir.''), [], (lat ''Kontrol listesi:''),
               ([0x2022] @ lat '' systemctl status log-guardian-daemon''), ([0x2022] @ lat '' log-guardian --status --db events.db''),
               ([0x2022] @ lat '' Dashboard /attack-tree sayfasini yenileyin'')]
            else u_lines ([(lat ''RCE Analizi''), [], (lat ''Toplam '') @ si rce @ (lat '' RCE engelleme kaydi var.''), [], (lat ''Etkilenen node'' @
              [0x27] @ lat ''lar:'')]
              @ map (\<lambda>a. ([0x2022] @ lat '' '') @ fa_agentId a @ (lat '': '') @ si (fa_rceDetections a) @ (lat '' engelleme, '') @
                si (fa_alertsTotal a)
                    @ (lat '' alarm, EPS '') @ fix1 (fa_eps a)) withRce
              @ [[], (lat ''Onerilen adimlar:''), (lat ''1. Attack tree'' @ [0x27] @ lat ''de parent PID ve komut satirini inceleyin''),
                 (lat ''2. Kaynak IP'' @ [0x27] @ lat ''yi threat feed ile eslestirin''), (lat ''3. Tekrarlayan saldirgan icin Filo uzerinden BAN_IP (onayli)''),
                 (lat ''4. EXECVE_GUARD ve WAF kurallarinin guncel oldugunu dogrulayin'')]))
         else if locale = ''ru'' then
           (if rce = 0 then u_lines
              [([0x410, 0x43D, 0x430, 0x43B, 0x438, 0x437] @ lat '' RCE''), [], ([0x412] @ lat '' '' @
                [0x442, 0x435, 0x43A, 0x443, 0x449, 0x435, 0x439] @ lat '' '' @
                  [0x442, 0x435, 0x43B, 0x435, 0x43C, 0x435, 0x442, 0x440, 0x438, 0x438] @ lat '' '' @
                    [0x437, 0x430, 0x431, 0x43B, 0x43E, 0x43A, 0x438, 0x440, 0x43E, 0x432, 0x430, 0x43D, 0x43D, 0x44B, 0x445] @
                      lat '' RCE/execve '' @ [0x43D, 0x435] @ lat '' '' @ [0x432, 0x438, 0x434, 0x43D, 0x43E] @ lat ''.''),
               ([0x41F, 0x440, 0x43E, 0x432, 0x435, 0x440, 0x44C, 0x442, 0x435] @
                 lat '': systemctl status log-guardian-daemon, log-guardian --status.'')]
            else u_lines ([([0x410, 0x43D, 0x430, 0x43B, 0x438, 0x437] @ lat '' RCE''), [], ([0x412, 0x441, 0x435, 0x433, 0x43E] @ lat '' '') @
              si rce @ (lat '' '' @ [0x431, 0x43B, 0x43E, 0x43A, 0x438, 0x440, 0x43E, 0x432, 0x43E, 0x43A] @ lat '' RCE.'')]
              @ map (\<lambda>a. ([0x2022] @ lat '' '') @ fa_agentId a @ (lat '': '') @ si (fa_rceDetections a) @ (lat '' '' @
                [0x431, 0x43B, 0x43E, 0x43A] @ lat ''., '') @ si (fa_alertsTotal a)
                    @ (lat '' '' @ [0x43E, 0x43F, 0x43E, 0x432, 0x435, 0x449] @ lat ''., EPS '') @ fix1 (fa_eps a)) withRce
              @ [[], ([0x420, 0x435, 0x43A, 0x43E, 0x43C, 0x435, 0x43D, 0x434, 0x430, 0x446, 0x438, 0x438] @ lat '': attack tree '' @ [0x2192] @
                lat '' IP '' @ [0x438, 0x441, 0x442, 0x43E, 0x447, 0x43D, 0x438, 0x43A, 0x430] @ lat '' '' @ [0x2192] @ lat '' BAN_IP '' @
                  [0x43F, 0x440, 0x438] @ lat '' '' @ [0x43F, 0x43E, 0x432, 0x442, 0x43E, 0x440, 0x435, 0x43D, 0x438, 0x438] @ lat ''.'')]))
         else if rce = 0 then (lat ''No blocked RCE events in current telemetry. Check daemon status and refresh /attack-tree.'')
         else u_lines ([(lat ''RCE Analysis''), [], si rce @ (lat '' blocked RCE event(s).'')]
              @ map (\<lambda>a. ([0x2022] @ lat '' '') @ fa_agentId a @ (lat '': '') @ si (fa_rceDetections a) @ (lat '' blocks'')) withRce
              @ [[], (lat ''Review attack tree lineage and approve BAN_IP if the source repeats.'')]))"

definition executiveSummary :: "unicode \<Rightarrow> string \<Rightarrow> fallback_context \<Rightarrow> ustring" where
  "executiveSummary uc locale ctx =
     (let agents = fc_agents ctx; g = aggregate agents; n = length agents; online = online_agents uc agents
      in if locale = ''tr'' then some_lines
           [(lat ''Yonetici Ozeti''), [],
            (lat ''Guvenlik durumu: '') @ sn n @ (lat '' agent'' @ [0x27] @ lat ''tan '') @ sn online @ (lat '' tanesi online. '') @
              si (ag_alerts g) @ (lat '' alarm, '') @ si (ag_rce g)
              @ (lat '' kritik RCE engeli, '') @ si (ag_incActive g) @ (lat '' aktif olay.''),
            (lat ''Islem hacmi: birlesik EPS '') @ fix1 (ag_eps g) @ (lat ''.''), [], (lat ''Risk degerlendirmesi:''),
            (if online = 0 \<and> 0 < n then ([0x2022] @ lat '' Operasyonel risk: tum agentlar offline '' @ [0x2014] @
              lat '' gorunurluk kaybi.'') else ([0x2022] @ lat '' Filo baglantisi aktif.'')),
            (if 0 < ag_rce g then ([0x2022] @ lat '' Yetkisiz shell/execve girisimi tespit edildi ve engellendi.'') else ([0x2022] @
              lat '' RCE girisimi kaydi yok.'')),
            (if 5 \<le> ag_alerts g then ([0x2022] @ lat '' Alarm hacmi yuksek ('') @ si (ag_alerts g) @ (lat '') '' @ [0x2014] @
              lat '' SOC incelemesi onerilir.'') else []), [],
            (lat ''Aksiyonlar:''), ([0x2022] @ lat '' Offline node'' @ [0x27] @ lat ''lari yeniden baglayin''), ([0x2022] @
              lat '' /reports uzerinden uyumluluk raporunu arsivleyin''),
            (if 85 \<le> fc_topRisk ctx then ([0x2022] @ lat '' Acil: attack tree riski yuksek '' @ [0x2014] @
              lat '' BAN_IP degerlendirin.'') else [])]
         else if locale = ''ru'' then some_lines
           [([0x418, 0x441, 0x43F, 0x43E, 0x43B, 0x43D, 0x438, 0x442, 0x435, 0x43B, 0x44C, 0x43D, 0x430, 0x44F] @ lat '' '' @
             [0x441, 0x432, 0x43E, 0x434, 0x43A, 0x430]), [],
            sn online @ (lat ''/'') @ sn n @ (lat '' '' @ [0x430, 0x433, 0x435, 0x43D, 0x442, 0x43E, 0x432] @ lat '' online; '') @ si (ag_alerts g) @
              (lat '' '' @ [0x43E, 0x43F, 0x43E, 0x432, 0x435, 0x449, 0x435, 0x43D, 0x438, 0x439] @ lat ''; '') @ si (ag_rce g) @ (lat '' '' @
                [0x431, 0x43B, 0x43E, 0x43A, 0x438, 0x440, 0x43E, 0x432, 0x43E, 0x43A] @ lat '' RCE.''),
            ([0x421, 0x443, 0x43C, 0x43C, 0x430, 0x440, 0x43D, 0x44B, 0x439] @ lat '' EPS '') @ fix1 (ag_eps g) @ (lat ''.''),
            (if 0 < ag_rce g then ([0x417, 0x430, 0x444, 0x438, 0x43A, 0x441, 0x438, 0x440, 0x43E, 0x432, 0x430, 0x43D, 0x430] @ lat '' '' @
              [0x43F, 0x43E, 0x43F, 0x44B, 0x442, 0x43A, 0x430] @ lat '' shell/execve '' @ [0x2014] @ lat '' '' @
                [0x437, 0x430, 0x431, 0x43B, 0x43E, 0x43A, 0x438, 0x440, 0x43E, 0x432, 0x430, 0x43D, 0x430] @ lat ''.'') else []),
            ([0x412, 0x43E, 0x441, 0x441, 0x442, 0x430, 0x43D, 0x43E, 0x432, 0x438, 0x442, 0x435] @ lat '' offline-'' @
              [0x443, 0x437, 0x43B, 0x44B] @ lat ''; '' @ [0x430, 0x440, 0x445, 0x438, 0x432, 0x438, 0x440, 0x443, 0x439, 0x442, 0x435] @ lat '' '' @
                [0x43E, 0x442, 0x447, 0x451, 0x442] @ lat '' '' @
                  [0x441, 0x43E, 0x43E, 0x442, 0x432, 0x435, 0x442, 0x441, 0x442, 0x432, 0x438, 0x44F] @ lat '' '' @ [0x432] @ lat '' /reports.'')]
         else some_lines
           [(lat ''Executive Summary''), [],
            sn online @ (lat ''/'') @ sn n @ (lat '' agents online; '') @ si (ag_alerts g) @ (lat '' alerts; '') @ si (ag_rce g) @
              (lat '' RCE blocks.''),
            (lat ''Combined EPS '') @ fix1 (ag_eps g) @ (lat ''.''),
            (if 0 < ag_rce g then (lat ''Unauthorized shell spawn was blocked.'') else []),
            (lat ''Restore offline agents and archive compliance report from /reports.'')])"

definition banAdvice :: "string \<Rightarrow> fallback_context \<Rightarrow> ustring" where
  "banAdvice locale ctx =
     (let ips = fc_bannedIps ctx; risk = lat (toFixed 0 (fc_topRisk ctx)); high = (85 \<le> fc_topRisk ctx);
          heading = (if locale = ''tr'' then (lat ''Aktif engellenen IP'' @ [0x27] @ lat ''ler (ipset/XDP '' @ [0x2014] @ lat '' /bans sayfasi):'')
                     else if locale = ''ru'' then ([0x410, 0x43A, 0x442, 0x438, 0x432, 0x43D, 0x44B, 0x435] @ lat '' '' @
                       [0x437, 0x430, 0x431, 0x43B, 0x43E, 0x43A, 0x438, 0x440, 0x43E, 0x432, 0x430, 0x43D, 0x43D, 0x44B, 0x435] @
                         lat '' IP (ipset/XDP '' @ [0x2014] @ lat '' /bans):'')
                     else (lat ''Active banned IPs (ipset/XDP '' @ [0x2014] @ lat '' /bans page):''));
          listBlock = (if ips \<noteq> [] then u_lines ([[], heading] @ map (\<lambda>ip. ([0x2022] @ lat '' '') @ ip) ips)
                       else [10, 10] @ (if locale = ''tr'' then (lat ''Su an aktif ban kaydi yok. Filo veya /bans sayfasindan IP ekleyin.'')
                         else if locale = ''ru'' then ([0x41D, 0x435, 0x442] @ lat '' '' @ [0x430, 0x43A, 0x442, 0x438, 0x432, 0x43D, 0x44B, 0x445] @
                           lat '' '' @ [0x431, 0x430, 0x43D, 0x43E, 0x432] @ lat ''. '' @ [0x414, 0x43E, 0x431, 0x430, 0x432, 0x44C, 0x442, 0x435] @
                             lat '' IP '' @ [0x447, 0x435, 0x440, 0x435, 0x437] @ lat '' '' @ [0x444, 0x43B, 0x43E, 0x442] @ lat '' '' @
                               [0x438, 0x43B, 0x438] @ lat '' /bans.'')
                         else (lat ''No active bans. Add via Fleet or /bans page.'')))
      in if locale = ''tr'' then u_lines
           [(lat ''IP Engelleme''), [],
            (if high then (lat ''Risk skoru '') @ risk @ (lat '' '' @ [0x2014] @ lat '' IP ban degerlendirmesi uygun.'')
             else (lat ''Once alarm detayini dogrulayin; risk dusukse izlemeye devam edin.'')),
            listBlock, [], (lat ''Adimlar:''), (lat ''1. Ust menuden **Banli IP'' @ [0x27] @ lat ''ler** (/bans) sayfasini acin''),
            (lat ''2. Attack tree'' @ [0x27] @ lat ''deki saldirgan IP icin Ban tusuna basin''), (lat ''3. Filo uzerinden BAN_IP (audit log'' @
              [0x27] @ lat ''a yazilir)'')]
         else if locale = ''ru'' then u_lines
           [([0x411, 0x43B, 0x43E, 0x43A, 0x438, 0x440, 0x43E, 0x432, 0x43A, 0x430] @ lat '' IP''), [],
            (if high then ([0x420, 0x438, 0x441, 0x43A] @ lat '' '') @ risk @ (lat '' '' @ [0x2014] @ lat '' '' @
              [0x431, 0x43B, 0x43E, 0x43A, 0x438, 0x440, 0x43E, 0x432, 0x43A, 0x430] @ lat '' IP '' @
                [0x443, 0x43C, 0x435, 0x441, 0x442, 0x43D, 0x430] @ lat ''.'') else ([0x421, 0x43D, 0x430, 0x447, 0x430, 0x43B, 0x430] @ lat '' '' @
                  [0x43F, 0x440, 0x43E, 0x432, 0x435, 0x440, 0x44C, 0x442, 0x435] @ lat '' '' @ [0x434, 0x435, 0x442, 0x430, 0x43B, 0x438] @
                    lat '' '' @ [0x43E, 0x43F, 0x43E, 0x432, 0x435, 0x449, 0x435, 0x43D, 0x438, 0x44F] @ lat ''.'')),
            listBlock, ([0x41E, 0x442, 0x43A, 0x440, 0x43E, 0x439, 0x442, 0x435] @ lat '' **'' @
              [0x417, 0x430, 0x431, 0x43B, 0x43E, 0x43A, 0x438, 0x440, 0x43E, 0x432, 0x430, 0x43D, 0x43D, 0x44B, 0x435] @ lat '' IP** (/bans) '' @
                [0x432] @ lat '' '' @ [0x43C, 0x435, 0x43D, 0x44E] @ lat ''.'')]
         else u_lines
           [(lat ''IP Ban''), [], (if high then (lat ''Risk '') @ risk @ (lat '' '' @ [0x2014] @
             lat '' ban may be appropriate.'') else (lat ''Verify alert details first.'')),
            listBlock, (lat ''Open **Banned IPs** (/bans) in the nav bar for the live list.'')])"

definition complianceHint :: "string \<Rightarrow> ustring" where
  "complianceHint locale =
     (if locale = ''tr'' then u_lines
        [(lat ''Uyumluluk''), [], (lat ''SOC2, PCI-DSS, KVKK ve ISO 27001 raporu Reports sayfasindan JSON veya PDF olarak indirilebilir.''),
         (lat ''12 kontrol maddesi canli telemetri ve audit kanitlariyla otomatik doldurulur.'')]
      else if locale = ''ru'' then u_lines
        [[0x421, 0x43E, 0x43E, 0x442, 0x432, 0x435, 0x442, 0x441, 0x442, 0x432, 0x438, 0x435], [], ([0x41E, 0x442, 0x447, 0x451, 0x442, 0x44B] @
          lat '' SOC2, PCI-DSS, KVKK '' @ [0x438] @ lat '' ISO 27001 '' @ [0x2014] @ lat '' '' @ [0x43D, 0x430] @ lat '' '' @
            [0x441, 0x442, 0x440, 0x430, 0x43D, 0x438, 0x446, 0x435] @ lat '' Reports (JSON '' @ [0x438, 0x43B, 0x438] @ lat '' PDF).''),
         (lat ''12 '' @ [0x43A, 0x43E, 0x43D, 0x442, 0x440, 0x43E, 0x43B, 0x435, 0x439] @ lat '' '' @
           [0x437, 0x430, 0x43F, 0x43E, 0x43B, 0x43D, 0x44F, 0x44E, 0x442, 0x441, 0x44F] @ lat '' '' @ [0x438, 0x437] @ lat '' live-'' @
             [0x442, 0x435, 0x43B, 0x435, 0x43C, 0x435, 0x442, 0x440, 0x438, 0x438] @ lat '' '' @ [0x438] @ lat '' audit.'')]
      else (lat ''Download SOC2 / PCI / KVKK compliance report from Reports as JSON or PDF.''))"

definition generalReply :: "string \<Rightarrow> fallback_context \<Rightarrow> ustring \<Rightarrow> ustring" where
  "generalReply locale ctx message =
     (let g = aggregate (fc_agents ctx);
          lineage = (if fc_lineageSummary ctx \<noteq> (lat ''No attack tree data.'') then fc_lineageSummary ctx else [])
      in if locale = ''tr'' then some_lines
           [(lat ''Log Guardian kapsaminda yanit:''), [], fc_fleetSummary ctx, lineage,
            (if 0 < ag_alerts g then si (ag_alerts g) @ (lat '' alarm kayitli.'') else (lat ''Aktif alarm yok.'')),
            (if 0 < ag_rce g then si (ag_rce g) @ (lat '' RCE engeli var '' @ [0x2014] @ lat '' '' @ [0x27] @ lat ''RCE analizi'' @ [0x27] @
              lat '' yazarak detay alabilirsiniz.'') else []), [],
            (lat ''Ornek: tehdit ozeti | RCE analizi | yonetici ozeti | uyumluluk'')]
         else if locale = ''ru'' then some_lines
           [([0x41E, 0x442, 0x432, 0x435, 0x442] @ lat '' Log Guardian:''), [], fc_fleetSummary ctx, lineage,
            (if 0 < ag_alerts g then si (ag_alerts g) @ (lat '' '' @ [0x43E, 0x43F, 0x43E, 0x432, 0x435, 0x449, 0x435, 0x43D, 0x438, 0x439] @
              lat ''.'') else ([0x41D, 0x435, 0x442] @ lat '' '' @ [0x430, 0x43A, 0x442, 0x438, 0x432, 0x43D, 0x44B, 0x445] @ lat '' '' @
                [0x43E, 0x43F, 0x43E, 0x432, 0x435, 0x449, 0x435, 0x43D, 0x438, 0x439] @ lat ''.'')),
            (if 0 < ag_rce g then si (ag_rce g) @ (lat '' '' @ [0x431, 0x43B, 0x43E, 0x43A, 0x438, 0x440, 0x43E, 0x432, 0x43E, 0x43A] @
              lat '' RCE '' @ [0x2014] @ lat '' '' @ [0x43D, 0x430, 0x43F, 0x438, 0x448, 0x438, 0x442, 0x435] @ lat '' '') @ [0xAB] @
                ([0x410, 0x43D, 0x430, 0x43B, 0x438, 0x437] @ lat '' RCE'') @ [0xBB] @ (lat '' '' @ [0x434, 0x43B, 0x44F] @ lat '' '' @
                  [0x434, 0x435, 0x442, 0x430, 0x43B, 0x435, 0x439] @ lat ''.'') else []), [],
            ([0x41F, 0x440, 0x438, 0x43C, 0x435, 0x440, 0x44B] @ lat '': '' @ [0x441, 0x432, 0x43E, 0x434, 0x43A, 0x430] @ lat '' '' @
              [0x443, 0x433, 0x440, 0x43E, 0x437] @ lat '' | '' @ [0x430, 0x43D, 0x430, 0x43B, 0x438, 0x437] @ lat '' RCE | '' @
                [0x438, 0x441, 0x43F, 0x43E, 0x43B, 0x43D, 0x438, 0x442, 0x435, 0x43B, 0x44C, 0x43D, 0x430, 0x44F] @ lat '' '' @
                  [0x441, 0x432, 0x43E, 0x434, 0x43A, 0x430] @ lat '' | '' @
                    [0x441, 0x43E, 0x43E, 0x442, 0x432, 0x435, 0x442, 0x441, 0x442, 0x432, 0x438, 0x435])]
         else some_lines [fc_fleetSummary ctx, lineage, (lat ''You asked: '' @ [0x22]) @ take 80 message @ [0x22]])"

definition buildCopilotFallbackReply :: "unicode \<Rightarrow> string \<Rightarrow> ustring \<Rightarrow> fallback_context \<Rightarrow> ustring" where
  "buildCopilotFallbackReply uc locale userMessage ctx =
     (let trimmed = u_trim userMessage in
      if isGreetingMessage uc trimmed then greetingReply locale
      else if \<not> isLogGuardianTopic uc trimmed then offTopicReply locale
      else case detectIntent uc userMessage of
             Threat_summary \<Rightarrow> threatSummary uc locale ctx
           | Rce \<Rightarrow> rceAnalysis locale ctx
           | Executive \<Rightarrow> executiveSummary uc locale ctx
           | Ban_intent \<Rightarrow> banAdvice locale ctx
           | Compliance_intent \<Rightarrow> complianceHint locale
           | General \<Rightarrow> generalReply locale ctx userMessage)"

subsection \<open>Retrieved evidence\<close>

record rag_alert =
  ra_ip :: ustring
  ra_level :: rat
  ra_message :: ustring
  ra_cite :: "ustring option"

record rag_tree =
  rt_pid :: rat
  rt_comm :: ustring
  rt_risk :: rat
  rt_events :: "(ustring \<times> ustring) list option"
  rt_cite :: "ustring option"

record rag_context =
  rg_evidence_lines :: "ustring list option"
  rg_alerts :: "rag_alert list option"
  rg_attack_trees :: "rag_tree list option"
  rg_top_risk :: "rat option"

record evidence =
  ev_kind :: string
  ev_text :: ustring
  ev_cite :: "ustring option"

text \<open>\<open>cached\<close> is what \<^verbatim>\<open>copilot-rag-context.json\<close> holds and \<open>collected\<close> what the collector script leaves
  there; \<open>None\<close> when the run or the reading fails.\<close>

definition loadCopilotRagContext :: "rag_context option \<Rightarrow> rag_context option \<Rightarrow> rag_context option" where
  "loadCopilotRagContext cached collected =
     (if (case cached of Some c \<Rightarrow> nullish (rg_evidence_lines c) [] \<noteq> [] | None \<Rightarrow> False) then cached
      else case collected of Some c \<Rightarrow> Some c | None \<Rightarrow> cached)"

definition ragToEvidence :: "rag_context option \<Rightarrow> evidence list" where
  "ragToEvidence ctx =
     (case ctx of
        None \<Rightarrow> []
      | Some c \<Rightarrow> take 20
          (map (\<lambda>l. \<lparr> ev_kind = ''rag_line'', ev_text = l, ev_cite = Some l \<rparr>) (nullish (rg_evidence_lines c) [])
           @ map (\<lambda>a. \<lparr> ev_kind = ''db_alert'',
                  ev_text = (lat ''[L'') @ lat (show_num (ra_level a)) @ (lat ''] '') @ ra_ip a @ (lat '': '') @
                    ra_message a, ev_cite = ra_cite a \<rparr>)
               (nullish (rg_alerts c) [])
           @ map (\<lambda>t. \<lparr> ev_kind = ''attack_tree'',
                  ev_text = (lat ''pid='') @ lat (show_num (rt_pid t)) @ (lat '' risk='') @ fix1 (rt_risk t) @ (lat '' '') @ rt_comm t @ (lat '' '')
                    @ u_join (lat '' '' @ [0x2192] @ lat '' '') (map (\<lambda>(ty, d). ty @ (lat '':'') @
                      d) (nullish (rt_events t) [])), ev_cite = rt_cite t \<rparr>)
               (nullish (rg_attack_trees c) [])))"

definition ragPromptBlock :: "rag_context option \<Rightarrow> ustring" where
  "ragPromptBlock ctx =
     (case ctx of
        None \<Rightarrow> (lat ''RAG: no events.db / attack tree context available.'')
      | Some c \<Rightarrow>
          let ls = nullish (rg_evidence_lines c) [] in
          if ls = [] then (lat ''RAG: empty evidence (run copilot_rag_collect.py).'')
          else (lat ''RAG EVIDENCE (cite these rows only '' @ [0x2014] @ lat '' do not invent):'') @ [10]
               @ u_lines (map (\<lambda>(i, l). sn (i + 1) @ (lat ''. '') @ l) (enumerate 0 ls)))"

subsection \<open>The handlers\<close>

record chat_tree =
  ch_risk :: "rat option"
  ch_comm :: "ustring option"
  ch_pid :: "rat option"

record fleet_context =
  fx_fleetSummary :: ustring
  fx_lineageSummary :: ustring
  fx_topRisk :: rat
  fx_scope :: ustring

definition tree_step :: "telemetry \<Rightarrow> nat \<Rightarrow> rat \<times> ustring \<Rightarrow> chat_tree \<Rightarrow> rat \<times> ustring" where
  "tree_step a n st tree =
     (let r = nullish (ch_risk tree) 0 in
      if fst st < r
      then (r, (lat ''Agent '') @ lat (tl_agentId a) @ (lat '': max risk '') @ fix1 r @ (lat '', comm='') @ nullish (ch_comm tree) (lat ''?'') @
        (lat '', pid='')
              @ lat (show_num (nullish (ch_pid tree) 0)) @ (lat '', '') @ sn n @ (lat '' trees.''))
      else st)"

definition lineage_step :: "(string \<Rightarrow> chat_tree list option) \<Rightarrow> rat \<times> ustring \<Rightarrow> telemetry \<Rightarrow> rat \<times> ustring" where
  "lineage_step trees st a =
     (if tl_attackTreeJson a = [] then st
      else case trees (tl_attackTreeJson a) of
             None \<Rightarrow> st
           | Some ts \<Rightarrow> foldl (tree_step a (length ts)) st ts)"

definition buildFleetContext ::
  "(string \<Rightarrow> chat_tree list option) \<Rightarrow> telemetry list \<Rightarrow> bool \<Rightarrow> string option \<Rightarrow> fleet_context" where
  "buildFleetContext trees agents isAdmin userTenant =
     (let (topRisk, lineage) = foldl (lineage_step trees) (0, (lat ''No attack tree data.'')) agents
      in \<lparr> fx_fleetSummary = (lat ''Agents: '') @ sn (length agents) @ (lat '', EPS: '') @
        fix1 (foldl (\<lambda>s a. fadd s (tl_eps a)) 0 agents)
             @ (lat '', RCE blocked: '') @ si (sum_list (map tl_rceDetections agents)) @ (lat '', tarpits: '')
             @ si (sum_list (map tl_tarpitActive agents)) @ (lat '', alerts: '') @ si (sum_list (map tl_alertsTotal agents)),
           fx_lineageSummary = (if 85 \<le> topRisk
             then lineage @ (lat '' CRITICAL: review attack tree; request BAN_IP approval if needed.'') else lineage),
           fx_topRisk = topRisk,
           fx_scope = (if isAdmin then (lat ''Scope: full fleet (admin).'')
             else (lat ''Scope: tenant '') @ lat (nullish userTenant ''unknown'') @ (lat ''.'')) \<rparr>)"

record copilot_payload =
  cp_content :: ustring
  cp_source :: string
  cp_evidence :: "(string \<times> ustring) list"
  cp_suggested_action :: "string option"
  cp_llm :: "(string \<times> string) option"

definition buildCopilotPayload ::
  "ustring \<Rightarrow> string \<Rightarrow> telemetry list \<Rightarrow> rat \<Rightarrow> fleet_context \<Rightarrow> evidence list \<Rightarrow> (string \<times> string) option
   \<Rightarrow> ustring list \<Rightarrow> copilot_payload" where
  "buildCopilotPayload content source agents topRisk fx ragEvidence llm bannedIps =
     \<lparr> cp_content = content, cp_source = source,
       cp_evidence =
         [(''fleet_telemetry'', fx_fleetSummary fx), (''lineage'', fx_lineageSummary fx)]
         @ map (\<lambda>e. (ev_kind e, if nullish (ev_cite e) [] \<noteq> [] then ev_text e @ (lat '' ('') @ the (ev_cite e) @
           (lat '')'') else ev_text e)) ragEvidence
         @ map (\<lambda>a. (''agent_alerts'', lat (tl_agentId a) @ (lat '': alerts='') @ si (tl_alertsTotal a) @ (lat '', rce='') @
           si (tl_rceDetections a)))
             (filter (\<lambda>a. 0 < tl_alertsTotal a) (take 5 agents))
         @ (if bannedIps \<noteq> [] then [(''active_bans'', u_join (lat '', '') bannedIps)] else []),
       cp_suggested_action = (if 85 \<le> topRisk then Some ''BAN_IP'' else if 50 \<le> topRisk then Some ''MONITOR'' else None),
       cp_llm = llm \<rparr>"

definition toFallbackAgents :: "int \<Rightarrow> telemetry list \<Rightarrow> fallback_agent list" where
  "toFallbackAgents now agents =
     map (\<lambda>a. \<lparr> fa_agentId = lat (tl_agentId a), fa_eps = tl_eps a, fa_rceDetections = tl_rceDetections a,
        fa_tarpitActive = tl_tarpitActive a, fa_alertsTotal = tl_alertsTotal a, fa_incidentsActive = tl_incidentsActive a,
        fa_incidentsCorrelated = tl_incidentsCorrelated a,
        fa_status = (if now - tl_lastSeen a < 15000 then (lat ''Online'') else (lat ''Offline'')) \<rparr>) agents"

definition makeFallbackReply ::
  "unicode \<Rightarrow> int \<Rightarrow> string \<Rightarrow> ustring \<Rightarrow> fleet_context \<Rightarrow> rat \<Rightarrow> telemetry list \<Rightarrow> ustring list \<Rightarrow> ustring" where
  "makeFallbackReply uc now locale message fx topRisk agents bannedIps =
     buildCopilotFallbackReply uc locale message
       \<lparr> fc_fleetSummary = fx_fleetSummary fx, fc_lineageSummary = fx_lineageSummary fx, fc_agents = toFallbackAgents now agents,
         fc_topRisk = topRisk, fc_bannedIps = bannedIps \<rparr>"

record llm_status =
  ls_status :: ollama_status
  ls_reachable :: bool

definition copilot_GET :: "(string \<Rightarrow> bool option) \<Rightarrow> env \<Rightarrow> llm_status" where
  "copilot_GET fetch env = \<lparr> ls_status = copilotOllamaStatus env, ls_reachable = checkOllamaReachable fetch env None \<rparr>"

definition system_prompt :: "string \<Rightarrow> fleet_context \<Rightarrow> ustring \<Rightarrow> ustring \<Rightarrow> ustring" where
  "system_prompt locale fx banListSummary ragBlock =
     (lat ''You are the Log Guardian security assistant ONLY. You do not answer questions outside Log Guardian.'' @ [0xA, 0xA]) @
       logGuardianScopeRule locale @ [10, 10] @ fx_scope fx @ [10, 10] @ (lat ''LIVE FLEET (use only this data):'' @ [0xA] @ lat ''- '') @
         fx_fleetSummary fx @ ([0xA] @ lat ''- '') @ fx_lineageSummary fx @ ([0xA] @ lat ''- '') @ banListSummary @ [10, 10] @ ragBlock @ [10, 10] @
           localeInstruction locale @ [10]
     @ (if locale = ''tr'' then [10] @ turkishSocPrompt else []) @ ([0xA, 0xA] @ lat ''RULES:'' @ [0xA] @ lat ''- Keep answers short (3'' @
       [0x2013] @ lat ''8 sentences or bullets).'' @ [0xA] @ lat ''- Do not invent numbers or events not in the data above.'' @ [0xA] @
         lat ''- Do NOT invent IP addresses for bans; only list IPs from ACTIVE BANNED IPs line above.'' @ [0xA] @
           lat ''- When citing alerts or lineage, reference RAG EVIDENCE line numbers.'' @ [0xA] @
             lat ''- If risk >= 85, suggest concrete steps (IP ban, WAF, pod kill) and ask approval before destructive actions.'' @ [0xA] @
               lat ''- No repetitive filler words or product marketing.'' @ [0xA] @ lat ''- Focus on the user'' @ [0x27] @
                 lat ''s question about Log Guardian.'')"

text \<open>The body of the request: \<open>None\<close> when it is no JSON; a message that is missing, empty or no text is
  the empty one.\<close>

record chat_body =
  cb_message :: ustring
  cb_locale :: "string option"

datatype chat_reply = Chat copilot_payload | Message_required | Chat_error

text \<open>What the handler asks of its surroundings.\<close>

record chat_world =
  cw_env :: env
  cw_now :: int
  cw_unicode :: unicode
  cw_rows :: "telemetry list option"
  cw_bans :: bans_world
  cw_rag_cached :: "rag_context option"
  cw_rag_collected :: "rag_context option"
  cw_trees :: "string \<Rightarrow> chat_tree list option"
  cw_parse :: "string \<Rightarrow> json option"
  cw_llm :: "ustring \<times> ustring \<Rightarrow> string \<Rightarrow> string \<Rightarrow> ollama_response"

definition chat_rows :: "chat_world \<Rightarrow> request \<Rightarrow> telemetry list option" where
  "chat_rows w rq =
     (case cw_rows w of
        None \<Rightarrow> None
      | Some rows \<Rightarrow>
          if header rq ''x-user-role'' = Some ''admin'' then Some rows
          else case header rq ''x-user-tenant'' of
                 None \<Rightarrow> None
               | Some t \<Rightarrow> Some (filter (\<lambda>a. tl_tenantId a = t) rows))"

definition reply_locale :: "unicode \<Rightarrow> chat_body \<Rightarrow> string" where
  "reply_locale uc body =
     (let detected = detectTextLocale uc (cb_message body) in
      case cb_locale body of
        Some l \<Rightarrow> if l \<in> {''tr'', ''en'', ''de'', ''fr'', ''ru''} \<and> length (u_trim (cb_message body)) < 4 then l else detected
      | None \<Rightarrow> detected)"

definition default_model :: "env \<Rightarrow> string" where
  "default_model env = or_default (js_or (env ''COPILOT_MODEL'') (env ''OLLAMA_MODEL'')) ''llama3.2:3b''"

definition all_bans :: fetch_opts where
  "all_bans = \<lparr> fo_countOnly = False, fo_limit = None, fo_offset = None, fo_search = None \<rparr>"

text \<open>The choice of the answer: \<open>pay\<close> is the payload of a content, a source and a model, \<open>fb\<close> the canned
  reply and \<open>sent\<close> what the language model would be asked.\<close>

definition copilot_choice ::
  "chat_world \<Rightarrow> string \<Rightarrow> (ustring \<Rightarrow> string \<Rightarrow> (string \<times> string) option \<Rightarrow> copilot_payload) \<Rightarrow> ustring \<Rightarrow> ustring \<times> ustring
   \<Rightarrow> copilot_payload \<times> (ustring \<times> ustring) option" where
  "copilot_choice w locale pay fb sent =
     (let uc = cw_unicode w in
      if \<not> isLogGuardianTopic uc (snd sent) then (pay (offTopicReply locale) ''scope'' None, None)
      else if shouldPreferStructuredReply (cw_env w) locale then (pay fb ''structured'' None, None)
      else case collectCopilotChat (cw_parse w) (cw_llm w sent) (cw_env w) None of
             Inr llm \<Rightarrow>
               (if cc_content llm = [] then pay fb ''fallback'' None
                else if isCopilotReplyLowQuality uc (lat (cc_content llm)) locale
                then pay fb ''fallback'' (Some (cc_provider llm, cc_model llm))
                else pay (lat (cc_content llm)) (cc_provider llm) (Some (cc_provider llm, cc_model llm)), Some sent)
           | Inl e \<Rightarrow> (pay fb ''fallback'' (Some (''ollama'', default_model (cw_env w))), Some sent))"

definition copilot_answer ::
  "chat_world \<Rightarrow> request \<Rightarrow> chat_body \<Rightarrow> telemetry list \<Rightarrow> copilot_payload \<times> (ustring \<times> ustring) option" where
  "copilot_answer w rq body agents =
     (let message = cb_message body; uc = cw_unicode w;
          banData = fetchBannedIps (cw_bans w) all_bans;
          bannedIps = map (\<lambda>b. lat (be_ip b)) (br_bans banData);
          banListSummary = (if bannedIps \<noteq> [] then (lat ''ACTIVE BANNED IPs ('') @ lat (br_source banData) @ (lat ''): '') @
            u_join (lat '', '') bannedIps
                            else (lat ''ACTIVE BANNED IPs: none (see /bans page)''));
          ragCtx = loadCopilotRagContext (cw_rag_cached w) (cw_rag_collected w);
          fx = buildFleetContext (cw_trees w) agents (header rq ''x-user-role'' = Some ''admin'') (header rq ''x-user-tenant'');
          risk = max (fx_topRisk fx) (nullish (Option.bind ragCtx rg_top_risk) 0);
          locale = reply_locale uc body
      in copilot_choice w locale
           (\<lambda>content source llm. buildCopilotPayload content source agents risk fx (ragToEvidence ragCtx) llm [])
           (makeFallbackReply uc (cw_now w) locale message fx risk agents bannedIps)
           (system_prompt locale fx banListSummary (ragPromptBlock ragCtx), message))"

definition copilot_POST :: "chat_world \<Rightarrow> request \<Rightarrow> chat_body option \<Rightarrow> chat_reply \<times> (ustring \<times> ustring) option" where
  "copilot_POST w rq body =
     (case body of
        None \<Rightarrow> (Chat_error, None)
      | Some b \<Rightarrow>
          if cb_message b = [] then (Message_required, None)
          else case chat_rows w rq of
                 None \<Rightarrow> (Chat_error, None)
               | Some agents \<Rightarrow> (case copilot_answer w rq b agents of (pay, sent) \<Rightarrow> (Chat pay, sent)))"

subsection \<open>Lemmas\<close>

text \<open>The risk reported for the fleet is the largest risk of its trees.\<close>

lemma tree_fold_risk:
  "fst (foldl (tree_step a n) st ts) = foldl max (fst st) (map (\<lambda>t. nullish (ch_risk t) 0) ts)"
  by (induction ts arbitrary: st) (auto simp: tree_step_def Let_def max_def)

text \<open>The letters u and o with a diaeresis stand in the Turkish class, which is tested before the German one.\<close>

lemma umlaut_is_turkish:
  assumes "u \<in> set (u_trim t)" "u \<in> {0xFC, 0xF6, 0xDC, 0xD6}"
  shows "detectTextLocale uc t = ''tr''"
proof -
  have "u \<in> set TR_CHARS" using assms(2) by (auto simp: TR_CHARS_def lat_def)
  then have "list_ex (\<lambda>u. u \<in> set TR_CHARS) (u_trim t)" "u_trim t \<noteq> []"
    using assms(1) by (auto simp: list_ex_iff)
  then show ?thesis by (simp add: detectTextLocale_def)
qed

definition ascii_unicode :: unicode where
  "ascii_unicode = \<lparr> un_lower = map (\<lambda>u. if 65 \<le> u \<and> u \<le> 90 then u + 32 else u),
     un_fold = (\<lambda>u. if 97 \<le> u \<and> u \<le> 122 then u - 32 else u) \<rparr>"

text \<open>Short words of the lists are English words too.\<close>

lemma english_misread:
  "detectTextLocale ascii_unicode (lat ''my IP'') = ''ru''"
  "detectTextLocale ascii_unicode (lat ''ban it'') = ''tr''"
  by (simp_all add: detectTextLocale_def Let_def u_trim_def u_ws_def lat_def TR_CHARS_def TR_WORDS_def RU_WORDS_def
      ascii_unicode_def boundary_def first_unit_def word_unit_def bounded_word.simps)

lemma chat_rows_scoped:
  assumes "header rq ''x-user-role'' \<noteq> Some ''admin''" "header rq ''x-user-tenant'' = Some t"
  shows "chat_rows w rq = map_option (filter (\<lambda>a. tl_tenantId a = t)) (cw_rows w)"
  using assms by (simp add: chat_rows_def split: option.split)

lemma copilot_choice_rows: "copilot_choice (w\<lparr>cw_rows := rows\<rparr>) = copilot_choice w"
  by (simp add: copilot_choice_def fun_eq_iff Let_def split: sum.split)

lemma copilot_answer_rows: "copilot_answer (w\<lparr>cw_rows := rows\<rparr>) rq b agents = copilot_answer w rq b agents"
  unfolding copilot_answer_def copilot_choice_rows by simp

lemma copilot_choice_sent:
  "snd (copilot_choice w locale pay fb sent) = Some s \<Longrightarrow> s = sent \<and> isLogGuardianTopic (cw_unicode w) (snd sent)"
  by (auto simp: copilot_choice_def Let_def split: if_splits sum.splits)

lemma copilot_answer_sent:
  "snd (copilot_answer w rq b agents) = Some s \<Longrightarrow> snd s = cb_message b \<and> isLogGuardianTopic (cw_unicode w) (cb_message b)"
  unfolding copilot_answer_def Let_def by (drule copilot_choice_sent) simp

subsection \<open>Properties\<close>

text \<open>C19. The copilot answers a user who is no administrator from the telemetry of that user's tenant:
the reply and the prompt are the same as if the table held no other tenant's rows. The language model is
sent nothing but a message of the user that the scope rules admit.\<close>

theorem copilot_confined:
  assumes "header rq ''x-user-role'' \<noteq> Some ''admin''" "header rq ''x-user-tenant'' = Some t"
  shows "copilot_POST w rq body =
           copilot_POST (w\<lparr>cw_rows := map_option (filter (\<lambda>a. tl_tenantId a = t)) (cw_rows w)\<rparr>) rq body
     \<and> (\<forall>sent. snd (copilot_POST w rq body) = Some sent \<longrightarrow>
          (\<exists>b. body = Some b \<and> snd sent = cb_message b \<and> isLogGuardianTopic (cw_unicode w) (cb_message b)))"
proof
  have "chat_rows (w\<lparr>cw_rows := map_option (filter (\<lambda>a. tl_tenantId a = t)) (cw_rows w)\<rparr>) rq = chat_rows w rq"
    unfolding chat_rows_scoped [OF assms] by (simp add: option.map_comp comp_def)
  then show "copilot_POST w rq body =
      copilot_POST (w\<lparr>cw_rows := map_option (filter (\<lambda>a. tl_tenantId a = t)) (cw_rows w)\<rparr>) rq body"
    by (cases body) (simp_all add: copilot_POST_def copilot_answer_rows split: option.split)
  show "\<forall>sent. snd (copilot_POST w rq body) = Some sent \<longrightarrow>
      (\<exists>b. body = Some b \<and> snd sent = cb_message b \<and> isLogGuardianTopic (cw_unicode w) (cb_message b))"
  proof (cases body)
    case (Some b)
    then show ?thesis
      using copilot_answer_sent [of w rq b] by (auto simp: copilot_POST_def split_beta split: option.split)
  qed (simp add: copilot_POST_def)
qed

definition c_world :: chat_world where
  "c_world =
     \<lparr> cw_env = (\<lambda>_. None), cw_now = 9, cw_unicode = ascii_unicode,
       cw_rows = Some [t_row, t_row\<lparr>tl_tenantId := ''t2'', tl_alertsTotal := 5\<rparr>],
       cw_bans = \<lparr> bw_env = (\<lambda>_. None), bw_fetch = (\<lambda>_ _. Failed), bw_files = (\<lambda>_. None), bw_parse = (\<lambda>_. None), bw_json = (\<lambda>_. None) \<rparr>,
       cw_rag_cached = None, cw_rag_collected = None, cw_trees = (\<lambda>_. None), cw_parse = (\<lambda>_. None),
       cw_llm = (\<lambda>_ _ _. No_body) \<rparr>"

theorem copilot_confined_witness:
  "header q_post ''x-user-role'' \<noteq> Some ''admin'' \<and> header q_post ''x-user-tenant'' = Some ''t1''
   \<and> copilot_POST c_world q_post (Some \<lparr> cb_message = (lat ''threats''), cb_locale = None \<rparr>) =
       copilot_POST (c_world\<lparr>cw_rows := Some [t_row]\<rparr>) q_post (Some \<lparr> cb_message = (lat ''threats''), cb_locale = None \<rparr>)"
proof -
  have rows: "map_option (filter (\<lambda>a. tl_tenantId a = ''t1'')) (cw_rows c_world) = Some [t_row]"
    by (simp add: c_world_def t_row_def)
  have rq: "header q_post ''x-user-role'' \<noteq> Some ''admin''" using q_header by simp
  show ?thesis
    using copilot_confined [OF rq q_header(2), of c_world "Some \<lparr> cb_message = (lat ''threats''), cb_locale = None \<rparr>"] rq q_header(2)
    unfolding rows by blast
qed

end
