(* ===== verification/Metrics.thy ===== *)
theory Metrics
  imports Telemetry JsNumber
begin

section \<open>Prometheus metrics\<close>

text \<open>
  \<^verbatim>\<open>lib/prometheusParse.ts\<close>, \<^verbatim>\<open>lib/prometheusClient.ts\<close>,
  \<^verbatim>\<open>lib/guardianMetricsUrl.ts\<close>, \<^verbatim>\<open>app/api/metrics/fleet/route.ts\<close> and
  \<^verbatim>\<open>app/api/metrics/live/route.ts\<close>. The metric names given to the parser are letters,
  digits and underscores, so they stand for themselves in the pattern built from them. What a
  server answers and how a time of day prints are arguments.
\<close>

subsection \<open>Parsing the text format\<close>

definition float_rx :: rx where
  "float_rx =
     RSeq (ropt (rset ''+-''))
       (RSeq (RAlt (RSeq (rplus rdigit) (RSeq (ropt (rlit ''.'')) (RStar rdigit)))
                   (RSeq (rlit ''.'') (rplus rdigit)))
             (ropt (RSeq (rset ''eE'') (RSeq (ropt (rset ''+-'')) (rplus rdigit)))))"

text \<open>\<open>\}\s+(float)\s*$\<close>: neither blanks nor the number hold a brace, so only the last brace can match.\<close>

definition brace_value :: "string \<Rightarrow> string option" where
  "brace_value line =
     (let parts = splitOn CHR ''}'' line; rest = last parts in
      if 1 < length parts \<and> rest \<noteq> [] \<and> js_ws (hd rest) \<and> rx_full float_rx (trim rest)
      then Some (trim rest) else None)"

text \<open>\<open>^metric\s+([+-]?\d+(?:\.\d+)?)\<close>: the longest such prefix.\<close>

definition bare_value :: "string \<Rightarrow> string \<Rightarrow> string option" where
  "bare_value metric line =
     (let rest = drop (length metric) line;
          t = dropWhile js_ws rest;
          sign = (if t \<noteq> [] \<and> hd t \<in> set ''+-'' then [hd t] else []);
          u = drop (length sign) t;
          ip = takeWhile is_digit u;
          v = dropWhile is_digit u;
          fp = (if v \<noteq> [] \<and> hd v = CHR ''.'' then takeWhile is_digit (tl v) else [])
      in if startsWith line metric \<and> rest \<noteq> [] \<and> js_ws (hd rest) \<and> ip \<noteq> []
         then Some (sign @ ip @ (if fp \<noteq> [] then ''.'' @ fp else [])) else None)"

fun float_value :: "jsfloat \<Rightarrow> rat" where
  "float_value (FNum q) = q"
| "float_value _ = 0"

definition has_label :: "(string \<times> string) option \<Rightarrow> string \<Rightarrow> bool" where
  "has_label label line =
     (case label of
        None \<Rightarrow> True
      | Some (k, v) \<Rightarrow>
          if k \<noteq> [] \<and> v \<noteq> [] then str_includes line (k @ ''='' @ [CHR 0x22] @ v @ [CHR 0x22]) else True)"

fun gauge_lines :: "string \<Rightarrow> (string \<times> string) option \<Rightarrow> string list \<Rightarrow> rat option" where
  "gauge_lines metric label [] = None"
| "gauge_lines metric label (line # lines) =
     (if \<not> startsWith line metric \<or> startsWith line ''#'' \<or> \<not> has_label label line
      then gauge_lines metric label lines
      else case brace_value line of
             Some m \<Rightarrow> Some (float_value (parseFloat m))
           | None \<Rightarrow>
               (case bare_value metric line of
                  Some m \<Rightarrow> Some (float_value (parseFloat m))
                | None \<Rightarrow> gauge_lines metric label lines))"

definition parsePrometheusGauge :: "string \<Rightarrow> string \<Rightarrow> (string \<times> string) option \<Rightarrow> rat option" where
  "parsePrometheusGauge body metric label = gauge_lines metric label (splitOn (CHR 0x0A) body)"

definition SNAPSHOT_GAUGES :: "(string \<times> string) list" where
  "SNAPSHOT_GAUGES =
     [(''eps'', ''eps''), (''eps_peak'', ''eps_peak''), (''lines_total'', ''lines_total''),
      (''alerts_total'', ''alerts_total''), (''bans_success'', ''bans_success''), (''bans_failed'', ''bans_fail''),
      (''unique_ips'', ''unique_ips''), (''parse_errors'', ''parse_errors_total''), (''xdp_active'', ''xdp_active''),
      (''ja3_clusters_active'', ''ja3_clusters_active''), (''ja3_cluster_bans_total'', ''ja3_cluster_bans_total''),
      (''dist_risk_buckets_active'', ''dist_risk_buckets_active''),
      (''dist_risk_bonus_applied_total'', ''dist_risk_bonus_applied_total''),
      (''dist_risk_enabled'', ''dist_risk_enabled''), (''threat_total_iocs'', ''threat_total_iocs''),
      (''fp_trusted_ips'', ''fp_trusted_ips''), (''ban_pipeline_ipset'', ''ban_pipeline_ipset''),
      (''ban_pipeline_ipc'', ''ban_pipeline_ipc''), (''ban_pipeline_xdp'', ''ban_pipeline_xdp''),
      (''ban_pipeline_failed'', ''ban_pipeline_failed''), (''ban_events_total'', ''ban_events_total''),
      (''intel_ban_legacy_rows'', ''intel_ban_legacy_rows''), (''intel_ban_summary_rows'', ''intel_ban_summary_rows''),
      (''threat_last_sync_ts'', ''threat_last_sync_ts''), (''threat_last_applied'', ''threat_last_applied''),
      (''threat_last_failed'', ''threat_last_failed''), (''fp_learn_enabled'', ''fp_learn_enabled''),
      (''fp_suppressed_total'', ''fp_suppressed_total''), (''api_requests_total'', ''api_requests_total''),
      (''api_auth_fail_total'', ''api_auth_fail_total''), (''api_rate_limited_total'', ''api_rate_limited_total''),
      (''webhook_sent_total'', ''webhook_sent_total''), (''webhook_fail_total'', ''webhook_fail_total''),
      (''webhook_queue_drops_total'', ''webhook_queue_drops_total''), (''telegram_ack_24h'', ''telegram_ack_24h''),
      (''telegram_unacked_24h'', ''telegram_unacked_24h''), (''webhook_quiet_hours'', ''webhook_quiet_hours''),
      (''webhook_quiet_active'', ''webhook_quiet_active''), (''webhook_telegram_route'', ''webhook_telegram_route''),
      (''webhook_telegram_batch_sec'', ''webhook_telegram_batch_sec''),
      (''webhook_queue_depth'', ''webhook_queue_depth'')]"

text \<open>The numeric fields of the snapshot in order, by name.\<close>

record live_metrics =
  lm_gauges :: "(string \<times> rat) list"
  lm_reachable :: bool
  lm_ts :: int

definition guardian_num :: "env \<Rightarrow> string \<Rightarrow> string \<Rightarrow> rat" where
  "guardian_num env body m =
     nullish (parsePrometheusGauge body m (Some (''tenant_id'', or_default (env ''METRICS_TENANT'') ''default'')))
       (nullish (parsePrometheusGauge body m None) 0)"

definition status_num :: "string \<Rightarrow> string \<Rightarrow> rat" where
  "status_num body code = nullish (parsePrometheusGauge body ''loganalyzer_http_status_total'' (Some (''code'', code))) 0"

definition parseGuardianMetrics :: "env \<Rightarrow> int \<Rightarrow> string \<Rightarrow> live_metrics" where
  "parseGuardianMetrics env now body =
     \<lparr> lm_gauges =
         map (\<lambda>(field, m). let q = guardian_num env body (''loganalyzer_'' @ m) in
                (field, if field = ''xdp_active'' then (if q = 1 then 1 else 0) else q)) SNAPSHOT_GAUGES
         @ [(''http_4xx'', status_num body ''4xx''), (''http_5xx'', status_num body ''5xx'')],
       lm_reachable = str_includes body ''loganalyzer_eps'', lm_ts = now \<rparr>"

subsection \<open>Live metrics with their cache\<close>

definition guardianMetricsUrl :: "env \<Rightarrow> string" where
  "guardianMetricsUrl env =
     or_default (js_or (env ''GUARDIAN_METRICS_URL'') (env ''PROMETHEUS_METRICS_URL''))
       ''http://metrics-relay:19091/metrics''"

definition CACHE_MS :: int where "CACHE_MS = 3000"

type_synonym metrics_cache = "(int \<times> live_metrics) option"

datatype scrape = Scraped string | Scrape_status nat | Scrape_failed string

datatype live_reply = Live_body live_metrics | Live_http nat int | Live_error string int

definition live_GET :: "(string \<Rightarrow> scrape) \<Rightarrow> env \<Rightarrow> int \<Rightarrow> metrics_cache \<Rightarrow> live_reply \<times> metrics_cache" where
  "live_GET fetch env now cache =
     (case cache of
        Some (ts, body) \<Rightarrow>
          if now - ts < CACHE_MS then (Live_body body, cache)
          else (case fetch (guardianMetricsUrl env) of
                  Scrape_status st \<Rightarrow> (Live_http st now, cache)
                | Scraped text \<Rightarrow> let b = parseGuardianMetrics env now text in (Live_body b, Some (now, b))
                | Scrape_failed e \<Rightarrow> (Live_error e now, cache))
      | None \<Rightarrow>
          (case fetch (guardianMetricsUrl env) of
             Scrape_status st \<Rightarrow> (Live_http st now, cache)
           | Scraped text \<Rightarrow> let b = parseGuardianMetrics env now text in (Live_body b, Some (now, b))
           | Scrape_failed e \<Rightarrow> (Live_error e now, cache)))"

subsection \<open>The fleet scrape\<close>

definition escape_label :: "string \<Rightarrow> string" where
  "escape_label s =
     concat (map (\<lambda>c. if c = CHR 0x5C \<or> c = CHR 0x22 then [CHR 0x5C, c] else [c]) s)"

definition ONLINE_MS :: int where "ONLINE_MS = 15 * 60 * 1000"

definition age_ms :: "int \<Rightarrow> telemetry \<Rightarrow> int" where
  "age_ms now a = max 0 (now - tl_lastSeen a)"

definition ageSec :: "int \<Rightarrow> telemetry \<Rightarrow> rat" where
  "ageSec now a = fdiv (of_int (age_ms now a)) 1000"

definition tenant_label :: "telemetry \<Rightarrow> string" where
  "tenant_label a = (if tl_tenantId a = [] then ''default'' else tl_tenantId a)"

definition quoted :: "string \<Rightarrow> string" where
  "quoted s = [CHR 0x22] @ escape_label s @ [CHR 0x22]"

definition age_line :: "int \<Rightarrow> telemetry \<Rightarrow> string" where
  "age_line now a =
     ''loganalyzer_fleet_agent_last_seen_age_seconds{tenant_id='' @ quoted (tenant_label a) @ '',agent_id=''
     @ quoted (tl_agentId a) @ ''} '' @ toFixed 1 (ageSec now a)"

type_synonym online_map = "(string, nat \<times> nat) jsmap"

definition online_step :: "int \<Rightarrow> online_map \<Rightarrow> telemetry \<Rightarrow> online_map" where
  "online_step now m a =
     (let tid = tenant_label a; cur = nullish (map_get m tid) (0, 0)
      in map_set m tid (if age_ms now a < ONLINE_MS then fst cur + 1 else fst cur, snd cur + 1))"

definition tenant_lines :: "string \<times> nat \<times> nat \<Rightarrow> string list" where
  "tenant_lines e =
     (case e of (tid, online, n) \<Rightarrow>
        [''loganalyzer_fleet_agent_online{tenant_id='' @ quoted tid @ ''} '' @ show_nat online,
         ''loganalyzer_fleet_agent_total{tenant_id='' @ quoted tid @ ''} '' @ show_nat n])"

definition metrics_help :: "string list" where
  "metrics_help =
     [''# HELP loganalyzer_fleet_agent_online Agents with last_seen < 15m (Grafana fleet heartbeat)'',
      ''# TYPE loganalyzer_fleet_agent_online gauge'',
      ''# HELP loganalyzer_fleet_agent_total Telemetry agents in dashboard DB'',
      ''# TYPE loganalyzer_fleet_agent_total gauge'',
      ''# HELP loganalyzer_fleet_agent_last_seen_age_seconds Seconds since last telemetry heartbeat'',
      ''# TYPE loganalyzer_fleet_agent_last_seen_age_seconds gauge'']"

definition metrics_fleet_GET :: "int \<Rightarrow> telemetry list \<Rightarrow> string" where
  "metrics_fleet_GET now agents =
     (let byTenant = foldl (online_step now) [] agents in
      join [CHR 0x0A]
        (metrics_help
         @ (if byTenant = [] then concat (map tenant_lines [(''default'', 0, 0)]) else concat (map tenant_lines byTenant))
         @ map (age_line now) agents @ [[]]))"

subsection \<open>Range queries\<close>

definition prometheusBaseUrl :: "env \<Rightarrow> string" where
  "prometheusBaseUrl env =
     strip_slash (or_default (js_or (env ''PROMETHEUS_URL'') (env ''PROMETHEUS_QUERY_URL''))
       ''http://host.docker.internal:9090'')"

definition prom_num :: "string option \<Rightarrow> rat" where
  "prom_num s = (case s of None \<Rightarrow> 0 | Some t \<Rightarrow> if t = ''NaN'' then 0 else float_value (parseFloat t))"

text \<open>An answer: whether it is ok, its status, and the values of the first result row if there is one.\<close>

record 'a prom_answer =
  pa_ok :: bool
  pa_status :: string
  pa_first :: "'a option"

definition promInstant :: "(string \<Rightarrow> string option prom_answer) \<Rightarrow> string \<Rightarrow> rat option" where
  "promInstant ask q =
     (let r = ask q in
      if \<not> pa_ok r \<or> pa_status r \<noteq> ''success'' then None else map_option prom_num (pa_first r))"

record ts_point =
  ts_ts :: rat
  ts_label :: string
  ts_v :: rat

type_synonym prom_range = "string \<Rightarrow> int \<Rightarrow> int \<Rightarrow> int \<Rightarrow> (rat \<times> string) list option prom_answer"

definition promRange :: "(rat \<Rightarrow> string) \<Rightarrow> prom_range \<Rightarrow> int \<Rightarrow> string \<Rightarrow> int \<Rightarrow> int \<Rightarrow> ts_point list" where
  "promRange clock ask now q rangeSec step =
     (let end = now div 1000; r = ask q (end - rangeSec) end step in
      if \<not> pa_ok r \<or> pa_status r \<noteq> ''success'' then []
      else case pa_first r of
             None \<Rightarrow> []
           | Some vals \<Rightarrow>
               map (\<lambda>(ts, val). \<lparr> ts_ts = ts * 1000, ts_label = clock (ts * 1000), ts_v = prom_num (Some val) \<rparr>)
                 (nullish vals []))"

record multi_row =
  mw_ts :: rat
  mw_t :: string
  mw_series :: "(string, rat) jsmap"

type_synonym multi_map = "(rat, multi_row) jsmap"

definition multi_point :: "string \<Rightarrow> multi_map \<Rightarrow> ts_point \<Rightarrow> multi_map" where
  "multi_point key m p =
     (let row = nullish (map_get m (ts_ts p)) \<lparr> mw_ts = ts_ts p, mw_t = ts_label p, mw_series = [] \<rparr>
      in map_set m (ts_ts p) (row\<lparr>mw_series := map_set (mw_series row) key (ts_v p)\<rparr>))"

definition promRangeMulti ::
  "(rat \<Rightarrow> string) \<Rightarrow> prom_range \<Rightarrow> int \<Rightarrow> (string \<times> string) list \<Rightarrow> int \<Rightarrow> int \<Rightarrow> multi_row list" where
  "promRangeMulti clock ask now series rangeSec step =
     sort_key mw_ts (map snd (foldl (\<lambda>m (key, q). foldl (multi_point key) m (promRange clock ask now q rangeSec step))
       [] series))"

definition promReachable :: "(string \<Rightarrow> bool option) \<Rightarrow> env \<Rightarrow> bool" where
  "promReachable fetch env = (fetch (prometheusBaseUrl env @ ''/api/v1/query?query=up'') = Some True)"

subsection \<open>Reading the scrape back\<close>

lemma splitOn_join:
  "ls \<noteq> [] \<Longrightarrow> (\<And>l. l \<in> set ls \<Longrightarrow> c \<notin> set l) \<Longrightarrow> splitOn c (join [c] ls) = ls"
proof (induction "[c]" ls rule: join.induct)
  case (2 s)
  then show ?case by (simp add: splitOn_id)
next
  case (3 s t ts)
  then show ?case using splitOn_append [of c s "join [c] (t # ts)"] by simp
qed simp

lemma gauge_lines_append:
  "gauge_lines m l (xs @ ys) = (case gauge_lines m l xs of Some v \<Rightarrow> Some v | None \<Rightarrow> gauge_lines m l ys)"
  by (induction xs) (auto split: option.splits)

lemma gauge_lines_skip: "(\<And>x. x \<in> set xs \<Longrightarrow> \<not> startsWith x m) \<Longrightarrow> gauge_lines m l xs = None"
  by (induction xs) auto

lemma float_digits:
  assumes "ds \<noteq> []" "\<And>c. c \<in> set ds \<Longrightarrow> is_digit c"
  shows "rx_full float_rx ds" "float_value (parseFloat ds) = of_nat (dec_val ds)"
proof -
  have "matches (rplus rdigit) ds" using assms by (simp add: rdigit_def matches_plus_cls)
  moreover have "matches (RSeq (ropt (rlit ''.'')) (RStar rdigit)) []"
    by (simp add: matches_seq_iff matches.m_star0)
  ultimately have "matches (RSeq (rplus rdigit) (RSeq (ropt (rlit ''.'')) (RStar rdigit))) (ds @ [])"
    by (rule matches.m_seq)
  then have "matches float_rx ([] @ ds @ [])"
    unfolding float_rx_def by (intro matches.m_seq) simp_all
  then show "rx_full float_rx ds" by (simp add: rx_full_iff)
  obtain c cs where ds: "ds = c # cs" using assms(1) by (cases ds) auto
  then have c: "\<not> js_ws c" "c \<noteq> CHR ''-''" "c \<noteq> CHR ''+''" "c \<noteq> CHR ''I''"
    using assms(2) [of c] digit_not_ws digit_not_sign by (auto simp: is_digit_def)
  have "takeWhile is_digit ds = ds" "dropWhile is_digit ds = []"
    using assms(2) by (simp_all add: takeWhile_eq_all_conv dropWhile_eq_Nil_conv)
  then show "float_value (parseFloat ds) = of_nat (dec_val ds)"
    using c ds by (simp add: parseFloat_def Let_def dec_val_def)
qed

text \<open>Label values without the characters that end a label, a sample or a line.\<close>

definition plain :: "string \<Rightarrow> bool" where
  "plain s = (CHR 0x22 \<notin> set s \<and> CHR 0x5C \<notin> set s \<and> CHR 0x0A \<notin> set s \<and> CHR ''}'' \<notin> set s)"

lemma escape_plain: "plain s \<Longrightarrow> escape_label s = s"
  by (induction s) (auto simp: plain_def escape_label_def)

definition total_line :: "string \<Rightarrow> nat \<Rightarrow> string" where
  "total_line u n = ''loganalyzer_fleet_agent_total{tenant_id='' @ [CHR 0x22] @ u @ [CHR 0x22] @ ''} '' @ show_nat n"

lemma show_nat_no: "\<not> is_digit c \<Longrightarrow> c \<notin> set (show_nat n)"
  using show_nat_digits by blast

lemma total_line_value:
  assumes "plain u"
  shows "brace_value (total_line u n) = Some (show_nat n)"
proof -
  let ?pre = "''loganalyzer_fleet_agent_total{tenant_id='' @ [CHR 0x22] @ u @ [CHR 0x22]"
  have sp: "js_ws CHR '' ''" by (simp add: js_ws_def)
  have "CHR ''}'' \<notin> set ?pre" using assms by (auto simp: plain_def)
  then have "splitOn CHR ''}'' (?pre @ CHR ''}'' # '' '' @ show_nat n) = ?pre # splitOn CHR ''}'' ('' '' @ show_nat n)"
    by (rule splitOn_append)
  moreover have "CHR ''}'' \<notin> set ('' '' @ show_nat n)" by (auto simp: is_digit_def dest: show_nat_digits)
  then have "splitOn CHR ''}'' ('' '' @ show_nat n) = ['' '' @ show_nat n]" by (rule splitOn_id)
  moreover have "trim ('' '' @ show_nat n) = show_nat n"
  proof -
    have "trim ('' '' @ show_nat n) = trim (show_nat n)" using sp by (simp add: trim_def)
    also have "\<dots> = show_nat n"
      using show_nat_digits [of _ n] digit_not_ws by (intro trim_id) (auto simp: hd_in_set last_in_set)
    finally show ?thesis .
  qed
  ultimately show ?thesis
    using float_digits(1) [of "show_nat n"] show_nat_digits [of _ n]
    by (simp add: brace_value_def total_line_def Let_def sp)
qed

lemma count_includes: "str_includes s p \<Longrightarrow> \<exists>a b. s = a @ p @ b"
  by (simp add: str_includes_iff)

lemma total_line_label:
  assumes "plain u" "plain t" "t \<noteq> []"
  shows "has_label (Some (''tenant_id'', t)) (total_line u n) = (u = t)"
proof
  let ?q = "CHR 0x22"
  let ?pre = "''loganalyzer_fleet_agent_total{tenant_id=''"
  let ?post = "''} '' @ show_nat n"
  have post: "?q \<notin> set ?post" using show_nat_no [of ?q n] by (simp add: is_digit_def)
  have s: "splitOn ?q (total_line u n) = [?pre, u, ?post]"
  proof -
    have "splitOn ?q (?pre @ ?q # u @ ?q # ?post) = ?pre # splitOn ?q (u @ ?q # ?post)"
      by (rule splitOn_append) simp
    also have "splitOn ?q (u @ ?q # ?post) = u # splitOn ?q ?post"
      using assms(1) by (intro splitOn_append) (simp add: plain_def)
    also have "splitOn ?q ?post = [?post]" by (rule splitOn_id [OF post])
    finally show ?thesis by (simp add: total_line_def)
  qed
  show "u = t" if "has_label (Some (''tenant_id'', t)) (total_line u n)"
  proof -
    from that assms(3) obtain a b where ab: "total_line u n = a @ (''tenant_id='' @ [?q] @ t @ [?q]) @ b"
      by (auto simp: has_label_def dest: count_includes)
    have "splitOn ?q (total_line u n) = splitOn ?q (a @ ''tenant_id='') @ splitOn ?q t @ splitOn ?q b"
      unfolding ab using splitOn_at [of ?q "a @ ''tenant_id=''" "t @ ?q # b"] splitOn_at [of ?q t b] by simp
    moreover have "splitOn ?q t = [t]" using assms(2) by (intro splitOn_id) (simp add: plain_def)
    moreover obtain x xs y ys where "splitOn ?q (a @ ''tenant_id='') = x # xs" "splitOn ?q b = y # ys"
      by (metis neq_Nil_conv splitOn_not_Nil)
    ultimately show ?thesis unfolding s by (cases xs; cases ys) (auto simp: Cons_eq_append_conv)
  qed
  show "has_label (Some (''tenant_id'', t)) (total_line u n)" if "u = t"
  proof -
    have "total_line u n = ''loganalyzer_fleet_agent_total{'' @ (''tenant_id='' @ [?q] @ t @ [?q]) @ ?post"
      using that by (simp add: total_line_def)
    then have "str_includes (total_line u n) (''tenant_id='' @ [?q] @ t @ [?q])"
      unfolding str_includes_iff by blast
    then show ?thesis using assms(3) by (simp add: has_label_def)
  qed
qed

definition online_of :: "int \<Rightarrow> string \<Rightarrow> telemetry list \<Rightarrow> telemetry list" where
  "online_of now t agents = filter (\<lambda>a. tenant_label a = t \<and> age_ms now a < ONLINE_MS) agents"

lemma online_step_get:
  "map_get (online_step now m a) t =
     (if t = tenant_label a
      then Some (if age_ms now a < ONLINE_MS then fst (nullish (map_get m t) (0, 0)) + 1 else fst (nullish (map_get m t) (0, 0)),
                 snd (nullish (map_get m t) (0, 0)) + 1)
      else map_get m t)"
  by (simp add: online_step_def Let_def jsm.get_put)

lemma online_fold:
  "map_get (foldl (online_step now) [] agents) t =
     (if filter (\<lambda>a. tenant_label a = t) agents = [] then None
      else Some (length (online_of now t agents), length (filter (\<lambda>a. tenant_label a = t) agents)))"
proof (induction agents arbitrary: t rule: rev_induct)
  case Nil
  show ?case by (simp add: map_get_def)
next
  case (snoc a agents)
  show ?case
    by (cases "filter (\<lambda>b. tenant_label b = tenant_label a) agents = []")
      (auto simp: online_step_get snoc online_of_def filter_empty_conv)
qed

lemma online_fold_keys:
  "map_wf (foldl (online_step now) [] agents)
   \<and> fst ` set (foldl (online_step now) [] agents) = tenant_label ` set agents"
proof (induction agents rule: rev_induct)
  case (snoc a agents)
  have "fst ` set (map_set m k v) = insert k (fst ` set m)" for m :: online_map and k v
    using arg_cong [OF map_set_keys [of m k v], of set] by auto
  with snoc show ?case by (simp add: online_step_def Let_def jsm.wf_put)
qed simp

lemma gauge_tenant_lines:
  assumes "plain u" "plain t" "t \<noteq> []"
  shows "gauge_lines ''loganalyzer_fleet_agent_total'' (Some (''tenant_id'', t)) (tenant_lines (u, on, n) @ ls)
       = (if u = t then Some (of_nat n)
          else gauge_lines ''loganalyzer_fleet_agent_total'' (Some (''tenant_id'', t)) ls)"
proof -
  define ol where "ol = ''loganalyzer_fleet_agent_online{tenant_id='' @ quoted u @ ''} '' @ show_nat on"
  define tl where "tl = total_line u n"
  define m where "m = ''loganalyzer_fleet_agent_total''"
  have "tenant_lines (u, on, n) = [ol, tl]"
    using assms(1) by (simp add: tenant_lines_def ol_def tl_def total_line_def quoted_def escape_plain)
  moreover have "\<not> startsWith ol m" "startsWith tl m" "\<not> startsWith tl ''#''"
    by (simp_all add: ol_def tl_def total_line_def m_def)
  moreover have "float_value (parseFloat (show_nat n)) = of_nat n"
    using float_digits(2) [of "show_nat n"] show_nat_digits [of _ n] by simp
  ultimately show ?thesis
    using total_line_value [OF assms(1), of n] total_line_label [OF assms, of n]
    unfolding tl_def [symmetric] m_def [symmetric] by simp
qed

lemma gauge_tenants:
  assumes "plain t" "t \<noteq> []" "\<And>e. e \<in> set m \<Longrightarrow> plain (fst e)"
  shows "gauge_lines ''loganalyzer_fleet_agent_total'' (Some (''tenant_id'', t)) (concat (map tenant_lines m))
       = map_option (\<lambda>v. of_nat (snd v)) (map_of m t)"
  using assms(3)
proof (induction m)
  case (Cons e m)
  obtain u on n where e: "e = (u, on, n)" by (cases e) auto
  have "plain u" using Cons.prems [of e] e by simp
  from gauge_tenant_lines [OF this assms(1,2)] show ?case using Cons by (simp add: e)
qed simp

lemma map_of_eq_map_get: "map_of m t = map_get m t"
  by (simp add: map_get_def)

lemma plain_label: "plain (tl_tenantId a) \<Longrightarrow> plain (tenant_label a)"
  by (simp add: tenant_label_def plain_def)

lemma line_breaks:
  assumes "plain (tl_tenantId a)" "plain (tl_agentId a)" "plain u"
  shows "CHR 0x0A \<notin> set (age_line now a)" "l \<in> set (tenant_lines (u, n, k)) \<Longrightarrow> CHR 0x0A \<notin> set l"
proof -
  have nl: "CHR 0x0A \<notin> set (show_nat m)" for m using show_nat_no [of "CHR 0x0A" m] by (simp add: is_digit_def)
  have p: "CHR 0x0A \<notin> set (quoted s)" if "plain s" for s
    using that by (simp add: quoted_def escape_plain) (simp add: plain_def)
  show "CHR 0x0A \<notin> set (age_line now a)"
    using p [OF plain_label [OF assms(1)]] p [OF assms(2)] toFixed_chars [of "CHR 0x0A"]
    by (auto simp: age_line_def num_char_def is_digit_def)
  show "CHR 0x0A \<notin> set l" if "l \<in> set (tenant_lines (u, n, k))"
    using that p [OF assms(3)] nl by (auto simp: tenant_lines_def)
qed

lemma scrape_split:
  assumes "agents \<noteq> []"
    and names: "\<And>a. a \<in> set agents \<Longrightarrow> plain (tl_tenantId a) \<and> plain (tl_agentId a)"
    and keys: "\<And>e. e \<in> set (foldl (online_step now) [] agents) \<Longrightarrow> plain (fst e)"
  shows "splitOn (CHR 0x0A) (metrics_fleet_GET now agents) =
    metrics_help @ concat (map tenant_lines (foldl (online_step now) [] agents))
      @ map (age_line now) agents @ [[]]"
    (is "_ = ?lines")
proof -
  have nonempty: "foldl (online_step now) [] agents \<noteq> []"
    using online_fold_keys [of now agents] assms(1) by auto
  have "CHR 0x0A \<notin> set l" if l: "l \<in> set ?lines" for l
  proof -
    consider "l \<in> set metrics_help"
      | e where "e \<in> set (foldl (online_step now) [] agents)" "l \<in> set (tenant_lines e)"
      | a where "a \<in> set agents" "l = age_line now a" | "l = []"
      using l by auto
    then show ?thesis
    proof cases
      case 1
      then show ?thesis by (auto simp: metrics_help_def)
    next
      case (2 e)
      obtain u n k where e: "e = (u, n, k)" by (cases e) auto
      obtain a where "a \<in> set agents" using assms(1) by (cases agents) auto
      then show ?thesis using line_breaks(2) [of a u l n k] names keys [OF 2(1)] 2(2) e by simp
    next
      case (3 a)
      then show ?thesis using line_breaks(1) [of a "[]" now] names by (simp add: plain_def)
    qed simp
  qed
  then have "splitOn (CHR 0x0A) (join [CHR 0x0A] ?lines) = ?lines" by (intro splitOn_join) simp_all
  moreover have "metrics_fleet_GET now agents = join [CHR 0x0A] ?lines"
    using nonempty by (simp add: metrics_fleet_GET_def Let_def)
  ultimately show ?thesis by simp
qed

lemma gauge_other_lines:
  "gauge_lines ''loganalyzer_fleet_agent_total'' l metrics_help = None"
  "gauge_lines ''loganalyzer_fleet_agent_total'' l (map (age_line now) agents @ [[]]) = None"
proof -
  show "gauge_lines ''loganalyzer_fleet_agent_total'' l metrics_help = None"
    by (rule gauge_lines_skip) (auto simp: metrics_help_def)
  show "gauge_lines ''loganalyzer_fleet_agent_total'' l (map (age_line now) agents @ [[]]) = None"
    by (rule gauge_lines_skip) (auto simp: age_line_def)
qed

subsection \<open>Properties\<close>

text \<open>C17. What the fleet scrape prints the metrics parser reads back: for tenant and agent
names without quotes, backslashes, braces or line breaks, the total parsed for a tenant is
the number of its agents, and a tenant without agents has none.\<close>

theorem scrape_roundtrip:
  assumes "agents \<noteq> []" "plain t" "t \<noteq> []"
    and names: "\<And>a. a \<in> set agents \<Longrightarrow> plain (tl_tenantId a) \<and> plain (tl_agentId a)"
  shows "parsePrometheusGauge (metrics_fleet_GET now agents) ''loganalyzer_fleet_agent_total'' (Some (''tenant_id'', t))
     = (let n = length (filter (\<lambda>a. tenant_label a = t) agents) in if n = 0 then None else Some (of_nat n))"
proof -
  let ?m = "foldl (online_step now) [] agents"
  have keys: "plain (fst e)" if "e \<in> set ?m" for e
  proof -
    have "fst e \<in> fst ` set ?m" using that by (rule imageI)
    then have "fst e \<in> tenant_label ` set agents" using online_fold_keys [of now agents] by blast
    then show ?thesis using names plain_label by auto
  qed
  define g where "g = gauge_lines ''loganalyzer_fleet_agent_total'' (Some (''tenant_id'', t))"
  have "g (metrics_help @ concat (map tenant_lines ?m) @ map (age_line now) agents @ [[]])
      = map_option (\<lambda>v. of_nat (snd v)) (map_get ?m t)"
    using gauge_tenants [OF assms(2,3) keys] gauge_other_lines
    by (simp add: g_def gauge_lines_append map_of_eq_map_get split: option.split)
  then show ?thesis
    using scrape_split [OF assms(1) names keys]
    by (simp add: parsePrometheusGauge_def g_def [symmetric] online_fold Let_def)
qed

theorem scrape_roundtrip_witness:
  "[t_row, t_row] \<noteq> [] \<and> plain ''t1'' \<and>
   parsePrometheusGauge (metrics_fleet_GET 9 [t_row, t_row]) ''loganalyzer_fleet_agent_total'' (Some (''tenant_id'', ''t1''))
     = Some 2"
proof -
  have p: "plain ''t1''" "plain ''a1''" by (simp_all add: plain_def)
  have r: "plain (tl_tenantId a) \<and> plain (tl_agentId a)" if "a \<in> set [t_row, t_row]" for a
    using that p by (auto simp: t_row_def)
  have "tenant_label t_row = ''t1''" by (simp add: tenant_label_def t_row_def)
  then show ?thesis using scrape_roundtrip [of "[t_row, t_row]" "''t1''" 9, OF _ p(1) _ r] p by simp
qed

text \<open>A line break is not escaped: an agent whose name holds one writes a sample of its own.\<close>

lemma scrape_injection:
  "parsePrometheusGauge
     (metrics_fleet_GET 9 [t_row\<lparr>tl_agentId := [CHR 0x0A] @ ''loganalyzer_eps 77'' @ [CHR 0x0A]\<rparr>])
     ''loganalyzer_eps'' None = Some 77"
  by code_simp

text \<open>The parser takes a line that merely begins with the name it looks for: the peak rate is read
  as the rate when its line comes first.\<close>

lemma gauge_prefix_confusion:
  "parsePrometheusGauge (''m_peak 9'' @ [CHR 0x0A] @ ''m 1'') ''m'' None = Some 1"
  "parsePrometheusGauge (''m_peak{a=1} 9'' @ [CHR 0x0A] @ ''m{a=1} 1'') ''m'' None = Some 9"
  by code_simp+

end
