(* ===== verification/StatusRoutes.thy ===== *)
theory StatusRoutes
  imports TestBoard CopilotChat Metrics Timeline
begin

section \<open>The status routes\<close>

text \<open>
  The read-only routes behind the panels of the dashboard: \<^verbatim>\<open>vps-prep-status\<close>,
  \<^verbatim>\<open>webhook-ops\<close>, \<^verbatim>\<open>operator-gates-summary\<close>, \<^verbatim>\<open>morning-operator-status\<close>,
  \<^verbatim>\<open>e9-status\<close>, \<^verbatim>\<open>lineage-l7\<close>, \<^verbatim>\<open>eps-smoke-status\<close>,
  \<^verbatim>\<open>ban-api-status\<close>, \<^verbatim>\<open>edge-status\<close>, \<^verbatim>\<open>fleet-offline-status\<close>,
  \<^verbatim>\<open>bench-metrics\<close>, \<^verbatim>\<open>fp-metrics\<close>, \<^verbatim>\<open>dashboard-snapshot\<close> and
  \<^verbatim>\<open>tls-status\<close> under \<^verbatim>\<open>app/api\<close>, with \<^verbatim>\<open>lib/repoJson.ts\<close> and
  \<^verbatim>\<open>lib/proofMeta.ts\<close>. A route is a function of the world it reads; its reply is the JSON
  value it sends. The report files, what the servers answer, the tables and the clock are the world.
\<close>

subsection \<open>The world and its reports\<close>

record status_world =
  sw_disk :: "string \<Rightarrow> rjson option"
  sw_env :: env
  sw_cwd :: string
  sw_now :: int
  sw_scrape :: "string \<Rightarrow> scrape"
  sw_bans :: bans_world
  sw_agents :: "telemetry list option"
  sw_commands :: "agent_command list option"
  sw_timeline_file :: "string \<Rightarrow> json option"
  sw_parse_date :: "string \<Rightarrow> int option"

text \<open>\<open>sw_disk\<close> is the parsed file at a path, or nothing when it cannot be read or parsed.  A table is
nothing when its query fails.\<close>

fun first_some :: "('a \<Rightarrow> 'b option) \<Rightarrow> 'a list \<Rightarrow> 'b option" where
  "first_some f [] = None"
| "first_some f (x # xs) = (case f x of Some y \<Rightarrow> Some y | None \<Rightarrow> first_some f xs)"

definition DATA_DIR :: "env \<Rightarrow> string" where
  "DATA_DIR env = or_default (env ''BENCH_DATA_DIR'') ''/data/lg''"

definition readRepoJson :: "status_world \<Rightarrow> string \<Rightarrow> rjson option" where
  "readRepoJson w name =
     first_some (sw_disk w)
       [path_join (DATA_DIR (sw_env w)) name, path_join (sw_cwd w) name, path_join (path_join (sw_cwd w) ''..'') name]"

definition repoRoot :: "string \<Rightarrow> string" where
  "repoRoot cwd = (if endsWith cwd ''/dashboard'' then path_join cwd ''..'' else cwd)"

text \<open>The values JavaScript takes for false.  A route asks only whether a report is true and for fields of it,
and a false value has none, so it reads as no report.\<close>

definition rfalsy :: "rjson \<Rightarrow> bool" where
  "rfalsy r = (r \<in> {RNull, RBool False, RNum 0, RStr []})"

definition status_read :: "status_world \<Rightarrow> string \<Rightarrow> rjson option" where
  "status_read w name =
     (case readRepoJson w name of Some r \<Rightarrow> (if rfalsy r then None else Some r) | None \<Rightarrow> None)"

text \<open>\<open>r?.k\<close> at its declared type.\<close>

definition fldo :: "rjson option \<Rightarrow> string \<Rightarrow> rjson option" where
  "fldo r k = Option.bind r (\<lambda>x. fld x k)"

definition numo :: "rjson option \<Rightarrow> string \<Rightarrow> rat option" where
  "numo r k = Option.bind r (\<lambda>x. numf x k)"

definition txto :: "rjson option \<Rightarrow> string \<Rightarrow> ustring option" where
  "txto r k = Option.bind r (\<lambda>x. txtf x k)"

definition boolo :: "rjson option \<Rightarrow> string \<Rightarrow> bool option" where
  "boolo r k = Option.bind r (\<lambda>x. boolf x k)"

definition objo :: "rjson option \<Rightarrow> string \<Rightarrow> rjson option" where
  "objo r k = Option.bind r (\<lambda>x. objf x k)"

definition objso :: "rjson option \<Rightarrow> string \<Rightarrow> rjson list option" where
  "objso r k = Option.bind r (\<lambda>x. objsf x k)"

definition textso :: "rjson option \<Rightarrow> string \<Rightarrow> ustring list option" where
  "textso r k = Option.bind r (\<lambda>x. textsf x k)"

text \<open>\<open>a ?? b\<close> when \<open>b\<close> may be missing, and \<open>a || b\<close> of numbers.\<close>

definition coalesce :: "'a option \<Rightarrow> 'a option \<Rightarrow> 'a option" where
  "coalesce a b = (case a of None \<Rightarrow> b | Some x \<Rightarrow> Some x)"

definition num_or :: "rat option \<Rightarrow> rat option \<Rightarrow> rat option" where
  "num_or a b = (if num_truthy a then a else b)"

text \<open>A value that may be missing, in a reply: \<open>v ?? null\<close>.\<close>

definition jnum :: "rat option \<Rightarrow> rjson" where
  "jnum v = (case v of None \<Rightarrow> RNull | Some x \<Rightarrow> RNum x)"

definition jstr :: "ustring option \<Rightarrow> rjson" where
  "jstr v = (case v of None \<Rightarrow> RNull | Some x \<Rightarrow> RStr x)"

subsection \<open>Live sources\<close>

definition fetchLiveMetrics :: "status_world \<Rightarrow> live_metrics option" where
  "fetchLiveMetrics w =
     (case sw_scrape w (guardianMetricsUrl (sw_env w)) of
        Scraped body \<Rightarrow> Some (parseGuardianMetrics (sw_env w) (sw_now w) body)
      | _ \<Rightarrow> None)"

definition gauge :: "live_metrics \<Rightarrow> string \<Rightarrow> rat" where
  "gauge m k = nullish (map_of (lm_gauges m) k) 0"

definition metrics_live :: "status_world \<Rightarrow> bool" where
  "metrics_live w =
     (case sw_scrape w (guardianMetricsUrl (sw_env w)) of
        Scraped body \<Rightarrow> str_includes body ''loganalyzer_''
      | _ \<Rightarrow> False)"

definition live_bans :: "status_world \<Rightarrow> rat \<times> ustring" where
  "live_bans w =
     (let r = fetchBannedIps (sw_bans w)
                \<lparr> fo_countOnly = True, fo_limit = None, fo_offset = None, fo_search = None \<rparr>
      in (of_int (br_count r), lat (br_source r)))"

text \<open>\<open>excerptRemote\<close>: the first six lines of a remote transcript that are not blank.\<close>

fun u_split :: "nat \<Rightarrow> ustring \<Rightarrow> ustring list" where
  "u_split sep [] = [[]]"
| "u_split sep (c # s) =
     (if c = sep then [] # u_split sep s
      else (case u_split sep s of x # xs \<Rightarrow> (c # x) # xs | [] \<Rightarrow> [[c]]))"

definition excerptRemote :: "ustring option \<Rightarrow> ustring option" where
  "excerptRemote raw =
     (if \<not> txt_truthy raw then None
      else (let xs = take 6 (filter (\<lambda>l. l \<noteq> []) (map u_trim (u_split 10 (the raw))))
            in if xs \<noteq> [] then Some (u_join (tu '' {B7} '') xs) else None))"

subsection \<open>Panels made of reports\<close>

definition vps_prep_GET :: "status_world \<Rightarrow> rjson" where
  "vps_prep_GET w =
     (let rd = status_read w;
       gate = rd ''vps-prep-gate-report.json'';
         remote = rd ''vps-remote-status-report.json'';
       remoteSshOk = ((boolo remote ''ssh_ok'' = Some True) \<or> (boolo remote ''reachable'' = Some True));
       remoteHostUp = ((boolo remote ''host_up'' = Some True) \<or> (boolo remote ''auth_error'' = Some True));
       remotePass = (boolo remote ''pass'' = Some True);
       remoteXdp = if (((remoteSshOk \<and> (remote \<noteq> None)) \<and> (fldo remote ''xdp_mode'' \<noteq> None)) \<and>
         (txt_truthy (txto remote ''xdp_mode''))) then Some (the (txto remote ''xdp_mode'')) else None in
      RObj
        [(''at'', jstr (coalesce (txto remote ''date'') (txto gate ''date''))),
         (''pass'', RBool (boolo gate ''pass'' = Some True)),
         (''laptop_mode'', RBool ((boolo gate ''laptop_mode'' \<noteq> Some False) \<and> (\<not> remoteSshOk))),
         (''vps_available'', RBool ((boolo gate ''vps_available'' = Some True) \<or> remoteSshOk)),
         (''competitive_proof'', jstr (txto gate ''competitive_proof'')),
         (''xdp_mode'', jstr (coalesce remoteXdp (txto gate ''xdp_report_mode''))),
         (''steps'', RArr (map RStr
           (nullish (textso gate ''vps_when_ready'') [lat ''sudo bash install.sh'',
           lat ''sudo bash scripts/install_first_run.sh'', lat ''sudo bash scripts/vps_xdp_proof.sh'',
           lat ''bash scripts/post_install_verify.sh'']))),
         (''doc'', RStr (nullish (txto gate ''doc'') (lat ''docs/VPS_SETUP.md''))),
         (''remote'', (if remote \<noteq> None
           then RObj
             [(''pass'', RBool remotePass),
              (''reachable'', RBool remoteSshOk),
              (''host_up'', RBool remoteHostUp),
              (''ssh_ok'', RBool remoteSshOk),
              (''auth_error'', RBool (boolo remote ''auth_error'' = Some True)),
              (''connection_error'', RBool (boolo remote ''connection_error'' = Some True)),
              (''at'', jstr (txto remote ''date'')),
              (''host'', jstr (txto remote ''host'')),
              (''port'', RNum (nullish (numo remote ''port'') 22)),
              (''hostname'', jstr (txto remote ''hostname'')),
              (''remote_root'', jstr (txto remote ''remote_root'')),
              (''xdp_mode'', jstr (txto remote ''xdp_mode'')),
              (''soak_active'', RBool (boolo remote ''soak_active'' = Some True)),
              (''soak_mode'', jstr (txto remote ''soak_mode'')),
              (''soak_elapsed'', jstr (txto remote ''soak_elapsed'')),
              (''soak_progress'', jnum (if (numo remote ''soak_progress'' \<noteq> None)
                then (numo remote ''soak_progress'') else None)),
              (''soak_proof_72h'', jnum (if (numo remote ''soak_proof_72h'' \<noteq> None)
                then (numo remote ''soak_proof_72h'') else None)),
              (''soak_synced'', RBool (boolo remote ''soak_synced'' = Some True)),
              (''soak_failures'', jstr (txto remote ''soak_failures'')),
              (''eps'', jnum (if (numo remote ''eps'' \<noteq> None) then (numo remote ''eps'') else None)),
              (''excerpt'', jstr (excerptRemote (txto remote ''raw_excerpt''))),
              (''hint'', jstr (txto remote ''hint''))]
           else RNull)),
         (''setup'', RObj
           [(''gate'', RStr (lat ''bash scripts/vps_prep_gate.sh'')),
            (''doc'', RStr (lat ''docs/VPS_SETUP.md'')),
            (''xdp'', RStr (lat ''sudo bash scripts/vps_xdp_proof.sh'')),
            (''remote'', RStr (lat ''QUIET=1 source .cache/vps-production.env && bash scripts/vps_remote_status.sh'')),
            (''remote_host'', RStr (lat ''VPS_HOST=root@HOST bash scripts/vps_remote_status.sh'')),
            (''ssh_copy_id'', RStr (lat ''ssh-copy-id root@157.173.122.198''))])])"

definition webhook_ops_GET :: "status_world \<Rightarrow> rjson" where
  "webhook_ops_GET w =
     (let rd = status_read w;
       status = rd ''guardian-status.json'';
         proof = rd ''webhook-route-proof-report.json'';
         undo = rd ''telegram-operator-undo-e2e-report.json'';
         live = fetchLiveMetrics w;
       n = nullish (objo status ''notifications'') (RObj []);
       ipcOk = (txto status ''ipc'' = Some (lat ''ok''));
       batchSec = nullish (num_or (num_or (num_or (map_option (\<lambda>m. gauge m ''webhook_telegram_batch_sec'') live)
         (numf n ''telegram_batch_sec'')) (numo proof ''batch_sec'')) None) 0;
       routeOn = (((boolf n ''telegram_route'' = Some True) \<or> (map_option (\<lambda>m. gauge m
         ''webhook_telegram_route'') live = Some 1)) \<or> (boolo proof ''route_enabled'' = Some True));
       telegramLive = ((boolf n ''telegram'' = Some True) \<and> (\<not> (boolf n ''dry_run'' = Some True)));
       metricsLive = (map_option lm_reachable live = Some True);
       dataMode = if (telegramLive \<and> (metricsLive \<or> ipcOk)) then lat ''live''
         else (if (boolo proof ''pass'' = Some True) then lat ''proof'' else (if metricsLive then lat ''live''
         else lat ''unknown'')) in
      RObj
        [(''data_mode'', RStr dataMode),
         (''telegram_enabled'', RBool (boolf n ''telegram'' = Some True)),
         (''telegram_route'', RBool routeOn),
         (''batch_sec'', RNum batchSec),
         (''batch_active'', RBool (0 < batchSec)),
         (''queue_depth'', RNum (nullish (map_option (\<lambda>m. gauge m ''webhook_queue_depth'') live)
           (nullish (numf n ''queue_depth'') 0))),
         (''ack_24h'', RNum (nullish (map_option (\<lambda>m. gauge m ''telegram_ack_24h'') live)
           (nullish (numf n ''ack_24h'') 0))),
         (''unacked_24h'', RNum (nullish (map_option (\<lambda>m. gauge m ''telegram_unacked_24h'') live)
           (nullish (numf n ''unacked_24h'') 0))),
         (''quiet_active'', RBool ((boolf n ''quiet_active'' = Some True) \<or> (map_option (\<lambda>m. gauge m
           ''webhook_quiet_active'') live = Some 1))),
         (''dry_run'', RBool (boolf n ''dry_run'' = Some True)),
         (''proof_pass'', RBool (boolo proof ''pass'' = Some True)),
         (''proof_mode'', jstr (txto proof ''mode'')),
         (''prod_e2e_ok'', RBool ((boolo (objo proof ''prod_e2e'') ''ok'' = Some True) \<and> (boolo (objo proof
           ''prod_e2e'') ''skipped'' \<noteq> Some True))),
         (''prod_e2e_at'', jstr (txto proof ''date'')),
         (''prod_e2e_metrics_delta'', jnum (numo proof ''metrics_delta'')),
         (''prod_e2e_alerts'', jnum (numo proof ''alerts_total'')),
         (''undo_e2e_ok'', RBool (boolo undo ''pass'' = Some True)),
         (''undo_e2e_at'', jstr (txto undo ''date'')),
         (''undo_e2e_ip'', jstr (txto undo ''ip'')),
         (''undo_e2e_mode'', jstr (txto undo ''mode'')),
         (''webhook_sent'', RNum (nullish (map_option (\<lambda>m. gauge m ''webhook_sent_total'') live) 0)),
         (''webhook_fail'', RNum (nullish (map_option (\<lambda>m. gauge m ''webhook_fail_total'') live) 0)),
         (''webhook_drops'', RNum (nullish (map_option (\<lambda>m. gauge m ''webhook_queue_drops_total'') live) 0)),
         (''topics'', RObj
           [(''waf'', RNum (nullish (numf n ''telegram_topic_waf'') 0)),
            (''ban'', RNum (nullish (numf n ''telegram_topic_ban'') 0))])])"

definition operator_gates_GET :: "status_world \<Rightarrow> rjson" where
  "operator_gates_GET w =
     (let rd = status_read w;
       morning = rd ''morning-operator-gate-report.json'';
         fleet = rd ''fleet-offline-gate-report.json'';
         vpsRemote = rd ''vps-remote-status-report.json'';
         vpsPrep = rd ''vps-prep-gate-report.json'';
         e9 = rd ''enterprise-e9-verify-report.json'';
         relay = rd ''relay-lan-exposure-report.json'';
         epsSmoke = rd ''webhook-eps-smoke-report.json'';
       handsOff = ((boolo vpsRemote ''ssh_ok'' = Some True) \<and> (72 \<le> nullish (numo vpsRemote ''soak_proof_72h'') 0))
         in
      RObj
        [(''at'', RStr (lat (toISOString (sw_now w)))),
         (''morning'', (if morning \<noteq> None
           then RObj
             [(''pass'', RBool (boolo morning ''pass'' = Some True)),
              (''proof'', jstr (if ((numo morning ''proof_pass'' \<noteq> None) \<and> (numo morning ''proof_tests''
                \<noteq> None)) then Some (opt_text num_text (numo morning ''proof_pass'') @ lat ''/''
                @ opt_text num_text (numo morning ''proof_tests'')) else None))]
           else RNull)),
         (''fleet'', (if fleet \<noteq> None
           then RObj
             [(''pass'', RBool (boolo fleet ''pass'' = Some True)),
              (''online'', RStr (num_text (nullish (numo fleet ''online'') 0) @ lat ''/'' @ num_text
                (nullish (numo fleet ''total'') 0)))]
           else RNull)),
         (''vps'', RObj
           [(''pass'', RBool ((boolo vpsPrep ''pass'' = Some True) \<or> handsOff)),
            (''hands_off'', RBool handsOff),
            (''ssh_ok'', RBool (boolo vpsRemote ''ssh_ok'' = Some True)),
            (''soak_72h'', RBool (72 \<le> nullish (numo vpsRemote ''soak_proof_72h'') 0)),
            (''xdp_mode'', jstr (txto vpsRemote ''xdp_mode'')),
            (''proof'', jstr (txto vpsPrep ''competitive_proof''))]),
         (''e9'', (if e9 \<noteq> None
           then RObj
             [(''pass'', RBool (boolo e9 ''pass'' = Some True)),
              (''proof'', jstr (txto e9 ''competitive_proof''))]
           else RNull)),
         (''relay_lan'', (if relay \<noteq> None
           then RObj
             [(''pass'', RBool (boolo relay ''pass'' = Some True)),
              (''fail_count'', RNum (nullish (numo relay ''fail_count'') 0))]
           else RNull)),
         (''eps_smoke'', (if epsSmoke \<noteq> None
           then RObj
             [(''pass'', RBool (((boolo epsSmoke ''pass'' = Some True) \<and> (1 \<le> nullish (numo epsSmoke
               ''lines_delta'') 0)) \<and> ((0 < nullish (numo epsSmoke ''peak_eps'') 0) \<or> (fl (5 / 10) < nullish (numo
               epsSmoke ''derived_eps'') 0)))),
              (''peak_eps'', jnum (numo epsSmoke ''peak_eps'')),
              (''derived_eps'', jnum (numo epsSmoke ''derived_eps'')),
              (''lines_delta'', jnum (numo epsSmoke ''lines_delta''))]
           else RNull))])"

definition morning_status_GET :: "status_world \<Rightarrow> rjson" where
  "morning_status_GET w =
     (let rd = status_read w;
       report = rd ''morning-operator-gate-report.json'' in
      (if \<not> (report \<noteq> None) then RObj
          [(''pass'', RNull),
           (''at'', RNull),
           (''checks'', RArr []),
           (''proof_pass'', RNull),
           (''proof_tests'', RNull),
           (''run_cmd'', RStr (lat ''bash scripts/morning_operator_gate.sh'')),
           (''chain_cmd'', RStr (lat ''bash scripts/morning_operator_chain.sh'')),
           (''dash_url'', RStr (lat ''https://localhost:8443/tests''))]
      else (let epsDetail = if ((boolo report ''eps_smoke_ok'' = Some True) \<and> (numo report ''eps_smoke_peak'' \<noteq>
        None)) then Some (lat ''pk'' @ lat (toFixed 1 (the (numo report ''eps_smoke_peak''))))
        else (if (boolo report ''eps_smoke_ok'' = Some True) then Some (lat ''ok'') else None);
       checks = RArr ([RObj
            [(''id'', RStr (lat ''laptop_core'')),
             (''ok'', RBool (boolo report ''laptop_core_ok'' = Some True)),
             (''detail'', RStr (if (boolo report ''laptop_core_refreshed'' = Some True) then lat ''refreshed''
               else lat ''report''))],
          RObj
            [(''id'', RStr (lat ''presentation_ship'')),
             (''ok'', RBool (boolo report ''presentation_ship_ok'' = Some True))],
          RObj
            [(''id'', RStr (lat ''dashboard'')),
             (''ok'', RBool (boolo report ''dashboard_ok'' = Some True))],
          RObj
            [(''id'', RStr (lat ''attack_map'')),
             (''ok'', RBool (boolo report ''attack_map_parity_ok'' = Some True))],
          RObj
            [(''id'', RStr (lat ''telegram_soc'')),
             (''ok'', RBool (boolo report ''telegram_soc_ok'' = Some True))],
          RObj
            [(''id'', RStr (lat ''proof_freshness'')),
             (''ok'', RBool (boolo report ''proof_freshness_ok'' = Some True))]]
          @ (if (fldo report ''eps_smoke_ok'' \<noteq> None) then [RObj
            [(''id'', RStr (lat ''eps_smoke'')),
             (''ok'', RBool (boolo report ''eps_smoke_ok'' = Some True)),
             (''detail'', jstr epsDetail)]] else [])) in
      RObj
        [(''pass'', RBool (boolo report ''pass'' = Some True)),
         (''at'', jstr (txto report ''date'')),
         (''fail_reason'', jstr (txto report ''fail_reason'')),
         (''checks'', checks),
         (''proof_pass'', jnum (numo report ''proof_pass'')),
         (''proof_tests'', jnum (numo report ''proof_tests'')),
         (''proof_stale_ids'', RArr (map RStr (nullish (textso report ''proof_stale_ids'') []))),
         (''run_cmd'', RStr (nullish (txto report ''script'') (lat ''bash scripts/morning_operator_gate.sh''))),
         (''chain_cmd'', RStr (nullish (txto report ''chain_script'') (lat ''bash scripts/morning_operator_chain.sh''))),
         (''dash_url'', RStr (nullish (txto report ''dash_url'') (lat ''https://localhost:8443/tests''))),
         (''eps_smoke_ok'', RBool (boolo report ''eps_smoke_ok'' = Some True)),
         (''eps_smoke_peak'', jnum (numo report ''eps_smoke_peak'')),
         (''eps_smoke_lines_delta'', jnum (numo report ''eps_smoke_lines_delta''))])))"

definition e9_status_GET :: "status_world \<Rightarrow> rjson" where
  "e9_status_GET w =
     (let rd = status_read w;
       report = rd ''enterprise-e9-verify-report.json'' in
      (if \<not> (report \<noteq> None) then RObj
          [(''pass'', RNull),
           (''at'', RNull),
           (''competitive_proof'', RNull),
           (''fail_count'', RNull),
           (''checks'', RArr []),
           (''run_cmd'', RStr (lat ''bash scripts/enterprise_e9_verify.sh'')),
           (''doc'', RStr (lat ''docs/ENTERPRISE_SUPPORT.md''))]
      else (let checks = RArr [RObj
            [(''id'', RStr (lat ''competitive_proof'')),
             (''ok'', RBool (\<not> (\<not> (txt_truthy (txto report ''competitive_proof''))))),
             (''detail'', jstr (txto report ''competitive_proof''))],
          RObj
            [(''id'', RStr (lat ''enterprise_escalation'')),
             (''ok'', RBool (boolo report ''enterprise_escalation'' = Some True))],
          RObj
            [(''id'', RStr (lat ''edge_checklist'')),
             (''ok'', RBool (boolo report ''edge_checklist'' = Some True))],
          RObj
            [(''id'', RStr (lat ''relay_lan_exposure'')),
             (''ok'', RBool (boolo report ''relay_lan_exposure'' = Some True))],
          RObj
            [(''id'', RStr (lat ''morning_operator'')),
             (''ok'', RBool (boolo report ''morning_operator'' = Some True))],
          RObj
            [(''id'', RStr (lat ''eps_smoke'')),
             (''ok'', RBool (boolo report ''eps_smoke'' = Some True)),
             (''detail'', jstr (if (numo report ''eps_smoke_peak'' \<noteq> None) then Some (lat ''pk''
               @ lat (toFixed 1 (the (numo report ''eps_smoke_peak'')))) else (if (boolo report ''eps_smoke'' = Some True)
               then Some (lat ''ok'') else None)))],
          RObj
            [(''id'', RStr (lat ''docs_consistency'')),
             (''ok'', RBool (boolo report ''docs_consistency'' = Some True))],
          RObj
            [(''id'', RStr (lat ''vps_prep'')),
             (''ok'', RBool (boolo report ''vps_prep'' = Some True))],
          RObj
            [(''id'', RStr (lat ''vps_remote'')),
             (''ok'', RBool (boolo report ''vps_remote'' = Some True))]] in
      RObj
        [(''pass'', RBool (boolo report ''pass'' = Some True)),
         (''at'', jstr (txto report ''date'')),
         (''competitive_proof'', jstr (txto report ''competitive_proof'')),
         (''fail_count'', RNum (nullish (numo report ''fail_count'') 0)),
         (''checks'', checks),
         (''run_cmd'', RStr (nullish (txto report ''script'') (lat ''bash scripts/enterprise_e9_verify.sh''))),
         (''doc'', RStr (nullish (txto report ''doc'') (lat ''docs/ENTERPRISE_SUPPORT.md'')))])))"

definition lineage_l7_GET :: "status_world \<Rightarrow> rjson" where
  "lineage_l7_GET w =
     (let rd = status_read w;
       status = rd ''guardian-status.json'';
         wasm = rd ''wasm-status.json'';
       wasmNative = (if ((txto wasm ''mode'' = Some (lat ''native'')) \<and> (boolo wasm ''pass'' = Some True)) then True
         else (boolo (objo status ''wasm'') ''native'' = Some True));
       l7 = nullish (objo status ''l7_http'') (RObj []);
       daemon = nullish (objo status ''daemon'') (RObj []) in
      RObj
        [(''data_mode'', RStr (if (txto status ''ipc'' = Some (lat ''ok'')) then lat ''live'' else lat ''preview'')),
         (''ipc'', RStr (nullish (txto status ''ipc'') (lat ''unknown''))),
         (''xdp_mode'', RStr (nullish (txto status ''xdp_mode'') (lat ''unknown''))),
         (''xdp_active'', RBool (boolf daemon ''xdp_active'' = Some True)),
         (''wasm'', RObj
           [(''mode'', RStr (nullish (txto wasm ''mode'') (if wasmNative then lat ''native'' else lat ''stub''))),
            (''pass'', RBool (nullish (boolo wasm ''pass'') wasmNative)),
            (''plugins_native'', RNum (nullish (numo wasm ''plugins_native'')
              (nullish (numo (objo status ''wasm'') ''plugins_native'') 0))),
            (''alerts_on_sqli'', RNum (nullish (numo wasm ''alerts_on_sqli'') 0)),
            (''plugin_bytes'', RNum (nullish (numo wasm ''plugin_bytes'') 0))]),
         (''l7'', RObj
           [(''probe_active'', RBool ((boolf l7 ''probe_active'' = Some True) \<or> (boolf daemon ''l7_probe'' = Some
             True))),
            (''probe'', RStr (nullish (txtf l7 ''probe'') (tu ''{2014}''))),
            (''inspected'', RNum (nullish (numf l7 ''inspected'') 0)),
            (''blocked'', RNum (nullish (numf l7 ''blocked'') 0)),
            (''ebpf_hits'', RNum (nullish (numf l7 ''ebpf_hits'') 0)),
            (''http_hits'', RNum (nullish (numf daemon ''l7_http_hits'') 0))]),
         (''lineage'', RObj
           [(''events'', RNum (nullish (numf daemon ''lineage_events'') 0)),
            (''connects'', RNum (nullish (numf daemon ''lineage_connects'') 0)),
            (''execve_probe'', RBool (boolf daemon ''execve_probe'' = Some True))])])"

definition eps_smoke_GET :: "status_world \<Rightarrow> rjson" where
  "eps_smoke_GET w =
     (let rd = status_read w;
       report = rd ''webhook-eps-smoke-report.json'' in
      (if \<not> (report \<noteq> None) then RObj
          [(''pass'', RNull),
           (''at'', RNull),
           (''run_cmd'', RStr (lat ''sudo bash scripts/webhook_nginx_eps_smoke.sh'')),
           (''upgrade_cmd'', RStr (lat ''sudo bash scripts/upgrade_log_guardian_binary.sh''))]
      else (let pass = (((boolo report ''pass'' = Some True) \<and> (1 \<le> nullish (numo report ''lines_delta'') 0))
        \<and> ((0 < nullish (numo report ''peak_eps'') 0) \<or> (fl (5 / 10) < nullish (numo report ''derived_eps'') 0)))
        in
      RObj
        [(''pass'', RBool pass),
         (''at'', jstr (txto report ''date'')),
         (''fail_reason'', jstr (txto report ''fail_reason'')),
         (''lines_delta'', jnum (numo report ''lines_delta'')),
         (''peak_eps'', jnum (numo report ''peak_eps'')),
         (''derived_eps'', jnum (numo report ''derived_eps'')),
         (''eps_after'', jnum (numo report ''eps_after'')),
         (''alerts_delta'', jnum (numo report ''alerts_delta'')),
         (''inject_lines'', jnum (numo report ''inject_lines'')),
         (''run_cmd'', RStr (nullish (txto report ''script'') (lat ''sudo bash scripts/webhook_nginx_eps_smoke.sh''))),
         (''upgrade_cmd'', RStr (lat ''sudo bash scripts/upgrade_log_guardian_binary.sh''))])))"

definition ban_api_status_GET :: "status_world \<Rightarrow> rjson" where
  "ban_api_status_GET w =
     (let rd = status_read w;
       caddy = rd ''caddy-mtls-status.json'';
         dashBan = rd ''dashboard-ban-api-report.json'';
         banMtls = rd ''ban-api-mtls-report.json'';
         soarGate = rd ''enterprise-soar-gate-report.json'';
         mtlsExpiry = rd ''mtls-cert-expiry-report.json'';
         relayLan = rd ''relay-lan-exposure-report.json'';
       relayOk = (nullish (boolo (objo dashBan ''relay_api'') ''ok'') (nullish (boolo caddy ''relay_ok'') False));
       hostOk = (nullish (boolo (objo dashBan ''host_api'') ''ok'') (nullish (boolo caddy ''host_ok'') False));
       dockerOk = (nullish (boolo (objo dashBan ''docker_api'') ''ok'') (nullish (boolo caddy ''docker_ok'') False));
       metricsReportOk = (nullish (boolo (objo dashBan ''metrics_api'') ''ok'')
         (nullish (boolo caddy ''metrics_ok'') False));
       bridgeOk = (nullish (boolo (objo dashBan ''host_api_bridge'') ''ok'')
         (nullish (boolo caddy ''host_api_bridge_ok'') (relayOk \<and> metricsReportOk))) in
      RObj
        [(''at'', jstr (coalesce (txto soarGate ''date'') (coalesce (txto caddy ''date'') (coalesce (txto dashBan ''date'')
          (txto banMtls ''date''))))),
         (''relay'', RObj
           [(''ok'', RBool relayOk),
            (''url'', RStr (nullish (txto (objo dashBan ''relay_api'') ''url'') (nullish (txto caddy ''relay_url'')
              (lat ''http://ban-api-relay:18090''))))]),
         (''host'', RObj
           [(''ok'', RBool hostOk),
            (''url'', RStr (nullish (txto (objo dashBan ''host_api'') ''url'') (nullish (txto caddy ''host_api_url'')
              (lat ''http://127.0.0.1:8090''))))]),
         (''docker'', RObj
           [(''ok'', RBool dockerOk)]),
         (''metrics'', RObj
           [(''ok'', RBool ((metrics_live w) \<or> metricsReportOk)),
            (''live'', RBool (metrics_live w)),
            (''url'', RStr (nullish (txto (objo dashBan ''metrics_api'') ''url'')
              (nullish (txto caddy ''metrics_relay_url'') (lat ''http://metrics-relay:19091/metrics''))))]),
         (''host_api_bridge'', RObj
           [(''ok'', RBool bridgeOk),
            (''note'', RStr (nullish (txto (objo dashBan ''host_api_bridge'') ''note'')
              (nullish (txto caddy ''host_api_bridge'') (lat ''docker0 :18091/:19092''))))]),
         (''ban_path'', jstr (txto dashBan ''ban_path'')),
         (''dashboard_ban_pass'', RBool (nullish (boolo dashBan ''pass'')
           (nullish (boolo caddy ''dashboard_ban_pass'') False))),
         (''soar'', RObj
           [(''enabled'', RBool (boolo caddy ''enabled'' = Some True)),
            (''enabled_at'', jstr (txto caddy ''enabled_at'')),
            (''url'', RStr (nullish (txto caddy ''soar_url'') (lat ''https://localhost:9443''))),
            (''caddy_mtls_verify'', RBool (nullish (boolo banMtls ''caddy_mtls_verify'')
              (nullish (boolo caddy ''caddy_mtls_verify'') False))),
            (''caddy_skipped'', RBool (nullish (boolo banMtls ''caddy_skipped'')
              (nullish (boolo caddy ''caddy_skipped'') True))),
            (''mtls_lab'', RBool (boolo banMtls ''mtls_verify'' = Some True))]),
         (''setup'', RObj
           [(''enable'', RStr (lat ''sudo bash scripts/enable_enterprise_soar_api.sh'')),
            (''disable'', RStr (lat ''sudo bash scripts/disable_enterprise_soar_api.sh'')),
            (''test'', RStr (lat ''bash scripts/caddy_api_mtls_e2e.sh'')),
            (''smoke'', RStr (lat ''bash scripts/dashboard_ban_smoke.sh'')),
            (''gate'', RStr (lat ''bash scripts/enterprise_soar_gate.sh'')),
            (''sync'', RStr (lat ''sudo bash scripts/caddy_mtls_setup.sh sync''))]),
         (''enterprise_gate'', RObj
           [(''pass'', RBool (boolo soarGate ''pass'' = Some True)),
            (''mode'', RStr (nullish (txto soarGate ''mode'') (if (boolo caddy ''enabled'' = Some True)
              then lat ''enterprise'' else lat ''community''))),
            (''mutation_ok'', RBool (nullish (boolo soarGate ''mutation_ok'') (boolo banMtls ''pass'' = Some True)))]),
         (''mtls_strict'', RBool ((boolo soarGate ''mtls_strict'' = Some True) \<or> (boolo caddy ''mtls_strict'' = Some
           True))),
         (''mtls_expiry'', (if boolo mtlsExpiry ''skipped'' = Some True
           then RNull
           else RObj
             [(''pass'', RBool (boolo mtlsExpiry ''pass'' = Some True)),
              (''min_days_left'', jnum (numo mtlsExpiry ''min_days_left'')),
              (''warn_days'', RNum (nullish (numo mtlsExpiry ''warn_days'') 14)),
              (''certs'', RArr (nullish (objso mtlsExpiry ''certs'') [])),
              (''date'', jstr (txto mtlsExpiry ''date'')),
              (''check_cmd'', RStr (lat ''bash scripts/mtls_cert_expiry_check.sh''))])),
         (''relay_lan'', (if relayLan \<noteq> None
           then RObj
             [(''pass'', RBool (boolo relayLan ''pass'' = Some True)),
              (''fail_count'', RNum (nullish (numo relayLan ''fail_count'') 0)),
              (''bridge_up'', RBool (boolo relayLan ''host_api_bridge_up'' = Some True)),
              (''docker0_ip'', jstr (txto relayLan ''docker0_ip'')),
              (''at'', jstr (txto relayLan ''date'')),
              (''check_cmd'', RStr (lat ''bash scripts/relay_lan_exposure_check.sh''))]
           else RNull))])"

definition edge_status_GET :: "status_world \<Rightarrow> rjson" where
  "edge_status_GET w =
     (let rd = status_read w;
       gate = rd ''edge-protection-gate-report.json'';
         checklist = rd ''edge-protection-checklist-report.json'';
         e9 = rd ''enterprise-e9-verify-report.json'';
         status = rd ''guardian-status.json'';
         intelReport = rd ''intel-ban-db-report.json'';
         live = fetchLiveMetrics w;
         relayLan = rd ''relay-lan-exposure-report.json'';
         epsSmoke = rd ''webhook-eps-smoke-report.json'';
       ipc = nullish (txto gate ''ipc'') (nullish (txto status ''ipc'') (lat ''?''));
       xdpMode = nullish (txto gate ''xdp_mode'') (nullish (txto status ''xdp_mode'') (lat ''?''));
       dataMode = if ((ipc = lat ''ok'') \<and> (boolo gate ''pass'' = Some True)) then lat ''live''
         else (if (gate \<noteq> None) then lat ''proof'' else lat ''unknown'');
       liveCount = nullish (Some (fst (live_bans w))) 0;
       gateIpset = nullish (numo gate ''ipset_entries'') 0;
       gateBans = nullish (numo gate ''bans_active'') (nullish (numo (objo status ''db'') ''bans_active'') 0);
       bansActive = if (0 < liveCount) then liveCount else (if (0 < gateIpset) then gateIpset else gateBans);
       ipsetEntries = if (0 < liveCount) then liveCount else gateIpset;
       banEventsLive = if (map_option lm_reachable live = Some True)
         then (map_option (\<lambda>m. gauge m ''ban_events_total'') live) else None;
       intelLegacyLive = if (map_option lm_reachable live = Some True)
         then (map_option (\<lambda>m. gauge m ''intel_ban_legacy_rows'') live) else None;
       intelSummaryLive = if (map_option lm_reachable live = Some True)
         then (map_option (\<lambda>m. gauge m ''intel_ban_summary_rows'') live) else None;
       banEventsTotal = if ((banEventsLive \<noteq> None) \<and> (0 < the banEventsLive)) then banEventsLive else Some
         (nullish (numo intelReport ''ban_events_total'') (nullish (numo gate ''threat_intel_summary_rows'') 0));
       intelLegacy = if (intelLegacyLive \<noteq> None) then intelLegacyLive else Some
         (nullish (numo intelReport ''intel_legacy_rows'') (nullish (numo gate ''threat_intel_legacy_rows'') 0));
       intelSummary = if ((intelSummaryLive \<noteq> None) \<and> (0 < the intelSummaryLive)) then intelSummaryLive
         else Some (nullish (numo intelReport ''intel_summary_rows'')
         (nullish (numo gate ''threat_intel_summary_rows'') 0));
       intelBanDb = RObj
          [(''pass'', RBool ((boolo intelReport ''pass'' \<noteq> Some False) \<and> (intelLegacy = Some 0))),
           (''ban_events_total'', jnum banEventsTotal),
           (''intel_legacy_rows'', jnum intelLegacy),
           (''intel_summary_rows'', jnum intelSummary),
           (''stale_rows'', RNum (nullish (numo intelReport ''stale_rows'') 0)),
           (''ttl_days'', RNum (nullish (numo intelReport ''intel_ban_db_ttl_days'') 7)),
           (''max_total_rows'', RNum (nullish (numo intelReport ''max_total_rows'') 50000)),
           (''at'', jstr (coalesce (txto intelReport ''date'') (txto gate ''date''))),
           (''data_source'', RStr (if (banEventsLive \<noteq> None) then lat ''live'' else lat ''report''))] in
      RObj
        [(''data_mode'', RStr dataMode),
         (''gate_pass'', RBool (boolo gate ''pass'' = Some True)),
         (''gate_at'', jstr (txto gate ''date'')),
         (''gate_fail_reason'', jstr (txto gate ''fail_reason'')),
         (''ipc'', RStr ipc),
         (''xdp_mode'', RStr xdpMode),
         (''xdp_active'', RBool (nullish (boolo gate ''xdp_active'')
           (nullish (boolo (objo status ''daemon'') ''xdp_active'') False))),
         (''default_nic'', RStr (nullish (txto gate ''default_nic'') (lat ''?''))),
         (''wifi_nic'', RBool (nullish (boolo gate ''wifi_nic'') False)),
         (''nginx_log_format'', RBool (nullish (boolo gate ''nginx_log_format'') False)),
         (''nginx_snippets'', RBool (nullish (boolo gate ''nginx_snippets'') False)),
         (''nginx_live'', RBool (nullish (boolo gate ''nginx_live'') False)),
         (''whitelist_count'', RNum (nullish (numo gate ''whitelist_count'') 0)),
         (''ipset_entries'', RNum ipsetEntries),
         (''bans_active'', RNum bansActive),
         (''bans_active_db'', RNum (nullish (numo gate ''bans_active_db'') gateBans)),
         (''bans_source'', RStr (if (0 < liveCount) then (snd (live_bans w)) else (if (0 < gateIpset) then lat ''ipset''
           else lat ''db''))),
         (''threat_intel_legacy_rows'', jnum intelLegacy),
         (''threat_intel_summary_rows'', jnum intelSummary),
         (''intel_ban_db'', intelBanDb),
         (''edge_checklist'', (if checklist \<noteq> None
           then RObj
             [(''pass'', RBool (boolo checklist ''pass'' = Some True)),
              (''at'', jstr (txto checklist ''date'')),
              (''pass_n'', RNum (nullish (numo (objo checklist ''summary'') ''pass'') 0)),
              (''warn_n'', RNum (nullish (numo (objo checklist ''summary'') ''warn'') 0)),
              (''fail_n'', RNum (nullish (numo (objo checklist ''summary'') ''fail'') 0)),
              (''total'', RNum (nullish (numo (objo checklist ''summary'') ''total'') 0)),
              (''fail_ids'', RArr (map RStr (nullish (textso checklist ''laptop_fail_ids'') []))),
              (''warn_ids'', RArr (map RStr (nullish (textso checklist ''laptop_warn_ids'') [])))]
           else RNull)),
         (''enterprise_e9'', (if e9 \<noteq> None
           then RObj
             [(''pass'', RBool (boolo e9 ''pass'' = Some True)),
              (''at'', jstr (txto e9 ''date'')),
              (''competitive_proof'', jstr (txto e9 ''competitive_proof'')),
              (''enterprise_escalation'', RBool (boolo e9 ''enterprise_escalation'' = Some True)),
              (''edge_checklist'', RBool (boolo e9 ''edge_checklist'' = Some True)),
              (''morning_operator'', RBool (boolo e9 ''morning_operator'' = Some True)),
              (''docs_consistency'', RBool (boolo e9 ''docs_consistency'' = Some True)),
              (''eps_smoke'', RBool (boolo e9 ''eps_smoke'' = Some True)),
              (''eps_smoke_peak'', jnum (numo e9 ''eps_smoke_peak''))]
           else RNull)),
         (''relay_lan'', (if relayLan \<noteq> None
           then RObj
             [(''pass'', RBool (boolo relayLan ''pass'' = Some True)),
              (''fail_count'', RNum (nullish (numo relayLan ''fail_count'') 0)),
              (''bridge_up'', RBool (boolo relayLan ''host_api_bridge_up'' = Some True)),
              (''docker0_ip'', jstr (txto relayLan ''docker0_ip'')),
              (''at'', jstr (txto relayLan ''date'')),
              (''check_cmd'', RStr (lat ''bash scripts/relay_lan_exposure_check.sh''))]
           else RNull)),
         (''eps_smoke'', (if \<not> (epsSmoke \<noteq> None) then RNull
         else (let peak = nullish (numo epsSmoke ''peak_eps'') 0;
       derived = nullish (numo epsSmoke ''derived_eps'') 0;
       lines_v = nullish (numo epsSmoke ''lines_delta'') 0;
       pass = (((boolo epsSmoke ''pass'' = Some True) \<and> (1 \<le> lines_v)) \<and> ((0 < peak) \<or> (fl (5 / 10) <
         derived))) in
         RObj
           [(''pass'', RBool pass),
            (''peak_eps'', jnum (if (0 < peak) then Some peak else None)),
            (''lines_delta'', jnum (if (0 < lines_v) then Some lines_v else None)),
            (''at'', jstr (txto epsSmoke ''date'')),
            (''run_cmd'', RStr (lat ''sudo bash scripts/webhook_nginx_eps_smoke.sh''))])))])"

subsection \<open>Commands that wait\<close>

text \<open>The fields of the remote agent that this route shows.\<close>

definition vps_shadow :: "rjson option \<Rightarrow> (string \<times> rjson) list option" where
  "vps_shadow remote =
     (if boolo remote ''ssh_ok'' \<noteq> Some True then None
      else Some [(''agent_id'', RStr (lat VPS_FLEET_AGENT_ID)),
                 (''host'', jstr (txto remote ''host'')),
                 (''hostname'', jstr (txto remote ''hostname'')),
                 (''xdp_mode'', jstr (txto remote ''xdp_mode'')),
                 (''soak_proof_72h'', jnum (numo remote ''soak_proof_72h''))])"

definition live_agent :: "int \<Rightarrow> telemetry \<Rightarrow> string \<times> bool \<times> rat" where
  "live_agent now a =
     (let age = max 0 (fdiv (of_int (now - tl_lastSeen a)) 1000)
      in (tl_agentId a, fmul age 1000 < 15000, math_round age))"

definition agent_json :: "string \<times> bool \<times> rat \<Rightarrow> rjson" where
  "agent_json a = RObj [(''id'', RStr (lat (fst a))), (''online'', RBool (fst (snd a))),
                        (''age_sec'', RNum (snd (snd a)))]"

definition waiting :: "agent_command \<Rightarrow> bool" where
  "waiting c = (\<not> ac_executed c \<and> ac_status c \<in> {Delivered, cmd_status.Pending})"

text \<open>The 24 oldest commands that wait, and the date before which a command is stale. A date too far
from 1970 is invalid, and then nothing is before it.\<close>

definition stuck_commands :: "agent_command list \<Rightarrow> agent_command list" where
  "stuck_commands cs = take 24 (sort_key ac_createdAt (filter waiting cs))"

definition to_date :: "rat \<Rightarrow> int option" where
  "to_date x =
     (let t = (if x < 0 then - \<lfloor>- x\<rfloor> else \<lfloor>x\<rfloor>) in if \<bar>t\<bar> \<le> 8640000000000000 then Some t else None)"

definition prune_cutoff :: "int \<Rightarrow> rat \<Rightarrow> int option" where
  "prune_cutoff now staleHours = to_date (fsub (of_int now) (fmul (fmul staleHours 3600) 1000))"

definition stale_at :: "int option \<Rightarrow> agent_command \<Rightarrow> bool" where
  "stale_at cutoff c = (case cutoff of None \<Rightarrow> False | Some t \<Rightarrow> ac_createdAt c < t)"

definition command_item :: "int \<Rightarrow> agent_command \<Rightarrow> rjson" where
  "command_item now c =
     (let ageH = max 0 (fdiv (of_int (now - ac_createdAt c)) 3600000)
      in RObj [(''type'', RStr (lat (ac_commandType c))),
               (''status'', RStr (lat (if ac_status c = Delivered then ''delivered'' else ''pending''))),
               (''target'', RStr (lat (or_default (ac_targetAgentId c) ''*''))),
               (''age_h'', RNum (fdiv (math_round (fmul ageH 10)) 10)),
               (''payload'', RStr (lat (take 64 (ac_payload c))))])"

text \<open>The loop over the commands: how many are stale, how many are young, and the first eight young ones.\<close>

fun tally :: "int \<Rightarrow> int option \<Rightarrow> agent_command list \<Rightarrow> nat \<times> nat \<times> rjson list \<Rightarrow> nat \<times> nat \<times> rjson list" where
  "tally now cutoff [] acc = acc"
| "tally now cutoff (c # cs) (stale, young, items) =
     tally now cutoff cs
       (if stale_at cutoff c then (stale + 1, young, items)
        else (stale, young + 1, if length items < 8 then items @ [command_item now c] else items))"

definition report_item :: "rjson \<Rightarrow> rjson" where
  "report_item c =
     RObj [(''type'', RStr (nullish (txtf c ''type'') (lat ''?''))),
           (''status'', RStr (nullish (txtf c ''status'') (lat ''?''))),
           (''target'', RStr (nullish (txtf c ''target'') (lat ''*''))),
           (''age_h'', RNum (nullish (numf c ''age_h'') 0)),
           (''payload'', RStr (nullish (txtf c ''payload'') []))]"

record pending_view =
  pv_total :: rat
  pv_stale :: rat
  pv_young :: rat
  pv_items :: "rjson list"

text \<open>The numbers of the database, or those of the last prune report when a query fails.\<close>

definition pending_of :: "status_world \<Rightarrow> rjson option \<Rightarrow> rat \<Rightarrow> pending_view" where
  "pending_of w prune staleHours =
     (case (sw_agents w, sw_commands w) of
        (Some _, Some cs) \<Rightarrow>
          (let (stale, young, items) =
                 tally (sw_now w) (prune_cutoff (sw_now w) staleHours) (stuck_commands cs) (0, 0, [])
           in \<lparr> pv_total = of_nat (length (filter waiting cs)), pv_stale = of_nat stale,
                pv_young = of_nat young, pv_items = items \<rparr>)
      | _ \<Rightarrow>
          (let n = nullish (numo prune ''pending_total'') 0; young = nullish (numo prune ''pending_young'') 0
           in \<lparr> pv_total = n, pv_stale = max 0 (fsub n young), pv_young = young,
                pv_items = map report_item (nullish (objso prune ''pending_young_items'') []) \<rparr>))"

definition fleet_offline_GET :: "status_world \<Rightarrow> rjson" where
  "fleet_offline_GET w =
     (let rd = status_read w;
          gate = rd ''fleet-offline-gate-report.json'';
          multi = rd ''fleet-multi-node-report.json'';
          prune = rd ''fleet-prune-cmds-report.json'';
          staleHours = nullish (numo prune ''stale_hours'') 48;
          agents = map (live_agent (sw_now w)) (nullish (sw_agents w) []);
          liveTotal = of_nat (length agents) :: rat;
          liveOnline = of_nat (length (filter (\<lambda>a. fst (snd a)) agents)) :: rat;
          pv = pending_of w prune staleHours;
          shadow = vps_shadow (rd ''vps-remote-status-report.json'');
          shown = map agent_json agents
            @ (if shadow \<noteq> None \<and> VPS_FLEET_AGENT_ID \<notin> set (map fst agents)
               then [RObj [(''id'', RStr (lat VPS_FLEET_AGENT_ID)), (''online'', RBool True),
                           (''age_sec'', RNum 0), (''remote_shadow'', RBool True)]]
               else []);
          gateOnline = nullish (numo gate ''online'') (nullish (numo multi ''online_count'') 0);
          gateTotal = nullish (numo gate ''total'') (nullish (numo multi ''agent_count'') 0)
      in RObj
        [(''at'', jstr (coalesce (txto gate ''date'') (txto multi ''date''))),
         (''gate'', RObj
           [(''pass'', RBool (boolo gate ''pass'' = Some True)),
            (''reason'', jstr (if txt_truthy (txto gate ''reason'') then txto gate ''reason'' else None)),
            (''online'', RNum gateOnline),
            (''total'', RNum gateTotal),
            (''mode'', jstr (coalesce (txto gate ''mode'') (txto multi ''mode''))),
            (''max_age_min'', RNum (nullish (numo gate ''max_age_min'') 15))]),
         (''live'', RObj
           [(''online'', RNum liveOnline), (''total'', RNum liveTotal), (''agents'', RArr shown),
            (''heartbeat_sec'', RNum 15)]),
         (''remote_shadow'', (case shadow of None \<Rightarrow> RNull | Some fs \<Rightarrow> RObj fs)),
         (''report_stale'', RBool (liveTotal > 0 \<and> (gateOnline \<noteq> liveOnline \<or> gateTotal \<noteq> liveTotal))),
         (''multi'', (if multi \<noteq> None
           then RObj
             [(''pass'', RBool (boolo multi ''pass'' = Some True)),
              (''mode'', jstr (txto multi ''mode'')),
              (''agent_count'', RNum (nullish (numo multi ''agent_count'') 0)),
              (''online_count'', RNum (nullish (numo multi ''online_count'') 0)),
              (''agents'', RArr (map RStr (nullish (textso multi ''agents'') []))),
              (''vm_fallback'', RBool (boolo multi ''vm_fallback'' = Some True))]
           else RNull)),
         (''setup'', RObj
           [(''gate'', RStr (lat ''bash scripts/fleet_offline_gate.sh'')),
            (''refresh'', RStr (lat ''FLEET_MODE=laptop-simulated bash scripts/fleet_multi_node_e2e.sh'')),
            (''host_keepalive'', RStr (lat ''bash scripts/host_fleet_agent_setup.sh --install-user-service'')),
            (''prune'', RStr (lat ''bash scripts/fleet_prune_pending_commands.sh'')),
            (''prune_demo'', RStr (lat ''STALE_MINUTES=30 bash scripts/fleet_prune_pending_commands.sh'')),
            (''prune_dry'', RStr (lat ''DRY_RUN=1 bash scripts/fleet_prune_pending_commands.sh'')),
            (''weekly'', RStr (lat ''bash scripts/weekly_operator_ritual.sh''))]),
         (''prune'', RObj
           [(''pass'', RBool (boolo prune ''pass'' \<noteq> Some False)),
            (''at'', jstr (txto prune ''date'')),
            (''closed_last'', RNum (nullish (numo prune ''closed'') 0)),
            (''stale_hours'', RNum staleHours),
            (''pending_total'', RNum (pv_total pv)),
            (''pending_young'', RNum (pv_young pv)),
            (''pending_stale'', RNum (pv_stale pv)),
            (''needs_prune'', RBool (pv_stale pv > 0)),
            (''items'', RArr (pv_items pv))])])"

subsection \<open>Benchmarks and false positives\<close>

text \<open>These two routes pass a report on as it is. A field whose value is \<open>undefined\<close> is not part of the
reply. \<open>js_prop\<close> is \<open>v.k\<close> of a true value, and \<open>v?.k\<close>.\<close>

definition js_prop :: "rjson option \<Rightarrow> string \<Rightarrow> rjson option" where
  "js_prop v k = Option.bind v (\<lambda>x. fld x k)"

definition defined_fields :: "(string \<times> rjson option) list \<Rightarrow> rjson" where
  "defined_fields fs = RObj (concat (map (\<lambda>(k, v). case v of None \<Rightarrow> [] | Some x \<Rightarrow> [(k, x)]) fs))"

definition rnullish :: "rjson option \<Rightarrow> rjson \<Rightarrow> rjson option" where
  "rnullish v d = Some (if v \<in> {None, Some RNull} then d else the v)"

definition truthy_report :: "rjson option \<Rightarrow> bool" where
  "truthy_report v = (case v of None \<Rightarrow> False | Some r \<Rightarrow> \<not> rfalsy r)"

definition bench_paths :: "status_world \<Rightarrow> string \<Rightarrow> string list" where
  "bench_paths w name =
     (if truthy (sw_env w ''BENCH_DATA_DIR'') then [path_join (the (sw_env w ''BENCH_DATA_DIR'')) name] else [])
     @ [path_join ''/data/lg'' name, path_join (sw_cwd w) name, path_join (path_join (sw_cwd w) ''..'') name]"

definition bench_metrics_GET :: "status_world \<Rightarrow> rjson" where
  "bench_metrics_GET w =
     (let rd = (\<lambda>name. first_some (sw_disk w) (bench_paths w name));
          whole = (\<lambda>r. nullish r RNull);
          bench = rd ''bench-vs-modsec.json'';
          ban = rd ''bench-ban-latency.json'';
          fp = rd ''fp-report.json'';
          live = rd ''guardian-status.json'';
          falco = rd ''rules/generated-falco-host.json'';
          crs = rd ''crs-parity-report.json'';
          isolation = rd ''tenant-isolation-report.json'';
          available = list_ex truthy_report [bench, ban, fp, live, crs];
          mdl = js_prop bench ''modsecurity'';
          cmp = js_prop bench ''comparison'';
          modsec = (if truthy_report bench
            then defined_fields
              [(''eps'', js_prop mdl ''eps''),
               (''latency_us_per_line'', js_prop mdl ''latency_us_per_line''),
               (''guardian_latency_us_per_line'', js_prop (js_prop bench ''log_guardian'') ''latency_us_per_line''),
               (''eps_ratio'', rnullish (js_prop cmp ''guardian_eps_over_crs_replay'') RNull),
               (''latency_ratio'', rnullish (js_prop cmp ''crs_latency_over_guardian'') RNull),
               (''same_corpus'', rnullish (js_prop cmp ''same_log_corpus'') (RBool True)),
               (''note'', js_prop mdl ''note'')]
            else RNull)
      in RObj
        [(''available'', RBool available),
         (''bench'', whole bench),
         (''modsec'', modsec),
         (''ban'', whole ban),
         (''fp'', whole fp),
         (''live'', whole live),
         (''falco'', if truthy_report falco then defined_fields [(''count'', js_prop falco ''count'')] else RNull),
         (''crs'', if truthy_report crs
            then defined_fields
              [(''attack_recall_pct'', js_prop (js_prop crs ''guardian'') ''attack_recall_pct''),
               (''parity_pct'', js_prop crs ''parity_pct''),
               (''pass'', js_prop crs ''pass'')]
            else RNull),
         (''isolation'', if truthy_report isolation
            then defined_fields
              [(''pass'', js_prop isolation ''pass''),
               (''checks_passed'', js_prop isolation ''checks_passed''),
               (''checks_total'', js_prop isolation ''checks_total''),
               (''tenant_id'', js_prop (js_prop isolation ''tenant'') ''id'')]
            else RNull),
         (''hint'', if available then RNull else RStr (lat ''Run: bash scripts/competitive_suite.sh''))])"

definition readFpReport :: "status_world \<Rightarrow> rjson option" where
  "readFpReport w =
     first_some (sw_disk w)
       ((if truthy (sw_env w ''FP_REPORT_JSON'') then [the (sw_env w ''FP_REPORT_JSON'')] else [])
        @ bench_paths w ''fp-report.json'')"

text \<open>\<open>...data\<close> inside an object: the fields of an object, the entries of an array or a text under their
index, and nothing of any other value. Index keys come first.\<close>

definition spread :: "rjson \<Rightarrow> (string \<times> rjson) list" where
  "spread r =
     (case r of
        RObj fs \<Rightarrow> fs
      | RArr xs \<Rightarrow> map (\<lambda>(i, x). (show_nat i, x)) (enumerate 0 xs)
      | RStr s \<Rightarrow> map (\<lambda>(i, c). (show_nat i, RStr [c])) (enumerate 0 s)
      | _ \<Rightarrow> [])"

definition is_index :: "string \<Rightarrow> bool" where
  "is_index k = (k \<noteq> [] \<and> list_all is_digit k \<and> (hd k = CHR ''0'' \<longrightarrow> k = ''0'') \<and> dec_val k < 2 ^ 32 - 1)"

definition spread_into :: "(string \<times> rjson) list \<Rightarrow> rjson \<Rightarrow> rjson" where
  "spread_into fs r =
     (let gs = foldl (\<lambda>m (k, v). map_set m k v) fs (spread r)
      in RObj (filter (\<lambda>(k, _). is_index k) gs @ filter (\<lambda>(k, _). \<not> is_index k) gs))"

definition fp_metrics_GET :: "status_world \<Rightarrow> rjson" where
  "fp_metrics_GET w =
     (let data = readFpReport w in
      if \<not> truthy_report data
      then RObj [(''available'', RBool False), (''message'', RStr (lat ''Run: bash scripts/fp_report.sh''))]
      else spread_into [(''available'', RBool True)] (the data))"

subsection \<open>The proof file\<close>

record proof_meta =
  pm_expected :: nat
  pm_passed :: nat
  pm_testIds :: "ustring list"

text \<open>A null in the list of tests makes the reader throw, which counts as no file.\<close>

definition readProofJson :: "rjson option \<Rightarrow> proof_meta option" where
  "readProofJson raw =
     (case objso raw ''validationTests'' of
        None \<Rightarrow> None
      | Some tests \<Rightarrow>
          if tests = [] \<or> RNull \<in> set tests then None
          else Some \<lparr> pm_expected = length tests,
                      pm_passed = length (filter (\<lambda>t. txtf t ''status'' = Some (lat ''pass'')) tests),
                      pm_testIds = filter (\<lambda>i. i \<noteq> []) (map (\<lambda>t. nullish (txtf t ''id'') []) tests) \<rparr>)"

definition getProofMeta :: "status_world \<Rightarrow> proof_meta option" where
  "getProofMeta w = first_some (\<lambda>p. readProofJson (sw_disk w p)) (bench_paths w ''competitive-proof.json'')"

subsection \<open>The snapshot of the start page\<close>

text \<open>The number of shells a tree saw; a null where an object must be makes the count throw.\<close>

definition tree_shells :: "rjson \<Rightarrow> nat option" where
  "tree_shells tree =
     (if tree = RNull then None
      else (let evs = nullish (objsf tree ''events'') []
            in if RNull \<in> set evs then None
               else Some (length (filter (\<lambda>e. txtf e ''type'' = Some (lat ''EXEC_SHELL'')) evs))))"

fun sum_opts :: "nat option list \<Rightarrow> nat option" where
  "sum_opts [] = Some 0"
| "sum_opts (x # xs) = (case (x, sum_opts xs) of (Some m, Some n) \<Rightarrow> Some (m + n) | _ \<Rightarrow> None)"

definition lineageRceCount :: "status_world \<Rightarrow> nat" where
  "lineageRceCount w =
     (case sw_disk w (path_join (DATA_DIR (sw_env w)) ''attack_tree.json'') of
        None \<Rightarrow> 0
      | Some parsed \<Rightarrow>
          (let trees = (case parsed of RArr ts \<Rightarrow> ts | _ \<Rightarrow> nullish (objsf parsed ''trees'') [])
           in nullish (sum_opts (map tree_shells trees)) 0))"

definition snapshot_GET :: "status_world \<Rightarrow> rjson" where
  "snapshot_GET w =
     (let status = sw_disk w (path_join (DATA_DIR (sw_env w)) ''guardian-status.json'');
          entries = fetchSocTimelineFallback (sw_parse_date w) (sw_timeline_file w);
          count = (\<lambda>k. of_nat (length (filter (\<lambda>e. te_kind e = k) entries)))
      in RObj [(''hints'', RObj
           [(''from_snapshot'', RBool True),
            (''rce_blocked'', RNum (of_nat (lineageRceCount w))),
            (''lineage_events'', RNum (count K_lineage)),
            (''proof_ban_entries'', RNum (count K_ban)),
            (''alerts_total'', RNum (nullish (numo (objo status ''db'') ''alerts_total'') 0)),
            (''bans_active_db'', RNum (nullish (numo (objo status ''db'') ''bans_active'') 0)),
            (''incidents_active'', RNum (nullish (numo (objo status ''incidents'') ''active'') 0)),
            (''l7_blocked'', RNum (nullish (numo (objo status ''l7_http'') ''blocked'') 0))])])"

subsection \<open>The TLS panel\<close>

text \<open>The rows the caller may see: all of them for an administrator, and those of the caller's tenant
otherwise. The client refuses a query for no tenant at all.\<close>

definition tls_rows :: "request \<Rightarrow> telemetry list option \<Rightarrow> telemetry list option" where
  "tls_rows rq rows =
     (if header rq ''x-user-role'' = Some ''admin'' then rows
      else (case header rq ''x-user-tenant'' of
              None \<Rightarrow> None
            | Some t \<Rightarrow> map_option (filter (\<lambda>a. tl_tenantId a = t)) rows))"

definition tls_status_GET :: "int \<Rightarrow> request \<Rightarrow> telemetry list option \<Rightarrow> nat \<times> rjson" where
  "tls_status_GET now rq rows =
     (case tls_rows rq rows of
        None \<Rightarrow> (500, RObj [(''error'', RStr (lat ''Internal Server Error''))])
      | Some agents \<Rightarrow>
          (let online = filter (\<lambda>a. now - tl_lastSeen a < 15000) agents;
               decrypted = of_int (sum_list (map tl_tlsDecrypted online)) :: rat;
               peers = of_int (sum_list (map tl_etcdPeers online)) :: rat
           in (200, RObj
             [(''tls_read_calls'', RNum decrypted),
              (''tls_write_calls'', RNum (of_int \<lfloor>fmul decrypted (fl (7 / 10))\<rfloor>)),
              (''tls_bytes'', RNum (fmul decrypted 512)),
              (''uprobe_active'', RBool (list_ex (\<lambda>a. tl_tlsDecrypted a > 0) online)),
              (''etcd_connected'', RBool (peers > 0)),
              (''etcd_peers'', RNum peers),
              (''online_agents'', RNum (of_nat (length online)))])))"

section \<open>What the status routes show\<close>

subsection \<open>One verdict on the throughput smoke test\<close>

text \<open>The verdict the panels should agree on: there is a report, and it passed with log lines seen and a
measurable rate.\<close>

definition eps_smoke_ok :: "rjson \<Rightarrow> bool" where
  "eps_smoke_ok r \<longleftrightarrow> boolf r ''pass'' = Some True \<and> 1 \<le> nullish (numf r ''lines_delta'') 0
     \<and> (0 < nullish (numf r ''peak_eps'') 0 \<or> fl (5 / 10) < nullish (numf r ''derived_eps'') 0)"

lemma fl_half: "fl (5 / 10) = 1 / 2"
  by code_simp

lemma field_at:
  "fldo (Some (RObj fs)) k = map_of fs k"
  "numo (Some (RObj fs)) k = (case map_of fs k of Some (RNum x) \<Rightarrow> Some x | _ \<Rightarrow> None)"
  "objso (Some (RObj fs)) k = (case map_of fs k of Some (RArr xs) \<Rightarrow> Some xs | _ \<Rightarrow> None)"
  by (simp_all add: fldo_def numo_def numf_def objso_def objsf_def fld_def)

lemma eps_panels:
  assumes "status_read w ''webhook-eps-smoke-report.json'' = Some r"
  shows "fld (eps_smoke_GET w) ''pass'' = Some (RBool (eps_smoke_ok r))"
    and "fldo (fld (operator_gates_GET w) ''eps_smoke'') ''pass'' = Some (RBool (eps_smoke_ok r))"
    and "fldo (fld (edge_status_GET w) ''eps_smoke'') ''pass'' = Some (RBool (eps_smoke_ok r))"
  using assms
  by (simp_all add: eps_smoke_GET_def operator_gates_GET_def edge_status_GET_def Let_def eps_smoke_ok_def
      numo_def boolo_def fldo_def fld_def conj_assoc)

lemma eps_panels_none:
  assumes "status_read w ''webhook-eps-smoke-report.json'' = None"
  shows "fld (eps_smoke_GET w) ''pass'' = Some RNull"
    and "fld (operator_gates_GET w) ''eps_smoke'' = Some RNull"
    and "fld (edge_status_GET w) ''eps_smoke'' = Some RNull"
  using assms
  by (simp_all add: eps_smoke_GET_def operator_gates_GET_def edge_status_GET_def Let_def fld_def)

lemma eps_banner: "(epsSmokeBanner (Some r) \<noteq> None) = eps_smoke_ok r"
  unfolding epsSmokeBanner_def eps_smoke_ok_def fl_half by simp


subsection \<open>Pruning\<close>

lemma filter_take_sorted:
  assumes "sorted (map k xs)" and down: "\<And>x y. k x \<le> k y \<Longrightarrow> P y \<Longrightarrow> P x"
  shows "length (filter P (take n xs)) = min n (length (filter P xs))"
  using assms(1)
proof (induction xs arbitrary: n)
  case (Cons x xs)
  show ?case
  proof (cases "P x")
    case True
    with Cons show ?thesis by (cases n) simp_all
  next
    case False
    with Cons.prems down have "\<forall>y \<in> set (x # xs). \<not> P y" by auto
    moreover from this have "\<forall>y \<in> set (take n (x # xs)). \<not> P y" by (meson in_set_takeD)
    ultimately have "filter P (x # xs) = []" "filter P (take n (x # xs)) = []"
      unfolding filter_empty_conv by blast+
    then show ?thesis by (simp only: list.size min_0R)
  qed
qed simp

lemma tally_spec:
  assumes "length items \<le> 8"
  shows "tally now cutoff cs (m, n, items)
    = (m + length (filter (stale_at cutoff) cs), n + length (filter (\<lambda>c. \<not> stale_at cutoff c) cs),
       items @ take (8 - length items) (map (command_item now) (filter (\<lambda>c. \<not> stale_at cutoff c) cs)))"
  using assms
proof (induction cs arbitrary: m n items)
  case (Cons c cs)
  show ?case
  proof (cases "stale_at cutoff c \<or> length items = 8")
    case False
    then have "Suc (8 - Suc (length items)) = 8 - length items" using Cons.prems by arith
    with False Cons show ?thesis by (simp add: take_Suc_conv_app_nth [symmetric] flip: take_Suc_Cons)
  qed (use Cons in auto)
qed simp

lemma stale_down: "ac_createdAt a \<le> ac_createdAt b \<Longrightarrow> stale_at cutoff b \<Longrightarrow> stale_at cutoff a"
  by (auto simp: stale_at_def split: option.splits)

lemma stuck_stale:
  "length (filter (stale_at cutoff) (stuck_commands cs)) = min 24 (length (filter (\<lambda>c. waiting c \<and> stale_at cutoff c) cs))"
proof -
  have "length (filter (stale_at cutoff) (stuck_commands cs))
      = min 24 (length (filter (stale_at cutoff) (sort_key ac_createdAt (filter waiting cs))))"
    unfolding stuck_commands_def
    by (rule filter_take_sorted [where k = ac_createdAt]) (simp, blast intro: stale_down)
  then show ?thesis by (simp add: filter_sort conj_commute)
qed

lemma stuck_length: "length (stuck_commands cs) = min 24 (length (filter waiting cs))"
  by (simp add: stuck_commands_def)

lemma stuck_young:
  "length (filter (\<lambda>c. \<not> stale_at cutoff c) (stuck_commands cs))
   = min 24 (length (filter waiting cs)) - min 24 (length (filter (\<lambda>c. waiting c \<and> stale_at cutoff c) cs))"
  using sum_length_filter_compl [of "stale_at cutoff" "stuck_commands cs"]
  by (simp add: stuck_stale stuck_length)

lemma pending_of_db:
  assumes "sw_agents w = Some rows" "sw_commands w = Some cs"
  defines "cutoff h \<equiv> prune_cutoff (sw_now w) h"
  shows "pending_of w prune h =
    \<lparr> pv_total = of_nat (length (filter waiting cs)),
      pv_stale = of_nat (min 24 (length (filter (\<lambda>c. waiting c \<and> stale_at (cutoff h) c) cs))),
      pv_young = of_nat (min 24 (length (filter waiting cs))
                         - min 24 (length (filter (\<lambda>c. waiting c \<and> stale_at (cutoff h) c) cs))),
      pv_items = take 8 (map (command_item (sw_now w))
                   (filter (\<lambda>c. \<not> stale_at (cutoff h) c) (stuck_commands cs))) \<rparr>"
  using assms by (simp add: pending_of_def tally_spec stuck_stale stuck_young)

lemma fleet_offline_prune:
  "fld (fleet_offline_GET w) ''prune'' =
     (let p = status_read w ''fleet-prune-cmds-report.json''; h = nullish (numo p ''stale_hours'') 48;
          pv = pending_of w p h
      in Some (RObj
           [(''pass'', RBool (boolo p ''pass'' \<noteq> Some False)), (''at'', jstr (txto p ''date'')),
            (''closed_last'', RNum (nullish (numo p ''closed'') 0)), (''stale_hours'', RNum h),
            (''pending_total'', RNum (pv_total pv)), (''pending_young'', RNum (pv_young pv)),
            (''pending_stale'', RNum (pv_stale pv)), (''needs_prune'', RBool (pv_stale pv > 0)),
            (''items'', RArr (pv_items pv))]))"
  by (simp add: fleet_offline_GET_def fld_def Let_def)

text \<open>C26. The prune panel looks at the 24 oldest commands that wait, and this is enough for its alarm:
with the database up, it asks for a prune exactly when some command of any tenant has waited past
the limit, and the number of stale commands is exact up to 24. The young ones get what is left of
the 24 places, so that many stale commands hide every young one.\<close>

theorem prune_alarm_exact:
  assumes "sw_agents w = Some rows" "sw_commands w = Some cs"
    and "h = nullish (numo (status_read w ''fleet-prune-cmds-report.json'') ''stale_hours'') 48"
    and "old = filter (\<lambda>c. waiting c \<and> stale_at (prune_cutoff (sw_now w) h) c) cs"
    and "panel = fld (fleet_offline_GET w) ''prune''"
  shows "fldo panel ''needs_prune'' = Some (RBool (old \<noteq> []))
    \<and> numo panel ''pending_stale'' = Some (of_nat (min 24 (length old)))
    \<and> numo panel ''pending_young'' = Some (of_nat (min 24 (length (filter waiting cs)) - min 24 (length old)))
    \<and> numo panel ''pending_total'' = Some (of_nat (length (filter waiting cs)))
    \<and> (\<exists>items. objso panel ''items'' = Some items \<and> length items \<le> 8)"
  using assms
  by (simp add: fleet_offline_prune pending_of_db [OF assms(1,2)] Let_def field_at)

definition w_prune :: status_world where
  "w_prune =
     \<lparr> sw_disk = Map.empty, sw_env = Map.empty, sw_cwd = ''/app'', sw_now = 1000000000,
       sw_scrape = (\<lambda>_. Scrape_status 503),
       sw_bans = \<lparr> bw_env = Map.empty, bw_fetch = \<lambda>_ _. Failed, bw_files = Map.empty, bw_parse = Map.empty,
                   bw_json = Map.empty \<rparr>,
       sw_agents = Some [], sw_commands = Some [q_command, q_command\<lparr>ac_createdAt := 999999000\<rparr>],
       sw_timeline_file = Map.empty, sw_parse_date = Map.empty \<rparr>"

lemma w_prune_simps:
  "sw_agents w_prune = Some []" "sw_now w_prune = 1000000000"
  "sw_commands w_prune = Some [q_command, q_command\<lparr>ac_createdAt := 999999000\<rparr>]"
  "status_read w_prune f = None"
  by (simp_all add: w_prune_def status_read_def readRepoJson_def)

lemma w_prune_cutoff: "prune_cutoff 1000000000 48 = Some 827200000"
  by code_simp

theorem prune_alarm_exact_witness:
  "fldo (fld (fleet_offline_GET w_prune) ''prune'') ''needs_prune'' = Some (RBool True)
   \<and> numo (fld (fleet_offline_GET w_prune) ''prune'') ''pending_stale'' = Some 1
   \<and> numo (fld (fleet_offline_GET w_prune) ''prune'') ''pending_young'' = Some 1"
  using prune_alarm_exact [of w_prune "[]" "[q_command, q_command\<lparr>ac_createdAt := 999999000\<rparr>]", OF _ _ refl refl refl]
  by (simp add: w_prune_simps numo_def [of None] w_prune_cutoff stale_at_def waiting_def q_command_def)


end
