(* ===== verification/Grafana.thy ===== *)
theory Grafana
  imports StatusRoutes
begin

section \<open>The embedded metrics dashboard\<close>

text \<open>
  \<^verbatim>\<open>lib/grafanaPanels.ts\<close> and \<^verbatim>\<open>app/api/metrics/grafana/route.ts\<close>: the panels with their
  queries, and the route that answers all of them at once, from Prometheus merged with the live
  counters, or from the counters alone, behind a cache of one entry. The answers of the two servers,
  the clock and how a time of day prints are the world. \<open>parseInt\<close> gives an exact integer. The fields
  of a statistics object are kept in the order of the panels.
\<close>

subsection \<open>The panels\<close>

record panel_series =
  ps_key :: string
  ps_legend :: string
  ps_expr :: string

record stat_panel =
  sp_id :: string
  sp_title :: string
  sp_expr :: string

record ts_panel =
  tp_id :: string
  tp_title :: string
  tp_series :: "panel_series list"

text \<open>Every query selects one metric of one tenant; \<open>dq\<close> quotes a text.\<close>

definition dq :: "string \<Rightarrow> string" where
  "dq s = CHR 0x22 # s @ [CHR 0x22]"

definition of_tenant :: "string \<Rightarrow> string" where
  "of_tenant m = m @ ''{tenant_id='' @ dq ''$tenant'' @ ''}''"

definition with_code :: "string \<Rightarrow> string \<Rightarrow> string" where
  "with_code m c = m @ ''{tenant_id='' @ dq ''$tenant'' @ '',code='' @ dq c @ ''}''"

definition rate_of :: "string \<Rightarrow> string \<Rightarrow> string" where
  "rate_of m window = ''rate('' @ of_tenant m @ ''['' @ window @ ''])''"

text \<open>\<open>expr.replace(/\$tenant/g, tenant)\<close>. The second argument is a replacement pattern: in it, \<open>$$\<close>,
\<open>$&\<close>, \<open>$`\<close> and \<open>$'\<close> stand for a dollar sign, the match, and the text before and after it.\<close>

fun expand_pattern :: "string \<Rightarrow> string \<Rightarrow> string \<Rightarrow> string \<Rightarrow> string" where
  "expand_pattern pre mt post (a # b # r) =
     (if a = CHR ''$'' \<and> b = CHR ''$'' then CHR ''$'' # expand_pattern pre mt post r
      else if a = CHR ''$'' \<and> b = CHR ''&'' then mt @ expand_pattern pre mt post r
      else if a = CHR ''$'' \<and> b = CHR 0x60 then pre @ expand_pattern pre mt post r
      else if a = CHR ''$'' \<and> b = CHR 0x27 then post @ expand_pattern pre mt post r
      else a # expand_pattern pre mt post (b # r))"
| "expand_pattern pre mt post r = r"

function replace_tenant :: "string \<Rightarrow> string \<Rightarrow> string \<Rightarrow> string" where
  "replace_tenant pre s tenant =
     (if s = [] then []
      else if startsWith s ''$tenant''
      then expand_pattern pre ''$tenant'' (drop 7 s) tenant @ replace_tenant (pre @ ''$tenant'') (drop 7 s) tenant
      else hd s # replace_tenant (pre @ [hd s]) (tl s) tenant)"
  by pat_completeness auto

termination
  by (relation "measure (\<lambda>(_, s, _). length s)") auto

declare replace_tenant.simps [simp del]

definition tenantExpr :: "string \<Rightarrow> string \<Rightarrow> string" where
  "tenantExpr expr tenant = replace_tenant [] expr tenant"

definition GRAFANA_STAT_PANELS :: "stat_panel list" where
  "GRAFANA_STAT_PANELS =
     [\<lparr> sp_id = ''lines'', sp_title = ''Log Lines Processed'', sp_expr = of_tenant ''loganalyzer_lines_total'' \<rparr>,
      \<lparr> sp_id = ''ban_ok'', sp_title = ''Ban Success'', sp_expr = of_tenant ''loganalyzer_bans_success'' \<rparr>,
      \<lparr> sp_id = ''ban_fail'', sp_title = ''Ban Fail'', sp_expr = of_tenant ''loganalyzer_bans_fail'' \<rparr>,
      \<lparr> sp_id = ''parse_err'', sp_title = ''Parse Errors'', sp_expr = of_tenant ''loganalyzer_parse_errors_total'' \<rparr>,
      \<lparr> sp_id = ''eps'', sp_title = ''Events Per Second'', sp_expr = of_tenant ''loganalyzer_eps'' \<rparr>,
      \<lparr> sp_id = ''xdp'', sp_title = ''XDP Active'', sp_expr = of_tenant ''loganalyzer_xdp_active'' \<rparr>,
      \<lparr> sp_id = ''unique_ips'', sp_title = ''Unique IPs'', sp_expr = of_tenant ''loganalyzer_unique_ips'' \<rparr>,
      \<lparr> sp_id = ''ringbuf'', sp_title = ''Ringbuf Drops'', sp_expr = of_tenant ''loganalyzer_ringbuf_drops_total'' \<rparr>]"

definition GRAFANA_TS_PANELS :: "ts_panel list" where
  "GRAFANA_TS_PANELS =
     [\<lparr> tp_id = ''eps_ts'', tp_title = ''EPS (gauge)'',
        tp_series =
          [\<lparr> ps_key = ''eps'', ps_legend = ''EPS'', ps_expr = of_tenant ''loganalyzer_eps'' \<rparr>] \<rparr>,
      \<lparr> tp_id = ''http_status'', tp_title = ''HTTP 4xx / 5xx'',
        tp_series =
          [\<lparr> ps_key = ''4xx'', ps_legend = ''4xx'', ps_expr = with_code ''loganalyzer_http_status_total'' ''4xx'' \<rparr>,
           \<lparr> ps_key = ''5xx'', ps_legend = ''5xx'', ps_expr = with_code ''loganalyzer_http_status_total'' ''5xx'' \<rparr>] \<rparr>,
      \<lparr> tp_id = ''alert_rate'', tp_title = ''Alert rate'',
        tp_series =
          [\<lparr> ps_key = ''alerts_s'', ps_legend = ''alerts/s'', ps_expr = rate_of ''loganalyzer_alerts_total'' ''1m'' \<rparr>] \<rparr>,
      \<lparr> tp_id = ''ban_rate'', tp_title = ''Ban success vs fail (rate)'',
        tp_series =
          [\<lparr> ps_key = ''success'', ps_legend = ''success'', ps_expr = rate_of ''loganalyzer_bans_success'' ''5m'' \<rparr>,
           \<lparr> ps_key = ''fail'', ps_legend = ''fail'', ps_expr = rate_of ''loganalyzer_bans_fail'' ''5m'' \<rparr>] \<rparr>,
      \<lparr> tp_id = ''parse_rate'', tp_title = ''Parse errors (rate)'',
        tp_series =
          [\<lparr> ps_key = ''parse_s'', ps_legend = ''parse errors/s'', ps_expr = rate_of ''loganalyzer_parse_errors_total'' ''5m'' \<rparr>] \<rparr>]"

definition GRAFANA_TABLE_METRICS :: "(string \<times> string \<times> string) list" where
  "GRAFANA_TABLE_METRICS =
     [(''lines'', ''lines_total'', of_tenant ''loganalyzer_lines_total''),
      (''alerts'', ''alerts_total'', of_tenant ''loganalyzer_alerts_total''),
      (''eps'', ''eps'', of_tenant ''loganalyzer_eps''),
      (''ban_ok'', ''bans_success'', of_tenant ''loganalyzer_bans_success''),
      (''ban_fail'', ''bans_fail'', of_tenant ''loganalyzer_bans_fail''),
      (''ips'', ''unique_ips'', of_tenant ''loganalyzer_unique_ips''),
      (''xdp'', ''xdp_active'', of_tenant ''loganalyzer_xdp_active''),
      (''ja3_clusters'', ''ja3_clusters_active'', of_tenant ''loganalyzer_ja3_clusters_active''),
      (''ja3_bans'', ''ja3_cluster_bans'', of_tenant ''loganalyzer_ja3_cluster_bans_total''),
      (''threat_iocs'', ''threat_iocs'', of_tenant ''loganalyzer_threat_total_iocs''),
      (''fp_trusted'', ''fp_trusted_ips'', of_tenant ''loganalyzer_fp_trusted_ips''),
      (''bp_ipset'', ''ban_pipeline_ipset'', of_tenant ''loganalyzer_ban_pipeline_ipset'')]"

definition GRAFANA_TELEGRAM_STAT_PANELS :: "stat_panel list" where
  "GRAFANA_TELEGRAM_STAT_PANELS =
     [\<lparr> sp_id = ''tg_ack'', sp_title = ''Telegram Ack (24h)'', sp_expr = of_tenant ''loganalyzer_telegram_ack_24h'' \<rparr>,
      \<lparr> sp_id = ''tg_unacked'', sp_title = ''Telegram Unacked (24h)'', sp_expr = of_tenant ''loganalyzer_telegram_unacked_24h'' \<rparr>,
      \<lparr> sp_id = ''tg_route'', sp_title = ''Telegram route'', sp_expr = of_tenant ''loganalyzer_webhook_telegram_route'' \<rparr>,
      \<lparr> sp_id = ''tg_batch'', sp_title = ''Telegram batch (s)'', sp_expr = of_tenant ''loganalyzer_webhook_telegram_batch_sec'' \<rparr>,
      \<lparr> sp_id = ''tg_queue'', sp_title = ''Webhook queue'', sp_expr = of_tenant ''loganalyzer_webhook_queue_depth'' \<rparr>,
      \<lparr> sp_id = ''quiet_hours'', sp_title = ''Quiet hours'', sp_expr = of_tenant ''loganalyzer_webhook_quiet_hours'' \<rparr>,
      \<lparr> sp_id = ''quiet_active'', sp_title = ''Quiet active now'', sp_expr = of_tenant ''loganalyzer_webhook_quiet_active'' \<rparr>]"

definition GRAFANA_SOC_STAT_PANELS :: "stat_panel list" where
  "GRAFANA_SOC_STAT_PANELS =
     [\<lparr> sp_id = ''threat_sync_ts'', sp_title = ''Threat last sync'', sp_expr = of_tenant ''loganalyzer_threat_last_sync_ts'' \<rparr>,
      \<lparr> sp_id = ''threat_iocs'', sp_title = ''Threat IOCs'', sp_expr = of_tenant ''loganalyzer_threat_total_iocs'' \<rparr>,
      \<lparr> sp_id = ''threat_applied'', sp_title = ''Threat applied (last sync)'', sp_expr = of_tenant ''loganalyzer_threat_last_applied'' \<rparr>,
      \<lparr> sp_id = ''threat_failed'', sp_title = ''Threat failed (last sync)'', sp_expr = of_tenant ''loganalyzer_threat_last_failed'' \<rparr>,
      \<lparr> sp_id = ''fp_trusted'', sp_title = ''FP trusted IPs'', sp_expr = of_tenant ''loganalyzer_fp_trusted_ips'' \<rparr>,
      \<lparr> sp_id = ''fp_learn'', sp_title = ''FP learn'', sp_expr = of_tenant ''loganalyzer_fp_learn_enabled'' \<rparr>,
      \<lparr> sp_id = ''fp_suppressed'', sp_title = ''FP suppressed'', sp_expr = of_tenant ''loganalyzer_fp_suppressed_total'' \<rparr>,
      \<lparr> sp_id = ''bp_ipc'', sp_title = ''Ban path IPC'', sp_expr = of_tenant ''loganalyzer_ban_pipeline_ipc'' \<rparr>,
      \<lparr> sp_id = ''bp_xdp'', sp_title = ''Ban path XDP'', sp_expr = of_tenant ''loganalyzer_ban_pipeline_xdp'' \<rparr>,
      \<lparr> sp_id = ''bp_ipset'', sp_title = ''Ban path ipset'', sp_expr = of_tenant ''loganalyzer_ban_pipeline_ipset'' \<rparr>,
      \<lparr> sp_id = ''bp_failed'', sp_title = ''Ban pipeline fail'', sp_expr = of_tenant ''loganalyzer_ban_pipeline_failed'' \<rparr>,
      \<lparr> sp_id = ''ban_events_db'', sp_title = ''ban_events DB rows'', sp_expr = of_tenant ''loganalyzer_ban_events_total'' \<rparr>,
      \<lparr> sp_id = ''intel_ban_legacy'', sp_title = ''Intel ban legacy'', sp_expr = of_tenant ''loganalyzer_intel_ban_legacy_rows'' \<rparr>,
      \<lparr> sp_id = ''intel_ban_summary'', sp_title = ''Intel ban summary'', sp_expr = of_tenant ''loganalyzer_intel_ban_summary_rows'' \<rparr>,
      \<lparr> sp_id = ''ja3_clusters'', sp_title = ''JA3 cluster buckets'', sp_expr = of_tenant ''loganalyzer_ja3_clusters_active'' \<rparr>,
      \<lparr> sp_id = ''ja3_bans'', sp_title = ''JA3 cluster bans'', sp_expr = of_tenant ''loganalyzer_ja3_cluster_bans_total'' \<rparr>,
      \<lparr> sp_id = ''dist_risk_buckets'', sp_title = ''DIST risk buckets'', sp_expr = of_tenant ''loganalyzer_dist_risk_buckets_active'' \<rparr>,
      \<lparr> sp_id = ''dist_risk_bonus'', sp_title = ''DIST risk bonus'', sp_expr = of_tenant ''loganalyzer_dist_risk_bonus_applied_total'' \<rparr>]"

definition GRAFANA_API_STAT_PANELS :: "stat_panel list" where
  "GRAFANA_API_STAT_PANELS =
     [\<lparr> sp_id = ''api_requests'', sp_title = ''API requests'', sp_expr = of_tenant ''loganalyzer_api_requests_total'' \<rparr>,
      \<lparr> sp_id = ''api_auth_fail'', sp_title = ''API auth fail (403)'', sp_expr = of_tenant ''loganalyzer_api_auth_fail_total'' \<rparr>,
      \<lparr> sp_id = ''api_rate_limited'', sp_title = ''API rate limited'', sp_expr = of_tenant ''loganalyzer_api_rate_limited_total'' \<rparr>]"

definition GRAFANA_WEBHOOK_STAT_PANELS :: "stat_panel list" where
  "GRAFANA_WEBHOOK_STAT_PANELS =
     [\<lparr> sp_id = ''wh_sent'', sp_title = ''Webhook sent'', sp_expr = of_tenant ''loganalyzer_webhook_sent_total'' \<rparr>,
      \<lparr> sp_id = ''wh_fail'', sp_title = ''Webhook fail'', sp_expr = of_tenant ''loganalyzer_webhook_fail_total'' \<rparr>,
      \<lparr> sp_id = ''wh_drops'', sp_title = ''Webhook queue drops'', sp_expr = of_tenant ''loganalyzer_webhook_queue_drops_total'' \<rparr>]"

definition GRAFANA_SOC_TS_PANELS :: "ts_panel list" where
  "GRAFANA_SOC_TS_PANELS =
     [\<lparr> tp_id = ''ban_pipeline_rate'', tp_title = ''Ban pipeline paths (rate)'',
        tp_series =
          [\<lparr> ps_key = ''ipc'', ps_legend = ''ipc'', ps_expr = rate_of ''loganalyzer_ban_pipeline_ipc'' ''5m'' \<rparr>,
           \<lparr> ps_key = ''xdp'', ps_legend = ''xdp'', ps_expr = rate_of ''loganalyzer_ban_pipeline_xdp'' ''5m'' \<rparr>,
           \<lparr> ps_key = ''ipset'', ps_legend = ''ipset'', ps_expr = rate_of ''loganalyzer_ban_pipeline_ipset'' ''5m'' \<rparr>,
           \<lparr> ps_key = ''ja3'', ps_legend = ''ja3_cluster'', ps_expr = rate_of ''loganalyzer_ja3_cluster_bans_total'' ''5m'' \<rparr>,
           \<lparr> ps_key = ''dist_risk'', ps_legend = ''dist_risk_bonus'', ps_expr = rate_of ''loganalyzer_dist_risk_bonus_applied_total'' ''5m'' \<rparr>] \<rparr>]"

definition GRAFANA_DASH_UID :: string where "GRAFANA_DASH_UID = ''log-guardian-01''"

text \<open>The text before the first \<open>/d/\<close>.\<close>

function before_dash :: "string \<Rightarrow> string" where
  "before_dash s = (if s = [] \<or> startsWith s ''/d/'' then [] else hd s # before_dash (tl s))"
  by pat_completeness auto

termination
  by (relation "measure length") auto

declare before_dash.simps [simp del]

definition grafanaDashboardUrl :: "env \<Rightarrow> string \<Rightarrow> string" where
  "grafanaDashboardUrl env tenant =
     or_default (map_option before_dash (env ''NEXT_PUBLIC_GRAFANA_EMBED_URL'')) ''http://127.0.0.1:3002''
     @ ''/d/'' @ GRAFANA_DASH_UID @ ''/linux-log-guardian-e28094-operations?orgId=1&from=now-1h&to=now&var-tenant=''
     @ encodeURIComponent tenant @ ''&refresh=10s''"

subsection \<open>The live counters\<close>

type_synonym stats = "(string, rat) jsmap"

record live_stats =
  ls_hint :: ustring
  ls_stats :: stats
  ls_socStats :: stats
  ls_telegramStats :: stats
  ls_apiStats :: stats
  ls_webhookStats :: stats
  ls_alerts_total :: rat

text \<open>What a query is told: nothing when the connection fails, which is an exception. The start and the
step of a range query are nothing when they are no numbers.\<close>

record grafana_world =
  gw_env :: env
  gw_now :: int
  gw_up :: "string \<Rightarrow> bool option"
  gw_scrape :: "string \<Rightarrow> scrape"
  gw_instant :: "string \<Rightarrow> string option prom_answer option"
  gw_range :: "string \<Rightarrow> int option \<Rightarrow> int \<Rightarrow> int option \<Rightarrow> (rat \<times> string) list option prom_answer option"
  gw_clock :: "rat \<Rightarrow> string"

definition sync_age :: "int \<Rightarrow> rat \<Rightarrow> rat" where
  "sync_age now syncTs = max 0 (fdiv (fsub (fdiv (of_int now) 1000) syncTs) 3600)"

definition LIVE_HINT :: ustring where
  "LIVE_HINT = lat ''Canli :9091 metrikleri (Prometheus yok). Gecmis grafikler: bash scripts/dashboard_stack.sh''"

definition liveGuardianStats :: "grafana_world \<Rightarrow> live_stats option" where
  "liveGuardianStats w =
     (case gw_scrape w (guardianMetricsUrl (gw_env w)) of
        Scraped body \<Rightarrow>
          (let snap = parseGuardianMetrics (gw_env w) (gw_now w) body;
               g = gauge snap;
               syncTs = g ''threat_last_sync_ts'';
               syncAgeH = (if syncTs > 0 then sync_age (gw_now w) syncTs else 0)
           in if \<not> lm_reachable snap then None
              else Some
                \<lparr> ls_hint = LIVE_HINT,
                  ls_stats =
                    [(''lines'', g ''lines_total''), (''ban_ok'', g ''bans_success''), (''ban_fail'', g ''bans_failed''),
                     (''parse_err'', g ''parse_errors''), (''eps'', g ''eps''), (''eps_peak'', g ''eps_peak''),
                     (''xdp'', if g ''xdp_active'' = 1 then 1 else 0), (''unique_ips'', g ''unique_ips''), (''ringbuf'', 0),
                     (''alerts'', g ''alerts_total''), (''http_4xx'', g ''http_4xx''), (''http_5xx'', g ''http_5xx'')],
                  ls_socStats =
                    [(''threat_sync_ts'', syncTs), (''threat_sync_age_h'', syncAgeH), (''threat_iocs'', g ''threat_total_iocs''),
                     (''threat_applied'', g ''threat_last_applied''), (''threat_failed'', g ''threat_last_failed''), (''fp_trusted'', g ''fp_trusted_ips''),
                     (''fp_learn'', g ''fp_learn_enabled''), (''fp_suppressed'', g ''fp_suppressed_total''), (''bp_ipc'', g ''ban_pipeline_ipc''),
                     (''bp_xdp'', g ''ban_pipeline_xdp''), (''bp_ipset'', g ''ban_pipeline_ipset''), (''bp_failed'', g ''ban_pipeline_failed''),
                     (''ban_events_db'', g ''ban_events_total''), (''intel_ban_legacy'', g ''intel_ban_legacy_rows''), (''intel_ban_summary'', g ''intel_ban_summary_rows''),
                     (''ja3_clusters'', g ''ja3_clusters_active''), (''ja3_bans'', g ''ja3_cluster_bans_total''), (''dist_risk_buckets'', g ''dist_risk_buckets_active''),
                     (''dist_risk_bonus'', g ''dist_risk_bonus_applied_total''), (''dist_risk_enabled'', g ''dist_risk_enabled'')],
                  ls_telegramStats =
                    [(''tg_ack'', g ''telegram_ack_24h''), (''tg_unacked'', g ''telegram_unacked_24h''), (''tg_route'', g ''webhook_telegram_route''),
                     (''tg_batch'', g ''webhook_telegram_batch_sec''), (''tg_queue'', g ''webhook_queue_depth''), (''quiet_hours'', g ''webhook_quiet_hours''),
                     (''quiet_active'', g ''webhook_quiet_active'')],
                  ls_apiStats =
                    [(''api_requests'', g ''api_requests_total''), (''api_auth_fail'', g ''api_auth_fail_total''), (''api_rate_limited'', g ''api_rate_limited_total'')],
                  ls_webhookStats =
                    [(''wh_sent'', g ''webhook_sent_total''), (''wh_fail'', g ''webhook_fail_total''), (''wh_drops'', g ''webhook_queue_drops_total'')],
                  ls_alerts_total = g ''alerts_total'' \<rparr>)
      | _ \<Rightarrow> None)"

subsection \<open>The route\<close>

definition rangeSparkStep :: "int option \<Rightarrow> int option" where
  "rangeSparkStep rangeSec = map_option (\<lambda>r. max 30 \<lceil>fdiv (of_int r) 48\<rceil>) rangeSec"

definition rangeTsStep :: "int option \<Rightarrow> int option" where
  "rangeTsStep rangeSec = map_option (\<lambda>r. max 60 \<lceil>fdiv (of_int r) 72\<rceil>) rangeSec"

record grafana_body =
  gb_reachable :: bool
  gb_source :: "string option"
  gb_tenant :: string
  gb_rangeSec :: "int option option"
  gb_ts :: "int option"
  gb_hint :: "ustring option"
  gb_stats :: stats
  gb_socStats :: stats
  gb_telegramStats :: stats
  gb_apiStats :: stats
  gb_webhookStats :: stats
  gb_sparklines :: "(string, (string \<times> rat) list) jsmap"
  gb_timeseries :: "(string, multi_row list) jsmap"
  gb_table :: "(string \<times> rat) list"

definition ask_range :: "grafana_world \<Rightarrow> int option \<Rightarrow> int option \<Rightarrow> string \<Rightarrow> (rat \<times> string) list option prom_answer option" where
  "ask_range w rangeSec step q =
     (let end = gw_now w div 1000 in gw_range w q (map_option (\<lambda>r. end - r) rangeSec) end step)"

definition range_points :: "grafana_world \<Rightarrow> int option \<Rightarrow> int option \<Rightarrow> string \<Rightarrow> ts_point list option" where
  "range_points w rangeSec step q =
     map_option (\<lambda>answer. promRange (gw_clock w) (\<lambda>_ _ _ _. answer) (gw_now w) q 0 0) (ask_range w rangeSec step q)"

definition instant_value :: "grafana_world \<Rightarrow> string \<Rightarrow> rat option" where
  "instant_value w q = map_option (\<lambda>answer. nullish (promInstant (\<lambda>_. answer) q) 0) (gw_instant w q)"

text \<open>One round of panels: the value and the sparkline of each.\<close>

definition panel_result :: "grafana_world \<Rightarrow> string \<Rightarrow> int option \<Rightarrow> stat_panel \<Rightarrow> (string \<times> rat \<times> (string \<times> rat) list) option" where
  "panel_result w tenant rangeSec p =
     (let q = tenantExpr (sp_expr p) tenant
      in case (instant_value w q, range_points w rangeSec (rangeSparkStep rangeSec) q) of
           (Some v, Some pts) \<Rightarrow> Some (sp_id p, v, map (\<lambda>s. (ts_label s, ts_v s)) pts)
         | _ \<Rightarrow> None)"

definition ask_panels :: "grafana_world \<Rightarrow> string \<Rightarrow> int option \<Rightarrow> stat_panel list \<Rightarrow> (string \<times> rat \<times> (string \<times> rat) list) list option" where
  "ask_panels w tenant rangeSec ps = those (map (panel_result w tenant rangeSec) ps)"

definition stats_of :: "(string \<times> rat \<times> (string \<times> rat) list) list \<Rightarrow> stats" where
  "stats_of rs = foldl (\<lambda>m (i, v, _). map_set m i v) [] rs"

definition sparks_of :: "(string \<times> rat \<times> (string \<times> rat) list) list \<Rightarrow> (string, (string \<times> rat) list) jsmap" where
  "sparks_of rs = foldl (\<lambda>m (i, _, s). map_set m i s) [] rs"

definition ask_series :: "grafana_world \<Rightarrow> string \<Rightarrow> int option \<Rightarrow> ts_panel \<Rightarrow> (string \<times> multi_row list) option" where
  "ask_series w tenant rangeSec p =
     (let qs = map (\<lambda>s. (ps_key s, tenantExpr (ps_expr s) tenant)) (tp_series p);
          ask = ask_range w rangeSec (rangeTsStep rangeSec)
      in if list_ex (\<lambda>(_, q). ask q = None) qs then None
         else Some (tp_id p, promRangeMulti (gw_clock w) (\<lambda>q _ _ _. the (ask q)) (gw_now w) qs 0 0))"

definition ask_table :: "grafana_world \<Rightarrow> string \<Rightarrow> (string \<times> string \<times> string) \<Rightarrow> (string \<times> rat) option" where
  "ask_table w tenant m =
     (case m of (_, label, expr) \<Rightarrow> map_option (Pair label) (instant_value w (tenantExpr expr tenant)))"

text \<open>The live value wins where it is larger.\<close>

definition raise_stat :: "stats \<Rightarrow> string \<Rightarrow> rat \<Rightarrow> stats" where
  "raise_stat m k v = (if nullish (map_get m k) 0 < v then map_set m k v else m)"

definition raise_all :: "stats \<Rightarrow> stats \<Rightarrow> stats" where
  "raise_all m live = foldl (\<lambda>m (k, v). raise_stat m k v) m live"

definition counterKeys :: "string list" where
  "counterKeys = [''lines'', ''ban_ok'', ''ban_fail'', ''parse_err'', ''unique_ips'', ''alerts'']"

definition merge_stats :: "stats \<Rightarrow> live_stats \<Rightarrow> stats" where
  "merge_stats m live =
     foldl (\<lambda>m k. raise_stat m k (nullish (map_get (ls_stats live) k) 0)) m (counterKeys @ [''eps'', ''eps_peak''])"

definition merge_soc :: "stats \<Rightarrow> live_stats \<Rightarrow> stats" where
  "merge_soc m live =
     (let m = raise_all m (ls_socStats live); ts = nullish (map_get (ls_socStats live) ''threat_sync_ts'') 0
      in if ts > 0
         then map_set (map_set m ''threat_sync_ts'' ts) ''threat_sync_age_h''
                (nullish (map_get (ls_socStats live) ''threat_sync_age_h'') 0)
         else m)"

definition age_soc :: "int \<Rightarrow> stats \<Rightarrow> stats" where
  "age_soc now m =
     (let ts = nullish (map_get m ''threat_sync_ts'') 0
      in if ts > 0 then map_set m ''threat_sync_age_h'' (sync_age now ts) else m)"

text \<open>The body once every query is answered.\<close>

type_synonym answers = "(string \<times> rat \<times> (string \<times> rat) list) list"

definition with_live :: "live_stats option \<Rightarrow> (stats \<Rightarrow> live_stats \<Rightarrow> stats) \<Rightarrow> stats \<Rightarrow> stats" where
  "with_live live f m = (case live of None \<Rightarrow> m | Some l \<Rightarrow> f m l)"

definition answered_body ::
  "grafana_world \<Rightarrow> string \<Rightarrow> int option \<Rightarrow> answers \<Rightarrow> answers \<Rightarrow> answers \<Rightarrow> answers \<Rightarrow> answers
   \<Rightarrow> (string \<times> multi_row list) list \<Rightarrow> (string \<times> rat) list \<Rightarrow> grafana_body" where
  "answered_body w tenant rangeSec st soc tg api wh ts table =
     (let live = liveGuardianStats w;
          stats = with_live live merge_stats (stats_of st);
          socStats = age_soc (gw_now w) (with_live live merge_soc (stats_of soc))
      in \<lparr> gb_reachable = True, gb_source = Some ''prometheus'', gb_tenant = tenant,
           gb_rangeSec = Some rangeSec, gb_ts = Some (gw_now w),
           gb_hint = (if live \<noteq> None \<and> nullish (map_get stats ''lines'') 0 = 0
                         \<and> nullish (map_get stats ''ban_ok'') 0 = 0
                      then Some LIVE_HINT else None),
           gb_stats = stats, gb_socStats = socStats,
           gb_telegramStats = with_live live (\<lambda>m l. raise_all m (ls_telegramStats l)) (stats_of tg),
           gb_apiStats = with_live live (\<lambda>m l. raise_all m (ls_apiStats l)) (stats_of api),
           gb_webhookStats = with_live live (\<lambda>m l. raise_all m (ls_webhookStats l)) (stats_of wh),
           gb_sparklines = sparks_of (st @ soc @ tg @ api @ wh),
           gb_timeseries = foldl (\<lambda>m (i, rows). map_set m i rows) [] ts, gb_table = table \<rparr>)"

definition prometheus_body :: "grafana_world \<Rightarrow> string \<Rightarrow> int option \<Rightarrow> grafana_body option" where
  "prometheus_body w tenant rangeSec =
     (let ask = ask_panels w tenant rangeSec in
      case (ask GRAFANA_STAT_PANELS, ask GRAFANA_SOC_STAT_PANELS, ask GRAFANA_TELEGRAM_STAT_PANELS,
            ask GRAFANA_API_STAT_PANELS, ask GRAFANA_WEBHOOK_STAT_PANELS,
            those (map (ask_series w tenant rangeSec) (GRAFANA_TS_PANELS @ GRAFANA_SOC_TS_PANELS)),
            those (map (ask_table w tenant) GRAFANA_TABLE_METRICS)) of
        (Some st, Some soc, Some tg, Some api, Some wh, Some ts, Some table) \<Rightarrow>
          Some (answered_body w tenant rangeSec st soc tg api wh ts table)
      | _ \<Rightarrow> None)"

definition direct_body :: "grafana_world \<Rightarrow> string \<Rightarrow> int option \<Rightarrow> live_stats \<Rightarrow> grafana_body" where
  "direct_body w tenant rangeSec live =
     \<lparr> gb_reachable = True, gb_source = Some ''guardian-direct'', gb_tenant = tenant,
       gb_rangeSec = Some rangeSec, gb_ts = Some (gw_now w), gb_hint = Some (ls_hint live),
       gb_stats = ls_stats live, gb_socStats = ls_socStats live, gb_telegramStats = ls_telegramStats live,
       gb_apiStats = ls_apiStats live, gb_webhookStats = ls_webhookStats live, gb_sparklines = [],
       gb_timeseries = [],
       gb_table = [(''alerts_total'', ls_alerts_total live),
                   (''eps'', nullish (map_get (ls_stats live) ''eps'') 0),
                   (''ja3_clusters_active'', nullish (map_get (ls_socStats live) ''ja3_clusters'') 0),
                   (''ban_pipeline_ipset'', nullish (map_get (ls_socStats live) ''bp_ipset'') 0)] \<rparr>"

definition fallback_body :: "string \<Rightarrow> grafana_body" where
  "fallback_body tenant =
     \<lparr> gb_reachable = False, gb_source = None, gb_tenant = tenant, gb_rangeSec = None, gb_ts = None,
       gb_hint = Some (tu ''Prometheus yok {2014} bash scripts/dashboard_stack.sh  (log-guardian :9091 acik mi?)''),
       gb_stats = [], gb_socStats = [], gb_telegramStats = [], gb_apiStats = [], gb_webhookStats = [],
       gb_sparklines = [], gb_timeseries = [], gb_table = [] \<rparr>"

record grafana_cache =
  gc_key :: string
  gc_ts :: int
  gc_body :: grafana_body

definition req_tenant :: "request \<Rightarrow> string" where
  "req_tenant rq = or_default (query rq ''tenant'') ''default''"

definition req_range :: "request \<Rightarrow> int option" where
  "req_range rq = parseInt (or_default (query rq ''range'') ''3600'')"

definition cache_key :: "string \<Rightarrow> int option \<Rightarrow> string" where
  "cache_key tenant rangeSec =
     tenant @ '':'' @ (case rangeSec of None \<Rightarrow> ''NaN'' | Some r \<Rightarrow> show_int r)"

text \<open>The body that is made when the cache has none: from Prometheus, else from the counters, else a hint,
which is not cached. Nothing when a query throws.\<close>

definition grafana_fresh :: "grafana_world \<Rightarrow> string \<Rightarrow> int option \<Rightarrow> (grafana_body \<times> bool) option" where
  "grafana_fresh w tenant rangeSec =
     (if promReachable (gw_up w) (gw_env w)
      then map_option (\<lambda>b. (b, True)) (prometheus_body w tenant rangeSec)
      else (case liveGuardianStats w of
              Some live \<Rightarrow> Some (direct_body w tenant rangeSec live, True)
            | None \<Rightarrow> Some (fallback_body tenant, False)))"

text \<open>The reply, or nothing when a query throws, and the cache afterwards.\<close>

definition grafana_GET ::
  "grafana_world \<Rightarrow> request \<Rightarrow> grafana_cache option \<Rightarrow> grafana_body option \<times> grafana_cache option" where
  "grafana_GET w rq cache =
     (let tenant = req_tenant rq; rangeSec = req_range rq; key = cache_key tenant rangeSec
      in if (case cache of None \<Rightarrow> False | Some c \<Rightarrow> gc_key c = key \<and> gw_now w - gc_ts c < 5000)
         then (Some (gc_body (the cache)), cache)
         else (case grafana_fresh w tenant rangeSec of
                 None \<Rightarrow> (None, cache)
               | Some (b, kept) \<Rightarrow>
                   (Some b, if kept then Some \<lparr> gc_key = key, gc_ts = gw_now w, gc_body = b \<rparr> else cache)))"

section \<open>What the dashboard shows\<close>

subsection \<open>The cache\<close>

lemma range_text_no_colon: "CHR '':'' \<notin> set (case r of None \<Rightarrow> ''NaN'' | Some i \<Rightarrow> show_int i)"
  using show_nat_digits by (auto simp: show_int_def is_digit_def split: option.split)

lemma last_colon:
  assumes "a @ c # x = b @ c # y" "c \<notin> set x" "c \<notin> set y"
  shows "a = b \<and> x = y"
proof -
  have "rev x @ c # rev a = rev y @ c # rev b"
    using arg_cong [OF assms(1), of rev] by simp
  moreover have "takeWhile ((\<noteq>) c) (rev z @ c # d) = rev z" if "c \<notin> set z" for z d
    using that by (subst takeWhile_append2) auto
  ultimately have "rev x = rev y" using assms(2,3) by metis
  then show ?thesis using assms(1) by simp
qed

lemma cache_key_inject: "cache_key t r = cache_key t' r' \<longleftrightarrow> t = t' \<and> r = r'"
proof
  assume "cache_key t r = cache_key t' r'"
  then have *: "t = t' \<and> (case r of None \<Rightarrow> ''NaN'' | Some i \<Rightarrow> show_int i) = (case r' of None \<Rightarrow> ''NaN'' | Some i \<Rightarrow> show_int i)"
    unfolding cache_key_def using last_colon [OF _ range_text_no_colon range_text_no_colon] by simp
  have "parseInt ''NaN'' = None" by (simp add: parseInt_def is_digit_def)
  then have "show_int i \<noteq> ''NaN''" for i by (metis option.distinct(1) parseInt_show_int)
  then show "t = t' \<and> r = r'" using * by (auto split: option.splits simp: eq_commute [of "''NaN''"])
qed simp

text \<open>The requests that were served, the latest first, and the cache they left.\<close>

inductive grafana_run :: "(grafana_world \<times> request) list \<Rightarrow> grafana_cache option \<Rightarrow> bool" where
  run_start: "grafana_run [] None"
| run_serve: "grafana_run h c \<Longrightarrow> grafana_run ((w, rq) # h) (snd (grafana_GET w rq c))"

text \<open>A body was made for this request by one of the requests served.\<close>

definition made_by :: "(grafana_world \<times> request) list \<Rightarrow> string \<Rightarrow> int option \<Rightarrow> int \<Rightarrow> grafana_body \<Rightarrow> bool" where
  "made_by h tenant rangeSec ts b \<longleftrightarrow>
     (\<exists>(w, rq) \<in> set h. req_tenant rq = tenant \<and> req_range rq = rangeSec \<and> gw_now w = ts
        \<and> (\<exists>kept. grafana_fresh w tenant rangeSec = Some (b, kept)))"

definition cache_made :: "(grafana_world \<times> request) list \<Rightarrow> grafana_cache option \<Rightarrow> bool" where
  "cache_made h c \<longleftrightarrow>
     (case c of None \<Rightarrow> True
      | Some x \<Rightarrow> \<exists>t r. gc_key x = cache_key t r \<and> made_by h t r (gc_ts x) (gc_body x))"

lemma made_by_more: "made_by h t r ts b \<Longrightarrow> made_by (x # h) t r ts b"
  by (auto simp: made_by_def)

lemma cache_made_more: "cache_made h c \<Longrightarrow> cache_made (x # h) c"
  unfolding cache_made_def by (cases c) (auto intro: made_by_more)

lemma made_now:
  "grafana_fresh w (req_tenant rq) (req_range rq) = Some (b, kept)
   \<Longrightarrow> made_by ((w, rq) # h) (req_tenant rq) (req_range rq) (gw_now w) b"
  by (auto simp: made_by_def)

lemma run_cache_made: "grafana_run h c \<Longrightarrow> cache_made h c"
proof (induction rule: grafana_run.induct)
  case (run_serve h c w rq)
  then have old: "cache_made ((w, rq) # h) c" by (simp add: cache_made_more)
  show ?case
  proof (cases "grafana_fresh w (req_tenant rq) (req_range rq)")
    case (Some p)
    then obtain b kept where p: "grafana_fresh w (req_tenant rq) (req_range rq) = Some (b, kept)" by (cases p) auto
    show ?thesis
      using old made_now [OF p, of h] by (auto simp: grafana_GET_def Let_def p cache_made_def split: option.splits)
  qed (use old in \<open>simp add: grafana_GET_def Let_def\<close>)
qed (simp add: cache_made_def)

lemma fresh_tenant: "grafana_fresh w t r = Some (b, kept) \<Longrightarrow> gb_tenant b = t"
  by (auto simp: grafana_fresh_def prometheus_body_def answered_body_def direct_body_def fallback_body_def Let_def
      split: if_splits option.splits)

text \<open>C25. The one-entry cache never mixes up requests: over any run of the route, a reply was made for
the very tenant and time range that the request names, by this request or by an earlier one of the
run less than five seconds before, and it names that tenant.\<close>

theorem grafana_reply_matches:
  assumes "grafana_run h c" "grafana_GET w rq c = (Some b, c')"
  shows "gb_tenant b = req_tenant rq
    \<and> (\<exists>ts. made_by ((w, rq) # h) (req_tenant rq) (req_range rq) ts b \<and> gw_now w - ts < 5000)"
proof -
  have "\<exists>ts. made_by ((w, rq) # h) (req_tenant rq) (req_range rq) ts b \<and> gw_now w - ts < 5000"
  proof (cases "\<exists>x. c = Some x \<and> gc_key x = cache_key (req_tenant rq) (req_range rq) \<and> gw_now w - gc_ts x < 5000")
    case True
    then obtain x where x: "c = Some x" "gc_key x = cache_key (req_tenant rq) (req_range rq)" "gw_now w - gc_ts x < 5000"
      by blast
    then have "b = gc_body x" using assms(2) by (simp add: grafana_GET_def Let_def)
    moreover have "made_by h (req_tenant rq) (req_range rq) (gc_ts x) (gc_body x)"
      using run_cache_made [OF assms(1)] x(1,2) by (auto simp: cache_made_def cache_key_inject)
    ultimately show ?thesis using x(3) made_by_more by blast
  next
    case False
    then obtain kept where "grafana_fresh w (req_tenant rq) (req_range rq) = Some (b, kept)"
      using assms(2) by (auto simp: grafana_GET_def Let_def split: option.splits if_splits)
    then show ?thesis using made_now by fastforce
  qed
  moreover from this have "gb_tenant b = req_tenant rq" by (auto simp: made_by_def fresh_tenant)
  ultimately show ?thesis by blast
qed

text \<open>Prometheus is down and the guardian answers; a second request comes two seconds later.\<close>

definition w_down :: "int \<Rightarrow> grafana_world" where
  "w_down now = \<lparr> gw_env = Map.empty, gw_now = now, gw_up = Map.empty, gw_scrape = \<lambda>_. Scraped ''loganalyzer_eps 3'',
     gw_instant = Map.empty, gw_range = \<lambda>_ _ _ _. None, gw_clock = \<lambda>_. [] \<rparr>"

definition r_dash :: request where
  "r_dash = \<lparr> rq_protocol = ''http:'', rq_hostname = ''dash'', rq_origin = ''http://dash'',
     rq_path = ''/api/metrics/grafana'', rq_search = [], rq_query = [(''tenant'', ''t1'')], rq_headers = [],
     rq_cookies = [], rq_body = None, rq_form = None \<rparr>"

lemma w_down_fresh:
  obtains b where "grafana_fresh (w_down 7000) t r = Some (b, True)"
proof -
  have "liveGuardianStats (w_down 7000) \<noteq> None"
    by (simp add: liveGuardianStats_def w_down_def parseGuardianMetrics_def Let_def)
  then obtain l where "liveGuardianStats (w_down 7000) = Some l" by blast
  moreover have "\<not> promReachable (gw_up (w_down 7000)) (gw_env (w_down 7000))"
    by (simp add: promReachable_def w_down_def)
  ultimately show thesis by (intro that) (simp add: grafana_fresh_def)
qed

lemma w_down_cached:
  "\<exists>b c. grafana_run [(w_down 7000, r_dash)] c \<and> grafana_GET (w_down 9000) r_dash c = (Some b, c)"
proof -
  obtain b where b: "grafana_fresh (w_down 7000) (req_tenant r_dash) (req_range r_dash) = Some (b, True)"
    by (rule w_down_fresh)
  let ?c = "Some \<lparr> gc_key = cache_key (req_tenant r_dash) (req_range r_dash), gc_ts = 7000, gc_body = b \<rparr>"
  have "grafana_run [(w_down 7000, r_dash)] ?c"
    using run_serve [OF run_start, of "w_down 7000" r_dash] b by (simp add: grafana_GET_def Let_def w_down_def)
  moreover have "grafana_GET (w_down 9000) r_dash ?c = (Some b, ?c)" by (simp add: grafana_GET_def Let_def w_down_def)
  ultimately show ?thesis by blast
qed

theorem grafana_reply_matches_witness:
  "\<exists>b c. grafana_run [(w_down 7000, r_dash)] c \<and> grafana_GET (w_down 9000) r_dash c = (Some b, c)
     \<and> gb_tenant b = ''t1''"
proof -
  obtain b c where c: "grafana_run [(w_down 7000, r_dash)] c" "grafana_GET (w_down 9000) r_dash c = (Some b, c)"
    using w_down_cached by blast
  have "req_tenant r_dash = ''t1''" by (simp add: req_tenant_def r_dash_def js_defs)
  then show ?thesis using c grafana_reply_matches [OF c] by auto
qed

subsection \<open>Merging the live counters\<close>

lemma raise_stat_value:
  "nullish (map_get (raise_stat m k v) k') 0
   = (if k' = k then max (nullish (map_get m k) 0) v else nullish (map_get m k') 0)"
  by (auto simp: raise_stat_def jsm.get_put nullish_def max_def split: option.splits)

lemma raise_keys:
  assumes "distinct ks"
  shows "nullish (map_get (foldl (\<lambda>m k. raise_stat m k (f k)) m ks) k) 0
    = (if k \<in> set ks then max (nullish (map_get m k) 0) (f k) else nullish (map_get m k) 0)"
  using assms by (induction ks arbitrary: m) (auto simp: raise_stat_value)

lemma foldl_map_set:
  "map_get (foldl (\<lambda>m (i, v, s). map_set m i v) m rs) k
   = (case map_of (rev (map (\<lambda>(i, v, s). (i, v)) rs)) k of Some v \<Rightarrow> Some v | None \<Rightarrow> map_get m k)"
  by (induction rs arbitrary: m) (auto simp: jsm.get_put map_add_def split: option.splits)

lemma stats_of_get:
  assumes "distinct (map fst rs)" "(i, v, s) \<in> set rs"
  shows "map_get (stats_of rs) i = Some v"
proof -
  let ?kv = "map (\<lambda>(i, v, s). (i, v)) rs"
  have "map fst ?kv = map fst rs" by (induction rs) auto
  then have "distinct (map fst (rev ?kv))" using assms(1) by (simp only: rev_map [symmetric] distinct_rev)
  moreover have "(i, v) \<in> set (rev ?kv)" using assms(2) by force
  ultimately have "map_of (rev ?kv) i = Some v" by (rule map_of_is_SomeI)
  then show ?thesis by (simp add: stats_of_def foldl_map_set)
qed

lemma those_map: "those (map f xs) = Some ys \<Longrightarrow> list_all2 (\<lambda>x y. f x = Some y) xs ys"
  by (induction xs arbitrary: ys) (auto split: option.splits)

lemma ask_panels_result:
  assumes "ask_panels w t r ps = Some rs"
  shows "map fst rs = map sp_id ps"
    and "p \<in> set ps \<Longrightarrow> \<exists>v s. (sp_id p, v, s) \<in> set rs \<and> instant_value w (tenantExpr (sp_expr p) t) = Some v"
proof -
  have l: "list_all2 (\<lambda>p x. panel_result w t r p = Some x) ps rs"
    using assms by (simp add: ask_panels_def those_map)
  then show "map fst rs = map sp_id ps"
    by (induction rule: list_all2_induct) (auto simp: panel_result_def Let_def split: option.splits)
  show "p \<in> set ps \<Longrightarrow> \<exists>v s. (sp_id p, v, s) \<in> set rs \<and> instant_value w (tenantExpr (sp_expr p) t) = Some v"
    using l by (induction rule: list_all2_induct) (fastforce simp: panel_result_def Let_def split: option.splits)+
qed

lemma stat_ids: "distinct (map sp_id GRAFANA_STAT_PANELS)"
  by code_simp

lemma merge_keys: "distinct (counterKeys @ [''eps'', ''eps_peak''])"
  by code_simp

lemma prometheus_stats:
  assumes "prometheus_body w t r = Some b"
  obtains rs where "ask_panels w t r GRAFANA_STAT_PANELS = Some rs"
    "gb_stats b = (case liveGuardianStats w of None \<Rightarrow> stats_of rs | Some l \<Rightarrow> merge_stats (stats_of rs) l)"
proof -
  obtain rs soc tg api wh ts table where rs: "ask_panels w t r GRAFANA_STAT_PANELS = Some rs"
    "b = answered_body w t r rs soc tg api wh ts table"
    using assms unfolding prometheus_body_def Let_def by (fastforce split: option.splits)
  then show thesis by (intro that) (simp_all add: answered_body_def with_live_def Let_def)
qed


text \<open>Every query is answered with 5, every range is empty, and the guardian is down.\<close>

definition w_five :: grafana_world where
  "w_five = (w_down 7000)\<lparr> gw_scrape := \<lambda>_. Scrape_status 503,
     gw_instant := \<lambda>_. Some \<lparr> pa_ok = True, pa_status = ''success'', pa_first = Some (Some ''5'') \<rparr>,
     gw_range := \<lambda>_ _ _ _. Some \<lparr> pa_ok = True, pa_status = ''success'', pa_first = None \<rparr> \<rparr>"

lemma those_Some: "(\<And>x. x \<in> set xs \<Longrightarrow> f x \<noteq> None) \<Longrightarrow> \<exists>ys. those (map f xs) = Some ys"
  by (induction xs) fastforce+

lemma w_five_values:
  "instant_value w_five q = Some 5" "\<exists>pts. range_points w_five r step q = Some pts" "ask_range w_five r step q \<noteq> None"
  "liveGuardianStats w_five = None"
proof -
  have "float_value (parseFloat ''5'') = 5" by code_simp
  then show "instant_value w_five q = Some 5"
    by (simp add: instant_value_def promInstant_def prom_num_def w_five_def nullish_def)
qed (simp_all add: range_points_def ask_range_def w_five_def liveGuardianStats_def Let_def)

lemma w_five_panels: "\<exists>rs. ask_panels w_five t r ps = Some rs"
proof -
  have "panel_result w_five t r p \<noteq> None" for p
    using w_five_values(2) [of r "rangeSparkStep r" "tenantExpr (sp_expr p) t"]
    by (auto simp: panel_result_def w_five_values(1))
  then show ?thesis unfolding ask_panels_def by (intro those_Some) blast
qed

lemma w_five_body: "\<exists>b. prometheus_body w_five t r = Some b"
proof -
  have ts: "\<exists>x. those (map (ask_series w_five t r) ps) = Some x" for ps
    by (rule those_Some) (simp add: ask_series_def Let_def w_five_values(3) list_ex_iff case_prod_beta)
  have tb: "\<exists>x. those (map (ask_table w_five t) ms) = Some x" for ms
    by (rule those_Some) (simp add: ask_table_def w_five_values(1) case_prod_beta)
  show ?thesis
    using w_five_panels [of t r GRAFANA_STAT_PANELS] w_five_panels [of t r GRAFANA_SOC_STAT_PANELS]
      w_five_panels [of t r GRAFANA_TELEGRAM_STAT_PANELS] w_five_panels [of t r GRAFANA_API_STAT_PANELS]
      w_five_panels [of t r GRAFANA_WEBHOOK_STAT_PANELS] ts [of "GRAFANA_TS_PANELS @ GRAFANA_SOC_TS_PANELS"]
      tb [of GRAFANA_TABLE_METRICS]
    unfolding prometheus_body_def Let_def by (elim exE) simp
qed


subsection \<open>The queries\<close>

lemma replace_tenant_skip:
  "CHR ''$'' \<notin> set a \<Longrightarrow> replace_tenant pre (a @ s) t = a @ replace_tenant (pre @ a) s t"
proof (induction a arbitrary: pre)
  case (Cons x a)
  then have "x \<noteq> CHR ''$''" by auto
  with Cons show ?case by (subst replace_tenant.simps) simp
qed simp

lemma expand_plain: "CHR ''$'' \<notin> set r \<Longrightarrow> expand_pattern pre mt post r = r"
  by (induction pre mt post r rule: expand_pattern.induct) auto

lemma replace_tenant_hit:
  assumes "CHR ''$'' \<notin> set s" "CHR ''$'' \<notin> set t"
  shows "replace_tenant pre (''$tenant'' @ s) t = t @ s"
proof -
  have "replace_tenant (pre @ ''$tenant'') s t = s"
    using replace_tenant_skip [OF assms(1), of _ "[]"] by (simp add: replace_tenant.simps [of _ "[]"])
  then show ?thesis using assms by (subst replace_tenant.simps) (simp add: expand_plain)
qed

text \<open>A tenant without a dollar sign is put into a query as it is.\<close>

lemma tenantExpr_plain:
  assumes "CHR ''$'' \<notin> set m" "CHR ''$'' \<notin> set t"
  shows "tenantExpr (of_tenant m) t = m @ ''{tenant_id='' @ dq t @ ''}''"
  using replace_tenant_skip [of "m @ ''{tenant_id='' @ [CHR 0x22]" "[]" "''$tenant'' @ [CHR 0x22] @ ''}''" t]
    replace_tenant_hit [of "[CHR 0x22] @ ''}''" t "m @ ''{tenant_id='' @ [CHR 0x22]"] assms
  by (simp add: tenantExpr_def of_tenant_def dq_def)

text \<open>Nothing is quoted: a tenant parameter with a quotation mark reads another tenant's series.\<close>

lemma tenant_parameter_escapes:
  assumes "CHR ''$'' \<notin> set u"
  shows "tenantExpr (of_tenant ''loganalyzer_eps'') ([CHR 0x22] @ ''} or loganalyzer_eps{tenant_id='' @ [CHR 0x22] @ u)
    = ''loganalyzer_eps{tenant_id='' @ dq [] @ ''} or loganalyzer_eps{tenant_id='' @ dq u @ ''}''"
  using assms by (subst tenantExpr_plain) (simp_all add: dq_def)


end
