(* ===== verification/Spec2Isabelle.thy ===== *)
theory Spec2Isabelle
  imports Login Evidence Compliance Grafana
begin

text \<open>
  Linux Log Guardian: the server side of the operator dashboard.

  \<^bold>\<open>The program.\<close> A daemon in C reads logs, decides about bans and exports reports and metrics. The
  dashboard under \<^verbatim>\<open>src/dashboard/src\<close> is a Next.js application beside it: a middleware in front
  of every request, route handlers under \<^verbatim>\<open>app/api\<close>, library modules under \<^verbatim>\<open>lib\<close>, and a database
  of tenants, users, agents' telemetry, commands and schemas. Agents post telemetry and poll commands
  with an API key; operators log in and look at what their tenant owns. This library models the
  middleware, the handlers and the modules they call. Paths below are relative to
  \<^verbatim>\<open>src/dashboard/src\<close>.

  \<^bold>\<open>How it is modelled.\<close> A handler is a function from the request, the clock and the state it reads to
  its reply and the new state. Tables, caches and buckets are explicit state; files, other servers,
  the token library, digests, locale functions and Unicode tables are arguments, and what a theorem
  needs of them is a named hypothesis. Raised errors, early returns and failed queries are values of a
  sum or option type. A JavaScript \<open>Map\<close> or object is an association list in insertion order with the
  laws of the locale \<open>js_map_laws\<close>. Loops are recursive functions with termination proofs; the stream
  reader of the copilot, whose input may never end, is a partial function into an option.

  \<^bold>\<open>Theories.\<close>
  \<^item> \<open>Prelude\<close>, \<open>Regex\<close>, \<open>Http\<close>, \<open>JsNumber\<close>: JavaScript's strings, numbers, maps, regular
    expressions with a matcher proved to decide their language, requests and JSON; doubles are rationals rounded by \<open>fl\<close>.
  \<^item> \<open>Tier\<close>, \<open>Auth\<close>, \<open>RateLimit\<close>, \<open>Login\<close>, \<open>Middleware\<close>: \<^verbatim>\<open>lib/tier.ts\<close>, the secret, token and
    password modules, \<^verbatim>\<open>lib/loginRateLimit.ts\<close>, \<^verbatim>\<open>app/api/auth/login\<close>, \<^verbatim>\<open>middleware.ts\<close> and
    \<^verbatim>\<open>lib/tenantGuard.ts\<close>. The lemmas show what reaches a handler and with which identity, that
    guessing is bounded over any sequence of logins, and that a user is kept to one tenant.
  \<^item> \<open>BanUtils\<close>, \<open>AttackGeo\<close>, \<open>Bans\<close>, \<open>BanExec\<close>: extraction of addresses, the ban list with its sources,
    cache and pagination, and execution on the host. Shown: the patterns accept exactly their
    languages, the cache is fresh, only valid addresses are ever passed on, by administrators only.
  \<^item> \<open>FleetCommand\<close>, \<open>Fleet\<close>, \<open>Telemetry\<close>: signed commands, their queue and acknowledgement, ingestion,
    the fleet and tenant views. Shown: signatures bind every field, a command is delivered at most once
    and to its tenant, a posted command is delivered, ingestion is isolated and well typed, and the
    tenant view refines a specification by grouping.
  \<^item> \<open>Lineage\<close>, \<open>Timeline\<close>, \<open>GeoLookup\<close>, \<open>Evidence\<close>: process graphs, the SOC timeline, geographic lookup
    with its bounded cache, the data room, incidents, acknowledgements and the attack map. Shown: graphs
    are well formed, timelines ordered and without duplicates, files guarded, coordinates in range.
  \<^item> \<open>Registry\<close>: schemas, plugins, the signed marketplace and the kill log. Shown: one active schema per
    tenant, the upload round trip, paths stay inside the plugin directory, every outcome of an install.
  \<^item> \<open>Copilot\<close>, \<open>CopilotChat\<close>: the model connection, the action route and the chat. Shown: independence
    from how a stream is cut into chunks, termination on every finite stream, guarded actions, and
    answers confined to the product's topic and the user's telemetry.
  \<^item> \<open>Metrics\<close>, \<open>StatusRoutes\<close>, \<open>Grafana\<close>: the exposition format with its parser, the status panels and
    the metrics dashboard. Shown: a scrape reads back, the panels agree on a verdict, the prune alarm
    is exact, and the dashboard's cache answers for the tenant and range asked.
  \<^item> \<open>Pdf\<close>, \<open>Compliance\<close>: the PDF writer byte by byte and the report drawn with it. Shown: the
    cross-reference table points at the objects, and no text of a report escapes its string.
  \<^item> \<open>ReportJson\<close>, \<open>TestCardsA\<close>, \<open>TestCardsB\<close>, \<open>TestCardsC\<close>, \<open>TestBoard\<close>: \<^verbatim>\<open>lib/validationTests.ts\<close> with
    every card and \<^verbatim>\<open>app/api/tests\<close>. Shown: the board refines an outline of identifiers and verdicts,
    and the reply's totals agree with its cards.
  \<^item> This theory composes login, middleware and handlers: the session theorem at the end.

  \<^bold>\<open>Bounds and idealisations.\<close> Texts are lists of 8-bit characters where the code only compares and copies
  them, and lists of UTF-16 code units in the PDF, compliance, chat, report and test-board theories.
  Report files are read at the types the code declares for them: an accessor gives nothing for a field
  of another type. Integers are exact where the code keeps them below \<open>2 ^ 53\<close>; other arithmetic is
  rounded as doubles are. A handler reads the clock once. Queries that the code awaits together are
  answered by one state of the world. No fuel is used: every recursive function terminates, except the
  stream reader, which is proved to return on each stream that ends.

  \<^bold>\<open>Not modelled.\<close> The React pages, panels, hooks and contexts and the static site under
  \<^verbatim>\<open>src/landing\<close> render in a browser and hold no state of the system; the tables of interface texts
  (\<^verbatim>\<open>lib/i18n.ts\<close> but for the two functions the server calls, \<^verbatim>\<open>lib/i18nExtraLocales.ts\<close>) are data.
  \<^verbatim>\<open>app/api/copilot/rag\<close> only runs a script. The database client, its seed and the build
  configuration belong to third-party tools. The daemon, the packet filter, the Kubernetes operator and
  the shell scripts are other programs, which the dashboard sees as files and HTTP answers.
\<close>

section \<open>A session from login to the tenant's data\<close>

text \<open>
  The framework runs the middleware in front of every handler: a request that passes reaches its
  handler with the headers the middleware chose, and any other one gets the middleware's response.
\<close>

definition serve :: "jwt_verify \<Rightarrow> env \<Rightarrow> int \<Rightarrow> request \<Rightarrow> (request \<Rightarrow> 'a) \<Rightarrow> response + 'a" where
  "serve v env now rq handler =
     (case middleware v env now rq of
        Next h \<Rightarrow> Inr (handler (rq\<lparr>rq_headers := h\<rparr>))
      | Respond r \<Rightarrow> Inl r)"

text \<open>The rows of one tenant.\<close>

definition rows_of :: "string \<Rightarrow> telemetry list \<Rightarrow> telemetry list" where
  "rows_of t = filter (\<lambda>a. tl_tenantId a = t)"

text \<open>What the middleware lets a handler see of the caller.\<close>

definition scoped_to :: "string \<Rightarrow> request \<Rightarrow> bool" where
  "scoped_to t rq \<longleftrightarrow> header rq ''x-user-role'' = Some ''user'' \<and> header rq ''x-user-tenant'' = Some t
     \<and> header rq ''x-tenant-id'' = Some t"

lemma user_headers_scoped:
  assumes "\<not> cl_isAdmin cl" "cl_tenantId cl = Some t"
  shows "scoped_to t (rq\<lparr>rq_headers := user_headers cl h\<rparr>)"
  using assms by (simp add: scoped_to_def header_def user_headers_get claim_text_def)

text \<open>A handler that answers a scoped request from the tenant's rows alone is confined behind the middleware.\<close>

lemma serve_confined:
  assumes closed: "\<not> rx_suffix PUBLIC_FILE (rq_path rq)" "\<not> open_path (rq_path rq)"
    and session: "cookie_value rq ''auth_token'' = Some tok" "verify_session v env tok \<in> {None, Some cl}"
      "\<not> cl_isAdmin cl" "cl_tenantId cl = Some t"
    and handler: "\<And>q. scoped_to t q \<Longrightarrow> f q = g q"
  shows "serve v env now rq f = serve v env now rq g"
proof (cases "middleware v env now rq")
  case (Next h)
  obtain cl' where s: "tok \<noteq> []" "verify_session v env tok = Some cl'"
    using middleware_closed [OF Next closed] session(1) by auto
  then have "cl' = cl" using session(2) by simp
  then have "h = user_headers cl (rq_headers rq)"
    using Next middleware_session [OF closed(1) session(1) s(1) s(2)] by simp
  then show ?thesis using Next handler [OF user_headers_scoped [OF session(3,4)]] by (simp add: serve_def)
qed (simp add: serve_def)

lemma reports_confined:
  assumes "scoped_to t q" "rows_of t rows = rows_of t rows'"
  shows "reports_GET fmt now repo q (Some rows) = reports_GET fmt now repo q (Some rows')"
  using assms
  by (simp add: reports_GET_def fetchComplianceReportForRequest_def report_rows_def scoped_to_def rows_of_def)

lemma tenants_confined:
  assumes "scoped_to t q" "rows_of t rows = rows_of t rows'"
  shows "tenants_GET now q rows = tenants_GET now q rows'"
  using assms by (simp add: tenants_GET_def scoped_to_def rows_of_def)

lemma fleet_confined:
  assumes "scoped_to t q" "rows_of t rows = rows_of t rows'" "t \<noteq> []" "t \<noteq> ''*''"
  shows "fv_fleet (fleet_GET parse pd remote now q (db\<lparr>td_rows := rows\<rparr>) cdb)
       = fv_fleet (fleet_GET parse pd remote now q (db\<lparr>td_rows := rows'\<rparr>) cdb)"
  using assms by (simp add: fleet_GET_def scoped_to_def rows_of_def truthy_def Let_def split: option.split)

lemma tls_confined:
  assumes "scoped_to t q" "rows_of t rows = rows_of t rows'"
  shows "tls_status_GET now q (Some rows) = tls_status_GET now q (Some rows')"
  using assms by (simp add: tls_status_GET_def tls_rows_def scoped_to_def rows_of_def)

lemma chat_confined:
  assumes "scoped_to t q" "rows_of t rows = rows_of t rows'"
  shows "copilot_POST (w\<lparr>cw_rows := Some rows\<rparr>) q body = copilot_POST (w\<lparr>cw_rows := Some rows'\<rparr>) q body"
proof -
  have "chat_rows (w\<lparr>cw_rows := Some rows\<rparr>) q = chat_rows (w\<lparr>cw_rows := Some rows'\<rparr>) q"
    using assms chat_rows_scoped [of q t] by (simp add: scoped_to_def rows_of_def)
  then show ?thesis
    unfolding copilot_POST_def by (cases body) (simp_all add: copilot_answer_rows split: option.split)
qed

lemma login_claims:
  assumes "ck \<in> set (rs_cookies (fst (login_POST d env now rq bs)))"
    and "readCredentials rq = Inr cr" "ld_find d (cr_username cr) = Inr (Some u)"
    and law: "\<And>c ttl k tok. ld_sign d c ttl k = Inr tok \<Longrightarrow> v tok k \<in> {None, Some c}"
  shows "verify_session v env (ck_value ck) \<in> {None, Some (user_claims
      \<lparr> au_id = us_id u, au_username = us_username u, au_tenantId = us_tenantId u, au_isAdmin = us_isAdmin u \<rparr>)}"
proof -
  let ?u = "\<lparr> au_id = us_id u, au_username = us_username u, au_tenantId = us_tenantId u, au_isAdmin = us_isAdmin u \<rparr>"
  obtain cr' au tok where c: "readCredentials rq = Inr cr'"
    "authenticateUser (ld_verify d) (ld_find d) (cr_username cr') (cr_password cr') = Inr (Some au)"
    "signAuthToken (ld_sign d) env au = Inr tok" "ck = auth_cookie env tok"
    using assms(1) by (rule login_cookie_user)
  then have "au = ?u" using assms(2,3) by (auto simp: authenticateUser_def split: if_splits)
  with c(3) obtain k where "getJwtSecret env = Inr k" "v tok k \<in> {None, Some (user_claims ?u)}"
    using law by (fastforce simp: signAuthToken_def Let_def split: sum.splits)
  then show ?thesis unfolding c(4) by (simp add: verify_session_def auth_cookie_def)
qed

text \<open>C1. A session from login to the data: take the cookie that a login of a user who is no
administrator obtained, and any later request that carries it to a path the middleware guards.
Whatever the request's other headers say, the compliance report, the tenant view, the fleet
listing, the TLS panel and the copilot's answer are then the same for any two telemetry tables that agree on
the rows of that user's tenant: no other tenant's telemetry reaches them. The token library is
only taken to give back, for a token it made, the claims it signed or nothing.\<close>

theorem login_session_confined:
  assumes login: "ck \<in> set (rs_cookies (fst (login_POST d env then_ms lrq bs)))"
    and user: "readCredentials lrq = Inr cr" "ld_find d (cr_username cr) = Inr (Some u)"
      "\<not> us_isAdmin u" "us_tenantId u \<noteq> []" "us_tenantId u \<noteq> ''*''"
    and law: "\<And>c ttl k tok. ld_sign d c ttl k = Inr tok \<Longrightarrow> v tok k \<in> {None, Some c}"
    and request: "cookie_value rq ''auth_token'' = Some (ck_value ck)"
      "\<not> rx_suffix PUBLIC_FILE (rq_path rq)" "\<not> open_path (rq_path rq)"
    and rows: "rows_of (us_tenantId u) rows = rows_of (us_tenantId u) rows'"
  shows "serve v env now rq (\<lambda>q. reports_GET fmt now repo q (Some rows))
       = serve v env now rq (\<lambda>q. reports_GET fmt now repo q (Some rows'))
    \<and> serve v env now rq (\<lambda>q. tenants_GET now q rows) = serve v env now rq (\<lambda>q. tenants_GET now q rows')
    \<and> serve v env now rq (\<lambda>q. fv_fleet (fleet_GET parse pd remote now q (db\<lparr>td_rows := rows\<rparr>) cdb))
       = serve v env now rq (\<lambda>q. fv_fleet (fleet_GET parse pd remote now q (db\<lparr>td_rows := rows'\<rparr>) cdb))
    \<and> serve v env now rq (\<lambda>q. tls_status_GET now q (Some rows))
       = serve v env now rq (\<lambda>q. tls_status_GET now q (Some rows'))
    \<and> serve v env now rq (\<lambda>q. copilot_POST (w\<lparr>cw_rows := Some rows\<rparr>) q body)
       = serve v env now rq (\<lambda>q. copilot_POST (w\<lparr>cw_rows := Some rows'\<rparr>) q body)"
proof -
  note session = login_claims [OF login user(1,2) law]
  have cl: "\<not> cl_isAdmin (user_claims au)" "cl_tenantId (user_claims au) = Some (us_tenantId u)"
    if "\<not> au_isAdmin au" "au_tenantId au = us_tenantId u" for au
    using that by (simp_all add: user_claims_def)
  note confined = serve_confined [OF request(2,3,1) session cl]
  show ?thesis
    by (intro conjI confined)
      (use user rows in \<open>auto intro: reports_confined tenants_confined fleet_confined tls_confined chat_confined\<close>)
qed

text \<open>One user of tenant \<open>t1\<close>, whose token the library makes and recognises.\<close>

definition sample_deps :: login_deps where
  "sample_deps = demo_deps\<lparr>ld_sign := \<lambda>c ttl k. if c = mw_claims then Inr ''tok'' else Inl ''not signed''\<rparr>"

lemma sample_login:
  "auth_cookie demo_env ''tok'' \<in> set (rs_cookies (fst (login_POST sample_deps demo_env 0 (demo_login ''pw'') [])))"
proof -
  have "signAuthToken (ld_sign sample_deps) demo_env
      \<lparr>au_id = ''u1'', au_username = ''ops'', au_tenantId = ''t1'', au_isAdmin = False\<rparr> = Inr ''tok''"
    by (simp add: signAuthToken_def getJwtSecret_def sample_deps_def demo_env_def user_claims_def mw_claims_def js_defs)
  then show ?thesis
    using demo_rl demo_cr demo_auth demo_key by (simp add: login_POST_def sample_deps_def)
qed

theorem login_session_confined_witness:
  "serve mw_verify demo_env 7 (mw_request ''/api/tenants'' [(''auth_token'', ''tok'')]) (\<lambda>q. tenants_GET 7 q [t_row])
   = serve mw_verify demo_env 7 (mw_request ''/api/tenants'' [(''auth_token'', ''tok'')])
       (\<lambda>q. tenants_GET 7 q [t_row\<lparr>tl_tenantId := ''t2''\<rparr>, t_row])"
proof -
  let ?u = "\<lparr> us_id = ''u1'', us_username = ''ops'', us_passwordHash = ''pw'', us_tenantId = ''t1'', us_isAdmin = False \<rparr>"
  let ?rq = "mw_request ''/api/tenants'' [(''auth_token'', ''tok'')]"
  have u: "ld_find sample_deps (cr_username \<lparr>cr_username = ''ops'', cr_password = ''pw'', cr_browserForm = False\<rparr>) = Inr (Some ?u)"
    by (simp add: sample_deps_def demo_deps_def)
  have law: "ld_sign sample_deps c ttl k = Inr tok \<Longrightarrow> mw_verify tok k \<in> {None, Some c}" for c ttl k tok
    by (simp add: sample_deps_def mw_verify_def mw_claims_def split: if_splits)
  have ck: "cookie_value ?rq ''auth_token'' = Some (ck_value (auth_cookie demo_env ''tok''))"
    by (simp add: mw_request_def cookie_value_def auth_cookie_def)
  have "\<not> rx_suffix PUBLIC_FILE ''/api/tenants''" by code_simp
  then have closed: "\<not> rx_suffix PUBLIC_FILE (rq_path ?rq)" "\<not> open_path (rq_path ?rq)"
    by (simp_all add: mw_request_def open_path_def isPublicApi_def isPublicDataRoomFile_def isAgentBearerApi_def)
  have rows: "rows_of (us_tenantId ?u) [t_row] = rows_of (us_tenantId ?u) [t_row\<lparr>tl_tenantId := ''t2''\<rparr>, t_row]"
    by (simp add: rows_of_def t_row_def)
  show ?thesis
    using login_session_confined [OF sample_login demo_cr u _ _ _ law ck closed rows, where now = 7] by simp
qed

end
